(* ===== verification/Wardrobe_Prelude.thy ===== *)
theory Wardrobe_Prelude
  imports Main "HOL-Library.Word" "HOL-Library.Multiset" "HOL-Library.List_Lexorder"
    "HOL-Library.Product_Lexorder"
begin

text \<open>
  Shared vocabulary of the development: Rust's \<open>Result\<close> and the \<open>?\<close> operator, Rust strings as
  sequences of Unicode scalar values, the fixed-width integer types, and the generic facts on lists
  (\<open>sort_unstable\<close> followed by \<open>dedup\<close>, \<open>BTreeSet::insert\<close>, \<open>try_for_each\<close>) that the component
  theories use.
\<close>

section \<open>Machine integers and identifiers\<close>

type_synonym u8 = "8 word"
type_synonym u16 = "16 word"
type_synonym u32 = "32 word"
type_synonym u64 = "64 word"

text \<open>A UUID is its 128-bit value; the nil UUID is zero and the derived \<open>Ord\<close> is numeric order.\<close>

type_synonym uuid = "128 word"

definition i64_max :: int where
  "i64_max = 9223372036854775807"

definition i64_min :: int where
  "i64_min = - 9223372036854775808"

text \<open>\<open>i64::checked_add\<close> and \<open>i64::saturating_add\<close> on values of the \<open>i64\<close> range.\<close>

definition i64_checked_add :: "int \<Rightarrow> int \<Rightarrow> int option" where
  "i64_checked_add a b = (if i64_min \<le> a + b \<and> a + b \<le> i64_max then Some (a + b) else None)"

definition i64_saturating_add :: "int \<Rightarrow> int \<Rightarrow> int" where
  "i64_saturating_add a b = max i64_min (min i64_max (a + b))"

lemma i64_checked_add_Some:
  "i64_checked_add a b = Some c \<longleftrightarrow> i64_min \<le> a + b \<and> a + b \<le> i64_max \<and> c = a + b"
  by (auto simp: i64_checked_add_def)

lemma i64_saturating_add_bounds:
  "i64_min \<le> i64_saturating_add a b" "i64_saturating_add a b \<le> i64_max"
  by (auto simp: i64_saturating_add_def i64_min_def i64_max_def)

lemma i64_saturating_add_ge:
  assumes "0 \<le> b" and "a \<le> i64_max"
  shows "a \<le> i64_saturating_add a b"
  using assms by (auto simp: i64_saturating_add_def)

section \<open>Results\<close>

datatype ('a, 'e) result = Ok 'a | Err 'e

text \<open>The \<open>?\<close> operator: continue with the value, or return the error.\<close>

primrec and_then :: "('a, 'e) result \<Rightarrow> ('a \<Rightarrow> ('b, 'e) result) \<Rightarrow> ('b, 'e) result" where
  "and_then (Ok a) f = f a"
| "and_then (Err e) f = Err e"

primrec map_err :: "('e \<Rightarrow> 'f) \<Rightarrow> ('a, 'e) result \<Rightarrow> ('a, 'f) result" where
  "map_err f (Ok a) = Ok a"
| "map_err f (Err e) = Err (f e)"

primrec is_ok :: "('a, 'e) result \<Rightarrow> bool" where
  "is_ok (Ok a) = True"
| "is_ok (Err e) = False"

definition ensure :: "bool \<Rightarrow> 'e \<Rightarrow> (unit, 'e) result" where
  "ensure b e = (if b then Ok () else Err e)"

definition ok_or :: "'a option \<Rightarrow> 'e \<Rightarrow> ('a, 'e) result" where
  "ok_or x e = (case x of None \<Rightarrow> Err e | Some a \<Rightarrow> Ok a)"

text \<open>
  A straight-line sequence of checks each followed by \<open>?\<close>: the first error wins. \<open>try_for_each\<close> is
  the same over an iterator.
\<close>

fun all_ok :: "(unit, 'e) result list \<Rightarrow> (unit, 'e) result" where
  "all_ok [] = Ok ()"
| "all_ok (r # rs) = (case r of Ok _ \<Rightarrow> all_ok rs | Err e \<Rightarrow> Err e)"

definition try_for_each :: "('a \<Rightarrow> (unit, 'e) result) \<Rightarrow> 'a list \<Rightarrow> (unit, 'e) result" where
  "try_for_each f xs = all_ok (map f xs)"

named_theorems result_simps \<open>characterisations of when a fallible step succeeds\<close>

lemma and_then_Ok [result_simps]:
  "and_then r f = Ok b \<longleftrightarrow> (\<exists>a. r = Ok a \<and> f a = Ok b)"
  by (cases r) auto

lemma and_then_Err [result_simps]:
  "and_then r f = Err e \<longleftrightarrow> r = Err e \<or> (\<exists>a. r = Ok a \<and> f a = Err e)"
  by (cases r) auto

lemma map_err_Ok [simp, result_simps]: "map_err f r = Ok a \<longleftrightarrow> r = Ok a"
  by (cases r) auto

lemma map_err_Err [result_simps]: "map_err f r = Err e \<longleftrightarrow> (\<exists>e'. r = Err e' \<and> e = f e')"
  by (cases r) auto

lemma ensure_Ok [simp, result_simps]: "ensure b e = Ok u \<longleftrightarrow> b"
  by (auto simp: ensure_def)

lemma ensure_Err [simp, result_simps]: "ensure b e = Err e' \<longleftrightarrow> \<not> b \<and> e' = e"
  by (auto simp: ensure_def)

lemma ok_or_simps [simp]: "ok_or (Some a) e = Ok a" "ok_or None e = Err e"
  by (simp_all add: ok_or_def)

lemma ok_or_Ok [simp, result_simps]: "ok_or x e = Ok a \<longleftrightarrow> x = Some a"
  by (auto simp: ok_or_def split: option.splits)

lemma ok_or_Err [simp, result_simps]: "ok_or x e = Err e' \<longleftrightarrow> x = None \<and> e' = e"
  by (auto simp: ok_or_def split: option.splits)

lemma all_ok_Ok [result_simps]: "all_ok rs = Ok u \<longleftrightarrow> list_all (\<lambda>r. r = Ok ()) rs"
  by (induction rs) (auto simp: all_ok.simps split: result.splits)

declare all_ok.simps(2) [simp del]

lemma all_ok_Err_iff:
  "all_ok rs = Err e \<longleftrightarrow>
     (\<exists>pre post. rs = pre @ Err e # post \<and> list_all (\<lambda>r. r = Ok ()) pre)"
proof (induction rs)
  case (Cons r rs)
  then show ?case
    by (cases r) (force simp: Cons_eq_append_conv all_ok.simps)+
qed simp

lemma all_ok_Err: "all_ok rs = Err e \<Longrightarrow> Err e \<in> set rs"
  by (auto simp: all_ok_Err_iff)

lemma try_for_each_Ok [result_simps]: "try_for_each f xs = Ok u \<longleftrightarrow> (\<forall>x\<in>set xs. f x = Ok ())"
  by (auto simp: try_for_each_def all_ok_Ok list_all_iff)

lemma try_for_each_Err: "try_for_each f xs = Err e \<Longrightarrow> \<exists>x\<in>set xs. f x = Err e"
  by (force simp: try_for_each_def dest: all_ok_Err)

lemma is_ok_iff [simp]: "is_ok r \<longleftrightarrow> (\<exists>a. r = Ok a)"
  by (cases r) auto

text \<open>\<open>collect::<Result<Vec<_>, _>>()\<close>: map a fallible function and stop at the first error.\<close>

fun try_map :: "('a \<Rightarrow> ('b, 'e) result) \<Rightarrow> 'a list \<Rightarrow> ('b list, 'e) result" where
  "try_map f [] = Ok []"
| "try_map f (x # xs) = and_then (f x) (\<lambda>y. and_then (try_map f xs) (\<lambda>ys. Ok (y # ys)))"

lemma try_map_Ok: "try_map f xs = Ok ys \<longleftrightarrow> list_all2 (\<lambda>x y. f x = Ok y) xs ys"
  by (induction xs arbitrary: ys) (auto simp: and_then_Ok list_all2_Cons1)

lemma try_map_Ok_map: "(\<And>x. x \<in> set xs \<Longrightarrow> f x = Ok (g x)) \<Longrightarrow> try_map f xs = Ok (map g xs)"
  by (induction xs) auto

section \<open>Strings\<close>

text \<open>
  A Rust \<open>String\<close> is a sequence of Unicode scalar values. The source counts both \<open>chars()\<close> and UTF-8
  bytes (\<open>len()\<close>), so the byte length is a function of its own.
\<close>

type_synonym rstr = "nat list"

definition lit :: "string \<Rightarrow> rstr" where
  "lit s = map of_char s"

lemma lit_eq_iff [simp]: "lit s = lit t \<longleftrightarrow> s = t"
proof -
  have "inj (of_char :: char \<Rightarrow> nat)" by (simp add: inj_def)
  then show ?thesis unfolding lit_def by (metis map_injective)
qed

definition utf8_width :: "nat \<Rightarrow> nat" where
  "utf8_width c = (if c < 128 then 1 else if c < 2048 then 2 else if c < 65536 then 3 else 4)"

definition byte_len :: "rstr \<Rightarrow> nat" where
  "byte_len s = sum_list (map utf8_width s)"

text \<open>\<open>char::is_control\<close> (general category Cc) and \<open>char::is_whitespace\<close> (property White\_Space).\<close>

definition is_control :: "nat \<Rightarrow> bool" where
  "is_control c \<longleftrightarrow> c < 32 \<or> (127 \<le> c \<and> c < 160)"

definition is_whitespace :: "nat \<Rightarrow> bool" where
  "is_whitespace c \<longleftrightarrow> (9 \<le> c \<and> c \<le> 13) \<or> c = 32 \<or> c = 133 \<or> c = 160 \<or> c = 5760 \<or>
     (8192 \<le> c \<and> c \<le> 8202) \<or> c = 8232 \<or> c = 8233 \<or> c = 8239 \<or> c = 8287 \<or> c = 12288"

definition is_ascii_digit :: "nat \<Rightarrow> bool" where
  "is_ascii_digit c \<longleftrightarrow> 48 \<le> c \<and> c \<le> 57"

definition is_ascii_lowercase :: "nat \<Rightarrow> bool" where
  "is_ascii_lowercase c \<longleftrightarrow> 97 \<le> c \<and> c \<le> 122"

definition is_ascii_uppercase :: "nat \<Rightarrow> bool" where
  "is_ascii_uppercase c \<longleftrightarrow> 65 \<le> c \<and> c \<le> 90"

definition is_ascii_alphanumeric :: "nat \<Rightarrow> bool" where
  "is_ascii_alphanumeric c \<longleftrightarrow> is_ascii_digit c \<or> is_ascii_lowercase c \<or> is_ascii_uppercase c"

definition is_ascii :: "rstr \<Rightarrow> bool" where
  "is_ascii s = list_all (\<lambda>c. c < 128) s"

definition trim :: "rstr \<Rightarrow> rstr" where
  "trim s = rev (dropWhile is_whitespace (rev (dropWhile is_whitespace s)))"

text \<open>\<open>str::split\<close> on one character: always at least one part.\<close>

fun split_on :: "nat \<Rightarrow> rstr \<Rightarrow> rstr list" where
  "split_on d [] = [[]]"
| "split_on d (c # cs) =
     (if c = d then [] # split_on d cs
      else case split_on d cs of [] \<Rightarrow> [[c]] | p # ps \<Rightarrow> (c # p) # ps)"

text \<open>
  \<open>str::parse\<close> into an unsigned type: an optional plus sign, at least one decimal digit, nothing
  else, and no overflow of the type's largest value.
\<close>

definition digits_value :: "rstr \<Rightarrow> nat" where
  "digits_value s = foldl (\<lambda>n c. 10 * n + (c - 48)) 0 s"

definition parse_uint :: "nat \<Rightarrow> rstr \<Rightarrow> nat option" where
  "parse_uint max_value s =
     (let digits = (case s of [] \<Rightarrow> [] | c # cs \<Rightarrow> if c = 43 then cs else s)
      in if digits \<noteq> [] \<and> list_all is_ascii_digit digits \<and> digits_value digits \<le> max_value
         then Some (digits_value digits) else None)"

text \<open>Decimal printing, the inverse direction.\<close>

fun show_digits :: "nat \<Rightarrow> rstr" where
  "show_digits n = (if n < 10 then [48 + n] else show_digits (n div 10) @ [48 + n mod 10])"

declare show_digits.simps [simp del]

definition canonical_number :: "rstr \<Rightarrow> bool" where
  "canonical_number s \<longleftrightarrow> s \<noteq> [] \<and> list_all is_ascii_digit s \<and> \<not> (length s > 1 \<and> hd s = 48)"

lemmas char_class_defs = is_control_def is_whitespace_def is_ascii_digit_def
  is_ascii_lowercase_def is_ascii_uppercase_def is_ascii_alphanumeric_def

lemma byte_len_simps [simp]:
  "byte_len [] = 0"
  "byte_len (c # s) = utf8_width c + byte_len s"
  "byte_len (s @ t) = byte_len s + byte_len t"
  by (auto simp: byte_len_def)

lemma utf8_width_pos: "1 \<le> utf8_width c"
  by (simp add: utf8_width_def)

lemma byte_len_ge_length: "length s \<le> byte_len s"
proof (induction s)
  case (Cons c s)
  then show ?case using utf8_width_pos [of c] by simp
qed simp

lemma byte_len_ascii: "is_ascii s \<Longrightarrow> byte_len s = length s"
  by (induction s) (auto simp: is_ascii_def utf8_width_def)

lemma is_ascii_simps [simp]:
  "is_ascii []"
  "is_ascii (c # s) \<longleftrightarrow> c < 128 \<and> is_ascii s"
  "is_ascii (s @ t) \<longleftrightarrow> is_ascii s \<and> is_ascii t"
  by (auto simp: is_ascii_def)

lemma trim_id_iff:
  "trim s = s \<longleftrightarrow> s = [] \<or> (\<not> is_whitespace (hd s) \<and> \<not> is_whitespace (last s))"
proof (cases "s = []")
  case False
  have len: "length (dropWhile is_whitespace t) \<le> length t" for t
    by (rule length_dropWhile_le)
  have strict: "is_whitespace (hd t) \<Longrightarrow> t \<noteq> [] \<Longrightarrow>
      length (dropWhile is_whitespace t) < length t" for t
    using len [of "tl t"] by (cases t) auto
  show ?thesis
  proof
    assume eq: "trim s = s"
    have "length (trim s) \<le> length (dropWhile is_whitespace s)"
      unfolding trim_def using len by (metis length_rev)
    with eq strict [of s] False have hd: "\<not> is_whitespace (hd s)" by fastforce
    then have "dropWhile is_whitespace s = s" by (cases s) auto
    with eq have "length (dropWhile is_whitespace (rev s)) = length s"
      unfolding trim_def by (metis length_rev)
    with strict [of "rev s"] False hd show "s = [] \<or> \<not> is_whitespace (hd s) \<and> \<not> is_whitespace (last s)"
      by (auto simp: hd_rev)
  next
    assume "s = [] \<or> \<not> is_whitespace (hd s) \<and> \<not> is_whitespace (last s)"
    with False have "\<not> is_whitespace (hd s)" and l: "\<not> is_whitespace (hd (rev s))"
      by (auto simp: hd_rev)
    then have "dropWhile is_whitespace s = s" by (cases s) auto
    moreover have "dropWhile is_whitespace (rev s) = rev s"
      using l False by (cases "rev s") auto
    ultimately show "trim s = s" by (simp add: trim_def)
  qed
qed (simp add: trim_def)

lemma split_on_nonempty [simp]: "split_on d s \<noteq> []"
  by (induction s) (auto split: list.splits)

text \<open>Splitting is inverse to joining: the two directions the parsers rely on.\<close>

fun join_on :: "nat \<Rightarrow> rstr list \<Rightarrow> rstr" where
  "join_on d [] = []"
| "join_on d [p] = p"
| "join_on d (p # q # ps) = p @ d # join_on d (q # ps)"

lemma join_split_on [simp]: "join_on d (split_on d s) = s"
proof (induction s)
  case (Cons c s)
  obtain p ps where ps: "split_on d s = p # ps"
    using split_on_nonempty by (metis neq_Nil_conv)
  with Cons show ?case by (cases ps) auto
qed simp

lemma split_on_append_sep: "d \<notin> set p \<Longrightarrow> split_on d (p @ d # s) = p # split_on d s"
  by (induction p) auto

lemma split_on_no_sep: "d \<notin> set p \<Longrightarrow> split_on d p = [p]"
  by (induction p) auto

lemma split_join_on:
  "ps \<noteq> [] \<Longrightarrow> \<forall>p\<in>set ps. d \<notin> set p \<Longrightarrow> split_on d (join_on d ps) = ps"
  by (induction d ps rule: join_on.induct) (auto simp: split_on_append_sep split_on_no_sep)

lemma split_on_parts: "p \<in> set (split_on d s) \<Longrightarrow> d \<notin> set p \<and> set p \<subseteq> set s"
  by (induction s arbitrary: p) (auto split: if_splits list.splits, fastforce+)

subsection \<open>Decimal numbers\<close>

lemma digits_value_snoc [simp]: "digits_value (s @ [c]) = 10 * digits_value s + (c - 48)"
  by (simp add: digits_value_def)

lemma show_digits_ascii_digits: "list_all is_ascii_digit (show_digits n)"
proof (induction n rule: show_digits.induct)
  case (1 n)
  have "is_ascii_digit (48 + d)" if "d < 10" for d using that by (simp add: is_ascii_digit_def)
  with 1 show ?case by (subst show_digits.simps) auto
qed

lemma digits_value_show_digits [simp]: "digits_value (show_digits n) = n"
proof (induction n rule: show_digits.induct)
  case (1 n)
  then show ?case
    by (subst show_digits.simps) (auto simp: digits_value_def)
qed

lemma show_digits_nonempty [simp]: "show_digits n \<noteq> []"
  by (subst show_digits.simps) simp

lemma hd_show_digits: "0 < n \<Longrightarrow> hd (show_digits n) \<noteq> 48"
proof (induction n rule: show_digits.induct)
  case (1 n)
  then show ?case by (subst show_digits.simps) (auto simp: hd_append)
qed

lemma canonical_show_digits: "canonical_number (show_digits n)"
proof (cases "n = 0")
  case True
  then show ?thesis by (simp add: canonical_number_def show_digits.simps is_ascii_digit_def)
next
  case False
  then show ?thesis
    using hd_show_digits [of n] show_digits_ascii_digits [of n] by (auto simp: canonical_number_def)
qed

lemma canonical_snoc:
  assumes "canonical_number (s @ [c])" and "s \<noteq> []"
  shows "canonical_number s" "0 < digits_value s" "is_ascii_digit c"
proof -
  have digit: "list_all is_ascii_digit s" "is_ascii_digit c" and hd: "hd s \<noteq> 48"
    using assms by (auto simp: canonical_number_def hd_append split: if_splits)
  then show "canonical_number s" "is_ascii_digit c" using assms by (auto simp: canonical_number_def)
  obtain d t where s: "s = d # t" using assms(2) by (cases s) auto
  with digit hd have "48 < d" by (auto simp: is_ascii_digit_def)
  have mono: "m \<le> foldl (\<lambda>n c. 10 * n + (c - 48)) m t" for m :: nat
  proof (induction t arbitrary: m)
    case (Cons c t)
    from Cons [of "10 * m + (c - 48)"] show ?case by simp
  qed simp
  show "0 < digits_value s"
    using mono [of "d - 48"] \<open>48 < d\<close> by (simp add: s digits_value_def)
qed

lemma show_digits_value: "canonical_number s \<Longrightarrow> show_digits (digits_value s) = s"
proof (induction s rule: rev_induct)
  case Nil
  then show ?case by (simp add: canonical_number_def)
next
  case (snoc c s)
  show ?case
  proof (cases "s = []")
    case True
    with snoc.prems show ?thesis
      by (subst show_digits.simps) (auto simp: canonical_number_def is_ascii_digit_def digits_value_def)
  next
    case False
    note c = canonical_snoc [OF snoc.prems False]
    with snoc.IH have "show_digits (digits_value s) = s" by simp
    moreover obtain d where "c = 48 + d" "d < 10"
      using c(3) by (auto simp: is_ascii_digit_def dest!: le_Suc_ex)
    ultimately show ?thesis using c(2) by (subst show_digits.simps) auto
  qed
qed

lemma parse_uint_show:
  assumes "n \<le> m"
  shows "parse_uint m (show_digits n) = Some n"
proof -
  obtain c cs where eq: "show_digits n = c # cs" by (cases "show_digits n") auto
  have digits: "list_all is_ascii_digit (c # cs)"
    using show_digits_ascii_digits [of n] unfolding eq .
  then have "c \<noteq> 43" by (auto simp: is_ascii_digit_def)
  moreover have "digits_value (c # cs) = n" using digits_value_show_digits [of n] unfolding eq .
  ultimately show ?thesis using assms digits by (simp add: eq parse_uint_def)
qed

lemma parse_uint_digits:
  assumes "parse_uint m s = Some n" and "list_all is_ascii_digit s"
  shows "n = digits_value s \<and> n \<le> m"
  using assms by (auto simp: parse_uint_def is_ascii_digit_def Let_def split: list.splits if_splits)

section \<open>Lists\<close>

text \<open>\<open>Vec::dedup\<close> removes consecutive repetitions, so after sorting it leaves the distinct values.\<close>

definition sort_dedup :: "'a::linorder list \<Rightarrow> 'a list" where
  "sort_dedup xs = remdups_adj (sort xs)"

lemma sorted_remdups_adj_distinct: "sorted xs \<Longrightarrow> distinct (remdups_adj xs)"
  by (induction xs rule: remdups_adj.induct) (auto dest: order_antisym)

lemma sort_dedup_eq: "sort_dedup xs = sorted_list_of_set (set xs)"
proof (rule sorted_distinct_set_unique)
  show "sorted (sort_dedup xs)" by (simp add: sort_dedup_def sorted_remdups_adj)
  show "distinct (sort_dedup xs)"
    by (simp add: sort_dedup_def sorted_remdups_adj_distinct)
  show "set (sort_dedup xs) = set (sorted_list_of_set (set xs))"
    by (simp add: sort_dedup_def)
qed auto

lemma sort_dedup_props [simp]:
  "set (sort_dedup xs) = set xs" "sorted (sort_dedup xs)" "distinct (sort_dedup xs)"
  by (auto simp: sort_dedup_eq)

lemma length_sort_dedup: "length (sort_dedup xs) = card (set xs)"
  by (simp add: sort_dedup_eq)

lemma sort_dedup_length_iff [simp]: "length (sort_dedup xs) = length xs \<longleftrightarrow> distinct xs"
  by (metis length_sort_dedup card_distinct distinct_card)

lemma sort_dedup_length_neq: "length (sort_dedup xs) \<noteq> length xs \<longleftrightarrow> \<not> distinct xs"
  by simp

lemma set_map_filter: "set (List.map_filter f xs) = {y. \<exists>x\<in>set xs. f x = Some y}"
  by (induction xs) (auto simp: List.map_filter_simps split: option.splits)

text \<open>
  A loop that inserts every element into a \<open>BTreeSet\<close> and stops when \<open>insert\<close> reports a value that
  is already present.
\<close>

fun no_repeat :: "'a set \<Rightarrow> 'a list \<Rightarrow> bool" where
  "no_repeat seen [] = True"
| "no_repeat seen (x # xs) = (x \<notin> seen \<and> no_repeat (insert x seen) xs)"

lemma no_repeat_iff: "no_repeat seen xs \<longleftrightarrow> distinct xs \<and> set xs \<inter> seen = {}"
  by (induction xs arbitrary: seen) auto

end
