(* ===== verification/Contracts.thy ===== *)
theory Contracts
  imports Wardrobe_Prelude
begin

text \<open>
  The shared vocabulary of the command contracts (\<open>contracts.rs\<close>, \<open>validation.rs\<close> and the
  content digest of \<open>ports.rs\<close>): identifiers, the field and error codes, the conversion of a
  validation error into the error a command returns, the text and timestamp validators and the
  foundation requests.
\<close>

section \<open>Identifiers\<close>

text \<open>
  The identifier macros wrap a UUID. The textual form is the \<open>uuid\<close> crate's: its parser and its
  hyphenated printer are parameters of the model.
\<close>

definition id_new :: "uuid \<Rightarrow> (uuid, string) result" where
  "id_new value = (if value = 0 then Err ''UUID must not be nil'' else Ok value)"

definition id_visit_str ::
  "(rstr \<Rightarrow> uuid option) \<Rightarrow> (uuid \<Rightarrow> rstr) \<Rightarrow> rstr \<Rightarrow> (uuid, string) result" where
  "id_visit_str parse_str hyphenated value =
     (if byte_len value \<noteq> 36 then Err ''UUID must use canonical hyphenated form''
      else case parse_str value of
        None \<Rightarrow> Err ''invalid UUID''
      | Some parsed \<Rightarrow>
          (if parsed = 0 \<or> hyphenated parsed \<noteq> value
           then Err ''UUID must be canonical and non-nil''
           else Ok parsed))"

section \<open>Field and error codes\<close>

datatype (plugins only: code size) safe_field =
    SchemaVersion | RequestIdField | CredentialIdField | Provider | DisplayLabel | Secret
  | Timestamp | Path | Limit | Cursor | SnapshotToken | ExpectedCatalogRevision
  | ExpectedReceiptRevision | ItemIdField | EvidenceIdField | DecisionIdField | Attributes
  | Collection | DeletionTarget | DeletionPlan | DeletionRevisions | DeletionRetention
  | DeletionHealth | ReceiptFragment | ReceiptCitation | ReceiptEvidence | ReceiptProviderOutput
  | ReceiptReviewAction | ReceiptImageCandidate | ReceiptImageAttempt | ReceiptPurchaseUnit
  | ReceiptPurchaseUnitExclusion | ReceiptPurchaseUnitProvenance | ReceiptPurchaseUnitAuthority
  | ReceiptPurchaseUnitSnapshot | ReceiptPromotionConfirmation | ReceiptPromotion
  | GmailClientId | GmailLabelName | GmailQuery | GmailLimits | GmailStatus | GmailSummary
  | PhotoKitSetupSession | PhotoKitSelectionToken | PhotoKitAlbumLabel | PhotoKitAlbumCandidates
  | PhotoKitCounts | PhotoKitAvailability | PhotoKitStatus | ExpectedPhotoKitRevision
  | ExpectedLocalOnlyRevision | LocalOnlyAuthority | RecommendationPrompt
  | RecommendationConstraints | RecommendationExclusions | RecommendationRetention
  | RecommendationDisclosure | RecommendationApproval | RecommendationTool
  | RecommendationSnapshot | RecommendationProposal | RecommendationAssessment
  | RecommendationUsage

datatype validation_error = ValidationError (ve_field: safe_field)

type_synonym validation = "(unit, validation_error) result"

datatype credential_provider = Gmail | OpenAi

datatype credential_status = CredActive | CredPendingSave | CredPendingDelete | CredNeedsAttention

datatype replay_status = Created | Replayed

datatype local_only_authority_health = Persisted | FailClosedDefault | FailClosedUncertain

datatype storage_status = StorageReady | StorageNeedsAttention

datatype job_status = JobPending | JobRunning | JobRetryWaiting | JobSucceeded | JobFailed

datatype error_code =
    InvalidRequest | UnsupportedSchemaVersion | RequestConflict | SnapshotExpired | InvalidState
  | ProviderUnavailable | MalformedProviderOutput | CredentialUnavailable | StorageUnavailable
  | PermissionDenied | DataIntegrity | NotFound | Internal

datatype user_action_key =
    CorrectRequest | StartNewRequest | RefreshCatalog | RefreshReceipts | RestartPaging
  | ReviewInbox | ReviewReceipt | Retry | UnlockKeychain | ReviewStorage | RestartApplication
  | ConfigureGmail | ConnectGmail | ConfigurePhotoKit | BeginPhotoKitSetup
  | ReviewPhotoLibraryAccess | NoAction

definition schema_version_v1 :: u8 where
  "schema_version_v1 = 1"

definition max_safe_integer_v1 :: u64 where
  "max_safe_integer_v1 = 9007199254740991"

record command_error =
  ce_schema_version :: u8
  ce_code :: error_code
  ce_retryable :: bool
  ce_user_action :: user_action_key
  ce_field :: "safe_field option"

text \<open>\<open>impl From<ValidationError> for CommandErrorV1\<close>.\<close>

definition command_error_of_validation :: "validation_error \<Rightarrow> command_error" where
  "command_error_of_validation error =
     \<lparr>ce_schema_version = schema_version_v1,
      ce_code = (if ve_field error = SchemaVersion then UnsupportedSchemaVersion
                 else InvalidRequest),
      ce_retryable = False,
      ce_user_action = CorrectRequest,
      ce_field = Some (ve_field error)\<rparr>"

section \<open>Validators\<close>

definition require_schema_v1 :: "u8 \<Rightarrow> validation" where
  "require_schema_v1 version =
     (if version = schema_version_v1 then Ok () else Err (ValidationError SchemaVersion))"

definition validate_bounded_text :: "rstr \<Rightarrow> nat \<Rightarrow> nat \<Rightarrow> safe_field \<Rightarrow> validation" where
  "validate_bounded_text value min_chars max_chars field =
     (let char_count = length value in
      if char_count < min_chars \<or> char_count > max_chars \<or> trim value \<noteq> value
         \<or> list_ex is_control value
      then Err (ValidationError field)
      else Ok ())"

text \<open>
  Timestamps are parsed by the \<open>time\<close> crate's RFC 3339 parser, a parameter; the guard in front of
  it is the repository's own.
\<close>

definition timestamp_char :: "nat \<Rightarrow> bool" where
  "timestamp_char c \<longleftrightarrow> is_ascii_digit c \<or> c \<in> set (lit ''-:.+TZ'')"

definition parse_timestamp :: "(rstr \<Rightarrow> 'ts option) \<Rightarrow> rstr \<Rightarrow> ('ts, validation_error) result" where
  "parse_timestamp rfc3339 value =
     (if value = [] \<or> byte_len value > 40 \<or> \<not> is_ascii value
         \<or> list_ex (\<lambda>c. \<not> timestamp_char c) value
      then Err (ValidationError Timestamp)
      else ok_or (rfc3339 value) (ValidationError Timestamp))"

definition validate_timestamp :: "(rstr \<Rightarrow> 'ts option) \<Rightarrow> rstr \<Rightarrow> validation" where
  "validate_timestamp rfc3339 value = and_then (parse_timestamp rfc3339 value) (\<lambda>_. Ok ())"

text \<open>\<open>Sha256Digest::parse\<close>: 64 lowercase hexadecimal characters.\<close>

definition is_lower_hex :: "nat \<Rightarrow> bool" where
  "is_lower_hex c \<longleftrightarrow> is_ascii_digit c \<or> (97 \<le> c \<and> c \<le> 102)"

definition sha256_digest_parse :: "rstr \<Rightarrow> (rstr, string) result" where
  "sha256_digest_parse value =
     (if byte_len value \<noteq> 64 \<or> \<not> list_all is_lower_hex value
      then Err ''SHA-256 digest must be 64 lowercase hexadecimal characters''
      else Ok value)"

section \<open>Foundation requests\<close>

record set_local_only_request =
  slo_schema_version :: u8
  slo_request_id :: uuid
  slo_enabled :: bool
  slo_expected_revision :: u64

definition set_local_only_validate :: "set_local_only_request \<Rightarrow> validation" where
  "set_local_only_validate r =
     all_ok [require_schema_v1 (slo_schema_version r),
             ensure (slo_expected_revision r < max_safe_integer_v1)
               (ValidationError ExpectedLocalOnlyRevision)]"

record save_credential_request =
  scr_schema_version :: u8
  scr_request_id :: uuid
  scr_provider :: credential_provider
  scr_display_label :: rstr
  scr_secret :: rstr

definition save_credential_validate :: "save_credential_request \<Rightarrow> validation" where
  "save_credential_validate r =
     all_ok [require_schema_v1 (scr_schema_version r),
             ensure (scr_provider r \<noteq> Gmail) (ValidationError Provider),
             validate_bounded_text (scr_display_label r) 1 80 DisplayLabel,
             ensure (\<not> (scr_secret r = [] \<or> byte_len (scr_secret r) > 8 * 1024))
               (ValidationError Secret)]"

record delete_credential_request =
  dcr_schema_version :: u8
  dcr_request_id :: uuid
  dcr_credential_id :: uuid

definition delete_credential_validate :: "delete_credential_request \<Rightarrow> validation" where
  "delete_credential_validate r = require_schema_v1 (dcr_schema_version r)"

record credential_reference =
  cr_credential_id :: uuid
  cr_provider :: credential_provider
  cr_display_label :: rstr
  cr_status :: credential_status
  cr_updated_at :: rstr

definition credential_reference_validate ::
  "(rstr \<Rightarrow> 'ts option) \<Rightarrow> credential_reference \<Rightarrow> validation" where
  "credential_reference_validate rfc3339 r =
     all_ok [validate_bounded_text (cr_display_label r) 1 80 DisplayLabel,
             validate_timestamp rfc3339 (cr_updated_at r)]"

section \<open>Facts\<close>

lemma max_safe_integer_nonzero [simp]: "max_safe_integer_v1 \<noteq> 0"
  by (simp add: max_safe_integer_v1_def)

lemma safe_integer_unat:
  "max_safe_integer_v1 \<le> x \<longleftrightarrow> 9007199254740991 \<le> unat x"
  "x \<le> max_safe_integer_v1 \<longleftrightarrow> unat x \<le> 9007199254740991"
  "x < max_safe_integer_v1 \<longleftrightarrow> unat x < 9007199254740991"
  "max_safe_integer_v1 < x \<longleftrightarrow> 9007199254740991 < unat x"
  by (simp_all add: max_safe_integer_v1_def word_le_nat_alt word_less_nat_alt)

lemma require_schema_v1_Ok [simp, result_simps]:
  "require_schema_v1 v = Ok u \<longleftrightarrow> v = schema_version_v1"
  by (auto simp: require_schema_v1_def)

lemma validate_bounded_text_Ok [result_simps]:
  "validate_bounded_text s lo hi field = Ok u \<longleftrightarrow>
     lo \<le> length s \<and> length s \<le> hi \<and> trim s = s \<and> (\<forall>c\<in>set s. \<not> is_control c)"
  by (auto simp: validate_bounded_text_def list_ex_iff Let_def)

lemma validate_bounded_text_Err:
  "validate_bounded_text s lo hi field = Err e \<Longrightarrow> e = ValidationError field"
  by (auto simp: validate_bounded_text_def Let_def split: if_splits)

lemma parse_timestamp_Ok [result_simps]:
  "parse_timestamp rfc3339 s = Ok t \<longleftrightarrow>
     s \<noteq> [] \<and> length s \<le> 40 \<and> (\<forall>c\<in>set s. timestamp_char c) \<and> rfc3339 s = Some t"
proof -
  have "c < 128" if "timestamp_char c" for c
    using that by (auto simp: timestamp_char_def lit_def is_ascii_digit_def)
  then have "\<forall>c\<in>set s. timestamp_char c \<Longrightarrow> is_ascii s"
    by (auto simp: is_ascii_def list_all_iff)
  then show ?thesis
    by (auto simp: parse_timestamp_def list_ex_iff byte_len_ascii)
qed

lemma is_lower_hex_ascii: "is_lower_hex c \<Longrightarrow> c < 128"
  by (auto simp: is_lower_hex_def is_ascii_digit_def)

lemma sha256_digest_parse_Ok [result_simps]:
  "sha256_digest_parse s = Ok d \<longleftrightarrow> d = s \<and> length s = 64 \<and> (\<forall>c\<in>set s. is_lower_hex c)"
proof -
  have "\<forall>c\<in>set s. is_lower_hex c \<Longrightarrow> is_ascii s"
    by (auto simp: is_ascii_def list_all_iff dest: is_lower_hex_ascii)
  then have "\<forall>c\<in>set s. is_lower_hex c \<Longrightarrow> byte_len s = length s"
    by (simp add: byte_len_ascii)
  then show ?thesis
    by (cases "\<forall>c\<in>set s. is_lower_hex c")
      (auto simp: sha256_digest_parse_def simp flip: list_all_iff)
qed

end
