(* ===== verification/Catalog.thy ===== *)
theory Catalog
  imports Contracts
begin

text \<open>
  Catalog contracts (\<open>catalog.rs\<close>): item attributes, opaque cursors and tokens, the page, path,
  revision and uniqueness validators that the catalog requests share, and the requests themselves.
\<close>

section \<open>Item categories and attributes\<close>

datatype item_category =
    Top | Bottom | Dress | Outerwear | Shoes | Accessory | Underwear | Activewear | OtherCategory

datatype decision_kind =
    SaveItem | DecideEvidence | MergeItems | SplitItem | PromoteReceiptPurchaseUnit | Undo

fun allows_generic_undo :: "decision_kind \<Rightarrow> bool" where
  "allows_generic_undo PromoteReceiptPurchaseUnit = False"
| "allows_generic_undo _ = True"

record item_attributes =
  ia_display_name :: rstr
  ia_category :: item_category
  ia_subcategory :: "rstr option"
  ia_brand :: "rstr option"
  ia_primary_color :: "rstr option"
  ia_size :: "rstr option"
  ia_notes :: "rstr option"
  ia_tags :: "rstr list"

definition flatten_options :: "'a option list \<Rightarrow> 'a list" where
  "flatten_options xs = List.map_filter id xs"

definition item_attributes_validate :: "item_attributes \<Rightarrow> validation" where
  "item_attributes_validate a =
     all_ok
       [validate_bounded_text (ia_display_name a) 1 80 Attributes,
        try_for_each (\<lambda>value. validate_bounded_text value 1 80 Attributes)
          (flatten_options [ia_subcategory a, ia_brand a, ia_primary_color a, ia_size a]),
        (case ia_notes a of None \<Rightarrow> Ok () | Some notes \<Rightarrow> validate_bounded_text notes 1 1000 Attributes),
        ensure (\<not> length (ia_tags a) > 32) (ValidationError Collection),
        try_for_each (\<lambda>tag. validate_bounded_text tag 1 80 Collection) (ia_tags a),
        ensure (\<not> length (sort_dedup (ia_tags a)) \<noteq> length (ia_tags a)) (ValidationError Collection)]"

section \<open>Shared validators\<close>

definition validate_opaque :: "rstr \<Rightarrow> nat \<Rightarrow> safe_field \<Rightarrow> validation" where
  "validate_opaque value max_chars field =
     (if value = [] \<or> length value > max_chars \<or> \<not> is_ascii value \<or> list_ex is_control value
      then Err (ValidationError field) else Ok ())"

definition page_cursor_new :: "rstr \<Rightarrow> (rstr, validation_error) result" where
  "page_cursor_new value = and_then (validate_opaque value 512 Cursor) (\<lambda>_. Ok value)"

definition deletion_snapshot_token_new :: "rstr \<Rightarrow> (rstr, validation_error) result" where
  "deletion_snapshot_token_new value =
     and_then (validate_opaque value 256 SnapshotToken) (\<lambda>_. Ok value)"

definition validate_path :: "rstr \<Rightarrow> validation" where
  "validate_path path =
     (if path = [] \<or> length path > 4096 \<or> list_ex is_control path \<or> take 1 path \<noteq> lit ''/''
      then Err (ValidationError Path) else Ok ())"

definition validate_expected_revision :: "u64 \<Rightarrow> validation" where
  "validate_expected_revision revision =
     (if revision < max_safe_integer_v1 then Ok ()
      else Err (ValidationError ExpectedCatalogRevision))"

definition validate_page :: "u16 \<Rightarrow> validation" where
  "validate_page limit =
     (if 1 \<le> limit \<and> limit \<le> 100 then Ok () else Err (ValidationError Limit))"

definition validate_unique :: "'a::linorder list \<Rightarrow> nat \<Rightarrow> nat \<Rightarrow> safe_field \<Rightarrow> validation" where
  "validate_unique values lo hi field =
     (if length values < lo \<or> length values > hi then Err (ValidationError field)
      else if length (sort_dedup values) \<noteq> length values then Err (ValidationError field)
      else Ok ())"

lemma validate_unique_Ok [result_simps]:
  "validate_unique xs lo hi field = Ok u \<longleftrightarrow> lo \<le> length xs \<and> length xs \<le> hi \<and> distinct xs"
  by (auto simp: validate_unique_def)

end
