(* ===== verification/Recommendation_Contracts.thy ===== *)
theory Recommendation_Contracts
  imports Catalog
begin

text \<open>
  The data of the outfit recommendation gateway and the shape validation of every message
  (\<open>recommendation.rs\<close>, first part): retention declarations and disclosures, the request
  envelope, the fixed tool registry with its arguments and results, the snapshot the proposals are
  checked against, the provider's structured answer and the usage audit.

  The provider and model names come from a file the build generates; they are parameters.
\<close>

section \<open>Text and collection validators\<close>

definition rec_validate_text :: "rstr \<Rightarrow> nat \<Rightarrow> nat \<Rightarrow> safe_field \<Rightarrow> validation" where
  "rec_validate_text value min_chars max_chars field =
     (let count = length value in
      if min_chars \<le> count \<and> count \<le> max_chars \<and> trim value = value \<and> \<not> list_ex is_control value
      then Ok () else Err (ValidationError field))"

definition is_bounded_identifier :: "rstr \<Rightarrow> nat \<Rightarrow> bool" where
  "is_bounded_identifier value max_chars \<longleftrightarrow>
     value \<noteq> [] \<and> byte_len value \<le> max_chars
     \<and> list_all (\<lambda>c. is_ascii_alphanumeric c \<or> c \<in> set (lit ''._-:'')) value"

definition is_bounded_timestamp :: "rstr \<Rightarrow> bool" where
  "is_bounded_timestamp value \<longleftrightarrow>
     value \<noteq> [] \<and> byte_len value \<le> 40 \<and> is_ascii value
     \<and> list_all (\<lambda>c. is_ascii_digit c \<or> c \<in> set (lit ''-:.+TZ'')) value"

definition rec_require_schema :: "u8 \<Rightarrow> validation" where
  "rec_require_schema value =
     (if value = schema_version_v1 then Ok () else Err (ValidationError SchemaVersion))"

definition validate_optional_query :: "rstr option \<Rightarrow> validation" where
  "validate_optional_query value =
     (case value of None \<Rightarrow> Ok ()
      | Some v \<Rightarrow> rec_validate_text v 1 160 RecommendationTool)"

definition validate_tool_limit :: "u16 \<Rightarrow> validation" where
  "validate_tool_limit value =
     (if 1 \<le> value \<and> value \<le> 100 then Ok () else Err (ValidationError RecommendationTool))"

definition validate_result_count :: "nat \<Rightarrow> validation" where
  "validate_result_count value =
     (if value \<le> 100 then Ok () else Err (ValidationError RecommendationTool))"

text \<open>\<open>validate_unique_values\<close> looks every value up in the prefix before it.\<close>

fun prefix_contains :: "'a list \<Rightarrow> 'a list \<Rightarrow> bool" where
  "prefix_contains before [] = False"
| "prefix_contains before (x # xs) = (x \<in> set before \<or> prefix_contains (before @ [x]) xs)"

definition validate_unique_values :: "'a list \<Rightarrow> nat \<Rightarrow> nat \<Rightarrow> validation" where
  "validate_unique_values values lo hi =
     (if length values < lo \<or> length values > hi then Err (ValidationError RecommendationTool)
      else if prefix_contains [] values then Err (ValidationError RecommendationTool)
      else Ok ())"

definition validate_unique_ids :: "'a::linorder list \<Rightarrow> nat \<Rightarrow> nat \<Rightarrow> safe_field \<Rightarrow> validation" where
  "validate_unique_ids values lo hi field =
     (if length values < lo \<or> length values > hi then Err (ValidationError field)
      else if length (sort_dedup values) = length values then Ok ()
      else Err (ValidationError field))"

text \<open>\<open>validate_unique_text\<close>: every value is checked, then inserted into a set.\<close>

fun unique_text_loop :: "rstr set \<Rightarrow> nat \<Rightarrow> rstr list \<Rightarrow> validation" where
  "unique_text_loop seen max_chars [] = Ok ()"
| "unique_text_loop seen max_chars (v # vs) =
     and_then (rec_validate_text v 1 max_chars RecommendationProposal)
       (\<lambda>_. if v \<in> seen then Err (ValidationError RecommendationProposal)
            else unique_text_loop (insert v seen) max_chars vs)"

definition validate_unique_text :: "rstr list \<Rightarrow> nat \<Rightarrow> nat \<Rightarrow> validation" where
  "validate_unique_text values max_values max_chars =
     (if length values > max_values then Err (ValidationError RecommendationProposal)
      else unique_text_loop {} max_chars values)"

lemma rec_validate_text_Ok [result_simps]:
  "rec_validate_text s lo hi field = Ok u \<longleftrightarrow>
     lo \<le> length s \<and> length s \<le> hi \<and> trim s = s \<and> (\<forall>c\<in>set s. \<not> is_control c)"
  by (auto simp: rec_validate_text_def list_ex_iff Let_def)

lemma prefix_contains_iff: "prefix_contains before xs \<longleftrightarrow> \<not> distinct xs \<or> set before \<inter> set xs \<noteq> {}"
  by (induction before xs rule: prefix_contains.induct) auto

lemma validate_unique_values_Ok [result_simps]:
  "validate_unique_values xs lo hi = Ok u \<longleftrightarrow> lo \<le> length xs \<and> length xs \<le> hi \<and> distinct xs"
  by (auto simp: validate_unique_values_def prefix_contains_iff)

lemma validate_unique_ids_Ok [result_simps]:
  "validate_unique_ids xs lo hi field = Ok u \<longleftrightarrow> lo \<le> length xs \<and> length xs \<le> hi \<and> distinct xs"
  by (auto simp: validate_unique_ids_def)

lemma unique_text_loop_Ok:
  "unique_text_loop seen n xs = Ok u \<longleftrightarrow>
     distinct xs \<and> set xs \<inter> seen = {} \<and>
     (\<forall>v\<in>set xs. rec_validate_text v 1 n RecommendationProposal = Ok ())"
  by (induction seen n xs rule: unique_text_loop.induct) (auto simp: and_then_Ok)

lemma validate_unique_text_Ok [result_simps]:
  "validate_unique_text xs m n = Ok u \<longleftrightarrow>
     length xs \<le> m \<and> distinct xs \<and>
     (\<forall>v\<in>set xs. rec_validate_text v 1 n RecommendationProposal = Ok ())"
  by (auto simp: validate_unique_text_def unique_text_loop_Ok)

section \<open>Enumerations\<close>

datatype outfit_occasion = Casual | Date | Work | Formal | Active | Travel

datatype outfit_precipitation = PrecipitationNone | Rain | Snow

datatype retention_mode = RetentionUnknown | RetentionDefault | Mam | Zdr

datatype capability_tag = WeatherRain | WeatherSnow | InsulationCold

datatype disclosure_field_class =
    Prompt | ExplicitConstraints | ExcludedItemIds | ItemIds | DisplayNames | Categories
  | PrimaryColors | Brands | CapabilityTags | WearHistory | StylePreferences
  | SavedOutfitMembership

datatype provider_status =
    ProviderReady | ProviderCredentialUnavailable | ProviderNetworkUnavailable | ProviderDisabled

datatype tool_capability = ReadOnly

datatype tool_name =
    SearchConfirmedWardrobe | SearchWearHistory | GetStylePreferences | ListSavedOutfits

datatype tool_data_status = ToolReady | NotConfigured

datatype constraint_kind = Occasion | Temperature | Precipitation

datatype constraint_status = Satisfied | Unresolved

datatype unresolved_reason = WardrobeCannotSatisfy

datatype proposal_error =
    InvalidContract | StaleCatalogRevision | StaleOutfitRevision | UnknownItem | InactiveItem
  | DuplicateItem | ExcludedItem | IncompatibleItems | SatisfiableConstraintUnmet
  | InvalidUnresolvedConstraint | ConstraintAssessmentMismatch

datatype recommendation_failure_code =
    ApprovalExpired | ApprovalMismatch | ApprovalConsumed | FailCredentialUnavailable
  | FailProviderUnavailable | Authentication | RateLimited | ProviderFailure | OutcomeUnknown
  | Incomplete | FailRefused | MalformedOutput | ToolProtocol | ToolLimit | Grounding
  | FailConstraint | Stale

text \<open>The derived order of the capability tags is declaration order.\<close>

fun capability_tag_rank :: "capability_tag \<Rightarrow> nat" where
  "capability_tag_rank WeatherRain = 0"
| "capability_tag_rank WeatherSnow = 1"
| "capability_tag_rank InsulationCold = 2"

lemma capability_tag_rank_inj [simp]:
  "capability_tag_rank a = capability_tag_rank b \<longleftrightarrow> a = b"
  by (cases a; cases b) auto

instantiation capability_tag :: linorder
begin

definition less_eq_capability_tag :: "capability_tag \<Rightarrow> capability_tag \<Rightarrow> bool" where
  "less_eq_capability_tag a b \<longleftrightarrow> capability_tag_rank a \<le> capability_tag_rank b"

definition less_capability_tag :: "capability_tag \<Rightarrow> capability_tag \<Rightarrow> bool" where
  "less_capability_tag a b \<longleftrightarrow> capability_tag_rank a < capability_tag_rank b"

instance
  by standard
    (auto simp: less_eq_capability_tag_def less_capability_tag_def simp flip: capability_tag_rank_inj)

end

fun capability_tag_as_str :: "capability_tag \<Rightarrow> rstr" where
  "capability_tag_as_str WeatherRain = lit ''weather:rain''"
| "capability_tag_as_str WeatherSnow = lit ''weather:snow''"
| "capability_tag_as_str InsulationCold = lit ''insulation:cold''"

definition parse_capability_tag :: "rstr \<Rightarrow> capability_tag option" where
  "parse_capability_tag tag =
     (if tag = lit ''weather:rain'' then Some WeatherRain
      else if tag = lit ''weather:snow'' then Some WeatherSnow
      else if tag = lit ''insulation:cold'' then Some InsulationCold
      else None)"

definition allowlisted_outfit_capability_tags :: "rstr list \<Rightarrow> capability_tag list" where
  "allowlisted_outfit_capability_tags tags = sort_dedup (List.map_filter parse_capability_tag tags)"

fun tool_name_as_str :: "tool_name \<Rightarrow> rstr" where
  "tool_name_as_str SearchConfirmedWardrobe = lit ''search_confirmed_wardrobe''"
| "tool_name_as_str SearchWearHistory = lit ''search_wear_history''"
| "tool_name_as_str GetStylePreferences = lit ''get_style_preferences''"
| "tool_name_as_str ListSavedOutfits = lit ''list_saved_outfits''"

lemma parse_capability_tag_iff: "parse_capability_tag s = Some t \<longleftrightarrow> s = capability_tag_as_str t"
  by (cases t) (auto simp: parse_capability_tag_def)

section \<open>Retention\<close>

record retention_declaration =
  rd_mode :: retention_mode
  rd_provenance :: rstr

definition retention_declaration_validate :: "retention_declaration \<Rightarrow> validation" where
  "retention_declaration_validate d =
     (if is_bounded_identifier (rd_provenance d) 128 then Ok ()
      else Err (ValidationError RecommendationRetention))"

record retention_disclosure =
  rs_revision :: rstr
  rs_declaration :: retention_declaration
  rs_store :: bool
  rs_store_false_is_not_zdr :: bool
  rs_default_abuse_monitoring_max_days :: u8
  rs_safety_review_exceptions_apply :: bool
  rs_prompt_cache_mode :: rstr
  rs_prompt_cache_breakpoint_count :: u8
  rs_prompt_cache_ttl_minimum_default :: rstr
  rs_prompt_cache_may_retain_longer :: bool
  rs_no_breakpoints_no_cache_reads_or_writes :: bool

definition retention_disclosure_revision_v1 :: rstr where
  "retention_disclosure_revision_v1 = lit ''openai-outfit-data-boundary-2026-07-15-v1''"

definition retention_disclosure_for_declaration ::
  "retention_declaration \<Rightarrow> retention_disclosure" where
  "retention_disclosure_for_declaration declaration =
     \<lparr>rs_revision = retention_disclosure_revision_v1,
      rs_declaration = declaration,
      rs_store = False,
      rs_store_false_is_not_zdr = True,
      rs_default_abuse_monitoring_max_days = 30,
      rs_safety_review_exceptions_apply = True,
      rs_prompt_cache_mode = lit ''explicit'',
      rs_prompt_cache_breakpoint_count = 0,
      rs_prompt_cache_ttl_minimum_default = lit ''30m'',
      rs_prompt_cache_may_retain_longer = True,
      rs_no_breakpoints_no_cache_reads_or_writes = True\<rparr>"

definition retention_disclosure_validate :: "retention_disclosure \<Rightarrow> validation" where
  "retention_disclosure_validate r =
     all_ok
       [retention_declaration_validate (rs_declaration r),
        ensure (rs_revision r = retention_disclosure_revision_v1
          \<and> \<not> rs_store r
          \<and> rs_store_false_is_not_zdr r
          \<and> rs_default_abuse_monitoring_max_days r = 30
          \<and> rs_safety_review_exceptions_apply r
          \<and> rs_prompt_cache_mode r = lit ''explicit''
          \<and> rs_prompt_cache_breakpoint_count r = 0
          \<and> rs_prompt_cache_ttl_minimum_default r = lit ''30m''
          \<and> rs_prompt_cache_may_retain_longer r
          \<and> rs_no_breakpoints_no_cache_reads_or_writes r)
          (ValidationError RecommendationRetention)]"

section \<open>Request envelope\<close>

text \<open>\<open>temperature_c\<close> is an \<open>i16\<close> that is only compared, so it is an integer here.\<close>

record recommendation_constraints =
  rc_occasion :: "outfit_occasion option"
  rc_temperature_c :: "int option"
  rc_precipitation :: "outfit_precipitation option"

definition constraints_validate :: "recommendation_constraints \<Rightarrow> validation" where
  "constraints_validate c =
     (if (case rc_temperature_c c of None \<Rightarrow> False
          | Some value \<Rightarrow> \<not> (- 50 \<le> value \<and> value \<le> 60))
      then Err (ValidationError RecommendationConstraints) else Ok ())"

record recommendation_envelope =
  re_prompt :: rstr
  re_credential_id :: uuid
  re_constraints :: recommendation_constraints
  re_excluded_item_ids :: "uuid list"
  re_requested_proposal_count :: u8
  re_expected_catalog_revision :: u64
  re_expected_outfit_revision :: u64
  re_retention :: retention_declaration

definition envelope_validate :: "recommendation_envelope \<Rightarrow> validation" where
  "envelope_validate e =
     all_ok
       [rec_validate_text (re_prompt e) 1 2000 RecommendationPrompt,
        constraints_validate (re_constraints e),
        validate_unique_ids (re_excluded_item_ids e) 0 64 RecommendationExclusions,
        ensure (\<not> (\<not> (1 \<le> re_requested_proposal_count e \<and> re_requested_proposal_count e \<le> 3)
            \<or> re_expected_catalog_revision e \<ge> max_safe_integer_v1
            \<or> re_expected_outfit_revision e \<ge> max_safe_integer_v1))
          (ValidationError RecommendationConstraints),
        retention_declaration_validate (re_retention e)]"

record preview_recommendation_request =
  prr_schema_version :: u8
  prr_request_id :: uuid
  prr_envelope :: recommendation_envelope

definition preview_recommendation_request_validate ::
  "preview_recommendation_request \<Rightarrow> validation" where
  "preview_recommendation_request_validate r =
     all_ok [rec_require_schema (prr_schema_version r), envelope_validate (prr_envelope r)]"

record request_recommendation_request =
  rrr_schema_version :: u8
  rrr_request_id :: uuid
  rrr_approval_id :: uuid
  rrr_envelope :: recommendation_envelope

definition request_recommendation_request_validate ::
  "request_recommendation_request \<Rightarrow> validation" where
  "request_recommendation_request_validate r =
     all_ok [rec_require_schema (rrr_schema_version r), envelope_validate (rrr_envelope r)]"

section \<open>Disclosure and approval\<close>

fun disclosure_field_code :: "disclosure_field_class \<Rightarrow> nat" where
  "disclosure_field_code Prompt = 0"
| "disclosure_field_code ExplicitConstraints = 1"
| "disclosure_field_code ExcludedItemIds = 2"
| "disclosure_field_code ItemIds = 3"
| "disclosure_field_code DisplayNames = 4"
| "disclosure_field_code Categories = 5"
| "disclosure_field_code PrimaryColors = 6"
| "disclosure_field_code Brands = 7"
| "disclosure_field_code CapabilityTags = 8"
| "disclosure_field_code WearHistory = 9"
| "disclosure_field_code StylePreferences = 10"
| "disclosure_field_code SavedOutfitMembership = 11"

record recommendation_disclosure =
  di_provider :: rstr
  di_model :: rstr
  di_purpose :: rstr
  di_disclosed_field_classes :: "disclosure_field_class list"
  di_photos_disclosed :: bool
  di_email_disclosed :: bool
  di_paths_disclosed :: bool
  di_notes_disclosed :: bool
  di_sizes_disclosed :: bool
  di_evidence_metadata_disclosed :: bool
  di_retention :: retention_disclosure

definition disclosure_validate :: "rstr \<Rightarrow> rstr \<Rightarrow> recommendation_disclosure \<Rightarrow> validation" where
  "disclosure_validate provider_v1 model_v1 d =
     all_ok
       [retention_disclosure_validate (di_retention d),
        (let fields = remdups_adj (sort_key disclosure_field_code (di_disclosed_field_classes d)) in
         ensure (di_provider d = provider_v1
           \<and> di_model d = model_v1
           \<and> di_purpose d = lit ''outfit_recommendation''
           \<and> length fields = length (di_disclosed_field_classes d)
           \<and> fields \<noteq> []
           \<and> \<not> di_photos_disclosed d
           \<and> \<not> di_email_disclosed d
           \<and> \<not> di_paths_disclosed d
           \<and> \<not> di_notes_disclosed d
           \<and> \<not> di_sizes_disclosed d
           \<and> \<not> di_evidence_metadata_disclosed d)
           (ValidationError RecommendationDisclosure))]"

record recommendation_approval =
  ap_approval_id :: uuid
  ap_expires_at :: rstr
  ap_single_use :: bool
  ap_catalog_revision :: u64
  ap_outfit_revision :: u64

definition approval_validate :: "recommendation_approval \<Rightarrow> validation" where
  "approval_validate a =
     (if ap_single_use a
         \<and> ap_catalog_revision a < max_safe_integer_v1
         \<and> ap_outfit_revision a < max_safe_integer_v1
         \<and> is_bounded_timestamp (ap_expires_at a)
      then Ok () else Err (ValidationError RecommendationApproval))"

record preview_recommendation_response =
  pr_schema_version :: u8
  pr_request_id :: uuid
  pr_provider_status :: provider_status
  pr_disclosure :: recommendation_disclosure
  pr_approval :: recommendation_approval

definition preview_recommendation_response_validate ::
  "rstr \<Rightarrow> rstr \<Rightarrow> preview_recommendation_response \<Rightarrow> validation" where
  "preview_recommendation_response_validate provider_v1 model_v1 r =
     all_ok [rec_require_schema (pr_schema_version r),
             disclosure_validate provider_v1 model_v1 (pr_disclosure r),
             approval_validate (pr_approval r)]"

section \<open>Tool registry, arguments and results\<close>

record tool_definition =
  td_name :: tool_name
  td_capability :: tool_capability
  td_strict :: bool
  td_contract_revision :: rstr
  td_maximum_results :: u16

record tool_registry =
  tr_tools :: "tool_definition list"
  tr_maximum_response_calls :: u8
  tr_maximum_tool_calls :: u8
  tr_maximum_transcript_bytes :: u32

definition tool_registry_production :: tool_registry where
  "tool_registry_production =
     \<lparr>tr_tools =
        map (\<lambda>name. \<lparr>td_name = name, td_capability = ReadOnly, td_strict = True,
                     td_contract_revision = lit ''outfit-tool-contract-v1'',
                     td_maximum_results = 100\<rparr>)
          [SearchConfirmedWardrobe, SearchWearHistory, GetStylePreferences, ListSavedOutfits],
      tr_maximum_response_calls = 4,
      tr_maximum_tool_calls = 12,
      tr_maximum_transcript_bytes = 512 * 1024\<rparr>"

definition tool_registry_validate :: "tool_registry \<Rightarrow> validation" where
  "tool_registry_validate r =
     (if r = tool_registry_production then Ok () else Err (ValidationError RecommendationTool))"

record search_wardrobe_arguments =
  sw_query :: "rstr option"
  sw_categories :: "item_category list"
  sw_capability_tags :: "capability_tag list"
  sw_limit :: u16

definition search_wardrobe_arguments_validate :: "search_wardrobe_arguments \<Rightarrow> validation" where
  "search_wardrobe_arguments_validate a =
     all_ok [validate_optional_query (sw_query a),
             validate_unique_values (sw_categories a) 0 9,
             validate_unique_values (sw_capability_tags a) 0 3,
             validate_tool_limit (sw_limit a)]"

record search_wear_arguments =
  wa_item_ids :: "uuid list"
  wa_limit :: u16

definition search_wear_arguments_validate :: "search_wear_arguments \<Rightarrow> validation" where
  "search_wear_arguments_validate a =
     all_ok [validate_unique_ids (wa_item_ids a) 0 64 RecommendationTool,
             validate_tool_limit (wa_limit a)]"

record list_saved_outfits_arguments =
  ls_query :: "rstr option"
  ls_limit :: u16

definition list_saved_outfits_arguments_validate ::
  "list_saved_outfits_arguments \<Rightarrow> validation" where
  "list_saved_outfits_arguments_validate a =
     all_ok [validate_optional_query (ls_query a), validate_tool_limit (ls_limit a)]"

datatype tool_arguments =
    ArgsSearchConfirmedWardrobe search_wardrobe_arguments
  | ArgsSearchWearHistory search_wear_arguments
  | ArgsGetStylePreferences
  | ArgsListSavedOutfits list_saved_outfits_arguments

fun tool_arguments_validate :: "tool_arguments \<Rightarrow> validation" where
  "tool_arguments_validate (ArgsSearchConfirmedWardrobe v) = search_wardrobe_arguments_validate v"
| "tool_arguments_validate (ArgsSearchWearHistory v) = search_wear_arguments_validate v"
| "tool_arguments_validate ArgsGetStylePreferences = Ok ()"
| "tool_arguments_validate (ArgsListSavedOutfits v) = list_saved_outfits_arguments_validate v"

record tool_wardrobe_item =
  tw_item_id :: uuid
  tw_display_name :: rstr
  tw_category :: item_category
  tw_primary_color :: "rstr option"
  tw_brand :: "rstr option"
  tw_capability_tags :: "capability_tag list"

definition tool_wardrobe_item_validate :: "tool_wardrobe_item \<Rightarrow> validation" where
  "tool_wardrobe_item_validate i =
     all_ok [rec_validate_text (tw_display_name i) 1 80 RecommendationTool,
             try_for_each (\<lambda>v. rec_validate_text v 1 80 RecommendationTool)
               (flatten_options [tw_primary_color i, tw_brand i]),
             validate_unique_values (tw_capability_tags i) 0 3]"

record wear_record =
  wr_item_id :: uuid
  wr_worn_on :: rstr

text \<open>
  The check runs over bytes. Every accepted byte is ASCII, so on an accepted string bytes and
  characters agree; a string with a longer character is refused by either reading.
\<close>

definition wear_record_validate :: "wear_record \<Rightarrow> validation" where
  "wear_record_validate r =
     (if byte_len (wr_worn_on r) = 10
         \<and> list_all (\<lambda>(index, c). if index = 4 \<or> index = 7 then c = of_char (CHR ''-'')
                                  else is_ascii_digit c)
             (enumerate 0 (wr_worn_on r))
      then Ok () else Err (ValidationError RecommendationTool))"

record style_preference =
  sp_preference :: rstr

definition style_preference_validate :: "style_preference \<Rightarrow> validation" where
  "style_preference_validate p = rec_validate_text (sp_preference p) 1 240 RecommendationTool"

record tool_saved_outfit =
  so_outfit_id :: uuid
  so_name :: rstr
  so_item_ids :: "uuid list"

definition tool_saved_outfit_validate :: "tool_saved_outfit \<Rightarrow> validation" where
  "tool_saved_outfit_validate o' =
     all_ok [rec_validate_text (so_name o') 1 80 RecommendationTool,
             validate_unique_ids (so_item_ids o') 2 8 RecommendationTool]"

definition validate_configured_collection :: "tool_data_status \<Rightarrow> nat \<Rightarrow> validation" where
  "validate_configured_collection status n =
     (if status = NotConfigured \<and> n \<noteq> 0 then Err (ValidationError RecommendationTool)
      else Ok ())"

datatype tool_result =
    ResultSearchConfirmedWardrobe "tool_wardrobe_item list"
  | ResultSearchWearHistory tool_data_status "wear_record list"
  | ResultGetStylePreferences tool_data_status "style_preference list"
  | ResultListSavedOutfits "tool_saved_outfit list"

fun tool_result_validate :: "tool_result \<Rightarrow> validation" where
  "tool_result_validate (ResultSearchConfirmedWardrobe items) =
     all_ok [validate_result_count (length items),
             validate_unique_ids (map tw_item_id items) 0 100 RecommendationTool,
             try_for_each tool_wardrobe_item_validate items]"
| "tool_result_validate (ResultSearchWearHistory status records) =
     all_ok [validate_configured_collection status (length records),
             validate_result_count (length records),
             try_for_each wear_record_validate records]"
| "tool_result_validate (ResultGetStylePreferences status preferences) =
     all_ok [validate_configured_collection status (length preferences),
             validate_result_count (length preferences),
             try_for_each style_preference_validate preferences]"
| "tool_result_validate (ResultListSavedOutfits outfits) =
     all_ok [validate_result_count (length outfits),
             try_for_each tool_saved_outfit_validate outfits]"

end
