(* ===== verification/Recommendation.thy ===== *)
theory Recommendation
  imports Recommendation_Contracts
begin

text \<open>
  Grounding of the provider's outfit proposals (\<open>recommendation.rs\<close>, second part): the snapshot,
  the structured answer, the constraint rules on a selection, the search over item signatures that
  decides whether the wardrobe can satisfy a constraint, and \<open>validate_outfit_proposal_v1\<close>, the
  gate every answer passes.
\<close>

section \<open>Snapshot and structured answer\<close>

record snapshot_item =
  si_item_id :: uuid
  si_item_revision :: u64
  si_active :: bool
  si_category :: item_category
  si_capability_tags :: "capability_tag list"

definition snapshot_item_validate :: "snapshot_item \<Rightarrow> validation" where
  "snapshot_item_validate i =
     (if si_item_revision i = 0 \<or> si_item_revision i \<ge> max_safe_integer_v1
      then Err (ValidationError RecommendationSnapshot)
      else validate_unique_values (si_capability_tags i) 0 3)"

definition outfit_capability_revision_v1 :: rstr where
  "outfit_capability_revision_v1 = lit ''outfit-capability-v1''"

definition outfit_compatibility_revision_v1 :: rstr where
  "outfit_compatibility_revision_v1 = lit ''outfit-compatibility-v1''"

definition outfit_schema_revision_v1 :: rstr where
  "outfit_schema_revision_v1 = lit ''outfit-recommendation-schema-v1''"

definition outfit_unsatisfiable_caveat_v1 :: rstr where
  "outfit_unsatisfiable_caveat_v1 = lit ''Your confirmed wardrobe cannot satisfy this constraint.''"

record recommendation_snapshot =
  sn_catalog_revision :: u64
  sn_outfit_revision :: u64
  sn_capability_revision :: rstr
  sn_items :: "snapshot_item list"

definition snapshot_validate :: "recommendation_snapshot \<Rightarrow> validation" where
  "snapshot_validate s =
     all_ok
       [ensure (\<not> (sn_catalog_revision s \<ge> max_safe_integer_v1
            \<or> sn_outfit_revision s \<ge> max_safe_integer_v1
            \<or> sn_capability_revision s \<noteq> outfit_capability_revision_v1
            \<or> length (sn_items s) > 1024))
          (ValidationError RecommendationSnapshot),
        validate_unique_ids (map si_item_id (sn_items s)) 0 1024 RecommendationSnapshot,
        try_for_each snapshot_item_validate (sn_items s)]"

record constraint_assessment =
  ca_constraint :: constraint_kind
  ca_status :: constraint_status
  ca_reason :: "unresolved_reason option"
  ca_caveat :: "rstr option"

definition assessment_validate :: "constraint_assessment \<Rightarrow> validation" where
  "assessment_validate a =
     (case (ca_status a, ca_reason a, ca_caveat a) of
        (Satisfied, None, None) \<Rightarrow> Ok ()
      | (Unresolved, Some WardrobeCannotSatisfy, Some caveat) \<Rightarrow>
          (if caveat = outfit_unsatisfiable_caveat_v1 then Ok ()
           else Err (ValidationError RecommendationAssessment))
      | _ \<Rightarrow> Err (ValidationError RecommendationAssessment))"

fun assessment_shape_loop ::
  "constraint_kind set \<Rightarrow> bool \<Rightarrow> constraint_assessment list \<Rightarrow> validation" where
  "assessment_shape_loop kinds unresolved_only [] = Ok ()"
| "assessment_shape_loop kinds unresolved_only (v # vs) =
     and_then (assessment_validate v)
       (\<lambda>_. if ca_constraint v \<in> kinds \<or> (unresolved_only \<and> ca_status v \<noteq> Unresolved)
            then Err (ValidationError RecommendationAssessment)
            else assessment_shape_loop (insert (ca_constraint v) kinds) unresolved_only vs)"

definition validate_assessment_shape :: "constraint_assessment list \<Rightarrow> bool \<Rightarrow> validation" where
  "validate_assessment_shape values unresolved_only =
     (if length values > 3 then Err (ValidationError RecommendationAssessment)
      else assessment_shape_loop {} unresolved_only values)"

record outfit_proposal =
  op_name :: rstr
  op_item_ids :: "uuid list"
  op_rationale :: rstr
  op_caveats :: "rstr list"
  op_unresolved_constraints :: "constraint_assessment list"
  op_constraint_assessment :: "constraint_assessment list"

definition min_recommendation_items :: nat where
  "min_recommendation_items = 2"

definition proposal_validate :: "outfit_proposal \<Rightarrow> validation" where
  "proposal_validate p =
     all_ok
       [rec_validate_text (op_name p) 1 80 RecommendationProposal,
        rec_validate_text (op_rationale p) 1 600 RecommendationProposal,
        validate_unique_ids (op_item_ids p) min_recommendation_items 8 RecommendationProposal,
        validate_unique_text (op_caveats p) 8 240,
        validate_assessment_shape (op_unresolved_constraints p) True,
        validate_assessment_shape (op_constraint_assessment p) False]"

record structured_recommendation =
  sr_schema_revision :: rstr
  sr_compatibility_revision :: rstr
  sr_capability_revision :: rstr
  sr_catalog_revision :: u64
  sr_outfit_revision :: u64
  sr_proposals :: "outfit_proposal list"

text \<open>\<open>ValidatedOutfitRecommendationV1\<close> has the same fields; only the gate below produces it.\<close>

type_synonym validated_recommendation = structured_recommendation

definition structured_validate :: "structured_recommendation \<Rightarrow> validation" where
  "structured_validate r =
     all_ok
       [ensure (\<not> (sr_schema_revision r \<noteq> outfit_schema_revision_v1
            \<or> sr_compatibility_revision r \<noteq> outfit_compatibility_revision_v1
            \<or> sr_capability_revision r \<noteq> outfit_capability_revision_v1
            \<or> sr_catalog_revision r \<ge> max_safe_integer_v1
            \<or> sr_outfit_revision r \<ge> max_safe_integer_v1
            \<or> sr_proposals r = []
            \<or> length (sr_proposals r) > 3))
          (ValidationError RecommendationProposal),
        try_for_each proposal_validate (sr_proposals r)]"

section \<open>Usage and audit\<close>

record recommendation_usage =
  us_input_tokens :: u32
  us_output_tokens :: u32
  us_reasoning_tokens :: u32
  us_response_calls :: u8
  us_tool_calls :: u8
  us_prompt_cache_read_tokens :: u32
  us_prompt_cache_write_tokens :: u32

definition usage_validate :: "recommendation_usage \<Rightarrow> validation" where
  "usage_validate u =
     (if us_response_calls u > 4 \<or> us_tool_calls u > 12
      then Err (ValidationError RecommendationUsage) else Ok ())"

record recommendation_audit =
  au_provider :: rstr
  au_model :: rstr
  au_provider_request_id :: "rstr option"
  au_response_id :: "rstr option"
  au_retention :: retention_disclosure
  au_reported_cache_usage :: bool
  au_usage :: recommendation_usage

definition audit_validate :: "rstr \<Rightarrow> rstr \<Rightarrow> recommendation_audit \<Rightarrow> validation" where
  "audit_validate provider_v1 model_v1 a =
     all_ok
       [retention_disclosure_validate (au_retention a),
        usage_validate (au_usage a),
        try_for_each (\<lambda>v. ensure (is_bounded_identifier v 128) (ValidationError RecommendationUsage))
          (flatten_options [au_provider_request_id a, au_response_id a]),
        ensure (au_provider a = provider_v1
          \<and> au_model a = model_v1
          \<and> au_reported_cache_usage a =
              (us_prompt_cache_read_tokens (au_usage a) \<noteq> 0
               \<or> us_prompt_cache_write_tokens (au_usage a) \<noteq> 0))
          (ValidationError RecommendationUsage)]"

datatype recommendation_outcome =
    Completed validated_recommendation recommendation_audit
  | Refused recommendation_audit
  | Failed recommendation_failure_code bool "recommendation_audit option"
  | HistoricalStale bool bool

section \<open>Constraint rules on a selection\<close>

definition cat_count :: "item_category \<Rightarrow> item_category list \<Rightarrow> nat" where
  "cat_count target categories = length (filter (\<lambda>v. v = target) categories)"

definition coherent_categories :: "item_category list \<Rightarrow> bool" where
  "coherent_categories categories =
     (if cat_count Dress categories > 1
         \<or> cat_count Top categories > 1
         \<or> cat_count Bottom categories > 1
         \<or> cat_count Activewear categories > 1
         \<or> cat_count Outerwear categories > 1
         \<or> cat_count Shoes categories > 1
         \<or> cat_count Accessory categories > 4
         \<or> cat_count Underwear categories > 0
         \<or> cat_count OtherCategory categories > 0
      then False
      else
        (let dress = cat_count Dress categories; top' = cat_count Top categories;
             bottom = cat_count Bottom categories; active = cat_count Activewear categories
         in (dress = 1 \<and> top' = 0 \<and> bottom = 0 \<and> active = 0)
          \<or> (dress = 0 \<and> top' = 1 \<and> bottom = 1 \<and> active = 0)
          \<or> (dress = 0 \<and> top' = 0 \<and> bottom = 0 \<and> active = 1)))"

definition coherent_base :: "snapshot_item list \<Rightarrow> bool" where
  "coherent_base selected = coherent_categories (map si_category selected)"

definition occasion_met :: "outfit_occasion \<Rightarrow> item_category list \<Rightarrow> bool" where
  "occasion_met occasion categories =
     (let coherent = coherent_categories categories;
          active = List.member categories Activewear;
          shoes = List.member categories Shoes;
          dress = List.member categories Dress;
          separates = List.member categories Top \<and> List.member categories Bottom
      in case occasion of
           Casual \<Rightarrow> coherent
         | Date \<Rightarrow> coherent
         | Work \<Rightarrow> coherent \<and> \<not> active \<and> shoes
         | Formal \<Rightarrow> (dress \<or> separates) \<and> shoes \<and> \<not> active
         | Active \<Rightarrow> active \<and> coherent \<and> shoes
         | Travel \<Rightarrow> coherent \<and> shoes)"

definition temperature_met :: "int \<Rightarrow> (item_category \<times> bool) list \<Rightarrow> bool" where
  "temperature_met temperature items =
     (let has_outerwear = list_ex (\<lambda>(category, _). category = Outerwear) items;
          has_shoes = list_ex (\<lambda>(category, _). category = Shoes) items;
          has_cold = list_ex (\<lambda>(_, cold). cold) items
      in if temperature \<le> 0 then
           has_shoes \<and> list_ex (\<lambda>(category, cold). category = Outerwear \<and> cold) items
         else if temperature \<le> 10 then has_outerwear
         else if temperature \<le> 27 then True
         else \<not> has_outerwear \<and> \<not> has_cold)"

definition precipitation_met ::
  "outfit_precipitation \<Rightarrow> (item_category \<times> bool \<times> bool) list \<Rightarrow> bool" where
  "precipitation_met precipitation items =
     (let has_shoes = list_ex (\<lambda>(category, _, _). category = Shoes) items
      in case precipitation of
           PrecipitationNone \<Rightarrow> True
         | Rain \<Rightarrow> has_shoes \<and>
             list_ex (\<lambda>(category, rain, _). (category = Outerwear \<or> category = Shoes) \<and> rain) items
         | Snow \<Rightarrow>
             list_ex (\<lambda>(category, _, snow). category = Outerwear \<and> snow) items \<and>
             list_ex (\<lambda>(category, _, snow). category = Shoes \<and> snow) items)"

text \<open>\<open>Option::is_none_or\<close>.\<close>

definition is_none_or :: "('a \<Rightarrow> bool) \<Rightarrow> 'a option \<Rightarrow> bool" where
  "is_none_or p x = (case x of None \<Rightarrow> True | Some a \<Rightarrow> p a)"

fun constraint_met ::
  "constraint_kind \<Rightarrow> recommendation_constraints \<Rightarrow> snapshot_item list \<Rightarrow> bool" where
  "constraint_met Occasion constraints selected =
     is_none_or (\<lambda>occasion. occasion_met occasion (map si_category selected))
       (rc_occasion constraints)"
| "constraint_met Temperature constraints selected =
     is_none_or (\<lambda>temperature. temperature_met temperature
         (map (\<lambda>item. (si_category item, List.member (si_capability_tags item) InsulationCold)) selected))
       (rc_temperature_c constraints)"
| "constraint_met Precipitation constraints selected =
     is_none_or (\<lambda>precipitation. precipitation_met precipitation
         (map (\<lambda>item. (si_category item, List.member (si_capability_tags item) WeatherRain,
                       List.member (si_capability_tags item) WeatherSnow)) selected))
       (rc_precipitation constraints)"

definition explicit_constraint_kinds :: "recommendation_constraints \<Rightarrow> constraint_kind list" where
  "explicit_constraint_kinds constraints =
     (if rc_occasion constraints \<noteq> None then [Occasion] else [])
     @ (if rc_temperature_c constraints \<noteq> None then [Temperature] else [])
     @ (if rc_precipitation constraints \<noteq> None then [Precipitation] else [])"

section \<open>Search over item signatures\<close>

record item_signature =
  sg_category :: item_category
  sg_rain :: bool
  sg_snow :: bool
  sg_cold :: bool

fun category_code :: "item_category \<Rightarrow> u8" where
  "category_code Top = 0"
| "category_code Bottom = 1"
| "category_code Dress = 2"
| "category_code Outerwear = 3"
| "category_code Shoes = 4"
| "category_code Accessory = 5"
| "category_code Underwear = 6"
| "category_code Activewear = 7"
| "category_code OtherCategory = 8"

definition signature_key :: "item_signature \<Rightarrow> u8 \<times> bool \<times> bool \<times> bool" where
  "signature_key s = (category_code (sg_category s), sg_rain s, sg_snow s, sg_cold s)"

definition signature_from_item :: "snapshot_item \<Rightarrow> item_signature" where
  "signature_from_item item =
     \<lparr>sg_category = si_category item,
      sg_rain = List.member (si_capability_tags item) WeatherRain,
      sg_snow = List.member (si_capability_tags item) WeatherSnow,
      sg_cold = List.member (si_capability_tags item) InsulationCold\<rparr>"

text \<open>The loop that collects each signature once, in order of first appearance.\<close>

fun collect_signatures :: "item_signature list \<Rightarrow> snapshot_item list \<Rightarrow> item_signature list" where
  "collect_signatures signatures [] = signatures"
| "collect_signatures signatures (item # items) =
     (let signature = signature_from_item item in
      if List.member signatures signature then collect_signatures signatures items
      else collect_signatures (signatures @ [signature]) items)"

fun signature_constraint_met ::
  "constraint_kind \<Rightarrow> recommendation_constraints \<Rightarrow> item_signature list \<Rightarrow> bool" where
  "signature_constraint_met Occasion constraints selected =
     is_none_or (\<lambda>occasion. occasion_met occasion (map sg_category selected))
       (rc_occasion constraints)"
| "signature_constraint_met Temperature constraints selected =
     is_none_or (\<lambda>temperature. temperature_met temperature
         (map (\<lambda>item. (sg_category item, sg_cold item)) selected))
       (rc_temperature_c constraints)"
| "signature_constraint_met Precipitation constraints selected =
     is_none_or (\<lambda>precipitation. precipitation_met precipitation
         (map (\<lambda>item. (sg_category item, sg_rain item, sg_snow item)) selected))
       (rc_precipitation constraints)"

definition signature_constraints_met ::
  "constraint_kind \<Rightarrow> recommendation_constraints \<Rightarrow> item_signature list \<Rightarrow> bool" where
  "signature_constraints_met target constraints selected \<longleftrightarrow>
     list_all (\<lambda>kind. kind = target \<or> signature_constraint_met kind constraints selected)
       (explicit_constraint_kinds constraints)
     \<and> signature_constraint_met target constraints selected"

definition option_push :: "'a list \<Rightarrow> 'a option \<Rightarrow> 'a list" where
  "option_push xs x = (case x of None \<Rightarrow> xs | Some a \<Rightarrow> xs @ [a])"

definition candidate_bases :: "item_signature list \<Rightarrow> item_signature list list" where
  "candidate_bases signatures =
     (let required = (\<lambda>category. filter (\<lambda>v. sg_category v = category) signatures)
      in map (\<lambda>v. [v]) (required Dress)
         @ concat (map (\<lambda>t. map (\<lambda>b. [t, b]) (required Bottom)) (required Top))
         @ map (\<lambda>v. [v]) (required Activewear))"

definition constraint_satisfiable ::
  "constraint_kind \<Rightarrow> recommendation_constraints \<Rightarrow> snapshot_item list \<Rightarrow> bool" where
  "constraint_satisfiable target constraints eligible =
     (let signatures = sort_key signature_key (collect_signatures [] eligible);
          options = (\<lambda>category. None # map Some (filter (\<lambda>v. sg_category v = category) signatures));
          outerwear = options Outerwear;
          shoes = options Shoes
      in list_ex (\<lambda>base. list_ex (\<lambda>outer. list_ex (\<lambda>shoe.
             (let candidate = option_push (option_push base outer) shoe in
              \<not> length candidate < min_recommendation_items
              \<and> signature_constraints_met target constraints candidate))
           shoes) outerwear) (candidate_bases signatures))"

section \<open>The proposal gate\<close>

definition satisfied_assessment :: "constraint_kind \<Rightarrow> constraint_assessment" where
  "satisfied_assessment c =
     \<lparr>ca_constraint = c, ca_status = Satisfied, ca_reason = None, ca_caveat = None\<rparr>"

definition unresolved_assessment :: "constraint_kind \<Rightarrow> constraint_assessment" where
  "unresolved_assessment c =
     \<lparr>ca_constraint = c, ca_status = Unresolved, ca_reason = Some WardrobeCannotSatisfy,
      ca_caveat = Some outfit_unsatisfiable_caveat_v1\<rparr>"

fun recompute_loop ::
  "recommendation_constraints \<Rightarrow> snapshot_item list \<Rightarrow> snapshot_item list \<Rightarrow>
   constraint_assessment list \<Rightarrow> constraint_kind list \<Rightarrow>
   (constraint_assessment list, proposal_error) result" where
  "recompute_loop constraints eligible selected acc [] = Ok acc"
| "recompute_loop constraints eligible selected acc (c # cs) =
     (if constraint_met c constraints selected
      then recompute_loop constraints eligible selected (acc @ [satisfied_assessment c]) cs
      else if constraint_satisfiable c constraints eligible
      then Err SatisfiableConstraintUnmet
      else recompute_loop constraints eligible selected (acc @ [unresolved_assessment c]) cs)"

definition recompute_constraint_assessment ::
  "recommendation_constraints \<Rightarrow> snapshot_item list \<Rightarrow> snapshot_item list \<Rightarrow>
   (constraint_assessment list, proposal_error) result" where
  "recompute_constraint_assessment constraints eligible selected =
     recompute_loop constraints eligible selected [] (explicit_constraint_kinds constraints)"

text \<open>
  \<open>item_by_id\<close> is a \<open>BTreeMap\<close> collected from the snapshot items: a later entry with the same key
  replaces an earlier one.
\<close>

definition item_by_id :: "snapshot_item list \<Rightarrow> uuid \<rightharpoonup> snapshot_item" where
  "item_by_id items = map_of (rev (map (\<lambda>item. (si_item_id item, item)) items))"

fun select_items ::
  "(uuid \<rightharpoonup> snapshot_item) \<Rightarrow> uuid set \<Rightarrow> uuid set \<Rightarrow> snapshot_item list \<Rightarrow> uuid list \<Rightarrow>
   (snapshot_item list, proposal_error) result" where
  "select_items by_id exclusions seen selected [] = Ok selected"
| "select_items by_id exclusions seen selected (item_id # ids) =
     (if item_id \<in> seen then Err DuplicateItem
      else and_then (ok_or (by_id item_id) UnknownItem)
        (\<lambda>item. if \<not> si_active item then Err InactiveItem
                else if item_id \<in> exclusions then Err ExcludedItem
                else select_items by_id exclusions (insert item_id seen) (selected @ [item]) ids))"

definition check_proposal ::
  "recommendation_constraints \<Rightarrow> (uuid \<rightharpoonup> snapshot_item) \<Rightarrow> uuid set \<Rightarrow> snapshot_item list \<Rightarrow>
   outfit_proposal \<Rightarrow> (outfit_proposal, proposal_error) result" where
  "check_proposal constraints by_id exclusions eligible proposal =
     and_then (select_items by_id exclusions {} [] (op_item_ids proposal)) (\<lambda>selected.
       if \<not> coherent_base selected then Err IncompatibleItems
       else and_then (recompute_constraint_assessment constraints eligible selected) (\<lambda>recomputed.
         if op_constraint_assessment proposal \<noteq> recomputed then Err ConstraintAssessmentMismatch
         else
           (let unresolved = filter (\<lambda>a. ca_status a = Unresolved) recomputed in
            if op_unresolved_constraints proposal \<noteq> unresolved then Err InvalidUnresolvedConstraint
            else if list_ex (\<lambda>a. case ca_caveat a of None \<Rightarrow> False
                              | Some caveat \<Rightarrow> \<not> list_ex (\<lambda>v. v = caveat) (op_caveats proposal))
                      unresolved
            then Err InvalidUnresolvedConstraint
            else Ok proposal)))"

fun check_proposals ::
  "(outfit_proposal \<Rightarrow> (outfit_proposal, proposal_error) result) \<Rightarrow> outfit_proposal list \<Rightarrow>
   outfit_proposal list \<Rightarrow> (outfit_proposal list, proposal_error) result" where
  "check_proposals check validated [] = Ok validated"
| "check_proposals check validated (p # ps) =
     and_then (check p) (\<lambda>v. check_proposals check (validated @ [v]) ps)"

definition validate_outfit_proposal_v1 ::
  "recommendation_envelope \<Rightarrow> recommendation_snapshot \<Rightarrow> structured_recommendation \<Rightarrow>
   (validated_recommendation, proposal_error) result" where
  "validate_outfit_proposal_v1 envelope snapshot answer =
     and_then (map_err (\<lambda>_. InvalidContract) (envelope_validate envelope)) (\<lambda>_.
     and_then (map_err (\<lambda>_. InvalidContract) (snapshot_validate snapshot)) (\<lambda>_.
     and_then (map_err (\<lambda>_. InvalidContract) (structured_validate answer)) (\<lambda>_.
       if re_expected_catalog_revision envelope \<noteq> sn_catalog_revision snapshot
          \<or> sr_catalog_revision answer \<noteq> sn_catalog_revision snapshot
       then Err StaleCatalogRevision
       else if re_expected_outfit_revision envelope \<noteq> sn_outfit_revision snapshot
          \<or> sr_outfit_revision answer \<noteq> sn_outfit_revision snapshot
       then Err StaleOutfitRevision
       else if length (sr_proposals answer) \<noteq> unat (re_requested_proposal_count envelope)
       then Err InvalidContract
       else
         (let exclusions = set (re_excluded_item_ids envelope);
              eligible = filter (\<lambda>item. si_active item \<and> si_item_id item \<notin> exclusions) (sn_items snapshot)
          in and_then
               (check_proposals
                  (check_proposal (re_constraints envelope) (item_by_id (sn_items snapshot))
                     exclusions eligible)
                  [] (sr_proposals answer))
               (\<lambda>validated. Ok
                  \<lparr>sr_schema_revision = sr_schema_revision answer,
                   sr_compatibility_revision = sr_compatibility_revision answer,
                   sr_capability_revision = sr_capability_revision answer,
                   sr_catalog_revision = sr_catalog_revision answer,
                   sr_outfit_revision = sr_outfit_revision answer,
                   sr_proposals = validated\<rparr>)))))"

end
