(* ===== verification/Recommendation_Correctness.thy ===== *)
theory Recommendation_Correctness
  imports Recommendation
begin

text \<open>
  Correctness of the proposal gate. The locale below is the interface the search relies on: a rule
  that judges a selection must not depend on the order of its items and must not be spoiled by
  dropping accessories. Both the rule on items and the rule on signatures are instances.
\<close>

section \<open>Shape of coherent selections\<close>

abbreviation of_category :: "('i \<Rightarrow> item_category) \<Rightarrow> item_category \<Rightarrow> 'i list \<Rightarrow> 'i list" where
  "of_category category c xs \<equiv> filter (\<lambda>i. category i = c) xs"

lemma cat_count_map: "cat_count c (map category xs) = length (of_category category c xs)"
  by (simp add: cat_count_def filter_map o_def)

lemma mset_by_category:
  "mset xs = mset (of_category f Dress xs) + mset (of_category f Top xs)
     + mset (of_category f Bottom xs) + mset (of_category f Activewear xs)
     + mset (of_category f Outerwear xs) + mset (of_category f Shoes xs)
     + mset (of_category f Accessory xs) + mset (of_category f Underwear xs)
     + mset (of_category f OtherCategory xs)"
proof (induction xs)
  case (Cons x xs)
  then show ?case by (cases "f x") simp_all
qed simp

lemma at_most_one_option:
  assumes "length (of_category f c xs) \<le> 1"
  obtains z where "of_category f c xs = option_push [] z" and "is_none_or (\<lambda>i. f i = c) z"
proof (cases "of_category f c xs")
  case Nil
  then show ?thesis by (intro that [of None]) (auto simp: option_push_def is_none_or_def)
next
  case (Cons i rest)
  with assms have one: "of_category f c xs = [i]" by simp
  then have "i \<in> set (of_category f c xs)" by simp
  then have "i \<in> set xs \<and> f i = c" by simp
  with one show ?thesis by (intro that [of "Some i"]) (auto simp: option_push_def is_none_or_def)
qed

lemma exactly_one:
  assumes "length (of_category f c xs) = 1"
  obtains i where "of_category f c xs = [i]" and "i \<in> set xs" and "f i = c"
proof -
  from assms obtain i where i: "of_category f c xs = [i]"
    by (metis One_nat_def length_0_conv length_Suc_conv)
  then have "i \<in> set (of_category f c xs)" by simp
  then have "i \<in> set xs" "f i = c" by simp_all
  with i that show ?thesis by blast
qed

text \<open>The bases the search enumerates, as a predicate on the base.\<close>

definition base_shape :: "('i \<Rightarrow> item_category) \<Rightarrow> 'i list \<Rightarrow> bool" where
  "base_shape f base \<longleftrightarrow>
     (\<exists>d. base = [d] \<and> f d = Dress) \<or> (\<exists>t b. base = [t, b] \<and> f t = Top \<and> f b = Bottom)
     \<or> (\<exists>a. base = [a] \<and> f a = Activewear)"

lemma coherent_base_part:
  assumes "coherent_categories (map f xs)"
  obtains base where "base_shape f base"
    "mset base = mset (of_category f Dress xs) + mset (of_category f Top xs)
       + mset (of_category f Bottom xs) + mset (of_category f Activewear xs)"
proof -
  let ?n = "\<lambda>c. length (of_category f c xs)"
  have "(?n Dress = 1 \<and> ?n Top = 0 \<and> ?n Bottom = 0 \<and> ?n Activewear = 0)
      \<or> (?n Dress = 0 \<and> ?n Top = 1 \<and> ?n Bottom = 1 \<and> ?n Activewear = 0)
      \<or> (?n Dress = 0 \<and> ?n Top = 0 \<and> ?n Bottom = 0 \<and> ?n Activewear = 1)"
    using assms by (auto simp: coherent_categories_def cat_count_map Let_def split: if_splits)
  then consider (dress) "?n Dress = 1" "?n Top = 0" "?n Bottom = 0" "?n Activewear = 0"
    | (separates) "?n Dress = 0" "?n Top = 1" "?n Bottom = 1" "?n Activewear = 0"
    | (active) "?n Dress = 0" "?n Top = 0" "?n Bottom = 0" "?n Activewear = 1"
    by blast
  then show ?thesis
  proof cases
    case dress
    from exactly_one [OF dress(1)] obtain d
      where "of_category f Dress xs = [d]" "d \<in> set xs" "f d = Dress" .
    with dress show ?thesis by (intro that [of "[d]"]) (simp_all add: base_shape_def)
  next
    case separates
    from exactly_one [OF separates(2)] obtain t
      where "of_category f Top xs = [t]" "t \<in> set xs" "f t = Top" .
    moreover from exactly_one [OF separates(3)] obtain b
      where "of_category f Bottom xs = [b]" "b \<in> set xs" "f b = Bottom" .
    ultimately show ?thesis using separates
      by (intro that [of "[t, b]"]) (simp_all add: base_shape_def)
  next
    case active
    from exactly_one [OF active(4)] obtain a
      where "of_category f Activewear xs = [a]" "a \<in> set xs" "f a = Activewear" .
    with active show ?thesis by (intro that [of "[a]"]) (simp_all add: base_shape_def)
  qed
qed

lemma coherent_outfit_shape:
  assumes coh: "coherent_categories (map f xs)" and noacc: "\<forall>i\<in>set xs. f i \<noteq> Accessory"
  obtains base outer shoe where "base_shape f base"
    "is_none_or (\<lambda>i. f i = Outerwear) outer" "is_none_or (\<lambda>i. f i = Shoes) shoe"
    "mset xs = mset (option_push (option_push base outer) shoe)"
proof -
  have empty: "of_category f Accessory xs = []" "of_category f Underwear xs = []"
    "of_category f OtherCategory xs = []"
    and le: "length (of_category f Outerwear xs) \<le> 1" "length (of_category f Shoes xs) \<le> 1"
    using coh noacc by (auto simp: coherent_categories_def cat_count_map filter_empty_conv split: if_splits)
  obtain base where base: "base_shape f base"
    "mset base = mset (of_category f Dress xs) + mset (of_category f Top xs)
       + mset (of_category f Bottom xs) + mset (of_category f Activewear xs)"
    using coherent_base_part [OF coh] by blast
  obtain outer where outer: "of_category f Outerwear xs = option_push [] outer"
    "is_none_or (\<lambda>i. f i = Outerwear) outer"
    using at_most_one_option [OF le(1)] by blast
  obtain shoe where shoe: "of_category f Shoes xs = option_push [] shoe"
    "is_none_or (\<lambda>i. f i = Shoes) shoe"
    using at_most_one_option [OF le(2)] by blast
  have "mset xs = mset base + mset (option_push [] outer) + mset (option_push [] shoe)"
    using mset_by_category [of xs f] by (simp add: empty base(2) flip: outer(1) shoe(1))
  then have "mset xs = mset (option_push (option_push base outer) shoe)"
    by (auto simp: option_push_def split: option.splits)
  with base outer shoe that show ?thesis by blast
qed

lemma coherent_option_push:
  assumes base: "base_shape f base"
    and outer: "is_none_or (\<lambda>i. f i = Outerwear) outer" and shoe: "is_none_or (\<lambda>i. f i = Shoes) shoe"
  shows "coherent_categories (map f (option_push (option_push base outer) shoe))
    \<and> (\<forall>i\<in>set (option_push (option_push base outer) shoe). f i \<noteq> Accessory)
    \<and> distinct (option_push (option_push base outer) shoe)"
proof -
  consider (d) d where "base = [d]" "f d = Dress"
    | (tb) t b where "base = [t, b]" "f t = Top" "f b = Bottom"
    | (a) a where "base = [a]" "f a = Activewear"
    using base unfolding base_shape_def by blast
  then show ?thesis
    by cases (use outer shoe in \<open>cases outer; cases shoe;
        auto simp: is_none_or_def option_push_def coherent_categories_def cat_count_def\<close>)+
qed

section \<open>Rules that judge a selection\<close>

locale selection_rule =
  fixes met :: "constraint_kind \<Rightarrow> recommendation_constraints \<Rightarrow> 'i list \<Rightarrow> bool"
    and category :: "'i \<Rightarrow> item_category"
  assumes met_perm: "mset xs = mset ys \<Longrightarrow> met k c xs = met k c ys"
    and met_drop_accessories:
      "met k c xs \<Longrightarrow> met k c (filter (\<lambda>i. category i \<noteq> Accessory) xs)"
    and met_implicit: "k \<notin> set (explicit_constraint_kinds c) \<Longrightarrow> met k c xs"
begin

lemma met_explicit_iff: "(\<forall>k\<in>set (explicit_constraint_kinds c). met k c xs) \<longleftrightarrow> (\<forall>k. met k c xs)"
  using met_implicit by blast

lemma all_met_perm: "mset xs = mset ys \<Longrightarrow> (\<forall>k. met k c xs) \<longleftrightarrow> (\<forall>k. met k c ys)"
  using met_perm by blast

lemma all_met_canonical:
  assumes coh: "coherent_categories (map category xs)"
    and "\<forall>i\<in>set xs. category i \<noteq> Accessory" and met: "\<forall>k. met k c xs"
  obtains base outer shoe where "base_shape category base"
    "is_none_or (\<lambda>i. category i = Outerwear) outer" "is_none_or (\<lambda>i. category i = Shoes) shoe"
    "set (option_push (option_push base outer) shoe) = set xs"
    "length (option_push (option_push base outer) shoe) = length xs"
    "\<forall>k. met k c (option_push (option_push base outer) shoe)"
proof -
  obtain base outer shoe where shape: "base_shape category base"
    "is_none_or (\<lambda>i. category i = Outerwear) outer" "is_none_or (\<lambda>i. category i = Shoes) shoe"
    "mset xs = mset (option_push (option_push base outer) shoe)"
    using coherent_outfit_shape [OF assms(1,2)] by blast
  moreover have "length (option_push (option_push base outer) shoe) = length xs"
    "set (option_push (option_push base outer) shoe) = set xs"
    using shape(4) by (metis size_mset, metis mset_eq_setD)
  moreover have "\<forall>k. met k c (option_push (option_push base outer) shoe)"
    using met all_met_perm [OF shape(4)] by blast
  ultimately show ?thesis using that by blast
qed

end

lemma list_ex_mset: "mset xs = mset ys \<Longrightarrow> list_ex p xs = list_ex p ys"
  by (metis list_ex_iff mset_eq_setD)

lemma coherent_categories_mset:
  "mset xs = mset ys \<Longrightarrow> coherent_categories xs = coherent_categories ys"
proof -
  assume "mset xs = mset ys"
  then have "cat_count c xs = cat_count c ys" for c
    unfolding cat_count_def by (metis mset_filter size_mset)
  then show ?thesis by (simp add: coherent_categories_def)
qed

lemma coherent_drop_accessories:
  "coherent_categories (map f xs) \<Longrightarrow>
     coherent_categories (map f (filter (\<lambda>i. f i \<noteq> Accessory) xs))"
  by (auto simp: coherent_categories_def cat_count_map Let_def conj_commute cong: conj_cong
      split: if_splits)

lemma occasion_met_mset: "mset xs = mset ys \<Longrightarrow> occasion_met oc xs = occasion_met oc ys"
  using coherent_categories_mset [of xs ys] mset_eq_setD [of xs ys]
  by (simp add: occasion_met_def)

lemma temperature_met_mset:
  assumes "mset xs = mset ys"
  shows "temperature_met t xs = temperature_met t ys"
proof -
  have "list_ex p xs = list_ex p ys" for p by (rule list_ex_mset [OF assms])
  then show ?thesis unfolding temperature_met_def by simp
qed

lemma precipitation_met_mset:
  assumes "mset xs = mset ys"
  shows "precipitation_met p xs = precipitation_met p ys"
proof -
  have "list_ex q xs = list_ex q ys" for q by (rule list_ex_mset [OF assms])
  then show ?thesis
    unfolding precipitation_met_def by (simp split: outfit_precipitation.split)
qed

lemma signature_rule: "selection_rule signature_constraint_met sg_category"
proof
  fix xs ys :: "item_signature list" and k c
  assume "mset xs = mset ys"
  then have eq: "mset (map g xs) = mset (map g ys)" for g :: "item_signature \<Rightarrow> 'b"
    by simp
  show "signature_constraint_met k c xs = signature_constraint_met k c ys"
    by (cases k) (simp_all add: is_none_or_def occasion_met_mset [OF eq] temperature_met_mset [OF eq]
        precipitation_met_mset [OF eq] cong: option.case_cong)
next
  fix xs :: "item_signature list" and k c
  assume "signature_constraint_met k c xs"
  then show "signature_constraint_met k c (filter (\<lambda>i. sg_category i \<noteq> Accessory) xs)"
    by (cases k)
      (auto simp: is_none_or_def occasion_met_def temperature_met_def precipitation_met_def
        list_ex_iff Let_def coherent_drop_accessories
        split: option.splits outfit_occasion.splits outfit_precipitation.splits if_splits)
next
  fix xs :: "item_signature list" and k c
  assume "k \<notin> set (explicit_constraint_kinds c)"
  then show "signature_constraint_met k c xs"
    by (cases k) (auto simp: explicit_constraint_kinds_def is_none_or_def split: option.splits)
qed

interpretation sig: selection_rule signature_constraint_met sg_category
  by (rule signature_rule)

text \<open>An item is judged through its signature only.\<close>

lemma constraint_met_signature:
  "constraint_met k c sel = signature_constraint_met k c (map signature_from_item sel)"
  by (cases k) (simp_all add: signature_from_item_def o_def)

lemma sg_category_from_item [simp]: "sg_category (signature_from_item i) = si_category i"
  by (simp add: signature_from_item_def)


section \<open>The search decides satisfiability\<close>

lemma set_collect_signatures:
  "set (collect_signatures acc items) = set acc \<union> signature_from_item ` set items"
  by (induction acc items rule: collect_signatures.induct) (auto simp: Let_def)

lemma set_candidate_bases:
  "base \<in> set (candidate_bases signatures) \<longleftrightarrow> base_shape sg_category base \<and> set base \<subseteq> set signatures"
  by (auto simp: candidate_bases_def base_shape_def Let_def)

lemma signature_constraints_met_iff:
  "signature_constraints_met target c sel \<longleftrightarrow> (\<forall>k. signature_constraint_met k c sel)"
  unfolding signature_constraints_met_def list_all_iff by (metis sig.met_implicit)

lemma constraint_satisfiable_signatures:
  "constraint_satisfiable target c eligible \<longleftrightarrow>
     (\<exists>base outer shoe. base_shape sg_category base
        \<and> is_none_or (\<lambda>i. sg_category i = Outerwear) outer \<and> is_none_or (\<lambda>i. sg_category i = Shoes) shoe
        \<and> set (option_push (option_push base outer) shoe) \<subseteq> signature_from_item ` set eligible
        \<and> 2 \<le> length (option_push (option_push base outer) shoe)
        \<and> (\<forall>k. signature_constraint_met k c (option_push (option_push base outer) shoe)))"
    (is "_ \<longleftrightarrow> (\<exists>base outer shoe. ?ok base outer shoe)")
proof -
  define S where "S = sort_key signature_key (collect_signatures [] eligible)"
  have S: "set S = signature_from_item ` set eligible"
    by (simp add: S_def set_collect_signatures)
  define opts where "opts c = None # map Some (filter (\<lambda>v. sg_category v = c) S)" for c
  have opts: "z \<in> set (opts c) \<longleftrightarrow> is_none_or (\<lambda>i. sg_category i = c) z \<and> set_option z \<subseteq> set S" for z c
    by (cases z) (auto simp: opts_def is_none_or_def)
  have push: "set (option_push (option_push b z) w) = set b \<union> set_option z \<union> set_option w"
    for b :: "item_signature list" and z w
    by (auto simp: option_push_def split: option.splits)
  have "constraint_satisfiable target c eligible \<longleftrightarrow>
     (\<exists>base\<in>set (candidate_bases S). \<exists>outer\<in>set (opts Outerwear). \<exists>shoe\<in>set (opts Shoes).
        2 \<le> length (option_push (option_push base outer) shoe)
        \<and> (\<forall>k. signature_constraint_met k c (option_push (option_push base outer) shoe)))"
    unfolding constraint_satisfiable_def Let_def list_ex_iff signature_constraints_met_iff
      min_recommendation_items_def S_def [symmetric] opts_def [symmetric] by (simp add: not_less)
  also have "\<dots> \<longleftrightarrow> (\<exists>base outer shoe. ?ok base outer shoe)"
    unfolding Bex_def set_candidate_bases opts push S by (intro iff_exI) blast
  finally show ?thesis .
qed

lemma lift_selection:
  assumes "set sigs \<subseteq> f ` A"
  obtains sel where "set sel \<subseteq> A" "map f sel = sigs"
proof -
  from assms have "\<exists>sel. set sel \<subseteq> A \<and> map f sel = sigs"
  proof (induction sigs)
    case (Cons s sigs)
    then obtain sel a where "set sel \<subseteq> A" "map f sel = sigs" "a \<in> A" "s = f a" by auto
    then show ?case by (intro exI [of _ "a # sel"]) simp
  qed simp
  with that show ?thesis by blast
qed

lemma coherent_signatures:
  "coherent_base sel \<longleftrightarrow> coherent_categories (map sg_category (map signature_from_item sel))"
  by (simp add: coherent_base_def o_def)

lemma constraint_satisfiable_sound:
  assumes "constraint_satisfiable target c eligible"
  obtains sel where "set sel \<subseteq> set eligible" "distinct sel" "2 \<le> length sel" "coherent_base sel"
    "Accessory \<notin> si_category ` set sel" "\<forall>k. constraint_met k c sel"
proof -
  from assms obtain base outer shoe where w: "base_shape sg_category base"
      "is_none_or (\<lambda>i. sg_category i = Outerwear) outer" "is_none_or (\<lambda>i. sg_category i = Shoes) shoe"
      "set (option_push (option_push base outer) shoe) \<subseteq> signature_from_item ` set eligible"
      "2 \<le> length (option_push (option_push base outer) shoe)"
      "\<forall>k. signature_constraint_met k c (option_push (option_push base outer) shoe)"
    unfolding constraint_satisfiable_signatures by blast
  define cand where "cand = option_push (option_push base outer) shoe"
  obtain sel where sel: "set sel \<subseteq> set eligible" "map signature_from_item sel = cand"
    using lift_selection [OF w(4)] unfolding cand_def by blast
  note shape = coherent_option_push [OF w(1-3), folded cand_def, folded sel(2)]
  have "distinct sel" using shape by (simp add: distinct_map)
  moreover have "coherent_base sel" using shape by (simp add: coherent_signatures)
  moreover have "Accessory \<notin> si_category ` set sel" using shape by auto
  moreover have "\<forall>k. constraint_met k c sel"
    using w(6) unfolding constraint_met_signature sel(2) cand_def .
  moreover have "2 \<le> length sel" using w(5) sel(2) unfolding cand_def by (metis length_map)
  ultimately show ?thesis
    using sel(1) that by blast
qed

lemma constraint_satisfiable_complete:
  assumes sel: "set sel \<subseteq> set eligible" "2 \<le> length sel" "coherent_base sel"
    "Accessory \<notin> si_category ` set sel" "\<forall>k. constraint_met k c sel"
  shows "constraint_satisfiable target c eligible"
proof -
  let ?sigs = "map signature_from_item sel"
  have "\<forall>i\<in>set ?sigs. sg_category i \<noteq> Accessory"
    using sel(4) by (force simp: image_iff)
  moreover have "coherent_categories (map sg_category ?sigs)" "\<forall>k. signature_constraint_met k c ?sigs"
    using sel(3,5) by (auto simp: coherent_signatures simp flip: constraint_met_signature)
  ultimately obtain base outer shoe where w: "base_shape sg_category base"
    "is_none_or (\<lambda>i. sg_category i = Outerwear) outer" "is_none_or (\<lambda>i. sg_category i = Shoes) shoe"
    "set (option_push (option_push base outer) shoe) = set ?sigs"
    "length (option_push (option_push base outer) shoe) = length ?sigs"
    "\<forall>k. signature_constraint_met k c (option_push (option_push base outer) shoe)"
    using sig.all_met_canonical by blast
  have "set ?sigs \<subseteq> signature_from_item ` set eligible" "2 \<le> length ?sigs"
    using sel(1,2) by auto
  with w show ?thesis
    unfolding constraint_satisfiable_signatures by metis
qed

text \<open>
  C1: the search over signatures decides exactly whether the eligible items contain an outfit
  without accessories, of at least two items, that is coherent and meets every explicit constraint
  at once. In particular the answer does not depend on which constraint it is asked for.
\<close>

theorem constraint_satisfiable_iff:
  "constraint_satisfiable target c eligible \<longleftrightarrow>
     (\<exists>sel. set sel \<subseteq> set eligible \<and> distinct sel \<and> 2 \<le> length sel \<and> coherent_base sel
        \<and> Accessory \<notin> si_category ` set sel \<and> (\<forall>k. constraint_met k c sel))"
  using constraint_satisfiable_sound constraint_satisfiable_complete by metis

section \<open>The gate accepts exactly the grounded answers\<close>

text \<open>
  What an accepted proposal promises, without reference to the loops of the code: its ids name
  distinct eligible items, the items form a coherent outfit, the assessment lists every explicit
  constraint with its true status, a constraint is left unresolved only when the wardrobe cannot
  satisfy it, and then the fixed caveat is among the caveats shown to the user.
\<close>

definition assess :: "recommendation_constraints \<Rightarrow> snapshot_item list \<Rightarrow> constraint_kind \<Rightarrow>
    constraint_assessment" where
  "assess c sel k = (if constraint_met k c sel then satisfied_assessment k else unresolved_assessment k)"

definition unmet :: "recommendation_constraints \<Rightarrow> snapshot_item list \<Rightarrow> constraint_kind list" where
  "unmet c sel = filter (\<lambda>k. \<not> constraint_met k c sel) (explicit_constraint_kinds c)"

definition grounded_proposal ::
  "recommendation_constraints \<Rightarrow> snapshot_item list \<Rightarrow> outfit_proposal \<Rightarrow> bool" where
  "grounded_proposal c eligible p \<longleftrightarrow>
     (\<exists>sel. map si_item_id sel = op_item_ids p \<and> distinct (op_item_ids p) \<and> set sel \<subseteq> set eligible
        \<and> coherent_base sel
        \<and> (\<forall>k\<in>set (unmet c sel). \<not> constraint_satisfiable k c eligible)
        \<and> op_constraint_assessment p = map (assess c sel) (explicit_constraint_kinds c)
        \<and> op_unresolved_constraints p = map unresolved_assessment (unmet c sel)
        \<and> (unmet c sel \<noteq> [] \<longrightarrow> outfit_unsatisfiable_caveat_v1 \<in> set (op_caveats p)))"

definition eligible_items :: "recommendation_envelope \<Rightarrow> recommendation_snapshot \<Rightarrow> snapshot_item list" where
  "eligible_items envelope snapshot =
     filter (\<lambda>i. si_active i \<and> si_item_id i \<notin> set (re_excluded_item_ids envelope)) (sn_items snapshot)"

lemma recompute_loop_Ok:
  "recompute_loop c eligible sel acc ks = Ok out \<longleftrightarrow>
     out = acc @ map (assess c sel) ks
     \<and> (\<forall>k\<in>set ks. constraint_met k c sel \<or> \<not> constraint_satisfiable k c eligible)"
  by (induction ks arbitrary: acc) (auto simp: assess_def)

lemma item_by_id_Some:
  assumes "distinct (map si_item_id items)"
  shows "item_by_id items x = Some i \<longleftrightarrow> i \<in> set items \<and> si_item_id i = x"
proof -
  let ?ps = "rev (map (\<lambda>i. (si_item_id i, i)) items)"
  have "distinct (map fst ?ps)" using assms by (simp add: rev_map [symmetric] o_def)
  then have "map_of ?ps x = Some i \<longleftrightarrow> (x, i) \<in> set ?ps" by (rule map_of_eq_Some_iff)
  then show ?thesis by (auto simp: item_by_id_def)
qed

lemma select_items_Ok:
  assumes dist: "distinct (map si_item_id items)"
  shows "select_items (item_by_id items) excl seen acc ids = Ok out \<longleftrightarrow>
    (\<exists>sel. out = acc @ sel \<and> map si_item_id sel = ids \<and> distinct ids \<and> set ids \<inter> seen = {}
       \<and> (\<forall>i\<in>set sel. i \<in> set items \<and> si_active i \<and> si_item_id i \<notin> excl))"
proof (induction ids arbitrary: seen acc)
  case (Cons x ids)
  show ?case (is "?lhs \<longleftrightarrow> ?rhs")
  proof
    assume ?lhs
    then obtain i where i: "x \<notin> seen" "item_by_id items x = Some i" "si_active i" "x \<notin> excl"
      "select_items (item_by_id items) excl (insert x seen) (acc @ [i]) ids = Ok out"
      by (auto simp: and_then_Ok split: if_splits)
    then obtain sel where "out = (acc @ [i]) @ sel" "map si_item_id sel = ids" "distinct ids"
      "set ids \<inter> insert x seen = {}" "\<forall>j\<in>set sel. j \<in> set items \<and> si_active j \<and> si_item_id j \<notin> excl"
      using Cons.IH by blast
    with i show ?rhs
      by (intro exI [of _ "i # sel"]) (auto simp: item_by_id_Some [OF dist])
  next
    assume ?rhs
    then obtain i sel where sel: "out = acc @ i # sel" "si_item_id i = x" "map si_item_id sel = ids"
      "distinct (x # ids)" "set (x # ids) \<inter> seen = {}" "i \<in> set items" "si_active i" "x \<notin> excl"
      "\<forall>j\<in>set sel. j \<in> set items \<and> si_active j \<and> si_item_id j \<notin> excl"
      by (auto simp: map_eq_Cons_conv)
    then have "item_by_id items x = Some i" by (simp add: item_by_id_Some [OF dist])
    moreover have "select_items (item_by_id items) excl (insert x seen) (acc @ [i]) ids = Ok out"
      unfolding Cons.IH using sel by (intro exI [of _ sel]) auto
    ultimately show ?lhs using sel by (simp add: ok_or_def)
  qed
qed auto

lemma unresolved_of_assess:
  "filter (\<lambda>a. ca_status a = Unresolved) (map (assess c sel) ks) =
     map unresolved_assessment (filter (\<lambda>k. \<not> constraint_met k c sel) ks)"
  by (induction ks) (auto simp: assess_def satisfied_assessment_def unresolved_assessment_def)

lemma check_proposal_Ok:
  assumes dist: "distinct (map si_item_id items)"
    and elig: "eligible = filter (\<lambda>i. si_active i \<and> si_item_id i \<notin> excl) items"
  shows "check_proposal c (item_by_id items) excl eligible p = Ok q \<longleftrightarrow>
    q = p \<and> grounded_proposal c eligible p"
proof -
  have sel: "select_items (item_by_id items) excl {} [] ids = Ok out \<longleftrightarrow>
      map si_item_id out = ids \<and> distinct ids \<and> set out \<subseteq> set eligible" for ids out
    unfolding select_items_Ok [OF dist] elig by auto
  have caveat: "list_ex (\<lambda>a. case ca_caveat a of None \<Rightarrow> False
        | Some caveat \<Rightarrow> \<not> list_ex (\<lambda>v. v = caveat) (op_caveats p)) (map unresolved_assessment ks)
      \<longleftrightarrow> ks \<noteq> [] \<and> outfit_unsatisfiable_caveat_v1 \<notin> set (op_caveats p)" for ks
    by (cases ks) (auto simp: list_ex_iff unresolved_assessment_def)
  have "check_proposal c (item_by_id items) excl eligible p = Ok q \<longleftrightarrow>
      (\<exists>sel. select_items (item_by_id items) excl {} [] (op_item_ids p) = Ok sel \<and> coherent_base sel
        \<and> recompute_constraint_assessment c eligible sel = Ok (op_constraint_assessment p)
        \<and> op_unresolved_constraints p =
            filter (\<lambda>a. ca_status a = Unresolved) (op_constraint_assessment p)
        \<and> \<not> list_ex (\<lambda>a. case ca_caveat a of None \<Rightarrow> False
            | Some caveat \<Rightarrow> \<not> list_ex (\<lambda>v. v = caveat) (op_caveats p)) (op_unresolved_constraints p)
        \<and> q = p)"
    by (auto simp: check_proposal_def and_then_Ok Let_def)
  also have "\<dots> \<longleftrightarrow> q = p \<and> grounded_proposal c eligible p"
    unfolding sel grounded_proposal_def recompute_constraint_assessment_def recompute_loop_Ok
    by (auto simp: unresolved_of_assess caveat unmet_def)
  finally show ?thesis .
qed

lemma check_proposals_Ok:
  assumes "\<And>p q. check p = Ok q \<longleftrightarrow> q = p \<and> good p"
  shows "check_proposals check acc ps = Ok out \<longleftrightarrow> out = acc @ ps \<and> (\<forall>p\<in>set ps. good p)"
  by (induction ps arbitrary: acc) (auto simp: and_then_Ok assms)

lemma snapshot_validate_distinct:
  "snapshot_validate s = Ok () \<Longrightarrow> distinct (map si_item_id (sn_items s))"
  by (simp add: snapshot_validate_def result_simps)

lemma gate_Ok_iff:
  "validate_outfit_proposal_v1 envelope snapshot answer = Ok v \<longleftrightarrow>
     v = answer
     \<and> envelope_validate envelope = Ok () \<and> snapshot_validate snapshot = Ok ()
     \<and> structured_validate answer = Ok ()
     \<and> re_expected_catalog_revision envelope = sn_catalog_revision snapshot
     \<and> sr_catalog_revision answer = sn_catalog_revision snapshot
     \<and> re_expected_outfit_revision envelope = sn_outfit_revision snapshot
     \<and> sr_outfit_revision answer = sn_outfit_revision snapshot
     \<and> length (sr_proposals answer) = unat (re_requested_proposal_count envelope)
     \<and> list_all (grounded_proposal (re_constraints envelope) (eligible_items envelope snapshot))
         (sr_proposals answer)"
proof (cases "snapshot_validate snapshot = Ok ()")
  case True
  note check = check_proposal_Ok [OF snapshot_validate_distinct [OF True] refl,
      where excl = "set (re_excluded_item_ids envelope)", folded eligible_items_def]
  show ?thesis
    unfolding validate_outfit_proposal_v1_def and_then_Ok map_err_Ok Let_def
      eligible_items_def [symmetric]
    by (auto simp: and_then_Ok check_proposals_Ok [OF check] True list_all_iff)
qed (simp add: validate_outfit_proposal_v1_def and_then_Ok)


text \<open>
  C2: the gate returns a recommendation exactly when every message is well formed, all revisions
  agree with the snapshot, the requested number of proposals is present and every proposal is
  grounded; what it returns is the provider's answer, unchanged.
\<close>

theorem validate_outfit_proposal_iff:
  "validate_outfit_proposal_v1 envelope snapshot answer = Ok v \<longleftrightarrow>
     v = answer
     \<and> envelope_validate envelope = Ok () \<and> snapshot_validate snapshot = Ok ()
     \<and> structured_validate answer = Ok ()
     \<and> re_expected_catalog_revision envelope = sn_catalog_revision snapshot
     \<and> sr_catalog_revision answer = sn_catalog_revision snapshot
     \<and> re_expected_outfit_revision envelope = sn_outfit_revision snapshot
     \<and> sr_outfit_revision answer = sn_outfit_revision snapshot
     \<and> length (sr_proposals answer) = unat (re_requested_proposal_count envelope)
     \<and> list_all (grounded_proposal (re_constraints envelope) (eligible_items envelope snapshot))
         (sr_proposals answer)"
  by (rule gate_Ok_iff)


section \<open>Accessories\<close>
















section \<open>Capability tags\<close>

text \<open>
  Of the free-form tags on an item exactly the known capability tags survive, each once and in
  their fixed order, whatever the order and repetition of the input.
\<close>

theorem allowlisted_capability_tags:
  "set (allowlisted_outfit_capability_tags tags) = {t. capability_tag_as_str t \<in> set tags}
   \<and> sorted (allowlisted_outfit_capability_tags tags)
   \<and> distinct (allowlisted_outfit_capability_tags tags)
   \<and> allowlisted_outfit_capability_tags
        (map capability_tag_as_str (allowlisted_outfit_capability_tags tags))
      = allowlisted_outfit_capability_tags tags"
proof -
  have keep: "set (List.map_filter parse_capability_tag ts) = {t. capability_tag_as_str t \<in> set ts}" for ts
    by (auto simp: set_map_filter parse_capability_tag_iff)
  have inj: "capability_tag_as_str a = capability_tag_as_str b \<longleftrightarrow> a = b" for a b
    by (cases a; cases b) simp_all
  have "sort_dedup (List.map_filter parse_capability_tag (map capability_tag_as_str ts)) = sort_dedup ts"
    for ts
    unfolding sort_dedup_eq keep by (auto simp: inj intro!: arg_cong [of _ _ sorted_list_of_set])
  moreover have "sort_dedup (sort_dedup ts) = sort_dedup ts" for ts :: "capability_tag list"
    by (simp add: sort_dedup_eq)
  ultimately show ?thesis by (simp add: allowlisted_outfit_capability_tags_def keep)
qed

end
