(* ===== verification/Update.thy ===== *)
theory Update
  imports Contracts
begin

text \<open>
  Update compatibility (\<open>update.rs\<close>): numeric versions, manifest and context validation and the
  decision whether a signed update may be installed over the running application.
\<close>

section \<open>Data\<close>

datatype update_channel = Personal | Development
datatype update_os = Macos | Linux | Windows
datatype update_architecture = Aarch64 | X86_64
datatype update_artifact_kind = MacosApplicationArchive

datatype update_failure =
    InvalidSchemaVersion | InvalidApplicationId | InvalidChannel | InvalidKeyId | InvalidReleaseId
  | InvalidReleaseSequence | InvalidVersion | InvalidSourceVersionRange | InvalidArtifactKind
  | InvalidArtifactLength | InvalidDatabaseLineage | InvalidTargetDatabase | InvalidFormatVersion
  | InvalidSigningKeyRange | InvalidPlatform | ApplicationMismatch | ChannelMismatch
  | PlatformMismatch | ArchitectureMismatch | MacosVersionUnsupported | SourceVersionUnsupported
  | TargetVersionNotNewer | ReleaseSequenceDowngrade | SigningKeyMismatch | SigningKeyOutOfRange
  | DatabaseLineageUnsupported | TargetDatabaseDowngrade | BackupFormatUnsupported
  | AssetManifestFormatUnsupported

datatype update_decision = Compatible | Rejected update_failure

type_synonym 'a update_result = "('a, update_failure) result"

record database_lineage =
  dl_schema_version :: u32
  dl_migration_prefix_sha256 :: rstr

record signing_key_range =
  sk_key_id :: rstr
  sk_minimum_release_sequence :: u64
  sk_maximum_release_sequence :: u64

record update_manifest =
  um_schema_version :: u8
  um_application_id :: rstr
  um_channel :: update_channel
  um_key_id :: rstr
  um_release_id :: rstr
  um_release_sequence :: u64
  um_target_version :: rstr
  um_target_os :: update_os
  um_target_architecture :: update_architecture
  um_minimum_macos_version :: rstr
  um_artifact_kind :: update_artifact_kind
  um_artifact_length :: u64
  um_artifact_sha256 :: rstr
  um_accepted_source_version_min :: rstr
  um_accepted_source_version_max :: rstr
  um_accepted_databases :: "database_lineage list"
  um_target_database_schema_version :: u32
  um_target_migration_prefix_sha256 :: rstr
  um_required_backup_format_version :: u8
  um_required_asset_manifest_version :: u8

record update_context =
  uc_application_id :: rstr
  uc_channel :: update_channel
  uc_application_version :: rstr
  uc_installed_release_sequence :: u64
  uc_operating_system :: update_os
  uc_architecture :: update_architecture
  uc_macos_version :: rstr
  uc_database :: database_lineage
  uc_supported_backup_format_version :: u8
  uc_supported_asset_manifest_version :: u8
  uc_signing_key :: signing_key_range

section \<open>Numeric versions\<close>

datatype numeric_version = NumericVersion (major: u32) (minor: u32) (patch: u32)

text \<open>The derived order compares the fields lexicographically.\<close>

definition version_key :: "numeric_version \<Rightarrow> u32 \<times> u32 \<times> u32" where
  "version_key v = (major v, minor v, patch v)"

lemma version_key_inj [simp]: "version_key a = version_key b \<longleftrightarrow> a = b"
  by (cases a; cases b) (simp add: version_key_def)

instantiation numeric_version :: linorder
begin

definition less_eq_numeric_version :: "numeric_version \<Rightarrow> numeric_version \<Rightarrow> bool" where
  "less_eq_numeric_version a b \<longleftrightarrow> version_key a \<le> version_key b"

definition less_numeric_version :: "numeric_version \<Rightarrow> numeric_version \<Rightarrow> bool" where
  "less_numeric_version a b \<longleftrightarrow> version_key a < version_key b"

instance
  by standard
    (auto simp: less_eq_numeric_version_def less_numeric_version_def less_le_not_le
      simp flip: version_key_inj)

end

definition u32_max :: nat where
  "u32_max = 4294967295"

definition parse_version_component :: "rstr option \<Rightarrow> u32 update_result" where
  "parse_version_component component =
     and_then (ok_or component InvalidVersion) (\<lambda>component.
       if component = [] \<or> (byte_len component > 1 \<and> take 1 component = lit ''0'')
       then Err InvalidVersion
       else and_then (ok_or (parse_uint u32_max component) InvalidVersion)
              (\<lambda>n. Ok (of_nat n)))"

definition nth_option :: "'a list \<Rightarrow> nat \<Rightarrow> 'a option" where
  "nth_option xs i = (if i < length xs then Some (xs ! i) else None)"

definition numeric_version_parse :: "rstr \<Rightarrow> numeric_version update_result" where
  "numeric_version_parse value =
     (if value = [] \<or> byte_len value > 64 \<or> \<not> is_ascii value
         \<or> list_ex (\<lambda>c. \<not> (is_ascii_digit c \<or> c = of_char (CHR ''.''))) value
      then Err InvalidVersion
      else
        (let components = split_on (of_char (CHR ''.'')) value in
         and_then (parse_version_component (nth_option components 0)) (\<lambda>a.
         and_then (parse_version_component (nth_option components 1)) (\<lambda>b.
         and_then (parse_version_component (nth_option components 2)) (\<lambda>c.
           if nth_option components 3 \<noteq> None then Err InvalidVersion
           else Ok (NumericVersion a b c))))))"

section \<open>Validation\<close>

definition validate_application_id :: "rstr \<Rightarrow> unit update_result" where
  "validate_application_id value =
     (let parts = split_on (of_char (CHR ''.'')) value in
      if byte_len value > 128 \<or> length parts < 3
         \<or> list_ex (\<lambda>part. part = []
             \<or> \<not> list_all (\<lambda>c. is_ascii_lowercase c \<or> is_ascii_digit c \<or> c = of_char (CHR ''-'')) part
             \<or> \<not> (case part of [] \<Rightarrow> False | c # _ \<Rightarrow> is_ascii_lowercase c)) parts
      then Err InvalidApplicationId else Ok ())"

definition validate_identifier :: "rstr \<Rightarrow> (unit, unit) result" where
  "validate_identifier value =
     (if value = [] \<or> byte_len value > 128 \<or> \<not> is_ascii value
         \<or> \<not> list_all (\<lambda>c. is_ascii_alphanumeric c \<or> c \<in> set (lit ''._-'')) value
      then Err () else Ok ())"

definition lineage_validate :: "database_lineage \<Rightarrow> unit update_result" where
  "lineage_validate l =
     (if dl_schema_version l = 0 then Err InvalidDatabaseLineage else Ok ())"

definition signing_key_range_validate :: "signing_key_range \<Rightarrow> unit update_result" where
  "signing_key_range_validate k =
     all_ok [map_err (\<lambda>_. InvalidKeyId) (validate_identifier (sk_key_id k)),
             ensure (\<not> (sk_minimum_release_sequence k = 0
                 \<or> sk_minimum_release_sequence k > sk_maximum_release_sequence k
                 \<or> sk_maximum_release_sequence k > max_safe_integer_v1))
               InvalidSigningKeyRange]"

text \<open>\<open>windows(2)\<close>: adjacent pairs.\<close>

fun any_window2 :: "('a \<Rightarrow> 'a \<Rightarrow> bool) \<Rightarrow> 'a list \<Rightarrow> bool" where
  "any_window2 p (x # y # zs) = (p x y \<or> any_window2 p (y # zs))"
| "any_window2 p _ = False"

definition validate_lineages :: "database_lineage list \<Rightarrow> unit update_result" where
  "validate_lineages lineages =
     (if lineages = [] \<or> length lineages > 128 then Err InvalidDatabaseLineage
      else all_ok
        [try_for_each lineage_validate lineages,
         ensure (\<not> any_window2 (\<lambda>a b. dl_schema_version a \<ge> dl_schema_version b) lineages)
           InvalidDatabaseLineage])"

definition manifest_validate :: "update_manifest \<Rightarrow> unit update_result" where
  "manifest_validate m =
     (if um_schema_version m \<noteq> 1 then Err InvalidSchemaVersion
      else and_then (validate_application_id (um_application_id m)) (\<lambda>_.
      and_then (map_err (\<lambda>_. InvalidKeyId) (validate_identifier (um_key_id m))) (\<lambda>_.
      and_then (map_err (\<lambda>_. InvalidReleaseId) (validate_identifier (um_release_id m))) (\<lambda>_.
      if um_release_sequence m = 0 \<or> um_release_sequence m > max_safe_integer_v1
      then Err InvalidReleaseSequence
      else and_then (numeric_version_parse (um_target_version m)) (\<lambda>target_version.
      and_then (numeric_version_parse (um_accepted_source_version_min m)) (\<lambda>source_min.
      and_then (numeric_version_parse (um_accepted_source_version_max m)) (\<lambda>source_max.
      and_then (numeric_version_parse (um_minimum_macos_version m)) (\<lambda>_.
      if source_min > source_max \<or> target_version < source_min
      then Err InvalidSourceVersionRange
      else if um_artifact_length m = 0 \<or> um_artifact_length m > 4 * 1024 * 1024 * 1024
         \<or> um_artifact_length m > max_safe_integer_v1
      then Err InvalidArtifactLength
      else and_then (validate_lineages (um_accepted_databases m)) (\<lambda>_.
      if um_target_database_schema_version m = 0 then Err InvalidTargetDatabase
      else if um_required_backup_format_version m = 0 \<or> um_required_asset_manifest_version m = 0
      then Err InvalidFormatVersion
      else Ok ())))))))))"

definition update_application_id_v1 :: rstr where
  "update_application_id_v1 = lit ''com.devrai.wardrobe''"

definition context_validate :: "update_context \<Rightarrow> unit update_result" where
  "context_validate c =
     and_then (validate_application_id (uc_application_id c)) (\<lambda>_.
     if uc_application_id c \<noteq> update_application_id_v1 then Err InvalidApplicationId
     else if uc_channel c \<noteq> Personal then Err InvalidChannel
     else and_then (numeric_version_parse (uc_application_version c)) (\<lambda>_.
     and_then (numeric_version_parse (uc_macos_version c)) (\<lambda>_.
     if uc_installed_release_sequence c = 0 \<or> uc_installed_release_sequence c > max_safe_integer_v1
     then Err InvalidReleaseSequence
     else if uc_operating_system c \<noteq> Macos then Err InvalidPlatform
     else and_then (lineage_validate (uc_database c)) (\<lambda>_.
     if uc_supported_backup_format_version c = 0 \<or> uc_supported_asset_manifest_version c = 0
     then Err InvalidFormatVersion
     else signing_key_range_validate (uc_signing_key c)))))"

section \<open>The decision\<close>

text \<open>
  The source unwraps the versions again with \<open>expect\<close>, which panics on an error. A panic is
  \<open>None\<close> here, so that its absence is a theorem and not a modelling choice.
\<close>

definition expect_version :: "rstr \<Rightarrow> numeric_version option" where
  "expect_version value =
     (case numeric_version_parse value of Ok v \<Rightarrow> Some v | Err _ \<Rightarrow> None)"

definition evaluate_update_compatibility ::
  "update_manifest \<Rightarrow> update_context \<Rightarrow> update_decision option" where
  "evaluate_update_compatibility m c =
     (case manifest_validate m of Err reason \<Rightarrow> Some (Rejected reason) | Ok _ \<Rightarrow>
     (case context_validate c of Err reason \<Rightarrow> Some (Rejected reason) | Ok _ \<Rightarrow>
      if um_application_id m \<noteq> uc_application_id c then Some (Rejected ApplicationMismatch)
      else if um_channel m \<noteq> uc_channel c then Some (Rejected ChannelMismatch)
      else if um_target_os m \<noteq> uc_operating_system c then Some (Rejected PlatformMismatch)
      else if um_target_architecture m \<noteq> uc_architecture c then Some (Rejected ArchitectureMismatch)
      else Option.bind (expect_version (um_minimum_macos_version m)) (\<lambda>minimum_macos_version.
      Option.bind (expect_version (uc_macos_version c)) (\<lambda>macos_version.
      if macos_version < minimum_macos_version then Some (Rejected MacosVersionUnsupported)
      else Option.bind (expect_version (uc_application_version c)) (\<lambda>source_version.
      Option.bind (expect_version (um_accepted_source_version_min m)) (\<lambda>source_min.
      Option.bind (expect_version (um_accepted_source_version_max m)) (\<lambda>source_max.
      if source_version < source_min \<or> source_version > source_max
      then Some (Rejected SourceVersionUnsupported)
      else Option.bind (expect_version (um_target_version m)) (\<lambda>target_version.
      if target_version \<le> source_version then Some (Rejected TargetVersionNotNewer)
      else if um_release_sequence m \<le> uc_installed_release_sequence c
      then Some (Rejected ReleaseSequenceDowngrade)
      else if um_key_id m \<noteq> sk_key_id (uc_signing_key c) then Some (Rejected SigningKeyMismatch)
      else if um_release_sequence m < sk_minimum_release_sequence (uc_signing_key c)
         \<or> um_release_sequence m > sk_maximum_release_sequence (uc_signing_key c)
      then Some (Rejected SigningKeyOutOfRange)
      else if \<not> list_ex (\<lambda>lineage. lineage = uc_database c) (um_accepted_databases m)
      then Some (Rejected DatabaseLineageUnsupported)
      else if um_target_database_schema_version m < dl_schema_version (uc_database c)
      then Some (Rejected TargetDatabaseDowngrade)
      else if um_required_backup_format_version m \<noteq> uc_supported_backup_format_version c
      then Some (Rejected BackupFormatUnsupported)
      else if um_required_asset_manifest_version m \<noteq> uc_supported_asset_manifest_version c
      then Some (Rejected AssetManifestFormatUnsupported)
      else Some Compatible))))))))"

end
