(* ===== verification/Update_Correctness.thy ===== *)
theory Update_Correctness
  imports Update
begin

text \<open>
  The version syntax is canonical, the decision never panics, and an update is compatible exactly
  under the conditions of the release policy; in particular it never downgrades anything.
\<close>

section \<open>Versions\<close>

abbreviation dot :: nat where
  "dot \<equiv> of_char (CHR ''.'')"

definition version_print :: "numeric_version \<Rightarrow> rstr" where
  "version_print v =
     join_on dot [show_digits (unat (major v)), show_digits (unat (minor v)), show_digits (unat (patch v))]"

lemma dot_not_digit: "46 \<notin> set (show_digits n)"
  using show_digits_ascii_digits [of n] by (auto simp: list_all_iff is_ascii_digit_def)

lemma length_show_digits: "n < 10 ^ Suc k \<Longrightarrow> length (show_digits n) \<le> Suc k"
proof (induction n arbitrary: k rule: show_digits.induct)
  case (1 n)
  show ?case
  proof (cases "n < 10")
    case False
    with "1.prems" obtain j where "k = Suc j" by (cases k) auto
    with "1.prems" have "n div 10 < 10 ^ Suc j" by auto
    from "1.IH" [OF False this] False \<open>k = Suc j\<close> show ?thesis by (subst show_digits.simps) simp
  qed (subst show_digits.simps, simp)
qed

lemma unat_u32_le: "unat (w :: u32) \<le> u32_max"
  using unsigned_less [of w, where 'a = nat] by (simp add: u32_max_def)

lemma length_show_u32: "length (show_digits (unat (w :: u32))) \<le> 10"
  using length_show_digits [of "unat w" 9] unat_u32_le [of w] by (simp add: u32_max_def)

lemma byte_len_digits: "list_all is_ascii_digit s \<Longrightarrow> byte_len s = length s"
  by (rule byte_len_ascii) (auto simp: is_ascii_def list_all_iff is_ascii_digit_def)

lemma parse_version_component_Ok:
  assumes "list_all is_ascii_digit s"
  shows "parse_version_component (Some s) = Ok w \<longleftrightarrow> s = show_digits (unat w)"
proof
  assume ok: "parse_version_component (Some s) = Ok w"
  then obtain n where n: "parse_uint u32_max s = Some n" "w = of_nat n"
    "s \<noteq> []" "\<not> (1 < length s \<and> take 1 s = [48])"
    by (auto simp: parse_version_component_def and_then_Ok lit_def byte_len_digits [OF assms]
        split: if_splits)
  then have "canonical_number s" using assms by (cases s) (auto simp: canonical_number_def)
  moreover have "n = digits_value s" "n \<le> u32_max" using parse_uint_digits [OF n(1) assms] by auto
  moreover have "unat w = n"
    unfolding n(2) using \<open>n \<le> u32_max\<close> by (simp add: unat_of_nat u32_max_def)
  ultimately show "s = show_digits (unat w)" by (simp add: show_digits_value)
next
  assume s: "s = show_digits (unat w)"
  then have "canonical_number s" by (simp add: canonical_show_digits)
  then have "s \<noteq> []" "\<not> (1 < length s \<and> take 1 s = [48])"
    by (cases s; auto simp: canonical_number_def)+
  then show "parse_version_component (Some s) = Ok w"
    using parse_uint_show [OF unat_u32_le, of w]
    by (auto simp: parse_version_component_def lit_def byte_len_digits [OF assms] ok_or_def simp flip: s)
qed

lemma version_chars:
  "list_all (\<lambda>c. is_ascii_digit c \<or> c = dot) s \<Longrightarrow> is_ascii s"
  by (auto simp: is_ascii_def list_all_iff is_ascii_digit_def)

lemma split_version_digits:
  assumes "list_all (\<lambda>c. is_ascii_digit c \<or> c = dot) s" and "p \<in> set (split_on dot s)"
  shows "list_all is_ascii_digit p"
  using split_on_parts [OF assms(2)] assms(1) by (auto simp: list_all_iff)

lemma three_parts:
  "nth_option xs 0 = Some a \<and> nth_option xs 1 = Some b \<and> nth_option xs 2 = Some c
     \<and> nth_option xs 3 = None \<longleftrightarrow> xs = [a, b, c]"
  by (auto simp: nth_option_def nth_Cons' length_Suc_conv numeral_eq_Suc not_less le_Suc_eq
      split: if_splits)

lemma numeric_version_parse_split:
  "numeric_version_parse s = Ok v \<longleftrightarrow>
     s \<noteq> [] \<and> length s \<le> 64 \<and> list_all (\<lambda>c. is_ascii_digit c \<or> c = dot) s
     \<and> (\<exists>a b c. split_on dot s = [a, b, c] \<and> parse_version_component (Some a) = Ok (major v)
          \<and> parse_version_component (Some b) = Ok (minor v)
          \<and> parse_version_component (Some c) = Ok (patch v))"
proof (cases "list_all (\<lambda>c. is_ascii_digit c \<or> c = dot) s")
  case True
  then have ascii: "is_ascii s" by (rule version_chars)
  have none: "parse_version_component None = Err InvalidVersion"
    by (simp add: parse_version_component_def ok_or_def)
  have part: "parse_version_component x = Ok w \<longleftrightarrow>
      (\<exists>p. x = Some p \<and> parse_version_component (Some p) = Ok w)" for x w
    by (cases x) (auto simp: none)
  have "numeric_version_parse s = Ok v \<longleftrightarrow> s \<noteq> [] \<and> length s \<le> 64 \<and>
      parse_version_component (nth_option (split_on dot s) 0) = Ok (major v) \<and>
      parse_version_component (nth_option (split_on dot s) 1) = Ok (minor v) \<and>
      parse_version_component (nth_option (split_on dot s) 2) = Ok (patch v) \<and>
      nth_option (split_on dot s) 3 = None"
    using True ascii
    by (cases v) (auto simp: numeric_version_parse_def and_then_Ok Let_def byte_len_ascii
        list_ex_iff list_all_iff)
  also have "\<dots> \<longleftrightarrow> s \<noteq> [] \<and> length s \<le> 64 \<and>
      (\<exists>a b c. split_on dot s = [a, b, c] \<and> parse_version_component (Some a) = Ok (major v)
          \<and> parse_version_component (Some b) = Ok (minor v)
          \<and> parse_version_component (Some c) = Ok (patch v))"
    unfolding three_parts [symmetric] by (subst (1 2 3) part) blast
  finally show ?thesis using True by simp
next
  case False
  then show ?thesis
    by (auto simp: numeric_version_parse_def list_all_iff list_ex_iff split: if_splits)
qed

lemma version_print_parts:
  "split_on dot (version_print v) =
     [show_digits (unat (major v)), show_digits (unat (minor v)), show_digits (unat (patch v))]"
  unfolding version_print_def
  by (rule split_join_on) (auto simp: dot_not_digit)

lemma parse_print_iff: "numeric_version_parse s = Ok v \<longleftrightarrow> s = version_print v"
proof
  assume ok: "numeric_version_parse s = Ok v"
  then obtain a b c where s: "list_all (\<lambda>c. is_ascii_digit c \<or> c = dot) s" "split_on dot s = [a, b, c]"
    and parts: "parse_version_component (Some a) = Ok (major v)"
      "parse_version_component (Some b) = Ok (minor v)" "parse_version_component (Some c) = Ok (patch v)"
    unfolding numeric_version_parse_split by blast
  have "list_all is_ascii_digit p" if "p \<in> {a, b, c}" for p
    using split_version_digits [OF s(1), of p] that s(2) by auto
  with parts have "[a, b, c] =
      [show_digits (unat (major v)), show_digits (unat (minor v)), show_digits (unat (patch v))]"
    by (simp add: parse_version_component_Ok)
  then show "s = version_print v"
    unfolding version_print_def using join_split_on [of dot s] s(2) by metis
next
  assume s: "s = version_print v"
  have digits: "list_all is_ascii_digit (show_digits n)" for n by (rule show_digits_ascii_digits)
  have "parse_version_component (Some (show_digits (unat w))) = Ok w" for w
    using parse_version_component_Ok [OF digits] by blast
  moreover have "s \<noteq> []" "length s \<le> 64" "list_all (\<lambda>c. is_ascii_digit c \<or> c = dot) s"
    using length_show_u32 [of "major v"] length_show_u32 [of "minor v"] length_show_u32 [of "patch v"]
      digits [of "unat (major v)"] digits [of "unat (minor v)"] digits [of "unat (patch v)"]
    by (auto simp: s version_print_def list_all_iff)
  ultimately show "numeric_version_parse s = Ok v"
    unfolding numeric_version_parse_split using version_print_parts by (auto simp: s)
qed

text \<open>
  C7: version strings are canonical. A string parses to a version exactly when it is the decimal
  print of that version, so parsing and printing are inverse and no two strings denote one version.
\<close>

theorem numeric_version_parse_iff: "numeric_version_parse s = Ok v \<longleftrightarrow> s = version_print v"
  by (rule parse_print_iff)

section \<open>Validation\<close>

lemma any_window2_sorted:
  "\<not> any_window2 (\<lambda>a b. f b \<le> f a) xs \<longleftrightarrow> sorted_wrt (<) (map f xs)" for f :: "'a \<Rightarrow> 'b::linorder"
proof -
  have "\<not> any_window2 (\<lambda>a b. f b \<le> f a) xs \<longleftrightarrow> successively (<) (map f xs)"
    by (induction "\<lambda>a b. f b \<le> f a" xs rule: any_window2.induct) (auto simp: not_le)
  then show ?thesis by (simp add: successively_conv_sorted_wrt)
qed

lemma validate_lineages_Ok [result_simps]:
  "validate_lineages ls = Ok u \<longleftrightarrow>
     ls \<noteq> [] \<and> length ls \<le> 128 \<and> (\<forall>l\<in>set ls. dl_schema_version l \<noteq> 0)
     \<and> sorted_wrt (<) (map dl_schema_version ls)"
  by (auto simp: validate_lineages_def lineage_validate_def result_simps any_window2_sorted)

lemma expect_version_Some [simp]: "expect_version s = Some v \<longleftrightarrow> numeric_version_parse s = Ok v"
  by (auto simp: expect_version_def split: result.splits)

lemma manifest_versions:
  assumes "manifest_validate m = Ok ()"
  obtains t lo hi mm where "numeric_version_parse (um_target_version m) = Ok t"
    "numeric_version_parse (um_accepted_source_version_min m) = Ok lo"
    "numeric_version_parse (um_accepted_source_version_max m) = Ok hi"
    "numeric_version_parse (um_minimum_macos_version m) = Ok mm" "lo \<le> hi" "lo \<le> t"
  using assms that
  by (auto simp: manifest_validate_def and_then_Ok not_less split: if_splits)

lemma context_versions:
  assumes "context_validate c = Ok ()"
  obtains s mv where "numeric_version_parse (uc_application_version c) = Ok s"
    "numeric_version_parse (uc_macos_version c) = Ok mv"
  using assms that
  by (auto simp: context_validate_def and_then_Ok split: if_splits)

text \<open>The release policy, on parsed versions.\<close>

definition update_permitted ::
  "update_manifest \<Rightarrow> update_context \<Rightarrow> numeric_version \<Rightarrow> numeric_version \<Rightarrow> numeric_version \<Rightarrow>
   numeric_version \<Rightarrow> numeric_version \<Rightarrow> numeric_version \<Rightarrow> bool" where
  "update_permitted m c target lo hi min_macos source macos \<longleftrightarrow>
     um_application_id m = uc_application_id c \<and> um_channel m = uc_channel c
     \<and> um_target_os m = uc_operating_system c \<and> um_target_architecture m = uc_architecture c
     \<and> min_macos \<le> macos \<and> lo \<le> source \<and> source \<le> hi \<and> source < target
     \<and> uc_installed_release_sequence c < um_release_sequence m
     \<and> um_key_id m = sk_key_id (uc_signing_key c)
     \<and> sk_minimum_release_sequence (uc_signing_key c) \<le> um_release_sequence m
     \<and> um_release_sequence m \<le> sk_maximum_release_sequence (uc_signing_key c)
     \<and> uc_database c \<in> set (um_accepted_databases m)
     \<and> dl_schema_version (uc_database c) \<le> um_target_database_schema_version m
     \<and> um_required_backup_format_version m = uc_supported_backup_format_version c
     \<and> um_required_asset_manifest_version m = uc_supported_asset_manifest_version c"

lemma evaluate_valid:
  assumes "manifest_validate m = Ok ()" and "context_validate c = Ok ()"
    and "numeric_version_parse (um_target_version m) = Ok t"
    and "numeric_version_parse (um_accepted_source_version_min m) = Ok lo"
    and "numeric_version_parse (um_accepted_source_version_max m) = Ok hi"
    and "numeric_version_parse (um_minimum_macos_version m) = Ok mm"
    and "numeric_version_parse (uc_application_version c) = Ok s"
    and "numeric_version_parse (uc_macos_version c) = Ok mv"
  shows "(evaluate_update_compatibility m c = Some Compatible \<longleftrightarrow> update_permitted m c t lo hi mm s mv)
    \<and> evaluate_update_compatibility m c \<noteq> None"
  using assms
  by (simp add: evaluate_update_compatibility_def expect_version_def update_permitted_def
      list_ex_iff not_le not_less)

lemma evaluate_invalid:
  assumes "\<not> (manifest_validate m = Ok () \<and> context_validate c = Ok ())"
  shows "\<exists>reason. evaluate_update_compatibility m c = Some (Rejected reason)"
  using assms
  by (cases "manifest_validate m"; cases "context_validate c")
    (simp_all add: evaluate_update_compatibility_def)

lemma compatible_permitted:
  assumes "evaluate_update_compatibility m c = Some Compatible"
  shows "validate_lineages (um_accepted_databases m) = Ok ()
    \<and> (\<exists>t lo hi mm s mv. update_permitted m c t lo hi mm s mv)"
proof -
  have ok: "manifest_validate m = Ok ()" "context_validate c = Ok ()"
    using assms evaluate_invalid [of m c] by auto
  obtain t lo hi mm where vm: "numeric_version_parse (um_target_version m) = Ok t"
    "numeric_version_parse (um_accepted_source_version_min m) = Ok lo"
    "numeric_version_parse (um_accepted_source_version_max m) = Ok hi"
    "numeric_version_parse (um_minimum_macos_version m) = Ok mm"
    by (rule manifest_versions [OF ok(1)])
  obtain s mv where vc: "numeric_version_parse (uc_application_version c) = Ok s"
    "numeric_version_parse (uc_macos_version c) = Ok mv"
    by (rule context_versions [OF ok(2)])
  have "update_permitted m c t lo hi mm s mv" using evaluate_valid [OF ok vm vc] assms by simp
  moreover have "validate_lineages (um_accepted_databases m) = Ok ()"
    using ok(1) by (auto simp: manifest_validate_def and_then_Ok split: if_splits)
  ultimately show ?thesis by blast
qed

section \<open>The decision\<close>

text \<open>
  C8: the decision is total. The versions that validation accepted parse again where the code
  unwraps them, so evaluating any manifest in any context never panics.
\<close>

theorem evaluate_update_never_panics: "evaluate_update_compatibility m c \<noteq> None"
proof (cases "manifest_validate m = Ok () \<and> context_validate c = Ok ()")
  case True
  obtain t lo hi mm where vm: "numeric_version_parse (um_target_version m) = Ok t"
    "numeric_version_parse (um_accepted_source_version_min m) = Ok lo"
    "numeric_version_parse (um_accepted_source_version_max m) = Ok hi"
    "numeric_version_parse (um_minimum_macos_version m) = Ok mm"
    by (rule manifest_versions [OF True [THEN conjunct1]])
  obtain s mv where vc: "numeric_version_parse (uc_application_version c) = Ok s"
    "numeric_version_parse (uc_macos_version c) = Ok mv"
    by (rule context_versions [OF True [THEN conjunct2]])
  show ?thesis using evaluate_valid [OF _ _ vm vc] True by simp
qed (use evaluate_invalid in force)

text \<open>
  C9: an update is compatible exactly when manifest and context are well formed and the release
  policy permits it: same application, channel and platform, an operating system that is new
  enough, an installed version within the accepted range and strictly older than the target, a
  strictly larger release sequence within the signing key's range, a database whose lineage is
  listed and not newer than the target schema, and equal backup and asset formats.
\<close>

theorem evaluate_update_compatible_iff:
  "evaluate_update_compatibility m c = Some Compatible \<longleftrightarrow>
     manifest_validate m = Ok () \<and> context_validate c = Ok ()
     \<and> (\<exists>t lo hi mm s mv. um_target_version m = version_print t
          \<and> um_accepted_source_version_min m = version_print lo
          \<and> um_accepted_source_version_max m = version_print hi
          \<and> um_minimum_macos_version m = version_print mm
          \<and> uc_application_version c = version_print s \<and> uc_macos_version c = version_print mv
          \<and> update_permitted m c t lo hi mm s mv)"
proof (cases "manifest_validate m = Ok () \<and> context_validate c = Ok ()")
  case True
  obtain t lo hi mm where vm: "numeric_version_parse (um_target_version m) = Ok t"
    "numeric_version_parse (um_accepted_source_version_min m) = Ok lo"
    "numeric_version_parse (um_accepted_source_version_max m) = Ok hi"
    "numeric_version_parse (um_minimum_macos_version m) = Ok mm"
    by (rule manifest_versions [OF True [THEN conjunct1]])
  obtain s mv where vc: "numeric_version_parse (uc_application_version c) = Ok s"
    "numeric_version_parse (uc_macos_version c) = Ok mv"
    by (rule context_versions [OF True [THEN conjunct2]])
  have "evaluate_update_compatibility m c = Some Compatible
      \<longleftrightarrow> update_permitted m c t lo hi mm s mv"
    using evaluate_valid [OF _ _ vm vc] True by simp
  then show ?thesis using True vm vc by (simp flip: parse_print_iff)
next
  case False
  then show ?thesis using evaluate_invalid [OF False] by auto
qed

text \<open>
  A well-formed manifest lists its accepted databases by strictly increasing schema version,
  so at most one lineage is accepted for a schema version and a compatible context is matched by
  exactly that one.
\<close>

theorem accepted_lineage_unique:
  assumes "evaluate_update_compatibility m c = Some Compatible"
    and "l \<in> set (um_accepted_databases m)" and "dl_schema_version l = dl_schema_version (uc_database c)"
  shows "l = uc_database c"
proof -
  have "validate_lineages (um_accepted_databases m) = Ok ()" "uc_database c \<in> set (um_accepted_databases m)"
    using compatible_permitted [OF assms(1)] by (auto simp: update_permitted_def)
  then have "inj_on dl_schema_version (set (um_accepted_databases m))"
    by (simp add: validate_lineages_Ok strict_sorted_iff distinct_map)
  with assms(2,3) \<open>uc_database c \<in> _\<close> show ?thesis by (auto dest: inj_onD)
qed

section \<open>A compatible update\<close>

definition sample_lineage :: database_lineage where
  "sample_lineage = \<lparr>dl_schema_version = 17, dl_migration_prefix_sha256 = replicate 64 48\<rparr>"

definition sample_manifest :: update_manifest where
  "sample_manifest =
     \<lparr>um_schema_version = 1, um_application_id = update_application_id_v1, um_channel = Personal,
      um_key_id = lit ''key-1'', um_release_id = lit ''r2'', um_release_sequence = 2,
      um_target_version = lit ''0.2.0'', um_target_os = Macos, um_target_architecture = Aarch64,
      um_minimum_macos_version = lit ''14.0.0'', um_artifact_kind = MacosApplicationArchive,
      um_artifact_length = 1024, um_artifact_sha256 = replicate 64 48,
      um_accepted_source_version_min = lit ''0.1.0'', um_accepted_source_version_max = lit ''0.1.9'',
      um_accepted_databases = [sample_lineage], um_target_database_schema_version = 17,
      um_target_migration_prefix_sha256 = replicate 64 48, um_required_backup_format_version = 1,
      um_required_asset_manifest_version = 1\<rparr>"

definition sample_context :: update_context where
  "sample_context =
     \<lparr>uc_application_id = update_application_id_v1, uc_channel = Personal,
      uc_application_version = lit ''0.1.0'', uc_installed_release_sequence = 1,
      uc_operating_system = Macos, uc_architecture = Aarch64, uc_macos_version = lit ''14.1.0'',
      uc_database = sample_lineage, uc_supported_backup_format_version = 1,
      uc_supported_asset_manifest_version = 1,
      uc_signing_key = \<lparr>sk_key_id = lit ''key-1'', sk_minimum_release_sequence = 1,
        sk_maximum_release_sequence = 100\<rparr>\<rparr>"

lemma sample_versions:
  "numeric_version_parse (lit ''0.1.0'') = Ok (NumericVersion 0 1 0)"
  "numeric_version_parse (lit ''0.1.9'') = Ok (NumericVersion 0 1 9)"
  "numeric_version_parse (lit ''0.2.0'') = Ok (NumericVersion 0 2 0)"
  "numeric_version_parse (lit ''14.0.0'') = Ok (NumericVersion 14 0 0)"
  "numeric_version_parse (lit ''14.1.0'') = Ok (NumericVersion 14 1 0)"
  by (simp_all add: parse_print_iff version_print_def lit_def show_digits.simps)

lemma sample_order [simp]:
  "NumericVersion a b c \<le> NumericVersion a' b' c' \<longleftrightarrow> (a, b, c) \<le> (a', b', c')"
  "NumericVersion a b c < NumericVersion a' b' c' \<longleftrightarrow> (a, b, c) < (a', b', c')"
  by (simp_all add: less_eq_numeric_version_def less_numeric_version_def version_key_def)

lemma sample_identifiers:
  "validate_application_id update_application_id_v1 = Ok ()" "validate_identifier (lit ''key-1'') = Ok ()"
  "validate_identifier (lit ''r2'') = Ok ()"
  by (simp_all add: validate_application_id_def validate_identifier_def update_application_id_v1_def
      lit_def char_class_defs utf8_width_def)

lemma sample_valid: "manifest_validate sample_manifest = Ok ()" "context_validate sample_context = Ok ()"
proof -
  show "manifest_validate sample_manifest = Ok ()"
    by (simp add: manifest_validate_def sample_manifest_def sample_identifiers sample_versions
        sample_lineage_def result_simps safe_integer_unat)
  show "context_validate sample_context = Ok ()"
    by (simp add: context_validate_def sample_context_def sample_identifiers sample_versions
        sample_lineage_def lineage_validate_def signing_key_range_validate_def result_simps
        safe_integer_unat)
qed

lemma sample_compatible: "evaluate_update_compatibility sample_manifest sample_context = Some Compatible"
  using evaluate_valid [OF sample_valid, of "NumericVersion 0 2 0" "NumericVersion 0 1 0"
      "NumericVersion 0 1 9" "NumericVersion 14 0 0" "NumericVersion 0 1 0" "NumericVersion 14 1 0"]
  by (simp add: sample_versions update_permitted_def sample_manifest_def sample_context_def
      sample_lineage_def)

theorem accepted_lineage_unique_witness: "sample_lineage = uc_database sample_context"
  by (rule accepted_lineage_unique [OF sample_compatible])
    (simp_all add: sample_manifest_def sample_context_def)

end
