(* ===== verification/Sql_Table.thy ===== *)
theory Sql_Table
  imports Wardrobe_Prelude
begin

text \<open>
  The fragment of SQL the repositories use, over tables that are lists of rows: \<open>SELECT\<close> of the
  first matching row, \<open>SELECT \<dots> ORDER BY \<dots> LIMIT 1\<close>, \<open>UPDATE \<dots> WHERE\<close> with the number of changed
  rows, and \<open>DELETE \<dots> WHERE\<close>. The locale \<open>keyed_table\<close> holds the laws of a table whose rows have a
  primary key and whose updates do not change it; every keyed table of the model is an
  interpretation of it.
\<close>

named_theorems sql_simps

definition first_by :: "('r \<Rightarrow> 'k::linorder) \<Rightarrow> 'r list \<Rightarrow> 'r option" where
  "first_by order rows = (case sort_key order rows of [] \<Rightarrow> None | r # _ \<Rightarrow> Some r)"

definition update_rows :: "('r \<Rightarrow> bool) \<Rightarrow> ('r \<Rightarrow> 'r) \<Rightarrow> 'r list \<Rightarrow> 'r list" where
  "update_rows where_clause assign rows = map (\<lambda>r. if where_clause r then assign r else r) rows"

definition changed_rows :: "('r \<Rightarrow> bool) \<Rightarrow> 'r list \<Rightarrow> nat" where
  "changed_rows where_clause rows = length (filter where_clause rows)"

definition delete_rows :: "('r \<Rightarrow> bool) \<Rightarrow> 'r list \<Rightarrow> 'r list" where
  "delete_rows where_clause rows = filter (\<lambda>r. \<not> where_clause r) rows"

lemma first_by_None_iff [sql_simps]: "first_by order rows = None \<longleftrightarrow> rows = []"
proof -
  have "length (sort_key order rows) = length rows" by simp
  then show ?thesis by (cases "sort_key order rows") (auto simp: first_by_def)
qed

lemma first_by_Some:
  assumes "first_by order rows = Some r"
  shows "r \<in> set rows" and "\<And>s. s \<in> set rows \<Longrightarrow> order r \<le> order s"
proof -
  obtain rs where sorted_rows: "sort_key order rows = r # rs"
    using assms by (auto simp: first_by_def split: list.splits)
  have set_rows: "set rows = insert r (set rs)"
    using arg_cong [OF sorted_rows, of set] by simp
  have "sorted (map order (r # rs))"
    using sorted_sort_key [of order rows] by (simp add: sorted_rows)
  then show "r \<in> set rows" and "\<And>s. s \<in> set rows \<Longrightarrow> order r \<le> order s"
    using set_rows by auto
qed

lemma update_rows_append [sql_simps]:
  "update_rows P f (xs @ ys) = update_rows P f xs @ update_rows P f ys"
  by (simp add: update_rows_def)

lemma set_update_rows:
  "set (update_rows P f rows) = f ` {r \<in> set rows. P r} \<union> {r \<in> set rows. \<not> P r}"
  by (auto simp: update_rows_def)

lemma changed_rows_pos: "changed_rows P rows \<noteq> 0 \<longleftrightarrow> (\<exists>r\<in>set rows. P r)"
  by (simp add: changed_rows_def filter_empty_conv)

lemma update_rows_id: "changed_rows P rows = 0 \<Longrightarrow> update_rows P f rows = rows"
  by (induction rows) (auto simp: update_rows_def changed_rows_def split: if_splits)

lemma delete_rows_id: "changed_rows P rows = 0 \<Longrightarrow> delete_rows P rows = rows"
  by (induction rows) (auto simp: delete_rows_def changed_rows_def split: if_splits)

section \<open>Tables with a primary key\<close>

text \<open>
  A provider of the interface names the primary key of its rows and the row updates it performs;
  the law is that an update keeps the key.
\<close>

locale keyed_table =
  fixes key :: "'r \<Rightarrow> 'k"
    and admissible :: "('r \<Rightarrow> 'r) \<Rightarrow> bool"
  assumes admissible_key: "admissible f \<Longrightarrow> key (f r) = key r"
begin

definition lookup :: "'r list \<Rightarrow> 'k \<Rightarrow> 'r option" where
  "lookup rows k = find (\<lambda>r. key r = k) rows"

lemma lookup_Some_iff:
  "distinct (map key rows) \<Longrightarrow> lookup rows k = Some r \<longleftrightarrow> r \<in> set rows \<and> key r = k"
  by (induction rows) (auto simp: lookup_def)

lemma lookup_Some_in: "lookup rows k = Some r \<Longrightarrow> r \<in> set rows \<and> key r = k"
  by (auto simp: lookup_def find_Some_iff)

lemma lookup_None_iff: "lookup rows k = None \<longleftrightarrow> k \<notin> key ` set rows"
  by (auto simp: lookup_def find_None_iff)

lemma lookup_append:
  "lookup (rows @ [r]) k =
     (case lookup rows k of Some s \<Rightarrow> Some s | None \<Rightarrow> if key r = k then Some r else None)"
  by (induction rows) (auto simp: lookup_def)

lemma keys_update:
  "admissible f \<Longrightarrow> map key (update_rows P f rows) = map key rows"
  by (induction rows) (auto simp: update_rows_def admissible_key)

lemma lookup_update:
  "admissible f \<Longrightarrow>
     lookup (update_rows P f rows) k = map_option (\<lambda>r. if P r then f r else r) (lookup rows k)"
  by (induction rows) (auto simp: update_rows_def lookup_def admissible_key)

lemma row_unique:
  "distinct (map key rows) \<Longrightarrow> r \<in> set rows \<Longrightarrow> s \<in> set rows \<Longrightarrow> key r = key s \<Longrightarrow> r = s"
  by (auto simp: distinct_map dest: inj_onD)

lemma changed_one_iff:
  assumes "distinct (map key rows)" and "\<And>r. P r \<Longrightarrow> key r = k"
  shows "changed_rows P rows = 1 \<longleftrightarrow> (\<exists>r\<in>set rows. P r)"
    and "changed_rows P rows \<le> 1"
proof -
  have "changed_rows P rows = (if \<exists>r\<in>set rows. P r then 1 else 0)"
    using assms
  proof (induction rows)
    case (Cons r rows)
    have "\<not> P s" if "P r" "s \<in> set rows" for s
    proof
      assume "P s"
      then have "key s = key r" using Cons.prems(2) \<open>P r\<close> by metis
      then show False using Cons.prems(1) imageI [OF that(2), of key] by simp
    qed
    then have "filter P rows = []" if "P r" using that by (simp add: filter_empty_conv)
    then show ?case using Cons by (auto simp: changed_rows_def)
  qed (simp add: changed_rows_def)
  then show "changed_rows P rows = 1 \<longleftrightarrow> (\<exists>r\<in>set rows. P r)" and "changed_rows P rows \<le> 1"
    by (auto split: if_splits)
qed

lemma keys_delete: "distinct (map key rows) \<Longrightarrow> distinct (map key (delete_rows P rows))"
  by (simp add: delete_rows_def distinct_map_filter)

lemma lookup_delete:
  "distinct (map key rows) \<Longrightarrow>
     lookup (delete_rows P rows) k =
       (case lookup rows k of None \<Rightarrow> None | Some r \<Rightarrow> if P r then None else Some r)"
proof (induction rows)
  case (Cons r rows)
  then show ?case
  proof (cases "key r = k")
    case True
    then have "lookup (delete_rows P rows) k = None"
      using Cons.prems by (auto simp: lookup_None_iff delete_rows_def)
    then show ?thesis using True by (simp add: lookup_def delete_rows_def)
  qed (simp add: lookup_def delete_rows_def)
qed (simp add: lookup_def delete_rows_def)

end

section \<open>Rows along runs\<close>

text \<open>
  A store whose steps keep an invariant and move every row only along a preorder: what a client may
  rely on after any number of steps by other clients.
\<close>

locale durable_rows =
  fixes step :: "'s \<Rightarrow> 's \<Rightarrow> bool"
    and inv :: "'s \<Rightarrow> bool"
    and row :: "'s \<Rightarrow> 'k \<Rightarrow> 'r option"
    and evolves :: "'r \<Rightarrow> 'r \<Rightarrow> bool"
  assumes inv_step: "inv s \<Longrightarrow> step s t \<Longrightarrow> inv t"
    and evolves_refl: "evolves r r"
    and evolves_trans: "evolves r r' \<Longrightarrow> evolves r' r'' \<Longrightarrow> evolves r r''"
    and step_evolves: "inv s \<Longrightarrow> step s t \<Longrightarrow> row s k = Some r \<Longrightarrow> \<exists>r'. row t k = Some r' \<and> evolves r r'"
begin

lemma run_inv: "step\<^sup>*\<^sup>* s t \<Longrightarrow> inv s \<Longrightarrow> inv t"
  by (induction rule: rtranclp_induct) (auto intro: inv_step)

lemma run_evolves:
  assumes "step\<^sup>*\<^sup>* s t" and "inv s" and "row s k = Some r"
  shows "\<exists>r'. row t k = Some r' \<and> evolves r r'"
  using assms
proof (induction rule: rtranclp_induct)
  case base
  then show ?case using evolves_refl by auto
next
  case (step t u)
  then obtain r' where r': "row t k = Some r'" "evolves r r'" by auto
  obtain r'' where "row u k = Some r''" "evolves r' r''"
    using step_evolves [OF run_inv [OF step.hyps(1) step.prems(1)] step.hyps(2) r'(1)] by auto
  then show ?case using evolves_trans [OF r'(2)] by auto
qed

end

end
