(* ===== verification/Database_Tables.thy ===== *)
theory Database_Tables
  imports Contracts Sql_Table
begin

text \<open>
  The tables of \<open>migrations/0001_foundation.sql\<close> as the repositories of \<open>database.rs\<close> use them, the
  error type of \<open>error.rs\<close>, the port errors of \<open>ports.rs\<close> and the helpers the operations share
  (\<open>stable_id\<close>, \<open>digest_text\<close>, \<open>validate_hash\<close>).

  An operation takes the database and returns either an error or the new database with its result.
  Every write runs in an immediate transaction that is rolled back when it is dropped without a
  commit, so an error leaves the database as it was.

  What the crates \<open>sha2\<close>, \<open>uuid\<close> and \<open>serde_json\<close> and SQLite's JSON function compute is a
  parameter, the record \<open>externals\<close>.
\<close>

datatype io_error = IoNotFound | IoPermissionDenied | IoOther

datatype platform_error =
    Conflict string | Corrupt string | InvalidInput string | Io io_error | Json
  | Keychain string | LeaseLost | Sqlite | Unsupported string

type_synonym 'a platform_result = "('a, platform_error) result"

datatype port_error =
    PortUnavailable | PortConflict | PortPermissionDenied | PortDataIntegrity | PortNotFound
  | PortInternal

type_synonym 'a port_result = "('a, port_error) result"

section \<open>Rows\<close>

datatype job_state = Queued | Running | Succeeded | Failed

record job_row =
  jr_job_id :: rstr
  jr_idempotency_key :: rstr
  jr_payload_json :: rstr
  jr_input_hash :: rstr
  jr_state :: job_state
  jr_available_at_ms :: int
  jr_attempt :: int
  jr_retry_limit :: int
  jr_backoff_ms :: int
  jr_fence :: int
  jr_lease_owner :: "rstr option"
  jr_lease_expires_at_ms :: "int option"
  jr_created_at_ms :: int
  jr_updated_at_ms :: int

record result_row =
  rr_job_id :: rstr
  rr_result_hash :: rstr
  rr_result_json :: rstr
  rr_winning_owner :: rstr
  rr_winning_fence :: int
  rr_committed_at_ms :: int

record failure_row =
  fr_job_id :: rstr
  fr_failure_code :: rstr
  fr_user_action_key :: rstr
  fr_failed_at_ms :: int

record blob_row =
  br_sha256 :: rstr
  br_byte_length :: int
  br_created_at_ms :: int

record provenance_row =
  pr_provenance_id :: rstr
  pr_blob_sha256 :: rstr
  pr_source_kind :: rstr
  pr_source_locator :: rstr
  pr_created_at_ms :: int

record storage_check_row =
  sc_check_id :: rstr
  sc_request_id :: rstr
  sc_blob_sha256 :: rstr
  sc_created_at_ms :: int

record receipt_row =
  cm_request_id :: rstr
  cm_command_name :: rstr
  cm_envelope_hash :: rstr
  cm_response_json :: rstr
  cm_created_at_ms :: int

datatype credential_state = PendingSave | Active | PendingDelete | SaveFailed

record credential_row =
  cx_locator :: rstr
  cx_credential_id :: rstr
  cx_save_request_id :: rstr
  cx_delete_request_id :: "rstr option"
  cx_provider :: rstr
  cx_display_label :: rstr
  cx_status :: credential_state
  cx_created_at_ms :: int
  cx_updated_at_ms :: int

record database =
  db_jobs :: "job_row list"
  db_job_dependencies :: "(rstr \<times> rstr) list"
  db_job_results :: "result_row list"
  db_job_failures :: "failure_row list"
  db_blobs :: "blob_row list"
  db_provenance :: "provenance_row list"
  db_storage_checks :: "storage_check_row list"
  db_command_receipts :: "receipt_row list"
  db_credentials :: "credential_row list"

definition empty_database :: database where
  "empty_database =
     \<lparr>db_jobs = [], db_job_dependencies = [], db_job_results = [], db_job_failures = [],
      db_blobs = [], db_provenance = [], db_storage_checks = [], db_command_receipts = [],
      db_credentials = []\<rparr>"

section \<open>Helpers\<close>

record storage_check_outcome =
  so_check_id :: rstr
  so_job_id :: rstr
  so_blob_sha256 :: rstr
  so_replayed :: bool

text \<open>
  \<open>sha256\<close> is the digest of a byte string, \<open>uuid_hyphenated\<close> the text of a UUID given by its
  sixteen bytes; the \<open>_json\<close> fields are the serialisations of the job payload, the job result, the
  storage check response and the two credential receipts; \<open>extract_blob_sha256\<close> is
  \<open>json_extract(payload_json, '$.blob_sha256')\<close>, \<open>None\<close> for SQL's \<open>NULL\<close>.
\<close>

record externals =
  sha256 :: "u8 list \<Rightarrow> u8 list"
  uuid_hyphenated :: "u8 list \<Rightarrow> rstr"
  payload_json :: "rstr \<Rightarrow> rstr"
  extract_blob_sha256 :: "rstr \<Rightarrow> rstr option"
  result_json :: "rstr \<Rightarrow> u64 \<Rightarrow> rstr"
  outcome_to_json :: "storage_check_outcome \<Rightarrow> rstr"
  outcome_from_json :: "rstr \<Rightarrow> storage_check_outcome option"

text \<open>The UTF-8 bytes of a text (\<open>str::as_bytes\<close>).\<close>

definition utf8_bytes :: "rstr \<Rightarrow> u8 list" where
  "utf8_bytes s = concat (map (\<lambda>c. map of_nat
     (if c < 128 then [c]
      else if c < 2048 then [192 + c div 64, 128 + c mod 64]
      else if c < 65536 then [224 + c div 4096, 128 + c div 64 mod 64, 128 + c mod 64]
      else [240 + c div 262144, 128 + c div 4096 mod 64, 128 + c div 64 mod 64, 128 + c mod 64])) s)"

definition hex_digit :: "nat \<Rightarrow> nat" where
  "hex_digit d = (if d < 10 then 48 + d else 87 + d)"

definition lower_hex :: "u8 list \<Rightarrow> rstr" where
  "lower_hex bytes = concat (map (\<lambda>b. [hex_digit (unat b div 16), hex_digit (unat b mod 16)]) bytes)"

definition stable_id :: "externals \<Rightarrow> rstr \<Rightarrow> rstr \<Rightarrow> rstr" where
  "stable_id ext prefix input =
     (let digest = sha256 ext (utf8_bytes (prefix @ lit '':'' @ input));
          bytes = take 16 digest;
          bytes = bytes[6 := or (and (bytes ! 6) 0x0f) 0x40];
          bytes = bytes[8 := or (and (bytes ! 8) 0x3f) 0x80]
      in uuid_hyphenated ext bytes)"

definition digest_text :: "externals \<Rightarrow> rstr \<Rightarrow> rstr" where
  "digest_text ext value = lower_hex (sha256 ext (utf8_bytes value))"

definition validate_hash :: "rstr \<Rightarrow> unit platform_result" where
  "validate_hash hash =
     (if byte_len hash \<noteq> 64 \<or> \<not> list_all is_lower_hex hash
      then Err (InvalidInput ''sha256'') else Ok ())"

text \<open>SQLite's \<open>length\<close> of a text: the characters before the first NUL.\<close>

definition sql_length :: "rstr \<Rightarrow> nat" where
  "sql_length s = length (takeWhile (\<lambda>c. c \<noteq> 0) s)"

text \<open>Constraints that several migrations use: the text of a UUID that is not nil, and \<open>BETWEEN\<close>.\<close>

definition sql_uuid :: "rstr \<Rightarrow> bool" where
  "sql_uuid s \<longleftrightarrow> sql_length s = 36 \<and> s \<noteq> lit ''00000000-0000-0000-0000-000000000000''"

definition between :: "int \<Rightarrow> int \<Rightarrow> int \<Rightarrow> bool" where
  "between lo hi x \<longleftrightarrow> lo \<le> x \<and> x \<le> hi"

lemma validate_hash_Ok [result_simps]:
  "validate_hash h = Ok u \<longleftrightarrow> length h = 64 \<and> (\<forall>c\<in>set h. is_lower_hex c)"
proof -
  have "\<forall>c\<in>set h. is_lower_hex c \<Longrightarrow> byte_len h = length h"
    by (rule byte_len_ascii) (auto simp: is_ascii_def list_all_iff dest: is_lower_hex_ascii)
  then show ?thesis
    by (cases "\<forall>c\<in>set h. is_lower_hex c") (auto simp: validate_hash_def simp flip: list_all_iff)
qed

lemma validate_hash_sql_length: "validate_hash h = Ok u \<Longrightarrow> sql_length h = 64"
proof -
  assume ok: "validate_hash h = Ok u"
  then have "\<forall>c\<in>set h. c \<noteq> 0"
    by (auto simp: result_simps is_lower_hex_def is_ascii_digit_def)
  then have "takeWhile (\<lambda>c. c \<noteq> 0) h = h" by (simp add: takeWhile_eq_all_conv)
  then show ?thesis using ok by (simp only: sql_length_def validate_hash_Ok)
qed

text \<open>\<open>INSERT INTO command_receipts\<close>: the request id is the primary key.\<close>

definition insert_receipt :: "receipt_row \<Rightarrow> database \<Rightarrow> database platform_result" where
  "insert_receipt row db =
     (if list_ex (\<lambda>r. cm_request_id r = cm_request_id row) (db_command_receipts db)
      then Err Sqlite
      else Ok (db\<lparr>db_command_receipts := db_command_receipts db @ [row]\<rparr>))"

text \<open>\<open>port_error\<close> of \<open>database.rs\<close> and of \<open>worker.rs\<close>; they differ on invalid input only.\<close>

fun database_port_error :: "platform_error \<Rightarrow> port_error" where
  "database_port_error (Conflict _) = PortConflict"
| "database_port_error (Corrupt _) = PortDataIntegrity"
| "database_port_error (InvalidInput _) = PortNotFound"
| "database_port_error (Io IoNotFound) = PortNotFound"
| "database_port_error (Io IoPermissionDenied) = PortPermissionDenied"
| "database_port_error (Io IoOther) = PortUnavailable"
| "database_port_error Sqlite = PortUnavailable"
| "database_port_error LeaseLost = PortConflict"
| "database_port_error _ = PortInternal"

fun worker_port_error :: "platform_error \<Rightarrow> port_error" where
  "worker_port_error (Conflict _) = PortConflict"
| "worker_port_error LeaseLost = PortConflict"
| "worker_port_error (Corrupt _) = PortDataIntegrity"
| "worker_port_error (InvalidInput _) = PortConflict"
| "worker_port_error (Io IoNotFound) = PortNotFound"
| "worker_port_error (Io IoPermissionDenied) = PortPermissionDenied"
| "worker_port_error (Io IoOther) = PortUnavailable"
| "worker_port_error Sqlite = PortUnavailable"
| "worker_port_error _ = PortInternal"

end
