(* ===== verification/Job_Store.thy ===== *)
theory Job_Store
  imports Database_Tables
begin

text \<open>
  The durable job queue of \<open>database.rs\<close>: a verify-blob job is enqueued once per idempotency key,
  claimed under a lease with a fencing number, and settled by completion, permanent failure or a
  retry, each of which has to hold the lease. Times are milliseconds in \<open>i64\<close>.
\<close>

record leased_job =
  lj_job_id :: rstr
  lj_blob_sha256 :: rstr
  lj_owner :: rstr
  lj_fence :: int
  lj_attempt :: int
  lj_retry_limit :: int
  lj_backoff_ms :: int

record blob_record =
  bk_sha256 :: rstr
  bk_byte_length :: u64

section \<open>Enqueueing\<close>

definition new_job_row :: "externals \<Rightarrow> rstr \<Rightarrow> rstr \<Rightarrow> rstr \<Rightarrow> int \<Rightarrow> job_row" where
  "new_job_row ext job_id idempotency_key payload_text now_ms =
     \<lparr>jr_job_id = job_id, jr_idempotency_key = idempotency_key,
      jr_payload_json = payload_text, jr_input_hash = digest_text ext payload_text,
      jr_state = Queued, jr_available_at_ms = now_ms, jr_attempt = 0, jr_retry_limit = 2,
      jr_backoff_ms = 1000, jr_fence = 0, jr_lease_owner = None, jr_lease_expires_at_ms = None,
      jr_created_at_ms = now_ms, jr_updated_at_ms = now_ms\<rparr>"

text \<open>
  \<open>INSERT OR IGNORE\<close> skips the row when its job id or its idempotency key is taken; the stored row of
  that key then has to be the same envelope, and a missing one is the \<open>QueryReturnedNoRows\<close> of
  \<open>query_row\<close>.
\<close>

definition insert_verify_job ::
  "externals \<Rightarrow> rstr \<Rightarrow> rstr \<Rightarrow> rstr \<Rightarrow> int \<Rightarrow> database \<Rightarrow> database platform_result" where
  "insert_verify_job ext job_id idempotency_key blob_sha256 now_ms db =
     and_then (validate_hash blob_sha256) (\<lambda>_.
       let payload_text = payload_json ext blob_sha256;
           input_hash = digest_text ext payload_text
       in if list_ex (\<lambda>r. jr_job_id r = job_id \<or> jr_idempotency_key r = idempotency_key) (db_jobs db)
          then (case find (\<lambda>r. jr_idempotency_key r = idempotency_key) (db_jobs db) of
                  None \<Rightarrow> Err Sqlite
                | Some r \<Rightarrow>
                    if (jr_job_id r, jr_payload_json r, jr_input_hash r)
                       \<noteq> (job_id, payload_text, input_hash)
                    then Err (Conflict ''job_envelope_changed'') else Ok db)
          else Ok (db\<lparr>db_jobs := db_jobs db @
                       [new_job_row ext job_id idempotency_key payload_text now_ms]\<rparr>))"

definition enqueue_verify_blob ::
  "externals \<Rightarrow> rstr \<Rightarrow> rstr \<Rightarrow> int \<Rightarrow> database \<Rightarrow> (database \<times> rstr) platform_result" where
  "enqueue_verify_blob ext idempotency_key blob_sha256 now_ms db =
     (if idempotency_key = [] \<or> byte_len idempotency_key > 128
      then Err (InvalidInput ''idempotency_key'')
      else and_then (validate_hash blob_sha256) (\<lambda>_.
        let job_id = stable_id ext (lit ''job'') idempotency_key
        in and_then (insert_verify_job ext job_id idempotency_key blob_sha256 now_ms db)
             (\<lambda>db'. Ok (db', job_id))))"

section \<open>The storage check command\<close>

definition storage_check_envelope :: "externals \<Rightarrow> rstr \<Rightarrow> blob_record \<Rightarrow> rstr" where
  "storage_check_envelope ext request_id blob =
     digest_text ext (lit ''run_storage_check_v1:'' @ request_id @ lit '':'' @ bk_sha256 blob
       @ lit '':'' @ show_digits (unat (bk_byte_length blob)) @ lit '':foundation-v1'')"

text \<open>
  \<open>INSERT OR IGNORE INTO blobs\<close> followed by the reading of the stored length: the row is skipped when
  the digest is known or violates the length check, and \<open>query_row\<close> fails when there is no row.
\<close>

definition record_blob :: "blob_record \<Rightarrow> int \<Rightarrow> database \<Rightarrow> database platform_result" where
  "record_blob blob now_ms db =
     (if int (unat (bk_byte_length blob)) > i64_max then Err (InvalidInput ''blob_byte_length'')
      else
        (let length' = int (unat (bk_byte_length blob));
             known = list_ex (\<lambda>r. br_sha256 r = bk_sha256 blob) (db_blobs db);
             blobs = (if known \<or> sql_length (bk_sha256 blob) \<noteq> 64 then db_blobs db
                      else db_blobs db @ [\<lparr>br_sha256 = bk_sha256 blob, br_byte_length = length',
                                           br_created_at_ms = now_ms\<rparr>])
         in case find (\<lambda>r. br_sha256 r = bk_sha256 blob) blobs of
              None \<Rightarrow> Err Sqlite
            | Some r \<Rightarrow>
                if br_byte_length r \<noteq> length' then Err (Conflict ''blob_length_changed'')
                else Ok (db\<lparr>db_blobs := blobs\<rparr>)))"

definition record_provenance ::
  "externals \<Rightarrow> rstr \<Rightarrow> blob_record \<Rightarrow> int \<Rightarrow> database \<Rightarrow> database" where
  "record_provenance ext request_id blob now_ms db =
     (let provenance_id = stable_id ext (lit ''provenance'') request_id
      in if list_ex (\<lambda>r. pr_provenance_id r = provenance_id
                      \<or> (pr_blob_sha256 r = bk_sha256 blob
                         \<and> pr_source_kind r = lit ''storage_check''
                         \<and> pr_source_locator r = request_id)) (db_provenance db)
         then db
         else db\<lparr>db_provenance := db_provenance db @
                  [\<lparr>pr_provenance_id = provenance_id, pr_blob_sha256 = bk_sha256 blob,
                    pr_source_kind = lit ''storage_check'', pr_source_locator = request_id,
                    pr_created_at_ms = now_ms\<rparr>]\<rparr>)"

definition insert_storage_check ::
  "rstr \<Rightarrow> rstr \<Rightarrow> rstr \<Rightarrow> int \<Rightarrow> database \<Rightarrow> database platform_result" where
  "insert_storage_check check_id request_id blob_sha256 now_ms db =
     (if list_ex (\<lambda>r. sc_check_id r = check_id \<or> sc_request_id r = request_id) (db_storage_checks db)
      then Err Sqlite
      else Ok (db\<lparr>db_storage_checks := db_storage_checks db @
                   [\<lparr>sc_check_id = check_id, sc_request_id = request_id,
                     sc_blob_sha256 = blob_sha256, sc_created_at_ms = now_ms\<rparr>]\<rparr>))"

definition run_storage_check ::
  "externals \<Rightarrow> rstr \<Rightarrow> blob_record \<Rightarrow> int \<Rightarrow> database \<Rightarrow>
   (database \<times> storage_check_outcome) platform_result" where
  "run_storage_check ext request_id blob now_ms db =
     (if request_id = [] \<or> byte_len request_id > 64 then Err (InvalidInput ''request_id'')
      else
        (let envelope_hash = storage_check_envelope ext request_id blob;
             check_id = stable_id ext (lit ''check'') request_id;
             job_id = stable_id ext (lit ''job'') request_id;
             response = \<lparr>so_check_id = check_id, so_job_id = job_id,
                         so_blob_sha256 = bk_sha256 blob, so_replayed = False\<rparr>
         in case find (\<lambda>r. cm_request_id r = request_id
                        \<and> cm_command_name r = lit ''run_storage_check_v1'')
                   (db_command_receipts db) of
              Some receipt \<Rightarrow>
                if cm_envelope_hash receipt \<noteq> envelope_hash
                then Err (Conflict ''command_envelope_changed'')
                else and_then (ok_or (outcome_from_json ext (cm_response_json receipt)) Json)
                       (\<lambda>replay. Ok (db, replay\<lparr>so_replayed := True\<rparr>))
            | None \<Rightarrow>
                and_then (record_blob blob now_ms db) (\<lambda>db.
                and_then (insert_storage_check check_id request_id (bk_sha256 blob) now_ms
                            (record_provenance ext request_id blob now_ms db)) (\<lambda>db.
                and_then (insert_verify_job ext job_id (lit ''storage-check:'' @ request_id)
                            (bk_sha256 blob) now_ms db) (\<lambda>db.
                and_then (insert_receipt
                            \<lparr>cm_request_id = request_id,
                             cm_command_name = lit ''run_storage_check_v1'',
                             cm_envelope_hash = envelope_hash,
                             cm_response_json = outcome_to_json ext response,
                             cm_created_at_ms = now_ms\<rparr> db) (\<lambda>db.
                  Ok (db, response)))))))"

section \<open>Leases\<close>

text \<open>The \<open>WHERE\<close> and \<open>ORDER BY\<close> clauses of the claim query.\<close>

definition dependencies_succeeded :: "database \<Rightarrow> rstr \<Rightarrow> bool" where
  "dependencies_succeeded db job_id \<longleftrightarrow>
     \<not> list_ex (\<lambda>d. fst d = job_id
         \<and> list_ex (\<lambda>prerequisite. jr_job_id prerequisite = snd d
              \<and> jr_state prerequisite \<noteq> Succeeded) (db_jobs db))
       (db_job_dependencies db)"

definition lease_expired :: "int \<Rightarrow> job_row \<Rightarrow> bool" where
  "lease_expired now_ms j =
     (case jr_lease_expires_at_ms j of None \<Rightarrow> False | Some expires \<Rightarrow> expires \<le> now_ms)"

definition claimable :: "int \<Rightarrow> database \<Rightarrow> job_row \<Rightarrow> bool" where
  "claimable now_ms db j \<longleftrightarrow>
     ((jr_state j = Queued \<and> jr_available_at_ms j \<le> now_ms)
      \<or> (jr_state j = Running \<and> lease_expired now_ms j))
     \<and> dependencies_succeeded db (jr_job_id j)"

definition claim_order :: "job_row \<Rightarrow> int \<times> int \<times> rstr" where
  "claim_order j =
     (case jr_lease_expires_at_ms j of None \<Rightarrow> jr_available_at_ms j | Some expires \<Rightarrow> expires,
      jr_created_at_ms j, jr_job_id j)"

definition take_lease :: "rstr \<Rightarrow> int \<Rightarrow> int \<Rightarrow> job_row \<Rightarrow> job_row" where
  "take_lease owner now_ms expires j =
     j\<lparr>jr_state := Running, jr_attempt := jr_attempt j + 1, jr_fence := jr_fence j + 1,
       jr_lease_owner := Some owner, jr_lease_expires_at_ms := Some expires,
       jr_updated_at_ms := now_ms\<rparr>"

text \<open>
  A counter that leaves \<open>i64\<close> becomes a real number in SQLite and is refused by the \<open>STRICT\<close> table;
  a payload without the digest gives \<open>NULL\<close>, which does not convert to a \<open>String\<close>.
\<close>

definition claim ::
  "externals \<Rightarrow> rstr \<Rightarrow> int \<Rightarrow> int \<Rightarrow> database \<Rightarrow> (database \<times> leased_job option) platform_result" where
  "claim ext owner now_ms lease_ms db =
     (if owner = [] \<or> lease_ms \<le> 0 then Err (InvalidInput ''worker_lease'')
      else and_then (ok_or (i64_checked_add now_ms lease_ms) (InvalidInput ''worker_lease''))
        (\<lambda>expires.
          case first_by claim_order (filter (claimable now_ms db) (db_jobs db)) of
            None \<Rightarrow> Ok (db, None)
          | Some candidate \<Rightarrow>
              (let job_id = jr_job_id candidate;
                   jobs = update_rows (\<lambda>r. jr_job_id r = job_id) (take_lease owner now_ms expires)
                            (db_jobs db)
               in if jr_attempt candidate + 1 > i64_max \<or> jr_fence candidate + 1 > i64_max
                  then Err Sqlite
                  else case find (\<lambda>r. jr_job_id r = job_id) jobs of
                    None \<Rightarrow> Err Sqlite
                  | Some r \<Rightarrow>
                      and_then (ok_or (extract_blob_sha256 ext (jr_payload_json r)) Sqlite)
                        (\<lambda>blob_sha256.
                        and_then (ok_or (jr_lease_owner r) Sqlite) (\<lambda>row_owner.
                          Ok (db\<lparr>db_jobs := jobs\<rparr>,
                              Some \<lparr>lj_job_id = jr_job_id r, lj_blob_sha256 = blob_sha256,
                                    lj_owner = row_owner, lj_fence = jr_fence r,
                                    lj_attempt = jr_attempt r,
                                    lj_retry_limit = jr_retry_limit r,
                                    lj_backoff_ms = jr_backoff_ms r\<rparr>))))))"

definition ensure_lease :: "leased_job \<Rightarrow> int \<Rightarrow> database \<Rightarrow> unit platform_result" where
  "ensure_lease leased now_ms db =
     (if list_ex (\<lambda>r. jr_job_id r = lj_job_id leased \<and> jr_state r = Running
           \<and> jr_lease_owner r = Some (lj_owner leased) \<and> jr_fence r = lj_fence leased
           \<and> (case jr_lease_expires_at_ms r of None \<Rightarrow> False | Some e \<Rightarrow> e > now_ms)) (db_jobs db)
      then Ok () else Err LeaseLost)"

text \<open>The \<open>WHERE\<close> clause of the three settling updates, and the update with its row count.\<close>

definition holds_row :: "leased_job \<Rightarrow> job_row \<Rightarrow> bool" where
  "holds_row leased r \<longleftrightarrow> jr_job_id r = lj_job_id leased
     \<and> jr_lease_owner r = Some (lj_owner leased) \<and> jr_fence r = lj_fence leased
     \<and> jr_state r = Running"

definition settle_rows ::
  "leased_job \<Rightarrow> (job_row \<Rightarrow> job_row) \<Rightarrow> database \<Rightarrow> database platform_result" where
  "settle_rows leased assign db =
     (if changed_rows (holds_row leased) (db_jobs db) \<noteq> 1 then Err LeaseLost
      else Ok (db\<lparr>db_jobs := update_rows (holds_row leased) assign (db_jobs db)\<rparr>))"

definition release_lease :: "job_state \<Rightarrow> int \<Rightarrow> job_row \<Rightarrow> job_row" where
  "release_lease state now_ms r =
     r\<lparr>jr_state := state, jr_lease_owner := None, jr_lease_expires_at_ms := None,
       jr_updated_at_ms := now_ms\<rparr>"

definition complete ::
  "externals \<Rightarrow> leased_job \<Rightarrow> u64 \<Rightarrow> int \<Rightarrow> database \<Rightarrow> database platform_result" where
  "complete ext leased byte_length now_ms db =
     (let result_text = result_json ext (lj_blob_sha256 leased) byte_length;
          result_hash = digest_text ext result_text
      in and_then (ensure_lease leased now_ms db) (\<lambda>_.
           let ignored = list_ex (\<lambda>r. rr_job_id r = lj_job_id leased) (db_job_results db)
                         \<or> \<not> lj_fence leased > 0;
               db = (if ignored then db
                     else db\<lparr>db_job_results := db_job_results db @
                          [\<lparr>rr_job_id = lj_job_id leased, rr_result_hash = result_hash,
                            rr_result_json = result_text, rr_winning_owner = lj_owner leased,
                            rr_winning_fence = lj_fence leased,
                            rr_committed_at_ms = now_ms\<rparr>]\<rparr>)
           in settle_rows leased (release_lease Succeeded now_ms) db))"

definition complete_known_blob ::
  "externals \<Rightarrow> leased_job \<Rightarrow> int \<Rightarrow> database \<Rightarrow> database platform_result" where
  "complete_known_blob ext leased now_ms db =
     and_then (ok_or (find (\<lambda>r. br_sha256 r = lj_blob_sha256 leased) (db_blobs db))
                (Corrupt ''job_blob_record_missing'')) (\<lambda>r.
       if br_byte_length r < 0 then Err (Corrupt ''blob_byte_length'')
       else complete ext leased (of_int (br_byte_length r)) now_ms db)"

definition fail_permanently ::
  "leased_job \<Rightarrow> rstr \<Rightarrow> rstr \<Rightarrow> int \<Rightarrow> database \<Rightarrow> database platform_result" where
  "fail_permanently leased failure_code user_action_key' now_ms db =
     and_then (ensure_lease leased now_ms db) (\<lambda>_.
       settle_rows leased (release_lease Failed now_ms)
         (db\<lparr>db_job_failures :=
              delete_rows (\<lambda>r. fr_job_id r = lj_job_id leased) (db_job_failures db) @
              [\<lparr>fr_job_id = lj_job_id leased, fr_failure_code = failure_code,
                fr_user_action_key = user_action_key', fr_failed_at_ms = now_ms\<rparr>]\<rparr>))"

text \<open>\<open>retry\<close> rolls back and answers \<open>false\<close> when the policy is exhausted.\<close>

definition retry :: "leased_job \<Rightarrow> int \<Rightarrow> database \<Rightarrow> (database \<times> bool) platform_result" where
  "retry leased now_ms db =
     (let next = i64_saturating_add now_ms (lj_backoff_ms leased)
      in and_then (ensure_lease leased now_ms db) (\<lambda>_.
           if lj_attempt leased > lj_retry_limit leased then Ok (db, False)
           else and_then (settle_rows leased
                  (\<lambda>r. (release_lease Queued now_ms r)\<lparr>jr_available_at_ms := next\<rparr>) db)
                  (\<lambda>db. Ok (db, True))))"

text \<open>
  The job part of \<open>normalize_restored_state\<close>: after a restore every running job is queued again and
  its fence moves on, so that no lease of the backed-up process is honoured.
\<close>

definition requeue_restored :: "int \<Rightarrow> job_row \<Rightarrow> job_row" where
  "requeue_restored now_ms r =
     (release_lease Queued now_ms r)\<lparr>jr_available_at_ms := now_ms, jr_fence := jr_fence r + 1\<rparr>"

definition restore_jobs :: "int \<Rightarrow> database \<Rightarrow> database platform_result" where
  "restore_jobs now_ms db =
     (if list_ex (\<lambda>r. jr_state r = Running \<and> jr_fence r + 1 > i64_max) (db_jobs db) then Err Sqlite
      else Ok (db\<lparr>db_jobs := update_rows (\<lambda>r. jr_state r = Running) (requeue_restored now_ms)
                    (db_jobs db)\<rparr>))"

end
