(* ===== verification/Job_Worker.thy ===== *)
theory Job_Worker
  imports Job_Store
begin

text \<open>
  \<open>worker.rs\<close>: the verify-blob worker, which claims a job, verifies its blob and settles it, and the
  \<open>JobPort\<close> of the application core, which hands out claims and keeps the leases it holds in memory.
  Every database operation is its own transaction, so these functions return the database they leave
  behind also when they fail. The blob store's \<open>verify\<close> is an argument: it returns the length of the
  blob or the error of the file system.
\<close>

datatype run_outcome =
    Idle | RunSucceeded rstr | RunRetrying rstr | RunFailed rstr rstr

record verify_blob_worker =
  vw_worker_id :: rstr
  vw_lease_ms :: int

definition verify_blob_worker_new :: "rstr \<Rightarrow> int \<Rightarrow> verify_blob_worker platform_result" where
  "verify_blob_worker_new worker_id lease_ms =
     (if worker_id = [] \<or> byte_len worker_id > 64 \<or> lease_ms \<le> 0
      then Err (InvalidInput ''worker_configuration'')
      else Ok \<lparr>vw_worker_id = worker_id, vw_lease_ms = lease_ms\<rparr>)"

definition permanent_failure ::
  "database \<Rightarrow> leased_job \<Rightarrow> rstr \<Rightarrow> rstr \<Rightarrow> int \<Rightarrow> database \<times> run_outcome platform_result" where
  "permanent_failure db leased failure_code user_action now_ms =
     (case fail_permanently leased failure_code user_action now_ms db of
        Err e \<Rightarrow> (db, Err e)
      | Ok db' \<Rightarrow> (db', Ok (RunFailed (lj_job_id leased) failure_code)))"

definition run_once ::
  "externals \<Rightarrow> verify_blob_worker \<Rightarrow> (rstr \<Rightarrow> u64 platform_result) \<Rightarrow> int \<Rightarrow> database \<Rightarrow>
   database \<times> run_outcome platform_result" where
  "run_once ext worker verify now_ms db =
     (case claim ext (vw_worker_id worker) now_ms (vw_lease_ms worker) db of
        Err e \<Rightarrow> (db, Err e)
      | Ok (db, None) \<Rightarrow> (db, Ok Idle)
      | Ok (db, Some leased) \<Rightarrow>
          (case verify (lj_blob_sha256 leased) of
             Ok byte_length \<Rightarrow>
               (case complete ext leased byte_length now_ms db of
                  Err e \<Rightarrow> (db, Err e)
                | Ok db' \<Rightarrow> (db', Ok (RunSucceeded (lj_job_id leased))))
           | Err (Io IoNotFound) \<Rightarrow>
               permanent_failure db leased (lit ''blob_missing'') (lit ''rerun_storage_check'') now_ms
           | Err (Corrupt _) \<Rightarrow>
               permanent_failure db leased (lit ''blob_integrity_failed'')
                 (lit ''rerun_storage_check'') now_ms
           | Err (Io _) \<Rightarrow>
               (case retry leased now_ms db of
                  Err e \<Rightarrow> (db, Err e)
                | Ok (db', True) \<Rightarrow> (db', Ok (RunRetrying (lj_job_id leased)))
                | Ok (db', False) \<Rightarrow>
                    permanent_failure db' leased (lit ''blob_unavailable'')
                      (lit ''retry_when_storage_available'') now_ms)
           | Err _ \<Rightarrow>
               permanent_failure db leased (lit ''verify_blob_failed'')
                 (lit ''rerun_storage_check'') now_ms))"

section \<open>The job port\<close>

record job_claim =
  jc_job_id :: uuid
  jc_input_digest :: rstr
  jc_attempt :: u16
  jc_max_attempts :: u16
  jc_fence :: u64

record job_queue =
  jq_worker_id :: rstr
  jq_active :: "rstr \<rightharpoonup> leased_job"

definition job_queue_new :: "rstr \<Rightarrow> job_queue platform_result" where
  "job_queue_new worker_id =
     (if worker_id = [] \<or> byte_len worker_id > 64 then Err (InvalidInput ''worker_id'')
      else Ok \<lparr>jq_worker_id = worker_id, jq_active = Map.empty\<rparr>)"

definition unsigned_try_from :: "nat \<Rightarrow> int \<Rightarrow> 'w::len word option" where
  "unsigned_try_from bits i = (if 0 \<le> i \<and> i < 2 ^ bits then Some (of_int i) else None)"

definition parse_job_id :: "(rstr \<Rightarrow> uuid option) \<Rightarrow> rstr \<Rightarrow> uuid port_result" where
  "parse_job_id parse_str value =
     and_then (ok_or (parse_str value) PortDataIntegrity)
       (\<lambda>uuid. map_err (\<lambda>_. PortDataIntegrity) (id_new uuid))"

definition job_claim_of_lease :: "(rstr \<Rightarrow> uuid option) \<Rightarrow> leased_job \<Rightarrow> job_claim port_result" where
  "job_claim_of_lease parse_str leased =
     and_then (parse_job_id parse_str (lj_job_id leased)) (\<lambda>job_id.
     and_then (map_err (\<lambda>_. PortDataIntegrity) (sha256_digest_parse (lj_blob_sha256 leased)))
       (\<lambda>digest.
     and_then (ok_or (unsigned_try_from 16 (lj_attempt leased)) PortDataIntegrity) (\<lambda>attempt.
     and_then (ok_or (unsigned_try_from 16 (lj_retry_limit leased + 1)) PortDataIntegrity)
       (\<lambda>max_attempts.
     and_then (ok_or (unsigned_try_from 64 (lj_fence leased)) PortDataIntegrity) (\<lambda>fence.
       Ok \<lparr>jc_job_id = job_id, jc_input_digest = digest, jc_attempt = attempt,
           jc_max_attempts = max_attempts, jc_fence = fence\<rparr>)))))"

text \<open>\<open>clock\<close> is the result of \<open>unix_now_ms\<close>.\<close>

definition claim_next ::
  "externals \<Rightarrow> (rstr \<Rightarrow> uuid option) \<Rightarrow> int port_result \<Rightarrow> u32 \<Rightarrow> job_queue \<Rightarrow> database \<Rightarrow>
   job_queue \<times> database \<times> job_claim option port_result" where
  "claim_next ext parse_str clock lease_seconds q db =
     (let lease_ms = int (unat lease_seconds) * 1000
      in if lease_ms > i64_max then (q, db, Err PortConflict)
         else case clock of
           Err e \<Rightarrow> (q, db, Err e)
         | Ok now_ms \<Rightarrow>
             (case claim ext (jq_worker_id q) now_ms lease_ms db of
                Err e \<Rightarrow> (q, db, Err (worker_port_error e))
              | Ok (db', None) \<Rightarrow> (q, db', Ok None)
              | Ok (db', Some leased) \<Rightarrow>
                  (case job_claim_of_lease parse_str leased of
                     Err e \<Rightarrow> (q, db', Err e)
                   | Ok c \<Rightarrow>
                       (q\<lparr>jq_active := (jq_active q)(lj_job_id leased \<mapsto> leased)\<rparr>, db',
                        Ok (Some c)))))"

definition take_matching :: "rstr \<Rightarrow> u64 \<Rightarrow> job_queue \<Rightarrow> (job_queue \<times> leased_job) port_result" where
  "take_matching job_id fence q =
     and_then (ok_or (jq_active q job_id) PortConflict) (\<lambda>leased.
       if unsigned_try_from 64 (lj_fence leased) \<noteq> Some fence then Err PortConflict
       else Ok (q\<lparr>jq_active := (jq_active q)(job_id := None)\<rparr>, leased))"

definition queue_complete ::
  "externals \<Rightarrow> (uuid \<Rightarrow> rstr) \<Rightarrow> int port_result \<Rightarrow> uuid \<Rightarrow> u64 \<Rightarrow> job_queue \<Rightarrow> database \<Rightarrow>
   job_queue \<times> database \<times> unit port_result" where
  "queue_complete ext to_string clock job_id fence q db =
     (case take_matching (to_string job_id) fence q of
        Err e \<Rightarrow> (q, db, Err e)
      | Ok (q', leased) \<Rightarrow>
          (case clock of
             Err e \<Rightarrow> (q', db, Err e)
           | Ok now_ms \<Rightarrow>
               (case complete_known_blob ext leased now_ms db of
                  Err e \<Rightarrow> (q', db, Err (worker_port_error e))
                | Ok db' \<Rightarrow> (q', db', Ok ()))))"

fun error_code_to_db :: "error_code \<Rightarrow> rstr" where
  "error_code_to_db NotFound = lit ''blob_missing''"
| "error_code_to_db DataIntegrity = lit ''blob_integrity_failed''"
| "error_code_to_db StorageUnavailable = lit ''blob_unavailable''"
| "error_code_to_db _ = lit ''verify_blob_failed''"

fun user_action_to_db :: "user_action_key \<Rightarrow> rstr" where
  "user_action_to_db ReviewStorage = lit ''rerun_storage_check''"
| "user_action_to_db Retry = lit ''retry_when_storage_available''"
| "user_action_to_db _ = lit ''restart_application''"

definition queue_fail ::
  "(uuid \<Rightarrow> rstr) \<Rightarrow> int port_result \<Rightarrow> uuid \<Rightarrow> u64 \<Rightarrow> error_code \<Rightarrow> user_action_key \<Rightarrow> bool \<Rightarrow>
   job_queue \<Rightarrow> database \<Rightarrow> job_queue \<times> database \<times> unit port_result" where
  "queue_fail to_string clock job_id fence code user_action retryable q db =
     (case take_matching (to_string job_id) fence q of
        Err e \<Rightarrow> (q, db, Err e)
      | Ok (q', leased) \<Rightarrow>
          (case clock of
             Err e \<Rightarrow> (q', db, Err e)
           | Ok now_ms \<Rightarrow>
               (let fail = (case fail_permanently leased (error_code_to_db code)
                                   (user_action_to_db user_action) now_ms db of
                              Err e \<Rightarrow> (q', db, Err (worker_port_error e))
                            | Ok db' \<Rightarrow> (q', db', Ok ()))
                in if retryable
                   then (case retry leased now_ms db of
                           Err e \<Rightarrow> (q', db, Err (worker_port_error e))
                         | Ok (db', True) \<Rightarrow> (q', db', Ok ())
                         | Ok (_, False) \<Rightarrow> fail)
                   else fail)))"

section \<open>What the activity view shows\<close>

definition error_code_from_db :: "rstr \<Rightarrow> error_code" where
  "error_code_from_db value =
     (if value = lit ''blob_missing'' then NotFound
      else if value = lit ''blob_integrity_failed'' then DataIntegrity
      else if value = lit ''blob_unavailable'' then StorageUnavailable
      else Internal)"

definition user_action_from_db :: "rstr \<Rightarrow> user_action_key" where
  "user_action_from_db value =
     (if value = lit ''rerun_storage_check'' then ReviewStorage
      else if value = lit ''retry_when_storage_available'' then Retry
      else RestartApplication)"

fun job_status_of :: "job_state \<Rightarrow> int \<Rightarrow> job_status" where
  "job_status_of Queued attempts = (if attempts > 0 then JobRetryWaiting else JobPending)"
| "job_status_of Running attempts = JobRunning"
| "job_status_of Succeeded attempts = JobSucceeded"
| "job_status_of Failed attempts = JobFailed"

record job_snapshot =
  js_job_id :: uuid
  js_status :: job_status
  js_attempts :: u16
  js_max_attempts :: u16
  js_updated_at :: rstr
  js_terminal_failure :: "(error_code \<times> user_action_key) option"

definition job_snapshot_of ::
  "(rstr \<Rightarrow> uuid option) \<Rightarrow> (int \<Rightarrow> rstr option) \<Rightarrow> database \<Rightarrow> job_row \<Rightarrow> job_snapshot platform_result"
  where
  "job_snapshot_of parse_str timestamp_from_ms db j =
     and_then (ok_or (parse_str (jr_job_id j)) Sqlite) (\<lambda>uuid.
     and_then (map_err (\<lambda>_. Sqlite) (id_new uuid)) (\<lambda>job_id.
     and_then (ok_or (unsigned_try_from 16 (jr_attempt j)) Sqlite) (\<lambda>attempts.
     and_then (ok_or (unsigned_try_from 16 (jr_retry_limit j + 1)) Sqlite) (\<lambda>max_attempts.
     and_then (ok_or (timestamp_from_ms (jr_updated_at_ms j)) Sqlite) (\<lambda>updated_at.
       Ok \<lparr>js_job_id = job_id, js_status = job_status_of (jr_state j) (jr_attempt j),
           js_attempts = attempts, js_max_attempts = max_attempts, js_updated_at = updated_at,
           js_terminal_failure =
             map_option (\<lambda>f. (error_code_from_db (fr_failure_code f),
                              user_action_from_db (fr_user_action_key f)))
               (find (\<lambda>f. fr_job_id f = jr_job_id j) (db_job_failures db))\<rparr>)))))"

text \<open>
  The jobs of \<open>load_core_state\<close>: the most recently updated first, the job id breaking ties, at most
  fifty; one row that does not convert fails the whole query.
\<close>

fun collect_ok :: "('a, 'e) result list \<Rightarrow> ('a list, 'e) result" where
  "collect_ok [] = Ok []"
| "collect_ok (r # rs) = and_then r (\<lambda>x. and_then (collect_ok rs) (\<lambda>xs. Ok (x # xs)))"

definition recent_jobs ::
  "(rstr \<Rightarrow> uuid option) \<Rightarrow> (int \<Rightarrow> rstr option) \<Rightarrow> nat \<Rightarrow> database \<Rightarrow> job_snapshot list platform_result"
  where
  "recent_jobs parse_str timestamp_from_ms limit db =
     collect_ok (map (job_snapshot_of parse_str timestamp_from_ms db)
       (take (min limit 50)
         (sort_key (\<lambda>j. (- jr_updated_at_ms j, jr_job_id j)) (db_jobs db))))"

end
