(* ===== verification/Job_Invariant.thy ===== *)
theory Job_Invariant
  imports Job_Worker
begin

text \<open>
  The invariant of the job tables and its preservation by every operation of \<open>database.rs\<close> that
  writes them: job ids and idempotency keys are unique, a row carries a lease exactly when it is
  running, and the result and failure tables name exactly the succeeded and the failed jobs, once.
  The step relation \<open>job_step\<close> has one rule per operation, with any clock reading, and a lease value
  that may be stale or foreign.
\<close>

abbreviation keeps_job_id :: "(job_row \<Rightarrow> job_row) \<Rightarrow> bool" where
  "keeps_job_id f \<equiv> \<forall>r. jr_job_id (f r) = jr_job_id r"

interpretation jobs: keyed_table jr_job_id keeps_job_id
  by unfold_locales simp

interpretation results: keyed_table rr_job_id "\<lambda>f. \<forall>r. rr_job_id (f r) = rr_job_id r"
  by unfold_locales simp

interpretation failures: keyed_table fr_job_id "\<lambda>f. \<forall>r. fr_job_id (f r) = fr_job_id r"
  by unfold_locales simp

text \<open>What an enqueued job is asked to do: the columns no operation changes.\<close>

definition job_envelope :: "job_row \<Rightarrow> rstr \<times> rstr \<times> rstr \<times> rstr \<times> int \<times> int \<times> int" where
  "job_envelope r = (jr_job_id r, jr_idempotency_key r, jr_payload_json r, jr_input_hash r,
     jr_retry_limit r, jr_backoff_ms r, jr_created_at_ms r)"

definition ids_with :: "job_state \<Rightarrow> job_row list \<Rightarrow> rstr set" where
  "ids_with state jobs = jr_job_id ` {j \<in> set jobs. jr_state j = state}"

definition row_ok :: "job_row \<Rightarrow> bool" where
  "row_ok j \<longleftrightarrow> 0 \<le> jr_attempt j \<and> jr_attempt j \<le> jr_fence j
     \<and> (if jr_state j = Running
        then 0 < jr_fence j \<and> jr_lease_owner j \<noteq> None \<and> jr_lease_expires_at_ms j \<noteq> None
        else jr_lease_owner j = None \<and> jr_lease_expires_at_ms j = None)"

definition job_inv :: "database \<Rightarrow> bool" where
  "job_inv db \<longleftrightarrow>
     distinct (map jr_job_id (db_jobs db)) \<and> distinct (map jr_idempotency_key (db_jobs db))
     \<and> list_all row_ok (db_jobs db)
     \<and> distinct (map rr_job_id (db_job_results db)) \<and> distinct (map fr_job_id (db_job_failures db))
     \<and> rr_job_id ` set (db_job_results db) = ids_with Succeeded (db_jobs db)
     \<and> fr_job_id ` set (db_job_failures db) = ids_with Failed (db_jobs db)"

lemma job_invD:
  assumes "job_inv db"
  shows "distinct (map jr_job_id (db_jobs db))" "distinct (map jr_idempotency_key (db_jobs db))"
    "\<And>j. j \<in> set (db_jobs db) \<Longrightarrow> row_ok j"
    "distinct (map rr_job_id (db_job_results db))" "distinct (map fr_job_id (db_job_failures db))"
    "rr_job_id ` set (db_job_results db) = ids_with Succeeded (db_jobs db)"
    "fr_job_id ` set (db_job_failures db) = ids_with Failed (db_jobs db)"
  using assms by (simp_all add: job_inv_def list_all_iff)

lemma ids_with_disjoint:
  assumes "distinct (map jr_job_id rows)" and "st \<noteq> st'"
  shows "ids_with st rows \<inter> ids_with st' rows = {}"
proof (rule equals0I)
  fix i
  assume "i \<in> ids_with st rows \<inter> ids_with st' rows"
  then obtain a b where "a \<in> set rows" "b \<in> set rows" "jr_job_id a = jr_job_id b"
    "jr_state a = st" "jr_state b = st'"
    by (auto simp: ids_with_def)
  then show False using jobs.row_unique [OF assms(1), of a b] assms(2) by simp
qed

lemma job_inv_empty: "job_inv empty_database"
  by (simp add: job_inv_def empty_database_def ids_with_def)

section \<open>Row updates\<close>

lemma ids_with_simps:
  "ids_with state [] = {}"
  "ids_with state (j # jobs) =
     (if jr_state j = state then insert (jr_job_id j) (ids_with state jobs) else ids_with state jobs)"
  by (auto simp: ids_with_def)

lemma ids_with_update_other:
  assumes "keeps_job_id f"
    and "\<And>r. r \<in> set rows \<Longrightarrow> P r \<Longrightarrow> jr_state r \<noteq> state \<and> jr_state (f r) \<noteq> state"
  shows "ids_with state (update_rows P f rows) = ids_with state rows"
  using assms(2)
proof (induction rows)
  case (Cons r rows)
  have "ids_with state (update_rows P f rows) = ids_with state rows"
    by (rule Cons.IH, rule Cons.prems) simp_all
  moreover have "jr_state r \<noteq> state \<and> jr_state (f r) \<noteq> state" if "P r"
    by (rule Cons.prems) (simp_all add: that)
  ultimately show ?case by (cases "P r") (simp_all add: update_rows_def ids_with_simps assms(1))
qed (simp add: update_rows_def)

lemma ids_with_update_new:
  assumes "keeps_job_id f" and "r \<in> set rows" and "P r"
    and "\<And>s. P s \<Longrightarrow> jr_job_id s = jr_job_id r" and "\<And>s. jr_state (f s) = state"
  shows "ids_with state (update_rows P f rows) = insert (jr_job_id r) (ids_with state rows)"
proof -
  have "jr_job_id ` (f ` {s \<in> set rows. P s}) = jr_job_id ` {s \<in> set rows. P s}"
    by (simp add: image_image assms(1))
  also have "\<dots> = {jr_job_id r}"
    using assms(2-4) by blast
  finally have upd: "jr_job_id ` (f ` {s \<in> set rows. P s}) = {jr_job_id r}" .
  have "{s \<in> set (update_rows P f rows). jr_state s = state} =
      f ` {s \<in> set rows. P s} \<union> {s \<in> set rows. \<not> P s \<and> jr_state s = state}"
    using assms(5) by (auto simp: set_update_rows)
  then have "ids_with state (update_rows P f rows) =
      {jr_job_id r} \<union> jr_job_id ` {s \<in> set rows. \<not> P s \<and> jr_state s = state}"
    by (simp only: ids_with_def image_Un upd)
  also have "\<dots> = insert (jr_job_id r) (ids_with state rows)"
    unfolding ids_with_def using assms(4) by blast
  finally show ?thesis .
qed

lemma row_ok_update:
  "list_all row_ok rows \<Longrightarrow> (\<And>r. r \<in> set rows \<Longrightarrow> P r \<Longrightarrow> row_ok r \<Longrightarrow> row_ok (f r)) \<Longrightarrow>
     list_all row_ok (update_rows P f rows)"
  by (auto simp: list_all_iff set_update_rows)

lemma idempotency_keys_update:
  "(\<And>r. jr_idempotency_key (f r) = jr_idempotency_key r) \<Longrightarrow>
     map jr_idempotency_key (update_rows P f rows) = map jr_idempotency_key rows"
  by (simp add: update_rows_def)

lemma job_inv_update:
  assumes inv: "job_inv db" and keeps: "keeps_job_id f"
    and "\<And>r. jr_idempotency_key (f r) = jr_idempotency_key r"
    and "\<And>r. r \<in> set (db_jobs db) \<Longrightarrow> P r \<Longrightarrow> row_ok r \<Longrightarrow> row_ok (f r)"
    and other: "\<And>r. r \<in> set (db_jobs db) \<Longrightarrow> P r \<Longrightarrow>
        jr_state r \<notin> {Succeeded, Failed} \<and> jr_state (f r) \<notin> {Succeeded, Failed}"
  shows "job_inv (db\<lparr>db_jobs := update_rows P f (db_jobs db)\<rparr>)"
proof -
  have "ids_with st (update_rows P f (db_jobs db)) = ids_with st (db_jobs db)"
    if "st \<in> {Succeeded, Failed}" for st
    by (rule ids_with_update_other [OF keeps]) (use other that in fastforce)
  then show ?thesis
    using inv assms(3,4) row_ok_update [of "db_jobs db" P f]
    by (simp add: job_inv_def jobs.keys_update [OF keeps] idempotency_keys_update)
qed

lemma release_lease_simps [simp]:
  "jr_job_id (release_lease st now r) = jr_job_id r"
  "jr_idempotency_key (release_lease st now r) = jr_idempotency_key r"
  "jr_state (release_lease st now r) = st"
  "jr_fence (release_lease st now r) = jr_fence r"
  "jr_attempt (release_lease st now r) = jr_attempt r"
  "jr_lease_owner (release_lease st now r) = None"
  "jr_lease_expires_at_ms (release_lease st now r) = None"
  "jr_payload_json (release_lease st now r) = jr_payload_json r"
  "jr_retry_limit (release_lease st now r) = jr_retry_limit r"
  "jr_backoff_ms (release_lease st now r) = jr_backoff_ms r"
  "job_envelope (release_lease st now r) = job_envelope r"
  by (simp_all add: release_lease_def job_envelope_def)

lemma take_lease_simps [simp]:
  "jr_job_id (take_lease o' now e r) = jr_job_id r"
  "jr_idempotency_key (take_lease o' now e r) = jr_idempotency_key r"
  "jr_state (take_lease o' now e r) = Running"
  "jr_fence (take_lease o' now e r) = jr_fence r + 1"
  "jr_attempt (take_lease o' now e r) = jr_attempt r + 1"
  "jr_lease_owner (take_lease o' now e r) = Some o'"
  "jr_lease_expires_at_ms (take_lease o' now e r) = Some e"
  "jr_payload_json (take_lease o' now e r) = jr_payload_json r"
  "jr_retry_limit (take_lease o' now e r) = jr_retry_limit r"
  "jr_backoff_ms (take_lease o' now e r) = jr_backoff_ms r"
  "job_envelope (take_lease o' now e r) = job_envelope r"
  by (simp_all add: take_lease_def job_envelope_def)

lemma row_ok_release: "row_ok r \<Longrightarrow> st \<noteq> Running \<Longrightarrow> row_ok (release_lease st now r)"
  by (auto simp: row_ok_def)

lemma row_ok_take: "row_ok r \<Longrightarrow> row_ok (take_lease o' now e r)"
  by (auto simp: row_ok_def)

section \<open>What each operation does\<close>

definition holds_at :: "leased_job \<Rightarrow> int \<Rightarrow> job_row \<Rightarrow> bool" where
  "holds_at leased now_ms r \<longleftrightarrow> holds_row leased r
     \<and> (case jr_lease_expires_at_ms r of None \<Rightarrow> False | Some e \<Rightarrow> e > now_ms)"

lemma ensure_lease_cases:
  "ensure_lease l now db = (if \<exists>r\<in>set (db_jobs db). holds_at l now r then Ok () else Err LeaseLost)"
  by (auto simp: ensure_lease_def holds_at_def holds_row_def list_ex_iff)

lemma held_once:
  assumes "job_inv db" and "r \<in> set (db_jobs db)" and "holds_row l r"
  shows "changed_rows (holds_row l) (db_jobs db) = 1"
  using jobs.changed_one_iff(1) [OF job_invD(1) [OF assms(1)], of "holds_row l" "lj_job_id l"] assms(2,3)
  by (auto simp: holds_row_def)

lemma running_no_outcome:
  assumes "job_inv db" and "r \<in> set (db_jobs db)" and "jr_state r = Running"
  shows "jr_job_id r \<notin> rr_job_id ` set (db_job_results db)"
    and "jr_job_id r \<notin> fr_job_id ` set (db_job_failures db)"
proof -
  have "jr_job_id r \<notin> ids_with st (db_jobs db)" if "st \<noteq> Running" for st
    using that jobs.row_unique [OF job_invD(1) [OF assms(1)]] assms(2,3)
    by (fastforce simp: ids_with_def)
  then show "jr_job_id r \<notin> rr_job_id ` set (db_job_results db)"
    and "jr_job_id r \<notin> fr_job_id ` set (db_job_failures db)"
    using job_invD(6,7) [OF assms(1)] by simp_all
qed

definition result_of :: "externals \<Rightarrow> leased_job \<Rightarrow> u64 \<Rightarrow> int \<Rightarrow> result_row" where
  "result_of ext l n now =
     \<lparr>rr_job_id = lj_job_id l,
      rr_result_hash = digest_text ext (result_json ext (lj_blob_sha256 l) n),
      rr_result_json = result_json ext (lj_blob_sha256 l) n,
      rr_winning_owner = lj_owner l, rr_winning_fence = lj_fence l, rr_committed_at_ms = now\<rparr>"

definition failure_of :: "leased_job \<Rightarrow> rstr \<Rightarrow> rstr \<Rightarrow> int \<Rightarrow> failure_row" where
  "failure_of l code action now =
     \<lparr>fr_job_id = lj_job_id l, fr_failure_code = code, fr_user_action_key = action,
      fr_failed_at_ms = now\<rparr>"

lemma outcome_row_simps [simp]:
  "rr_job_id (result_of ext l n now) = lj_job_id l"
  "fr_job_id (failure_of l c a now) = lj_job_id l"
  by (simp_all add: result_of_def failure_of_def)

lemma complete_cases:
  assumes inv: "job_inv db"
  shows "complete ext l n now db =
    (if \<exists>r\<in>set (db_jobs db). holds_at l now r
     then Ok (db\<lparr>db_job_results := db_job_results db @ [result_of ext l n now],
                  db_jobs := update_rows (holds_row l) (release_lease Succeeded now) (db_jobs db)\<rparr>)
     else Err LeaseLost)"
proof (cases "\<exists>r\<in>set (db_jobs db). holds_at l now r")
  case True
  then obtain r where r: "r \<in> set (db_jobs db)" "holds_row l r" and held: "holds_at l now r"
    by (auto simp: holds_at_def)
  have running: "jr_state r = Running" and id: "jr_job_id r = lj_job_id l"
    and fence: "jr_fence r = lj_fence l"
    using r(2) by (auto simp: holds_row_def)
  have "\<not> list_ex (\<lambda>s. rr_job_id s = lj_job_id l) (db_job_results db)"
    using running_no_outcome(1) [OF inv r(1) running] by (auto simp: list_ex_iff image_iff id)
  moreover have "0 < lj_fence l"
    using job_invD(3) [OF inv r(1)] running fence by (auto simp: row_ok_def)
  ultimately show ?thesis
    using True held_once [OF inv r]
    by (simp add: complete_def ensure_lease_cases result_of_def settle_rows_def Let_def)
next
  case False
  then show ?thesis by (simp add: complete_def ensure_lease_cases Let_def)
qed

lemma fail_permanently_cases:
  assumes inv: "job_inv db"
  shows "fail_permanently l c a now db =
    (if \<exists>r\<in>set (db_jobs db). holds_at l now r
     then Ok (db\<lparr>db_job_failures := db_job_failures db @ [failure_of l c a now],
                  db_jobs := update_rows (holds_row l) (release_lease Failed now) (db_jobs db)\<rparr>)
     else Err LeaseLost)"
proof (cases "\<exists>r\<in>set (db_jobs db). holds_at l now r")
  case True
  then obtain r where r: "r \<in> set (db_jobs db)" "holds_row l r"
    by (auto simp: holds_at_def)
  have running: "jr_state r = Running" and id: "jr_job_id r = lj_job_id l"
    using r(2) by (auto simp: holds_row_def)
  have "delete_rows (\<lambda>s. fr_job_id s = lj_job_id l) (db_job_failures db) = db_job_failures db"
    using running_no_outcome(2) [OF inv r(1) running]
    by (auto simp: delete_rows_def id filter_id_conv image_iff)
  then show ?thesis
    using True held_once [OF inv r]
    by (simp add: fail_permanently_def ensure_lease_cases failure_of_def settle_rows_def)
next
  case False
  then show ?thesis by (simp add: fail_permanently_def ensure_lease_cases)
qed

definition requeue :: "leased_job \<Rightarrow> int \<Rightarrow> job_row \<Rightarrow> job_row" where
  "requeue l now r = (release_lease Queued now r)
     \<lparr>jr_available_at_ms := i64_saturating_add now (lj_backoff_ms l)\<rparr>"

lemma requeue_simps [simp]:
  "jr_job_id (requeue l now r) = jr_job_id r"
  "jr_idempotency_key (requeue l now r) = jr_idempotency_key r"
  "jr_state (requeue l now r) = Queued"
  "jr_fence (requeue l now r) = jr_fence r"
  "jr_attempt (requeue l now r) = jr_attempt r"
  "jr_available_at_ms (requeue l now r) = i64_saturating_add now (lj_backoff_ms l)"
  "job_envelope (requeue l now r) = job_envelope r"
  by (simp_all add: requeue_def) (simp add: job_envelope_def release_lease_def)

lemma retry_cases:
  assumes inv: "job_inv db"
  shows "retry l now db =
    (if \<exists>r\<in>set (db_jobs db). holds_at l now r
     then if lj_attempt l > lj_retry_limit l then Ok (db, False)
          else Ok (db\<lparr>db_jobs := update_rows (holds_row l) (requeue l now) (db_jobs db)\<rparr>, True)
     else Err LeaseLost)"
proof (cases "\<exists>r\<in>set (db_jobs db). holds_at l now r")
  case True
  then obtain r where r: "r \<in> set (db_jobs db)" "holds_row l r"
    by (auto simp: holds_at_def)
  have "requeue l now = (\<lambda>r. (release_lease Queued now r)
     \<lparr>jr_available_at_ms := i64_saturating_add now (lj_backoff_ms l)\<rparr>)"
    by (rule ext) (simp add: requeue_def)
  then show ?thesis
    using True held_once [OF inv r]
    by (simp add: retry_def ensure_lease_cases settle_rows_def Let_def)
next
  case False
  then show ?thesis by (simp add: retry_def ensure_lease_cases Let_def)
qed

definition lease_of :: "rstr \<Rightarrow> rstr \<Rightarrow> job_row \<Rightarrow> leased_job" where
  "lease_of owner sha j =
     \<lparr>lj_job_id = jr_job_id j, lj_blob_sha256 = sha, lj_owner = owner, lj_fence = jr_fence j + 1,
      lj_attempt = jr_attempt j + 1, lj_retry_limit = jr_retry_limit j,
      lj_backoff_ms = jr_backoff_ms j\<rparr>"

lemma lease_of_simps [simp]:
  "lj_job_id (lease_of owner sha j) = jr_job_id j"
  "lj_blob_sha256 (lease_of owner sha j) = sha"
  "lj_owner (lease_of owner sha j) = owner"
  "lj_fence (lease_of owner sha j) = jr_fence j + 1"
  "lj_attempt (lease_of owner sha j) = jr_attempt j + 1"
  "lj_retry_limit (lease_of owner sha j) = jr_retry_limit j"
  "lj_backoff_ms (lease_of owner sha j) = jr_backoff_ms j"
  by (simp_all add: lease_of_def)

definition leased_db :: "rstr \<Rightarrow> int \<Rightarrow> int \<Rightarrow> job_row \<Rightarrow> database \<Rightarrow> database" where
  "leased_db owner now expires j db =
     db\<lparr>db_jobs := update_rows (\<lambda>r. jr_job_id r = jr_job_id j) (take_lease owner now expires)
           (db_jobs db)\<rparr>"

lemma claim_cases:
  assumes inv: "job_inv db"
  shows "claim ext owner now lease_ms db =
    (if owner = [] \<or> lease_ms \<le> 0 then Err (InvalidInput ''worker_lease'')
     else case i64_checked_add now lease_ms of
       None \<Rightarrow> Err (InvalidInput ''worker_lease'')
     | Some expires \<Rightarrow>
         (case first_by claim_order (filter (claimable now db) (db_jobs db)) of
            None \<Rightarrow> Ok (db, None)
          | Some j \<Rightarrow>
              if jr_attempt j + 1 > i64_max \<or> jr_fence j + 1 > i64_max then Err Sqlite
              else case extract_blob_sha256 ext (jr_payload_json j) of
                None \<Rightarrow> Err Sqlite
              | Some sha \<Rightarrow> Ok (leased_db owner now expires j db, Some (lease_of owner sha j))))"
proof -
  have found: "find (\<lambda>r. jr_job_id r = jr_job_id j)
      (update_rows (\<lambda>r. jr_job_id r = jr_job_id j) (take_lease owner now e) (db_jobs db))
      = Some (take_lease owner now e j)"
    if "first_by claim_order (filter (claimable now db) (db_jobs db)) = Some j" for j e
  proof -
    have "j \<in> set (db_jobs db)" using first_by_Some(1) [OF that] by simp
    then have "jobs.lookup (db_jobs db) (jr_job_id j) = Some j"
      using jobs.lookup_Some_iff [OF job_invD(1) [OF inv]] by simp
    then show ?thesis
      by (simp add: jobs.lookup_def [symmetric] jobs.lookup_update)
  qed
  show ?thesis
  proof (cases "i64_checked_add now lease_ms")
    case None
    then show ?thesis by (simp add: claim_def ok_or_def)
  next
    case expires: (Some e)
    show ?thesis
    proof (cases "first_by claim_order (filter (claimable now db) (db_jobs db))")
      case None
      then show ?thesis using expires by (simp add: claim_def ok_or_def)
    next
      case (Some j)
      show ?thesis
        by (cases "extract_blob_sha256 ext (jr_payload_json j)")
          (simp_all add: claim_def ok_or_def leased_db_def lease_of_def Let_def expires Some
            found [OF Some])
    qed
  qed
qed

section \<open>Preservation\<close>

lemma insert_verify_job_Ok:
  assumes "insert_verify_job ext job_id k sha now db = Ok db'"
  shows "db' = db \<or>
    (job_id \<notin> jr_job_id ` set (db_jobs db) \<and> k \<notin> jr_idempotency_key ` set (db_jobs db)
     \<and> db' = db\<lparr>db_jobs := db_jobs db @ [new_job_row ext job_id k (payload_json ext sha) now]\<rparr>)"
proof (cases "list_ex (\<lambda>r. jr_job_id r = job_id \<or> jr_idempotency_key r = k) (db_jobs db)")
  case True
  then show ?thesis
    using assms
    by (cases "validate_hash sha") (simp_all add: insert_verify_job_def Let_def split: option.splits if_splits)
next
  case False
  then show ?thesis
    using assms
    by (cases "validate_hash sha") (auto simp: insert_verify_job_def Let_def list_ex_iff)
qed

lemma new_job_row_simps [simp]:
  "jr_job_id (new_job_row ext i k p now) = i"
  "jr_idempotency_key (new_job_row ext i k p now) = k"
  "jr_state (new_job_row ext i k p now) = Queued"
  "jr_payload_json (new_job_row ext i k p now) = p"
  "jr_input_hash (new_job_row ext i k p now) = digest_text ext p"
  "jr_available_at_ms (new_job_row ext i k p now) = now"
  "jr_lease_expires_at_ms (new_job_row ext i k p now) = None"
  "jr_fence (new_job_row ext i k p now) = 0"
  "jr_attempt (new_job_row ext i k p now) = 0"
  "jr_retry_limit (new_job_row ext i k p now) = 2"
  "row_ok (new_job_row ext i k p now)"
  by (simp_all add: new_job_row_def row_ok_def)

lemma insert_verify_job_inv:
  assumes "job_inv db" and "insert_verify_job ext i k sha now db = Ok db'"
  shows "job_inv db'"
proof -
  have "ids_with st (rows @ [new_job_row ext i k p now]) = ids_with st rows" if "st \<noteq> Queued" for st rows p
    using that by (auto simp: ids_with_def)
  then show ?thesis
    using insert_verify_job_Ok [OF assms(2)] assms(1) by (auto simp: job_inv_def)
qed

text \<open>A successful storage check touches the job tables through \<open>insert_verify_job\<close> only.\<close>

definition same_jobs :: "database \<Rightarrow> database \<Rightarrow> bool" where
  "same_jobs db db' \<longleftrightarrow> db_jobs db' = db_jobs db \<and> db_job_dependencies db' = db_job_dependencies db
     \<and> db_job_results db' = db_job_results db \<and> db_job_failures db' = db_job_failures db"

lemma record_blob_jobs: "record_blob blob now db = Ok db' \<Longrightarrow> same_jobs db db'"
  by (auto simp: record_blob_def same_jobs_def Let_def split: if_splits option.splits)

lemma record_provenance_jobs: "same_jobs db (record_provenance ext req blob now db)"
  by (simp add: record_provenance_def same_jobs_def Let_def)

lemma insert_storage_check_jobs: "insert_storage_check c req sha now db = Ok db' \<Longrightarrow> same_jobs db db'"
  by (auto simp: insert_storage_check_def same_jobs_def split: if_splits)

lemma insert_receipt_jobs: "insert_receipt row db = Ok db' \<Longrightarrow> same_jobs db db'"
  by (auto simp: insert_receipt_def same_jobs_def split: if_splits)

lemma same_jobs_trans: "same_jobs a b \<Longrightarrow> same_jobs b c \<Longrightarrow> same_jobs a c"
  by (simp add: same_jobs_def)

lemma same_jobs_inv: "same_jobs db db' \<Longrightarrow> job_inv db' = job_inv db"
  by (simp add: same_jobs_def job_inv_def)

lemma run_storage_check_new:
  assumes "run_storage_check ext req blob now db = Ok (db', out)"
    and "find (\<lambda>r. cm_request_id r = req \<and> cm_command_name r = lit ''run_storage_check_v1'')
      (db_command_receipts db) = None"
  obtains db1 db2 db3 row where "record_blob blob now db = Ok db1"
    "insert_storage_check (stable_id ext (lit ''check'') req) req (bk_sha256 blob) now
       (record_provenance ext req blob now db1) = Ok db2"
    "insert_verify_job ext (stable_id ext (lit ''job'') req) (lit ''storage-check:'' @ req)
       (bk_sha256 blob) now db2 = Ok db3"
    "insert_receipt row db3 = Ok db'"
  using assms by (auto simp: run_storage_check_def Let_def result_simps split: if_splits)

lemma run_storage_check_jobs:
  assumes "run_storage_check ext req blob now db = Ok (db', out)"
  shows "db' = db \<or> (\<exists>db1 db2 i k. same_jobs db db1
      \<and> insert_verify_job ext i k (bk_sha256 blob) now db1 = Ok db2 \<and> same_jobs db2 db')"
proof (cases "find (\<lambda>r. cm_request_id r = req \<and> cm_command_name r = lit ''run_storage_check_v1'')
    (db_command_receipts db)")
  case None
  from run_storage_check_new [OF assms None] obtain db1 db2 db3 row where
    steps: "record_blob blob now db = Ok db1"
      "insert_storage_check (stable_id ext (lit ''check'') req) req (bk_sha256 blob) now
         (record_provenance ext req blob now db1) = Ok db2"
      "insert_verify_job ext (stable_id ext (lit ''job'') req) (lit ''storage-check:'' @ req)
         (bk_sha256 blob) now db2 = Ok db3"
      "insert_receipt row db3 = Ok db'" .
  have "same_jobs db db2"
    using record_blob_jobs [OF steps(1)] record_provenance_jobs insert_storage_check_jobs [OF steps(2)]
    by (blast intro: same_jobs_trans)
  then show ?thesis using steps(3) insert_receipt_jobs [OF steps(4)] by blast
next
  case (Some r)
  then show ?thesis
    using assms by (auto simp: run_storage_check_def Let_def result_simps split: if_splits)
qed

lemma run_storage_check_inv:
  "job_inv db \<Longrightarrow> run_storage_check ext req blob now db = Ok (db', out) \<Longrightarrow> job_inv db'"
  by (drule run_storage_check_jobs) (metis insert_verify_job_inv same_jobs_inv)

end
