(* ===== verification/Job_Properties.thy ===== *)
theory Job_Properties
  imports Job_Correctness
begin

text \<open>
  The guarantees of the job queue along runs: the outcome tables, the permanence of outcomes, fencing,
  the choice of the claimed job, the worker's settlement of its claim, idempotent enqueueing and the
  refinement of an abstract job machine.
\<close>

section \<open>Runs\<close>

lemma results_step:
  assumes "job_step ext db db'" and "job_inv db" and "results.lookup (db_job_results db) i = Some r"
  shows "results.lookup (db_job_results db') i = Some r"
  using assms
proof (induction rule: job_step.induct)
  case (step_enqueue k sha now db db' n)
  then show ?case using enqueue_Ok [OF step_enqueue.hyps] insert_verify_job_Ok by fastforce
next
  case (step_storage_check req blob now db db' out)
  then show ?case
    using run_storage_check_jobs [OF step_storage_check.hyps] insert_verify_job_Ok
    by (fastforce simp: same_jobs_def)
next
  case (step_claim owner now lease_ms db db' l)
  then have "db_job_results db' = db_job_results db"
    by (auto simp: claim_cases leased_db_def split: if_splits option.splits)
  then show ?case using step_claim by simp
next
  case (step_complete_known l now db db')
  then obtain n where "complete ext l n now db = Ok db'" using complete_known_Ok by blast
  then show ?case
    using step_complete_known.prems by (auto simp: complete_cases results.lookup_append split: if_splits)
qed (auto simp: complete_cases fail_permanently_cases retry_cases restore_jobs_def
    results.lookup_append split: if_splits)

lemma failures_step:
  assumes "job_step ext db db'" and "job_inv db" and "failures.lookup (db_job_failures db) i = Some r"
  shows "failures.lookup (db_job_failures db') i = Some r"
  using assms
proof (induction rule: job_step.induct)
  case (step_enqueue k sha now db db' n)
  then show ?case using enqueue_Ok [OF step_enqueue.hyps] insert_verify_job_Ok by fastforce
next
  case (step_storage_check req blob now db db' out)
  then show ?case
    using run_storage_check_jobs [OF step_storage_check.hyps] insert_verify_job_Ok
    by (fastforce simp: same_jobs_def)
next
  case (step_claim owner now lease_ms db db' l)
  then have "db_job_failures db' = db_job_failures db"
    by (auto simp: claim_cases leased_db_def split: if_splits option.splits)
  then show ?case using step_claim by simp
next
  case (step_complete_known l now db db')
  then obtain n where "complete ext l n now db = Ok db'" using complete_known_Ok by blast
  then show ?case
    using step_complete_known.prems by (auto simp: complete_cases split: if_splits)
qed (auto simp: complete_cases fail_permanently_cases retry_cases restore_jobs_def
    failures.lookup_append split: if_splits)

interpretation job_rows: durable_rows "job_step ext" job_inv "\<lambda>db. jobs.lookup (db_jobs db)" row_evolves
  for ext
  by unfold_locales
    (auto intro: job_step_inv row_evolves_refl row_evolves_trans job_step_evolves)

interpretation result_rows: durable_rows "job_step ext" job_inv
    "\<lambda>db. results.lookup (db_job_results db)" "(=)" for ext
  by unfold_locales (auto intro: job_step_inv results_step)

interpretation failure_rows: durable_rows "job_step ext" job_inv
    "\<lambda>db. failures.lookup (db_job_failures db)" "(=)" for ext
  by unfold_locales (auto intro: job_step_inv failures_step)

abbreviation reachable_database :: "externals \<Rightarrow> database \<Rightarrow> bool" where
  "reachable_database ext db \<equiv> (job_step ext)\<^sup>*\<^sup>* empty_database db"

lemma reachable_inv: "reachable_database ext db \<Longrightarrow> job_inv db"
  using job_rows.run_inv [of ext empty_database db] job_inv_empty by blast

section \<open>Fencing\<close>

lemma not_held_lost:
  assumes "job_inv db" and "\<not> (\<exists>r\<in>set (db_jobs db). holds_at l now r)"
  shows "complete ext l n now db = Err LeaseLost" "fail_permanently l c a now db = Err LeaseLost"
    "retry l now db = Err LeaseLost"
  using assms by (simp_all add: complete_cases fail_permanently_cases retry_cases)

text \<open>A lease is live while its row is running under its fence.\<close>

definition lease_live :: "leased_job \<Rightarrow> database \<Rightarrow> bool" where
  "lease_live l db \<longleftrightarrow> (\<exists>r. jobs.lookup (db_jobs db) (lj_job_id l) = Some r
     \<and> jr_state r = Running \<and> jr_fence r = lj_fence l)"

definition lease_issued :: "leased_job \<Rightarrow> database \<Rightarrow> bool" where
  "lease_issued l db \<longleftrightarrow> (\<exists>r. jobs.lookup (db_jobs db) (lj_job_id l) = Some r \<and> lj_fence l \<le> jr_fence r)"

lemma held_live:
  "job_inv db \<Longrightarrow> r \<in> set (db_jobs db) \<Longrightarrow> holds_at l now r \<Longrightarrow> lease_live l db"
  using jobs.lookup_Some_iff [OF job_invD(1), of db "lj_job_id l" r]
  by (auto simp: lease_live_def holds_at_def holds_row_def)

lemma lost_stays_lost:
  assumes "job_inv db" and "lease_issued l db" and "\<not> lease_live l db" and "(job_step ext)\<^sup>*\<^sup>* db db'"
  shows "\<not> lease_live l db'"
proof
  assume live: "lease_live l db'"
  from assms(2) obtain r where r: "jobs.lookup (db_jobs db) (lj_job_id l) = Some r" "lj_fence l \<le> jr_fence r"
    by (auto simp: lease_issued_def)
  then obtain r' where "jobs.lookup (db_jobs db') (lj_job_id l) = Some r'" "row_evolves r r'"
    using job_rows.run_evolves [OF assms(4,1)] by blast
  then have "r' = r" "jr_state r = Running" "jr_fence r = lj_fence l"
    using live r(2) by (auto simp: lease_live_def row_evolves_def)
  then show False using assms(3) r(1) by (auto simp: lease_live_def)
qed

lemma claim_issues:
  assumes inv: "job_inv db" and "claim ext owner now lease_ms db = Ok (db', Some l)"
  shows "lease_live l db'" "lease_issued l db'"
    "\<exists>r. jobs.lookup (db_jobs db) (lj_job_id l) = Some r \<and> lj_fence l = jr_fence r + 1"
proof -
  from claim_Some [OF assms] obtain j sha where j: "j \<in> set (db_jobs db)" "l = lease_of owner sha j"
    "db' = leased_db owner now (now + lease_ms) j db" by metis
  have look: "jobs.lookup (db_jobs db) (jr_job_id j) = Some j"
    using jobs.lookup_Some_iff [OF job_invD(1) [OF inv]] j(1) by simp
  then show "lease_live l db'" "lease_issued l db'"
    by (simp_all add: lease_live_def lease_issued_def j(2,3) leased_db_def jobs.lookup_update)
  show "\<exists>r. jobs.lookup (db_jobs db) (lj_job_id l) = Some r \<and> lj_fence l = jr_fence r + 1"
    using look by (simp add: j(2))
qed

section \<open>The worker\<close>

definition job_of :: "database \<Rightarrow> rstr \<Rightarrow> job_row option" where
  "job_of db i = find (\<lambda>r. jr_job_id r = i) (db_jobs db)"

definition result_of_job :: "database \<Rightarrow> rstr \<Rightarrow> result_row option" where
  "result_of_job db i = find (\<lambda>r. rr_job_id r = i) (db_job_results db)"

definition failure_of_job :: "database \<Rightarrow> rstr \<Rightarrow> failure_row option" where
  "failure_of_job db i = find (\<lambda>r. fr_job_id r = i) (db_job_failures db)"

lemma row_lookups:
  "job_of db = jobs.lookup (db_jobs db)"
  "result_of_job db = results.lookup (db_job_results db)"
  "failure_of_job db = failures.lookup (db_job_failures db)"
  by (simp_all add: fun_eq_iff job_of_def result_of_job_def failure_of_job_def
      jobs.lookup_def results.lookup_def failures.lookup_def)

text \<open>The database right after a claim: the lease is held at the claim's own time.\<close>

lemma claimed_held:
  assumes inv: "job_inv db" and "claim ext owner now lease_ms db = Ok (db', Some l)"
  obtains r where "r \<in> set (db_jobs db')" "holds_at l now r"
    "jobs.lookup (db_jobs db') (lj_job_id l) = Some r"
proof -
  from claim_Some [OF assms] obtain j sha where j: "j \<in> set (db_jobs db)" "0 < lease_ms"
    "l = lease_of owner sha j" "db' = leased_db owner now (now + lease_ms) j db" by metis
  let ?r = "take_lease owner now (now + lease_ms) j"
  have "jobs.lookup (db_jobs db) (jr_job_id j) = Some j"
    using jobs.lookup_Some_iff [OF job_invD(1) [OF inv]] j(1) by simp
  then have look: "jobs.lookup (db_jobs db') (lj_job_id l) = Some ?r"
    by (simp add: j(3,4) leased_db_def jobs.lookup_update)
  moreover have "holds_at l now ?r"
    using j(2) by (simp add: holds_at_def holds_row_def j(3))
  ultimately show thesis using jobs.lookup_Some_in [OF look] by (intro that [of ?r]) simp_all
qed

lemma settled_row:
  assumes inv: "job_inv db" and held: "jobs.lookup (db_jobs db) (lj_job_id l) = Some r" "holds_at l now r"
    and "keeps_job_id f"
  shows "jobs.lookup (update_rows (holds_row l) f (db_jobs db)) (lj_job_id l) = Some (f r)"
  using assms(2-4) by (simp add: jobs.lookup_update holds_at_def)

lemma fresh_outcome_lookup:
  assumes inv: "job_inv db" and held: "jobs.lookup (db_jobs db) (lj_job_id l) = Some r" "holds_at l now r"
  shows "results.lookup (db_job_results db @ [result_of ext l n t]) (lj_job_id l) = Some (result_of ext l n t)"
    and "failures.lookup (db_job_failures db @ [failure_of l c a t]) (lj_job_id l) = Some (failure_of l c a t)"
proof -
  have "r \<in> set (db_jobs db)" "jr_job_id r = lj_job_id l" "jr_state r = Running"
    using jobs.lookup_Some_in [OF held(1)] held(2) by (auto simp: holds_at_def holds_row_def)
  then have "results.lookup (db_job_results db) (lj_job_id l) = None"
    "failures.lookup (db_job_failures db) (lj_job_id l) = None"
    using running_no_outcome [OF inv, of r] by (simp_all add: results.lookup_None_iff failures.lookup_None_iff)
  then show "results.lookup (db_job_results db @ [result_of ext l n t]) (lj_job_id l) = Some (result_of ext l n t)"
    and "failures.lookup (db_job_failures db @ [failure_of l c a t]) (lj_job_id l) = Some (failure_of l c a t)"
    by (simp_all add: results.lookup_append failures.lookup_append)
qed

lemma settle_held:
  assumes "job_inv db" and "r \<in> set (db_jobs db)" and "holds_at l now r"
  shows "complete ext l n now db = Ok (db\<lparr>db_job_results := db_job_results db @ [result_of ext l n now],
           db_jobs := update_rows (holds_row l) (release_lease Succeeded now) (db_jobs db)\<rparr>)"
    and "fail_permanently l c a now db = Ok (db\<lparr>db_job_failures := db_job_failures db @ [failure_of l c a now],
           db_jobs := update_rows (holds_row l) (release_lease Failed now) (db_jobs db)\<rparr>)"
    and "retry l now db = (if lj_attempt l > lj_retry_limit l then Ok (db, False)
           else Ok (db\<lparr>db_jobs := update_rows (holds_row l) (requeue l now) (db_jobs db)\<rparr>, True))"
  using assms by (auto simp: complete_cases fail_permanently_cases retry_cases)

text \<open>
  How the worker settles a verification error: an input/output error other than a missing file is
  retried while attempts are left, everything else is a permanent failure with a code and an action.
\<close>

fun transient_error :: "platform_error \<Rightarrow> bool" where
  "transient_error (Io e) \<longleftrightarrow> e \<noteq> IoNotFound"
| "transient_error _ \<longleftrightarrow> False"

fun failure_report :: "platform_error \<Rightarrow> rstr \<times> rstr" where
  "failure_report (Io IoNotFound) = (lit ''blob_missing'', lit ''rerun_storage_check'')"
| "failure_report (Corrupt _) = (lit ''blob_integrity_failed'', lit ''rerun_storage_check'')"
| "failure_report (Io _) = (lit ''blob_unavailable'', lit ''retry_when_storage_available'')"
| "failure_report _ = (lit ''verify_blob_failed'', lit ''rerun_storage_check'')"

definition settled :: "externals \<Rightarrow> leased_job \<Rightarrow> u64 platform_result \<Rightarrow> int \<Rightarrow> database \<Rightarrow>
    run_outcome platform_result \<Rightarrow> bool" where
  "settled ext l verdict now db res \<longleftrightarrow>
     (\<exists>r. job_of db (lj_job_id l) = Some r \<and>
       (case verdict of
          Ok n \<Rightarrow> jr_state r = Succeeded \<and> res = Ok (RunSucceeded (lj_job_id l))
            \<and> result_of_job db (lj_job_id l) = Some (result_of ext l n now)
        | Err e \<Rightarrow>
            if transient_error e \<and> lj_attempt l \<le> lj_retry_limit l
            then jr_state r = Queued \<and> res = Ok (RunRetrying (lj_job_id l))
              \<and> jr_available_at_ms r = i64_saturating_add now (lj_backoff_ms l)
            else jr_state r = Failed \<and> res = Ok (RunFailed (lj_job_id l) (fst (failure_report e)))
              \<and> failure_of_job db (lj_job_id l) =
                  Some (failure_of l (fst (failure_report e)) (snd (failure_report e)) now)))"

lemma permanent_failure_settles:
  assumes inv: "job_inv db" and r: "jobs.lookup (db_jobs db) (lj_job_id l) = Some r" "holds_at l now r"
    and "permanent_failure db l c a now = (db', res)"
  shows "\<exists>r'. job_of db' (lj_job_id l) = Some r' \<and> jr_state r' = Failed
     \<and> res = Ok (RunFailed (lj_job_id l) c) \<and> failure_of_job db' (lj_job_id l) = Some (failure_of l c a now)"
proof -
  have "r \<in> set (db_jobs db)" using jobs.lookup_Some_in [OF r(1)] by simp
  then show ?thesis
    using assms(4) settle_held(2) [OF inv _ r(2)] settled_row [OF inv r, of "release_lease Failed now"]
      fresh_outcome_lookup(2) [OF inv r]
    by (auto simp: permanent_failure_def row_lookups)
qed

lemma run_once_settled:
  assumes inv: "job_inv db"
    and "claim ext (vw_worker_id w) now (vw_lease_ms w) db = Ok (db1, Some l)"
    and "run_once ext w verify now db = (db', res)"
  shows "settled ext l (verify (lj_blob_sha256 l)) now db' res"
proof -
  have inv1: "job_inv db1" by (rule claim_inv [OF inv assms(2)])
  from claimed_held [OF inv assms(2)] obtain r where r: "r \<in> set (db_jobs db1)" "holds_at l now r"
    "jobs.lookup (db_jobs db1) (lj_job_id l) = Some r" .
  note held = settle_held [OF inv1 r(1,2)]
  note fail = permanent_failure_settles [OF inv1 r(3,2)]
  show ?thesis
  proof (cases "verify (lj_blob_sha256 l)")
    case (Ok n)
    then show ?thesis
      using assms(3) settled_row [OF inv1 r(3,2), of "release_lease Succeeded now"]
        fresh_outcome_lookup(1) [OF inv1 r(3,2)]
      by (auto simp: run_once_def assms(2) held(1) settled_def row_lookups)
  next
    case (Err e)
    show ?thesis
    proof (cases "transient_error e")
      case True
      then obtain io where e: "e = Io io" "io \<noteq> IoNotFound" by (cases e) auto
      show ?thesis
      proof (cases "lj_attempt l \<le> lj_retry_limit l")
        case True
        then show ?thesis
          using assms(3) Err e settled_row [OF inv1 r(3,2), of "requeue l now"]
          by (cases io) (auto simp: run_once_def assms(2) held(3) settled_def row_lookups)
      next
        case False
        then have "permanent_failure db1 l (lit ''blob_unavailable'') (lit ''retry_when_storage_available'') now
            = (db', res)"
          using assms(3) Err e by (cases io) (simp_all add: run_once_def assms(2) held(3))
        then show ?thesis using fail False Err e by (cases io) (fastforce simp: settled_def)+
      qed
    next
      case False
      then have "permanent_failure db1 l (fst (failure_report e)) (snd (failure_report e)) now = (db', res)"
        using assms(3) Err by (cases e rule: failure_report.cases) (simp_all add: run_once_def assms(2))
      then show ?thesis using fail False Err by (fastforce simp: settled_def)
    qed
  qed
qed

end
