(* ===== verification/Job_Guarantees.thy ===== *)
theory Job_Guarantees
  imports Job_Properties
begin

text \<open>
  The properties of the job queue, the abstract machine it refines and the runs that show their
  hypotheses can hold.
\<close>

section \<open>Receipts of the storage check\<close>

definition storage_receipt :: "database \<Rightarrow> rstr \<Rightarrow> receipt_row option" where
  "storage_receipt db req =
     find (\<lambda>r. cm_request_id r = req \<and> cm_command_name r = lit ''run_storage_check_v1'')
       (db_command_receipts db)"

lemma find_append_Some: "find P xs = Some x \<Longrightarrow> find P (xs @ ys) = Some x"
  by (induction xs) auto

lemma find_append_new: "find P xs = None \<Longrightarrow> P y \<Longrightarrow> find P (xs @ [y]) = Some y"
  by (induction xs) (auto split: if_splits)

lemma insert_receipt_rows:
  "insert_receipt row db = Ok db' \<Longrightarrow> db_command_receipts db' = db_command_receipts db @ [row]"
  by (auto simp: insert_receipt_def split: if_splits)

lemma insert_verify_job_receipts:
  "insert_verify_job ext i k sha now db = Ok db' \<Longrightarrow> db_command_receipts db' = db_command_receipts db"
  by (drule insert_verify_job_Ok) auto

lemma record_blob_receipts:
  "record_blob blob now db = Ok db' \<Longrightarrow> db_command_receipts db' = db_command_receipts db"
  by (auto simp: record_blob_def Let_def split: if_splits option.splits)

lemma insert_storage_check_receipts:
  "insert_storage_check c req sha now db = Ok db' \<Longrightarrow> db_command_receipts db' = db_command_receipts db"
  by (auto simp: insert_storage_check_def split: if_splits)

lemma record_provenance_receipts [simp]:
  "db_command_receipts (record_provenance ext req blob now db) = db_command_receipts db"
  by (simp add: record_provenance_def Let_def)

lemmas storage_check_receipts =
  record_blob_receipts insert_storage_check_receipts insert_verify_job_receipts insert_receipt_rows

definition storage_outcome :: "externals \<Rightarrow> rstr \<Rightarrow> blob_record \<Rightarrow> storage_check_outcome" where
  "storage_outcome ext req blob =
     \<lparr>so_check_id = stable_id ext (lit ''check'') req, so_job_id = stable_id ext (lit ''job'') req,
      so_blob_sha256 = bk_sha256 blob, so_replayed = False\<rparr>"

lemma storage_check_cases:
  assumes "run_storage_check ext req blob now db = Ok (db', out)"
  shows "(storage_receipt db req \<noteq> None \<and> db' = db) \<or>
    (storage_receipt db req = None \<and> out = storage_outcome ext req blob \<and>
     (\<exists>row. db_command_receipts db' = db_command_receipts db @ [row] \<and> cm_request_id row = req
        \<and> cm_command_name row = lit ''run_storage_check_v1''
        \<and> cm_envelope_hash row = storage_check_envelope ext req blob
        \<and> cm_response_json row = outcome_to_json ext out))"
proof (cases "storage_receipt db req")
  case None
  then show ?thesis
    using assms
    by (auto simp: run_storage_check_def storage_receipt_def storage_outcome_def Let_def result_simps
        split: if_splits dest!: storage_check_receipts)
next
  case (Some r)
  then show ?thesis
    using assms
    by (auto simp: run_storage_check_def storage_receipt_def Let_def result_simps split: if_splits)
qed

lemma receipts_step:
  assumes "job_step ext db db'" and "job_inv db" and "storage_receipt db req = Some r"
  shows "storage_receipt db' req = Some r"
proof -
  have "\<exists>rows. db_command_receipts db' = db_command_receipts db @ rows"
    using assms(1,2)
  proof (induction rule: job_step.induct)
    case (step_storage_check req blob now db db' out)
    then show ?case using storage_check_cases by fastforce
  next
    case (step_enqueue k sha now db db' i)
    then show ?case using enqueue_Ok insert_verify_job_receipts by fastforce
  next
    case (step_complete_known l now db db')
    then obtain n where "complete ext l n now db = Ok db'" using complete_known_Ok by blast
    then show ?case using step_complete_known.prems by (auto simp: complete_cases split: if_splits)
  qed (auto simp: claim_cases leased_db_def complete_cases fail_permanently_cases retry_cases
      restore_jobs_def split: if_splits option.splits)
  then show ?thesis using assms(3) by (auto simp: storage_receipt_def intro: find_append_Some)
qed

interpretation receipt_rows: durable_rows "job_step ext" job_inv storage_receipt "(=)" for ext
  by unfold_locales (auto intro: job_step_inv receipts_step)

section \<open>Settled jobs\<close>

lemma outcome_ids:
  assumes "job_inv db"
  shows "result_of_job db i \<noteq> None \<longleftrightarrow> (\<exists>j. job_of db i = Some j \<and> jr_state j = Succeeded)"
    and "failure_of_job db i \<noteq> None \<longleftrightarrow> (\<exists>j. job_of db i = Some j \<and> jr_state j = Failed)"
proof -
  have mem: "i \<in> ids_with st (db_jobs db) \<longleftrightarrow> (\<exists>j. jobs.lookup (db_jobs db) i = Some j \<and> jr_state j = st)" for st
    using jobs.lookup_Some_iff [OF job_invD(1) [OF assms]] by (auto simp: ids_with_def)
  show "result_of_job db i \<noteq> None \<longleftrightarrow> (\<exists>j. job_of db i = Some j \<and> jr_state j = Succeeded)"
    "failure_of_job db i \<noteq> None \<longleftrightarrow> (\<exists>j. job_of db i = Some j \<and> jr_state j = Failed)"
    using job_invD(6,7) [OF assms]
    by (simp_all add: row_lookups results.lookup_None_iff failures.lookup_None_iff mem)
qed

lemma settled_lookups:
  assumes inv: "job_inv db" "job_inv db'" and run: "(job_step ext)\<^sup>*\<^sup>* db db'"
    and j: "job_of db i = Some j" "jr_state j \<in> {Succeeded, Failed}" "job_of db' i = Some j"
  shows "result_of_job db' i = result_of_job db i \<and> failure_of_job db' i = failure_of_job db i"
proof -
  have "result_of_job db' i = Some r" if "result_of_job db i = Some r" for r
    using result_rows.run_evolves [OF run inv(1)] that by (auto simp: row_lookups)
  moreover have "failure_of_job db' i = Some r" if "failure_of_job db i = Some r" for r
    using failure_rows.run_evolves [OF run inv(1)] that by (auto simp: row_lookups)
  ultimately show ?thesis
    using outcome_ids [OF inv(1), of i] outcome_ids [OF inv(2), of i] j
    by (cases "result_of_job db i"; cases "failure_of_job db i") auto
qed

lemma leased_job_of:
  assumes inv: "job_inv db" and "j \<in> set (db_jobs db)"
  shows "job_of (leased_db owner now e j db) = (job_of db)(jr_job_id j \<mapsto> take_lease owner now e j)"
proof (rule HOL.ext)
  fix i
  have "jobs.lookup (db_jobs db) (jr_job_id j) = Some j"
    using assms(2) jobs.lookup_Some_iff [OF job_invD(1) [OF inv]] by simp
  moreover have "jr_job_id s \<noteq> jr_job_id j" if "jobs.lookup (db_jobs db) i = Some s" "i \<noteq> jr_job_id j" for s
    using that jobs.lookup_Some_in by metis
  ultimately show "job_of (leased_db owner now e j db) i = ((job_of db)(jr_job_id j \<mapsto> take_lease owner now e j)) i"
    by (cases "jobs.lookup (db_jobs db) i") (auto simp: leased_db_def row_lookups jobs.lookup_update)
qed

lemma claimable_dependencies:
  assumes "claimable now db j"
  shows "list_all (\<lambda>d. fst d = jr_job_id j \<longrightarrow>
     (\<forall>p. job_of db (snd d) = Some p \<longrightarrow> jr_state p = Succeeded)) (db_job_dependencies db)"
  using assms jobs.lookup_Some_in
  by (fastforce simp: claimable_def dependencies_succeeded_def list_ex_iff list_all_iff row_lookups)

section \<open>Envelopes\<close>

interpretation by_key: keyed_table jr_idempotency_key
  "\<lambda>f. \<forall>r. jr_idempotency_key (f r) = jr_idempotency_key r"
  by unfold_locales simp

text \<open>A row of the given key with the envelope of an enqueued request.\<close>

definition has_request :: "externals \<Rightarrow> rstr \<Rightarrow> rstr \<Rightarrow> rstr \<Rightarrow> database \<Rightarrow> bool" where
  "has_request ext i k sha db \<longleftrightarrow>
     (\<exists>r. jobs.lookup (db_jobs db) i = Some r \<and> jr_idempotency_key r = k
        \<and> jr_payload_json r = payload_json ext sha
        \<and> jr_input_hash r = digest_text ext (payload_json ext sha))"

lemma has_request_run:
  assumes "job_inv db" and "(job_step ext)\<^sup>*\<^sup>* db db'" and "has_request ext i k sha db"
  shows "has_request ext i k sha db'"
  using job_rows.run_evolves [OF assms(2,1)] assms(3)
  by (fastforce simp: has_request_def row_evolves_def job_envelope_def)

lemma has_request_find:
  assumes "job_inv db" and "has_request ext i k sha db"
  obtains r where "find (\<lambda>r. jr_idempotency_key r = k) (db_jobs db) = Some r" "jr_job_id r = i"
    "jr_payload_json r = payload_json ext sha" "jr_input_hash r = digest_text ext (payload_json ext sha)"
    "r \<in> set (db_jobs db)"
proof -
  from assms(2) obtain r where r: "jobs.lookup (db_jobs db) i = Some r" "jr_idempotency_key r = k"
    "jr_payload_json r = payload_json ext sha" "jr_input_hash r = digest_text ext (payload_json ext sha)"
    by (auto simp: has_request_def)
  then have "by_key.lookup (db_jobs db) k = Some r"
    using by_key.lookup_Some_iff [OF job_invD(2) [OF assms(1)]] jobs.lookup_Some_in [OF r(1)] by simp
  then show thesis using r jobs.lookup_Some_in [OF r(1)] by (intro that [of r]) (simp_all add: by_key.lookup_def)
qed

lemma insert_again:
  assumes "job_inv db" and "has_request ext i k sha db"
    and "validate_hash sha' = Ok ()"
  shows "insert_verify_job ext i k sha' now db =
    (if payload_json ext sha' = payload_json ext sha then Ok db
     else Err (Conflict ''job_envelope_changed''))"
proof -
  from has_request_find [OF assms(1,2)] obtain r where
    r: "find (\<lambda>r. jr_idempotency_key r = k) (db_jobs db) = Some r" "jr_job_id r = i"
    "jr_payload_json r = payload_json ext sha" "jr_input_hash r = digest_text ext (payload_json ext sha)"
    "r \<in> set (db_jobs db)" .
  then have "list_ex (\<lambda>r. jr_job_id r = i \<or> jr_idempotency_key r = k) (db_jobs db)"
    by (auto simp: list_ex_iff)
  then show ?thesis using r(1-4) assms(3) by (simp add: insert_verify_job_def Let_def)
qed

lemma insert_has_request:
  assumes "job_inv db" and "insert_verify_job ext i k sha now db = Ok db'"
  shows "has_request ext i k sha db'" and "validate_hash sha = Ok ()"
proof -
  show valid: "validate_hash sha = Ok ()"
    using assms(2) by (cases "validate_hash sha") (simp_all add: insert_verify_job_def)
  show "has_request ext i k sha db'"
  proof (cases "list_ex (\<lambda>r. jr_job_id r = i \<or> jr_idempotency_key r = k) (db_jobs db)")
    case True
    then obtain r where "find (\<lambda>r. jr_idempotency_key r = k) (db_jobs db) = Some r" "jr_job_id r = i"
      "jr_payload_json r = payload_json ext sha" "jr_input_hash r = digest_text ext (payload_json ext sha)"
      "db' = db"
      using assms(2) valid by (auto simp: insert_verify_job_def Let_def split: option.splits if_splits)
    then show ?thesis
      using jobs.lookup_Some_iff [OF job_invD(1) [OF assms(1)], of i r] by_key.lookup_Some_in [of "db_jobs db" k r]
      by (auto simp: has_request_def by_key.lookup_def)
  next
    case False
    then have "jobs.lookup (db_jobs db) i = None" by (auto simp: list_ex_iff jobs.lookup_None_iff)
    then show ?thesis
      using assms(2) valid False
      by (auto simp: insert_verify_job_def Let_def has_request_def jobs.lookup_append)
  qed
qed

section \<open>The abstract job machine\<close>

text \<open>
  What a client of the queue sees of a job: waiting or leased, with the number of leases handed out
  so far as its generation, or settled. Leases and restores move the generation on; only the current
  lease settles a job.
\<close>

datatype abstract_job = Waiting int | Leased int | Done | Dead

inductive abstract_step :: "(rstr \<rightharpoonup> abstract_job) \<Rightarrow> (rstr \<rightharpoonup> abstract_job) \<Rightarrow> bool" where
  abs_stutter: "abstract_step m m"
| abs_new: "m i = None \<Longrightarrow> abstract_step m (m(i \<mapsto> Waiting 0))"
| abs_lease: "m i \<in> {Some (Waiting n), Some (Leased n)} \<Longrightarrow> abstract_step m (m(i \<mapsto> Leased (n + 1)))"
| abs_settle: "m i = Some (Leased n) \<Longrightarrow> j \<in> {Done, Dead, Waiting n} \<Longrightarrow> abstract_step m (m(i \<mapsto> j))"
| abs_restore: "abstract_step m
    (\<lambda>i. case m i of Some (Leased n) \<Rightarrow> Some (Waiting (n + 1)) | x \<Rightarrow> x)"

fun abstract_row :: "job_state \<Rightarrow> int \<Rightarrow> abstract_job" where
  "abstract_row Queued n = Waiting n"
| "abstract_row Running n = Leased n"
| "abstract_row Succeeded n = Done"
| "abstract_row Failed n = Dead"

definition abstract_jobs :: "database \<Rightarrow> (rstr \<rightharpoonup> abstract_job)" where
  "abstract_jobs db i = map_option (\<lambda>r. abstract_row (jr_state r) (jr_fence r)) (job_of db i)"

lemma abstract_settle:
  assumes inv: "job_inv db" and held: "r \<in> set (db_jobs db)" "holds_row l r" and "keeps_job_id f"
    and "abstract_row (jr_state (f r)) (jr_fence (f r)) \<in> {Done, Dead, Waiting (jr_fence r)}"
  shows "abstract_step (abstract_jobs db)
    (abstract_jobs (db\<lparr>db_job_results := rs, db_job_failures := fs,
       db_jobs := update_rows (holds_row l) f (db_jobs db)\<rparr>))"
    (is "abstract_step _ (abstract_jobs ?db')")
proof -
  have look: "jobs.lookup (db_jobs db) (jr_job_id r) = Some r"
    using jobs.lookup_Some_iff [OF job_invD(1) [OF inv]] held(1) by simp
  have running: "jr_state r = Running" by (rule held_running [OF held(2)])
  have "abstract_jobs ?db' =
      (abstract_jobs db)(jr_job_id r \<mapsto> abstract_row (jr_state (f r)) (jr_fence (f r)))"
  proof (rule ext)
    fix i
    have "\<not> holds_row l s" if "jobs.lookup (db_jobs db) i = Some s" "i \<noteq> jr_job_id r" for s
      using that holds_row_id held(2) jobs.lookup_Some_in by metis
    then show "abstract_jobs ?db' i =
        ((abstract_jobs db)(jr_job_id r \<mapsto> abstract_row (jr_state (f r)) (jr_fence (f r)))) i"
      using look held(2)
      by (auto simp: abstract_jobs_def row_lookups jobs.lookup_update [OF assms(4)] option.map_comp
          intro!: option.map_cong)
  qed
  then show ?thesis
    using abs_settle [of "abstract_jobs db" "jr_job_id r" "jr_fence r"] assms(5) look running
    by (simp add: abstract_jobs_def row_lookups)
qed

lemma abstract_complete:
  "job_inv db \<Longrightarrow> r \<in> set (db_jobs db) \<Longrightarrow> holds_row l r \<Longrightarrow> abstract_step (abstract_jobs db)
     (abstract_jobs (db\<lparr>db_job_results := rs,
        db_jobs := update_rows (holds_row l) (release_lease Succeeded now) (db_jobs db)\<rparr>))"
  using abstract_settle [of db r l "release_lease Succeeded now" "db_job_failures db" rs] by simp

lemma abstract_fail:
  "job_inv db \<Longrightarrow> r \<in> set (db_jobs db) \<Longrightarrow> holds_row l r \<Longrightarrow> abstract_step (abstract_jobs db)
     (abstract_jobs (db\<lparr>db_job_failures := fs,
        db_jobs := update_rows (holds_row l) (release_lease Failed now) (db_jobs db)\<rparr>))"
  using abstract_settle [of db r l "release_lease Failed now" fs "db_job_results db"] by simp

lemma abstract_requeue:
  "job_inv db \<Longrightarrow> r \<in> set (db_jobs db) \<Longrightarrow> holds_row l r \<Longrightarrow> abstract_step (abstract_jobs db)
     (abstract_jobs (db\<lparr>db_jobs := update_rows (holds_row l) (requeue l' now) (db_jobs db)\<rparr>))"
  using abstract_settle [of db r l "requeue l' now" "db_job_failures db" "db_job_results db"] by simp

lemma abstract_jobs_same: "same_jobs db db' \<Longrightarrow> abstract_jobs db' = abstract_jobs db"
  by (simp add: same_jobs_def abstract_jobs_def job_of_def fun_eq_iff)

lemma abstract_lease:
  assumes inv: "job_inv db" and j: "j \<in> set (db_jobs db)" "claimable now db j"
  shows "abstract_step (abstract_jobs db) (abstract_jobs (leased_db owner t e j db))"
proof -
  have look: "jobs.lookup (db_jobs db) (jr_job_id j) = Some j"
    using jobs.lookup_Some_iff [OF job_invD(1) [OF inv]] j(1) by simp
  have "abstract_jobs (leased_db owner t e j db) =
      (abstract_jobs db)(jr_job_id j \<mapsto> Leased (jr_fence j + 1))"
    by (rule HOL.ext) (simp add: abstract_jobs_def leased_job_of [OF inv j(1)])
  moreover have "abstract_jobs db (jr_job_id j) \<in> {Some (Waiting (jr_fence j)), Some (Leased (jr_fence j))}"
    using claimable_open [OF j(2)] look
    by (cases "jr_state j") (auto simp: abstract_jobs_def row_lookups)
  ultimately show ?thesis using abs_lease by simp
qed

lemma abstract_insert:
  assumes "insert_verify_job ext n k sha now db = Ok db'"
  shows "abstract_step (abstract_jobs db) (abstract_jobs db')"
  using insert_verify_job_Ok [OF assms]
proof
  assume new: "n \<notin> jr_job_id ` set (db_jobs db) \<and> k \<notin> jr_idempotency_key ` set (db_jobs db)
    \<and> db' = db\<lparr>db_jobs := db_jobs db @ [new_job_row ext n k (payload_json ext sha) now]\<rparr>"
  then have none: "jobs.lookup (db_jobs db) n = None" by (simp add: jobs.lookup_None_iff)
  have "abstract_jobs db' = (abstract_jobs db)(n \<mapsto> Waiting 0)"
  proof (rule ext)
    fix i
    show "abstract_jobs db' i = ((abstract_jobs db)(n \<mapsto> Waiting 0)) i"
      using new none
      by (auto simp: abstract_jobs_def row_lookups jobs.lookup_append new_job_row_def split: option.splits)
  qed
  then show ?thesis using abs_new [of "abstract_jobs db" n] none by (simp add: abstract_jobs_def row_lookups)
qed (auto intro: abs_stutter)

lemma abstract_restore:
  assumes inv: "job_inv db" and "restore_jobs now db = Ok db'"
  shows "abstract_step (abstract_jobs db) (abstract_jobs db')"
proof -
  have db': "db' = db\<lparr>db_jobs := update_rows (\<lambda>r. jr_state r = Running) (requeue_restored now) (db_jobs db)\<rparr>"
    using assms(2) by (auto simp: restore_jobs_def split: if_splits)
  have "abstract_jobs db' = (\<lambda>i. case abstract_jobs db i of Some (Leased n) \<Rightarrow> Some (Waiting (n + 1)) | x \<Rightarrow> x)"
  proof (rule ext)
    fix i
    show "abstract_jobs db' i =
        (case abstract_jobs db i of Some (Leased n) \<Rightarrow> Some (Waiting (n + 1)) | x \<Rightarrow> x)"
    proof (cases "jobs.lookup (db_jobs db) i")
      case (Some r)
      then show ?thesis
        by (cases "jr_state r") (simp_all add: abstract_jobs_def db' row_lookups jobs.lookup_update)
    qed (simp add: abstract_jobs_def db' row_lookups jobs.lookup_update)
  qed
  then show ?thesis using abs_restore by simp
qed

section \<open>A run of takeovers\<close>

text \<open>
  One job is enqueued and claimed again and again, each time exactly when the lease before it
  expires, as happens when the process dies in the middle of every attempt.
\<close>

definition run_key :: rstr where "run_key = lit ''k''"

definition run_owner :: rstr where "run_owner = lit ''w''"

lemma run_names [simp]: "run_key \<noteq> []" "\<not> 128 < byte_len run_key" "run_owner \<noteq> []" "run_owner = [] \<longleftrightarrow> False"
  by (simp_all add: run_key_def run_owner_def lit_def byte_len_def utf8_width_def)

primrec takeover_row :: "externals \<Rightarrow> rstr \<Rightarrow> nat \<Rightarrow> job_row" where
  "takeover_row ext sha 0 =
     new_job_row ext (stable_id ext (lit ''job'') run_key) run_key (payload_json ext sha) 0"
| "takeover_row ext sha (Suc n) = take_lease run_owner (int n) (int n + 1) (takeover_row ext sha n)"

definition takeover_db :: "externals \<Rightarrow> rstr \<Rightarrow> nat \<Rightarrow> database" where
  "takeover_db ext sha n = empty_database\<lparr>db_jobs := [takeover_row ext sha n]\<rparr>"

lemma takeover_row_simps [simp]:
  "jr_job_id (takeover_row ext sha n) = stable_id ext (lit ''job'') run_key"
  "jr_payload_json (takeover_row ext sha n) = payload_json ext sha"
  "jr_attempt (takeover_row ext sha n) = int n"
  "jr_fence (takeover_row ext sha n) = int n"
  "jr_retry_limit (takeover_row ext sha n) = 2"
  "jr_state (takeover_row ext sha n) = (if n = 0 then Queued else Running)"
  "jr_lease_expires_at_ms (takeover_row ext sha n) = (if n = 0 then None else Some (int n))"
  by (induction n; simp add: new_job_row_def)+

lemma takeover_available [simp]: "jr_available_at_ms (takeover_row ext sha 0) = 0"
  by simp

lemma enqueue_empty:
  assumes "validate_hash sha = Ok ()"
  shows "enqueue_verify_blob ext run_key sha 0 empty_database =
    Ok (takeover_db ext sha 0, stable_id ext (lit ''job'') run_key)"
  using assms
  by (simp add: enqueue_verify_blob_def insert_verify_job_def takeover_db_def empty_database_def Let_def)

lemma takeover_claimable: "claimable (int n) (takeover_db ext sha n) (takeover_row ext sha n)"
  by (cases "n = 0") (simp_all add: claimable_def lease_expired_def dependencies_succeeded_def takeover_db_def
      empty_database_def)

lemma takeover_inv: "job_inv (takeover_db ext sha n)"
proof -
  have "row_ok (takeover_row ext sha n)" by (induction n) (auto intro: row_ok_take)
  then show ?thesis
    by (simp add: job_inv_def takeover_db_def empty_database_def ids_with_simps)
qed

lemma claim_takeover:
  assumes "extract_blob_sha256 ext (payload_json ext sha) = Some sha" and "int n < i64_max"
  shows "claim ext run_owner (int n) 1 (takeover_db ext sha n) =
    Ok (takeover_db ext sha (Suc n), Some (lease_of run_owner sha (takeover_row ext sha n)))"
proof -
  have jobs: "db_jobs (takeover_db ext sha n) = [takeover_row ext sha n]"
    by (simp add: takeover_db_def)
  have first: "first_by claim_order (filter (claimable (int n) (takeover_db ext sha n))
      (db_jobs (takeover_db ext sha n))) = Some (takeover_row ext sha n)"
    using takeover_claimable by (simp add: jobs first_by_def)
  have expires: "i64_checked_add (int n) 1 = Some (int n + 1)"
    using assms(2) by (simp add: i64_checked_add_def i64_min_def)
  have "claim ext run_owner (int n) 1 (takeover_db ext sha n) =
      Ok (leased_db run_owner (int n) (int n + 1) (takeover_row ext sha n) (takeover_db ext sha n),
          Some (lease_of run_owner sha (takeover_row ext sha n)))"
    unfolding claim_cases [OF takeover_inv] expires first using assms by simp
  then show ?thesis by (simp add: leased_db_def takeover_db_def update_rows_def)
qed

lemma takeover_reachable:
  assumes "validate_hash sha = Ok ()" "extract_blob_sha256 ext (payload_json ext sha) = Some sha"
  shows "int n \<le> i64_max \<Longrightarrow> reachable_database ext (takeover_db ext sha n)"
proof (induction n)
  case 0
  show ?case by (rule r_into_rtranclp, rule step_enqueue [OF enqueue_empty [OF assms(1)]])
next
  case (Suc n)
  then have "reachable_database ext (takeover_db ext sha n)" and n: "int n < i64_max" by auto
  from this(1) step_claim [OF claim_takeover [OF assms(2) n]] show ?case
    by (rule rtranclp.rtrancl_into_rtrancl)
qed

text \<open>A concrete instance of the parameters, for the witnesses.\<close>

definition encode_texts :: "rstr list \<Rightarrow> rstr" where
  "encode_texts texts = concat (map (\<lambda>t. length t # t) texts)"

definition sample_externals :: externals where
  "sample_externals =
     \<lparr>sha256 = (\<lambda>bytes. take 32 (bytes @ replicate 32 0)), uuid_hyphenated = map unat,
      payload_json = (\<lambda>s. s), extract_blob_sha256 = Some, result_json = (\<lambda>s n. s),
      outcome_to_json = (\<lambda>out. encode_texts [so_check_id out, so_job_id out, so_blob_sha256 out]
        @ [if so_replayed out then 1 else 0]),
      outcome_from_json = (\<lambda>text.
        let a = take (hd text) (tl text); text = drop (hd text) (tl text);
            b = take (hd text) (tl text); text = drop (hd text) (tl text);
            c = take (hd text) (tl text); text = drop (hd text) (tl text)
        in Some \<lparr>so_check_id = a, so_job_id = b, so_blob_sha256 = c, so_replayed = (hd text = 1)\<rparr>)\<rparr>"

definition sample_hash :: rstr where "sample_hash = replicate 64 48"

lemma storage_check_empty:
  assumes "req \<noteq> []" and "byte_len req \<le> 64" and "validate_hash (bk_sha256 blob) = Ok ()"
    and "int (unat (bk_byte_length blob)) \<le> i64_max"
  shows "\<exists>db. run_storage_check ext req blob now empty_database = Ok (db, storage_outcome ext req blob)"
  using assms validate_hash_sql_length [OF assms(3)]
  by (simp add: run_storage_check_def record_blob_def record_provenance_def insert_storage_check_def
      insert_verify_job_def insert_receipt_def storage_outcome_def empty_database_def Let_def)

lemma sample_hash_valid [simp]: "validate_hash sample_hash = Ok ()"
  by (simp add: validate_hash_Ok sample_hash_def is_lower_hex_def is_ascii_digit_def)

lemma sample_extract [simp]:
  "extract_blob_sha256 sample_externals (payload_json sample_externals sample_hash) = Some sample_hash"
  by (simp add: sample_externals_def)

lemma sample_json [simp]:
  "outcome_from_json sample_externals (outcome_to_json sample_externals out) = Some out"
  by (simp add: sample_externals_def encode_texts_def)

lemmas sample_run = takeover_reachable [OF sample_hash_valid sample_extract]
lemmas sample_claim = claim_takeover [OF sample_extract]

end
