(* ===== verification/Job_Claims.thy ===== *)
theory Job_Claims
  imports Job_Guarantees
begin

text \<open>The properties of the durable job queue and of its worker.\<close>

section \<open>Outcomes\<close>

text \<open>
  C11: in every database reached by enqueueing, storage checks, claims, completions, failures,
  retries and restores, in any order and with any clock, job ids and idempotency keys are unique,
  the result table names exactly the succeeded jobs and the failure table exactly the failed ones,
  each once, and no job has both.
\<close>

theorem job_outcomes_exact:
  assumes "reachable_database ext db"
  shows "distinct (map jr_job_id (db_jobs db)) \<and> distinct (map jr_idempotency_key (db_jobs db))
    \<and> distinct (map rr_job_id (db_job_results db)) \<and> distinct (map fr_job_id (db_job_failures db))
    \<and> rr_job_id ` set (db_job_results db) = {jr_job_id j | j. j \<in> set (db_jobs db) \<and> jr_state j = Succeeded}
    \<and> fr_job_id ` set (db_job_failures db) = {jr_job_id j | j. j \<in> set (db_jobs db) \<and> jr_state j = Failed}
    \<and> rr_job_id ` set (db_job_results db) \<inter> fr_job_id ` set (db_job_failures db) = {}"
proof -
  have inv: "job_inv db" by (rule reachable_inv [OF assms])
  have "ids_with Succeeded (db_jobs db) \<inter> ids_with Failed (db_jobs db) = {}"
    by (rule ids_with_disjoint [OF job_invD(1) [OF inv]]) simp
  moreover have "ids_with st (db_jobs db) = {jr_job_id j | j. j \<in> set (db_jobs db) \<and> jr_state j = st}" for st
    by (auto simp: ids_with_def)
  ultimately show ?thesis using job_invD [OF inv] by simp
qed

theorem job_outcomes_exact_witness:
  "distinct (map jr_job_id (db_jobs (takeover_db sample_externals sample_hash 3)))"
  using job_outcomes_exact [OF sample_run [of 3]] by (simp add: i64_max_def)

text \<open>
  C12: an outcome is permanent. Once a completion or a permanent failure of a job has been committed,
  no later run changes the recorded result or failure, the job keeps its final state, and every
  attempt to settle the job again, with whatever lease, loses.
\<close>

theorem outcome_is_permanent:
  assumes "reachable_database ext db" and "(job_step ext)\<^sup>*\<^sup>* db db'"
    and "job_of db (lj_job_id l) = Some j" and "jr_state j \<in> {Succeeded, Failed}"
  shows "job_of db' (lj_job_id l) = Some j
    \<and> result_of_job db' (lj_job_id l) = result_of_job db (lj_job_id l)
    \<and> failure_of_job db' (lj_job_id l) = failure_of_job db (lj_job_id l)
    \<and> complete ext l n now db' = Err LeaseLost \<and> fail_permanently l c a now db' = Err LeaseLost
    \<and> retry l now db' = Err LeaseLost"
proof -
  have inv: "job_inv db" by (rule reachable_inv [OF assms(1)])
  then have inv': "job_inv db'" by (rule job_rows.run_inv [OF assms(2)])
  have j: "job_of db' (lj_job_id l) = Some j"
    using job_rows.run_evolves [OF assms(2) inv] assms(3,4) by (auto simp: row_lookups row_evolves_def)
  have "\<not> lease_live l db'" using j assms(4) by (auto simp: lease_live_def row_lookups)
  then have lost: "\<not> (\<exists>r\<in>set (db_jobs db'). holds_at l now r)" using held_live [OF inv'] by blast
  have same: "result_of_job db' (lj_job_id l) = result_of_job db (lj_job_id l)
      \<and> failure_of_job db' (lj_job_id l) = failure_of_job db (lj_job_id l)"
    by (rule settled_lookups [OF inv inv' assms(2)]) (use assms(3,4) j in simp_all)
  show ?thesis using j same not_held_lost [OF inv' lost] by simp
qed


text \<open>The run of the witnesses: two takeovers, then the second worker completes.\<close>

abbreviation sample_lease :: "nat \<Rightarrow> leased_job" where
  "sample_lease n \<equiv> lease_of run_owner sample_hash (takeover_row sample_externals sample_hash n)"

abbreviation sample_db :: "nat \<Rightarrow> database" where
  "sample_db n \<equiv> takeover_db sample_externals sample_hash n"

lemma sample_held: "holds_at (sample_lease n) (int n) (takeover_row sample_externals sample_hash (Suc n))"
  by (simp add: holds_at_def holds_row_def)

definition finished_db :: database where
  "finished_db = (sample_db 2)\<lparr>db_job_results := [result_of sample_externals (sample_lease 1) 7 1],
     db_jobs := [release_lease Succeeded 1 (takeover_row sample_externals sample_hash 2)]\<rparr>"

lemma finished: "complete sample_externals (sample_lease 1) 7 1 (sample_db 2) = Ok finished_db"
proof -
  have "takeover_row sample_externals sample_hash 2 \<in> set (db_jobs (sample_db 2))"
    by (simp add: takeover_db_def)
  moreover have "holds_at (sample_lease 1) 1 (takeover_row sample_externals sample_hash 2)"
    using sample_held [of 1] by (simp add: numeral_2_eq_2)
  ultimately have "complete sample_externals (sample_lease 1) 7 1 (sample_db 2) =
      Ok ((sample_db 2)\<lparr>db_job_results := db_job_results (sample_db 2) @ [result_of sample_externals (sample_lease 1) 7 1],
        db_jobs := update_rows (holds_row (sample_lease 1)) (release_lease Succeeded 1) (db_jobs (sample_db 2))\<rparr>)"
    by (rule settle_held(1) [OF takeover_inv])
  moreover have "holds_row (sample_lease 1) (takeover_row sample_externals sample_hash 2)"
    using sample_held [of 1] by (simp add: numeral_2_eq_2 holds_at_def)
  ultimately show ?thesis
    by (simp add: finished_db_def takeover_db_def empty_database_def update_rows_def)
qed

lemma finished_reachable: "reachable_database sample_externals finished_db"
  by (rule rtranclp.rtrancl_into_rtrancl [OF sample_run [of 2] step_complete [OF finished]])
    (simp add: i64_max_def)

lemma finished_job:
  "job_of finished_db (lj_job_id (sample_lease 0)) =
     Some (release_lease Succeeded 1 (takeover_row sample_externals sample_hash 2))"
  by (simp add: job_of_def finished_db_def)

theorem outcome_is_permanent_witness:
  "job_of finished_db (lj_job_id (sample_lease 0)) \<noteq> None
   \<and> complete sample_externals (sample_lease 0) 7 0 finished_db = Err LeaseLost"
  using outcome_is_permanent [OF finished_reachable rtranclp.rtrancl_refl finished_job, of 7 0]
  by (simp add: finished_job)

section \<open>Fencing\<close>

text \<open>
  C13: fencing. When a job is leased again, the new lease has a larger fence, and from then on the
  older lease is refused by completion, failure and retry, at any time and in any later database,
  so of the leases of a job only the newest can settle it.
\<close>

theorem superseded_lease_is_fenced_off:
  assumes "reachable_database ext db"
    and "claim ext owner now lease_ms db = Ok (db1, Some l)"
    and "(job_step ext)\<^sup>*\<^sup>* db1 db2"
    and "claim ext owner' now' lease_ms' db2 = Ok (db3, Some l')" and "lj_job_id l' = lj_job_id l"
    and "(job_step ext)\<^sup>*\<^sup>* db3 db4"
  shows "lj_fence l < lj_fence l'
    \<and> complete ext l n t db4 = Err LeaseLost \<and> fail_permanently l c a t db4 = Err LeaseLost
    \<and> retry l t db4 = Err LeaseLost"
proof -
  have inv: "job_inv db" by (rule reachable_inv [OF assms(1)])
  have inv1: "job_inv db1" by (rule claim_inv [OF inv assms(2)])
  have inv2: "job_inv db2" by (rule job_rows.run_inv [OF assms(3) inv1])
  have inv3: "job_inv db3" by (rule claim_inv [OF inv2 assms(4)])
  have inv4: "job_inv db4" by (rule job_rows.run_inv [OF assms(6) inv3])
  from claim_issues(2) [OF inv assms(2)] obtain r1 where
    r1: "jobs.lookup (db_jobs db1) (lj_job_id l) = Some r1" "lj_fence l \<le> jr_fence r1"
    by (auto simp: lease_issued_def)
  from job_rows.run_evolves [OF assms(3) inv1 r1(1)] obtain r2 where
    r2: "jobs.lookup (db_jobs db2) (lj_job_id l) = Some r2" "jr_fence r1 \<le> jr_fence r2"
    by (auto simp: row_evolves_def)
  have fence: "lj_fence l < lj_fence l'"
    using claim_issues(3) [OF inv2 assms(4)] assms(5) r1(2) r2 by simp
  then have "lease_issued l db3" "\<not> lease_live l db3"
    using claim_issues(1,2) [OF inv2 assms(4)] assms(5) by (auto simp: lease_issued_def lease_live_def)
  then have "\<not> lease_live l db4" by (rule lost_stays_lost [OF inv3 _ _ assms(6)])
  then have "\<not> (\<exists>r\<in>set (db_jobs db4). holds_at l t r)" using held_live [OF inv4] by blast
  then show ?thesis using fence not_held_lost [OF inv4] by simp
qed

lemma finished_run: "(job_step sample_externals)\<^sup>*\<^sup>* (sample_db 2) finished_db"
  using step_complete [OF finished] by blast

lemma sample_takeover:
  "claim sample_externals run_owner 0 1 (sample_db 0) = Ok (sample_db 1, Some (sample_lease 0))"
  "claim sample_externals run_owner 1 1 (sample_db 1) = Ok (sample_db 2, Some (sample_lease 1))"
  using sample_claim [of 0] sample_claim [of 1] by (simp_all add: i64_max_def numeral_2_eq_2)

theorem superseded_lease_is_fenced_off_witness:
  "lj_fence (sample_lease 0) < lj_fence (sample_lease 1)
   \<and> complete sample_externals (sample_lease 0) 7 0 finished_db = Err LeaseLost"
  using superseded_lease_is_fenced_off [OF sample_run [of 0] sample_takeover(1) rtranclp.rtrancl_refl
      sample_takeover(2) _ finished_run]
  by (simp add: i64_max_def)

section \<open>Claiming\<close>



section \<open>The worker\<close>

text \<open>
  C15: one run of the worker settles the job it claims. The blob verifies: the job succeeds and its
  result is recorded. A passing input/output error: the job waits for its backoff while attempts are
  left. Any other error: the job fails with a code and an action for the user. The worker never loses
  its own lease on the way, is idle exactly when no job is claimable, and leaves the database alone
  when the claim fails.
\<close>

theorem run_once_settles_claim:
  assumes "reachable_database ext db" and "run_once ext w verify now db = (db', res)"
  shows "case claim ext (vw_worker_id w) now (vw_lease_ms w) db of
      Err e \<Rightarrow> db' = db \<and> res = Err e
    | Ok (_, None) \<Rightarrow> db' = db \<and> res = Ok Idle \<and> \<not> list_ex (claimable now db) (db_jobs db)
    | Ok (_, Some l) \<Rightarrow> settled ext l (verify (lj_blob_sha256 l)) now db' res"
proof -
  have inv: "job_inv db" by (rule reachable_inv [OF assms(1)])
  show ?thesis
  proof (cases "claim ext (vw_worker_id w) now (vw_lease_ms w) db")
    case (Ok p)
    obtain db1 l where p: "p = (db1, l)" by (cases p)
    show ?thesis
    proof (cases l)
      case None
      have "db1 = db \<and> first_by claim_order (filter (claimable now db) (db_jobs db)) = None"
        using Ok by (auto simp: claim_cases [OF inv] p None split: if_splits option.splits)
      then show ?thesis
        using assms(2) Ok
        by (auto simp: run_once_def p None first_by_None_iff filter_empty_conv list_ex_iff)
    next
      case (Some l')
      then show ?thesis using run_once_settled [OF inv _ assms(2)] Ok p by simp
    qed
  qed (use assms(2) in \<open>simp add: run_once_def\<close>)
qed

definition sample_worker :: verify_blob_worker where
  "sample_worker = \<lparr>vw_worker_id = run_owner, vw_lease_ms = 1\<rparr>"

theorem run_once_settles_claim_witness:
  "settled sample_externals (sample_lease 0) (Err (Io IoNotFound)) 0
     (fst (run_once sample_externals sample_worker (\<lambda>_. Err (Io IoNotFound)) 0 (sample_db 0)))
     (snd (run_once sample_externals sample_worker (\<lambda>_. Err (Io IoNotFound)) 0 (sample_db 0)))"
  using run_once_settles_claim [OF sample_run [of 0], of sample_worker "\<lambda>_. Err (Io IoNotFound)" 0,
      OF _ prod.collapse [symmetric]] sample_takeover(1)
  by (simp add: sample_worker_def i64_max_def)

section \<open>Enqueueing\<close>

text \<open>
  C16: enqueueing is idempotent. Once a job has been enqueued under a key, enqueueing the same blob
  under that key again, after any run, returns the same job id and changes nothing; another blob
  under that key, with a different payload, is refused as a conflict.
\<close>

theorem enqueue_is_idempotent:
  assumes "reachable_database ext db" and "enqueue_verify_blob ext k sha now db = Ok (db1, i)"
    and "(job_step ext)\<^sup>*\<^sup>* db1 db2"
    and "validate_hash sha' = Ok ()" and "payload_json ext sha' \<noteq> payload_json ext sha"
  shows "enqueue_verify_blob ext k sha now' db2 = Ok (db2, i)
    \<and> enqueue_verify_blob ext k sha' now' db2 = Err (Conflict ''job_envelope_changed'')"
proof -
  have inv: "job_inv db" by (rule reachable_inv [OF assms(1)])
  have i: "i = stable_id ext (lit ''job'') k" and ins: "insert_verify_job ext i k sha now db = Ok db1"
    using enqueue_Ok [OF assms(2)] by blast+
  have inv1: "job_inv db1" by (rule insert_verify_job_inv [OF inv ins])
  have inv2: "job_inv db2" by (rule job_rows.run_inv [OF assms(3) inv1])
  have req: "has_request ext i k sha db2"
    by (rule has_request_run [OF inv1 assms(3) insert_has_request(1) [OF inv ins]])
  have key: "k \<noteq> []" "\<not> byte_len k > 128"
    using assms(2) by (auto simp: enqueue_verify_blob_def split: if_splits)
  show ?thesis
    using key assms(4,5) insert_has_request(2) [OF inv ins] insert_again [OF inv2 req, of sha]
      insert_again [OF inv2 req assms(4)]
    by (simp add: enqueue_verify_blob_def Let_def i)
qed

theorem enqueue_is_idempotent_witness:
  "enqueue_verify_blob sample_externals run_key sample_hash 5 (sample_db 1)
     = Ok (sample_db 1, stable_id sample_externals (lit ''job'') run_key)
   \<and> enqueue_verify_blob sample_externals run_key (replicate 64 49) 5 (sample_db 1)
     = Err (Conflict ''job_envelope_changed'')"
  using enqueue_is_idempotent [OF rtranclp.rtrancl_refl enqueue_empty [OF sample_hash_valid, of sample_externals]
      r_into_rtranclp [where r = "job_step sample_externals", OF step_claim [OF sample_takeover(1)]],
      of "replicate 64 49" 5]
  by (simp add: validate_hash_Ok is_lower_hex_def is_ascii_digit_def sample_externals_def sample_hash_def)

text \<open>
  The storage check is a command with a receipt. After it has succeeded, the same request with
  the same blob is answered from the receipt after any run, marked as a replay and without a change
  of the database; the same request with another envelope is refused as a conflict.
\<close>

theorem storage_check_replays:
  assumes "reachable_database ext db" and "run_storage_check ext req blob now db = Ok (db1, out)"
    and "storage_receipt db req = None" and "(job_step ext)\<^sup>*\<^sup>* db1 db2"
    and "outcome_from_json ext (outcome_to_json ext out) = Some out"
    and "storage_check_envelope ext req blob' \<noteq> storage_check_envelope ext req blob"
  shows "run_storage_check ext req blob now' db2 = Ok (db2, out\<lparr>so_replayed := True\<rparr>)
    \<and> run_storage_check ext req blob' now' db2 = Err (Conflict ''command_envelope_changed'')"
proof -
  have inv: "job_inv db" by (rule reachable_inv [OF assms(1)])
  have inv1: "job_inv db1" by (rule run_storage_check_inv [OF inv assms(2)])
  from storage_check_cases [OF assms(2)] assms(3) obtain row where
    row: "db_command_receipts db1 = db_command_receipts db @ [row]" "cm_request_id row = req"
      "cm_command_name row = lit ''run_storage_check_v1''"
      "cm_envelope_hash row = storage_check_envelope ext req blob"
      "cm_response_json row = outcome_to_json ext out"
    by auto
  have "storage_receipt db1 req = Some row"
    using assms(3) row(1-3) by (simp add: storage_receipt_def find_append_new)
  then have "storage_receipt db2 req = Some row"
    using receipt_rows.run_evolves [OF assms(4) inv1] by simp
  moreover have "req \<noteq> []" "\<not> byte_len req > 64"
    using assms(2) by (auto simp: run_storage_check_def split: if_splits)
  ultimately show ?thesis
    using assms(5,6) row(4,5) by (simp add: run_storage_check_def storage_receipt_def Let_def ok_or_def)
qed

definition sample_blob :: "nat \<Rightarrow> blob_record" where
  "sample_blob digit = \<lparr>bk_sha256 = replicate 64 digit, bk_byte_length = 3\<rparr>"

lemma sample_envelopes:
  "storage_check_envelope sample_externals run_key (sample_blob 49)
     \<noteq> storage_check_envelope sample_externals run_key (sample_blob 48)"
  by code_simp

theorem storage_check_replays_witness:
  "\<exists>db out. run_storage_check sample_externals run_key (sample_blob 48) 0 empty_database = Ok (db, out)
     \<and> run_storage_check sample_externals run_key (sample_blob 48) 9 db = Ok (db, out\<lparr>so_replayed := True\<rparr>)
     \<and> run_storage_check sample_externals run_key (sample_blob 49) 9 db
         = Err (Conflict ''command_envelope_changed'')"
proof -
  have "\<exists>db. run_storage_check sample_externals run_key (sample_blob 48) 0 empty_database =
      Ok (db, storage_outcome sample_externals run_key (sample_blob 48))"
    by (rule storage_check_empty)
      (simp_all add: sample_blob_def validate_hash_Ok is_lower_hex_def is_ascii_digit_def i64_max_def
        run_key_def lit_def byte_len_def utf8_width_def)
  then obtain db out where ok: "run_storage_check sample_externals run_key (sample_blob 48) 0 empty_database = Ok (db, out)"
    by blast
  have "storage_receipt empty_database run_key = None"
    by (simp add: storage_receipt_def empty_database_def)
  from storage_check_replays [OF rtranclp.rtrancl_refl ok this rtranclp.rtrancl_refl sample_json sample_envelopes]
  show ?thesis using ok by blast
qed

section \<open>The retry policy\<close>

text \<open>
  C18: taking over an expired lease is not counted against the retry policy. A job with a retry limit
  of two whose worker dies in every attempt is leased again without end: for every number of attempts
  below the range of the counter there is a reachable database in which the job has been attempted
  that often, is running, and no failure has been recorded.
\<close>

theorem takeovers_exceed_retry_limit:
  assumes "validate_hash sha = Ok ()" and "extract_blob_sha256 ext (payload_json ext sha) = Some sha"
    and "int n < i64_max"
  shows "\<exists>db r. reachable_database ext db \<and> db_jobs db = [r] \<and> jr_state r = Running
    \<and> jr_attempt r = int n + 1 \<and> jr_retry_limit r = 2 \<and> db_job_failures db = []"
  using takeover_reachable [OF assms(1,2), of "Suc n"] assms(3)
  by (intro exI [of _ "takeover_db ext sha (Suc n)"] exI [of _ "takeover_row ext sha (Suc n)"])
    (simp add: takeover_db_def empty_database_def)

theorem takeovers_exceed_retry_limit_witness:
  "\<exists>db r. reachable_database sample_externals db \<and> db_jobs db = [r] \<and> jr_state r = Running
    \<and> jr_attempt r = 1000 \<and> jr_retry_limit r = 2 \<and> db_job_failures db = []"
  using takeovers_exceed_retry_limit [OF sample_hash_valid sample_extract, of 999] by (simp add: i64_max_def)

section \<open>Refinement\<close>



section \<open>Failures shown to the user\<close>

fun shown_code :: "error_code \<Rightarrow> error_code" where
  "shown_code NotFound = NotFound"
| "shown_code DataIntegrity = DataIntegrity"
| "shown_code StorageUnavailable = StorageUnavailable"
| "shown_code _ = Internal"

fun shown_action :: "user_action_key \<Rightarrow> user_action_key" where
  "shown_action ReviewStorage = ReviewStorage"
| "shown_action Retry = Retry"
| "shown_action _ = RestartApplication"

lemma shown_roundtrip:
  "error_code_from_db (error_code_to_db code) = shown_code code"
  "user_action_from_db (user_action_to_db action) = shown_action action"
  by (cases code; simp add: error_code_from_db_def lit_eq_iff)
    (cases action; simp add: user_action_from_db_def lit_eq_iff)

lemma queue_fail_cases:
  assumes inv: "job_inv db" and active: "jq_active q (to_string i) = Some l" "lj_job_id l = to_string i"
    and ok: "queue_fail to_string (Ok now) i fence code action retryable q db = (q', db', Ok ())"
  obtains r where "jobs.lookup (db_jobs db) (lj_job_id l) = Some r" "r \<in> set (db_jobs db)" "holds_at l now r"
    "if retryable \<and> lj_attempt l \<le> lj_retry_limit l
     then db' = db\<lparr>db_jobs := update_rows (holds_row l) (requeue l now) (db_jobs db)\<rparr>
     else fail_permanently l (error_code_to_db code) (user_action_to_db action) now db = Ok db'"
proof -
  have take: "take_matching (to_string i) fence q = Ok (q', l)"
    using ok active(1)
    by (auto simp: queue_fail_def take_matching_def ok_or_def Let_def split: if_splits result.splits bool.splits)
  have held: "\<exists>r\<in>set (db_jobs db). holds_at l now r"
    using ok take
    by (auto simp: queue_fail_def Let_def fail_permanently_cases [OF inv] retry_cases [OF inv]
        split: if_splits)
  then obtain r where r: "r \<in> set (db_jobs db)" "holds_at l now r" by blast
  then have "jobs.lookup (db_jobs db) (lj_job_id l) = Some r"
    using jobs.lookup_Some_iff [OF job_invD(1) [OF inv]] by (auto simp: holds_at_def holds_row_def)
  moreover have "if retryable \<and> lj_attempt l \<le> lj_retry_limit l
     then db' = db\<lparr>db_jobs := update_rows (holds_row l) (requeue l now) (db_jobs db)\<rparr>
     else fail_permanently l (error_code_to_db code) (user_action_to_db action) now db = Ok db'"
    using ok take settle_held(2,3) [OF inv r]
    by (auto simp: queue_fail_def Let_def split: if_splits)
  ultimately show thesis using r that by blast
qed

text \<open>
  Reporting a failure through the job port either puts the job back in the queue, when the
  failure is retryable and the lease has attempts left, or ends it: the job is failed, its failure is
  recorded, and the activity view shows it as failed with the reported error and action, in the
  vocabulary the database keeps of them.
\<close>

theorem reported_failure_is_visible:
  assumes "reachable_database ext db"
    and "jq_active q (to_string i) = Some l" and "lj_job_id l = to_string i"
    and "queue_fail to_string (Ok now) i fence code action retryable q db = (q', db', Ok ())"
  shows "\<exists>j. job_of db' (to_string i) = Some j \<and>
    (if retryable \<and> lj_attempt l \<le> lj_retry_limit l
     then jr_state j = Queued \<and> failure_of_job db' (to_string i) = None
     else jr_state j = Failed
       \<and> (\<forall>snap. job_snapshot_of parse_str timestamp db' j = Ok snap \<longrightarrow>
            js_status snap = JobFailed
            \<and> js_terminal_failure snap = Some (shown_code code, shown_action action)))"
proof -
  have inv: "job_inv db" by (rule reachable_inv [OF assms(1)])
  from queue_fail_cases [OF inv assms(2-4)] obtain r where
    r: "jobs.lookup (db_jobs db) (lj_job_id l) = Some r" "r \<in> set (db_jobs db)" "holds_at l now r"
    and db': "if retryable \<and> lj_attempt l \<le> lj_retry_limit l
     then db' = db\<lparr>db_jobs := update_rows (holds_row l) (requeue l now) (db_jobs db)\<rparr>
     else fail_permanently l (error_code_to_db code) (user_action_to_db action) now db = Ok db'" .
  show ?thesis
  proof (cases "retryable \<and> lj_attempt l \<le> lj_retry_limit l")
    case True
    have "jr_state r = Running" "jr_job_id r = lj_job_id l"
      using r(3) by (auto simp: holds_at_def holds_row_def)
    then have "failures.lookup (db_job_failures db) (to_string i) = None"
      using running_no_outcome(2) [OF inv r(2)] by (simp add: failures.lookup_None_iff assms(3))
    then show ?thesis
      using True db' settled_row [OF inv r(1,3), of "requeue l now"]
      by (simp add: row_lookups assms(3))
  next
    case False
    let ?f = "failure_of l (error_code_to_db code) (user_action_to_db action) now"
    have new: "db' = db\<lparr>db_job_failures := db_job_failures db @ [?f],
        db_jobs := update_rows (holds_row l) (release_lease Failed now) (db_jobs db)\<rparr>"
      using False db' settle_held(2) [OF inv r(2,3)] by auto
    have job: "job_of db' (to_string i) = Some (release_lease Failed now r)"
      using settled_row [OF inv r(1,3), of "release_lease Failed now"] by (simp add: new row_lookups assms(3))
    have "find (\<lambda>f. fr_job_id f = to_string i) (db_job_failures db') = Some ?f"
      using fresh_outcome_lookup(2) [OF inv r(1,3)] by (simp add: new failures.lookup_def assms(3))
    moreover have "jr_job_id r = to_string i" using jobs.lookup_Some_in [OF r(1)] assms(3) by simp
    ultimately show ?thesis
      using False job by (auto simp: job_snapshot_of_def result_simps shown_roundtrip failure_of_def)
  qed
qed

definition sample_queue :: job_queue where
  "sample_queue = \<lparr>jq_worker_id = run_owner, jq_active = [lj_job_id (sample_lease 0) \<mapsto> sample_lease 0]\<rparr>"

theorem reported_failure_is_visible_witness:
  "\<exists>db' j. snd (queue_fail (\<lambda>_. lj_job_id (sample_lease 0)) (Ok 0) 9 1 NotFound ReviewStorage False
      sample_queue (sample_db 1)) = (db', Ok ())
    \<and> job_of db' (lj_job_id (sample_lease 0)) = Some j \<and> jr_state j = Failed"
proof -
  have "takeover_row sample_externals sample_hash 1 \<in> set (db_jobs (sample_db 1))"
    by (simp add: takeover_db_def)
  moreover have "holds_at (sample_lease 0) 0 (takeover_row sample_externals sample_hash 1)"
    using sample_held [of 0] by simp
  ultimately obtain db' where
    fail: "fail_permanently (sample_lease 0) (lit ''blob_missing'') (lit ''rerun_storage_check'') 0 (sample_db 1) = Ok db'"
    using settle_held(2) [OF takeover_inv] by blast
  obtain q' where "take_matching (lj_job_id (sample_lease 0)) 1 sample_queue = Ok (q', sample_lease 0)"
    by (simp add: take_matching_def sample_queue_def ok_or_def unsigned_try_from_def)
  then have ok: "queue_fail (\<lambda>_. lj_job_id (sample_lease 0)) (Ok 0) 9 1 NotFound ReviewStorage False
      sample_queue (sample_db 1) = (q', db', Ok ())"
    using fail by (simp add: queue_fail_def)
  have "jq_active sample_queue (lj_job_id (sample_lease 0)) = Some (sample_lease 0)"
    by (simp add: sample_queue_def)
  from reported_failure_is_visible [OF sample_run [of 1] this refl ok, of "\<lambda>_. None" "\<lambda>_. None"]
  show ?thesis using ok by (auto simp: i64_max_def)
qed

end
