(* ===== verification/Credential_Store.thy ===== *)
theory Credential_Store
  imports Database_Tables
begin

text \<open>
  Credentials: the two-phase save and delete of \<open>database.rs\<close>, the Keychain port of \<open>credential.rs\<close>,
  the reconciliation at start-up and the two commands of \<open>service.rs\<close>. A secret lives in the Keychain
  under an opaque locator; the database keeps a reference with a status. A save reserves the
  reference, writes the secret and activates the reference; a delete marks it, deletes the secret and
  removes it; a crash between any two of these leaves a pending status that the reconciliation
  resolves.

  The Keychain services of the \<open>security_framework\<close> crate are the parameter \<open>keychain_api\<close>: functions
  on a state of the system, which may fail with an \<open>OSStatus\<close> code.
\<close>

section \<open>The Keychain port\<close>

record 's keychain_api =
  set_generic_password :: "rstr \<Rightarrow> rstr \<Rightarrow> u8 list \<Rightarrow> 's \<Rightarrow> 's \<times> (unit, int) result"
  get_generic_password :: "rstr \<Rightarrow> rstr \<Rightarrow> 's \<Rightarrow> (u8 list, int) result"
  delete_generic_password :: "rstr \<Rightarrow> rstr \<Rightarrow> 's \<Rightarrow> 's \<times> (unit, int) result"

definition keychain_service :: rstr where
  "keychain_service = lit ''com.devrai.wardrobe.credentials''"

definition err_sec_item_not_found :: int where "err_sec_item_not_found = -25300"
definition err_sec_auth_failed :: int where "err_sec_auth_failed = -25293"

definition map_keychain_error :: "int \<Rightarrow> port_error" where
  "map_keychain_error code =
     (if code = err_sec_auth_failed \<or> code = -25308 then PortPermissionDenied
      else if code = -25291 then PortUnavailable
      else PortInternal)"

definition keychain_put :: "'s keychain_api \<Rightarrow> rstr \<Rightarrow> rstr \<Rightarrow> 's \<Rightarrow> 's \<times> unit port_result" where
  "keychain_put api locator secret s =
     (case set_generic_password api keychain_service locator (utf8_bytes secret) s of
        (s', r) \<Rightarrow> (s', map_err map_keychain_error r))"

definition keychain_contains :: "'s keychain_api \<Rightarrow> rstr \<Rightarrow> 's \<Rightarrow> bool port_result" where
  "keychain_contains api locator s =
     (case get_generic_password api keychain_service locator s of
        Ok _ \<Rightarrow> Ok True
      | Err code \<Rightarrow> if code = err_sec_item_not_found then Ok False else Err (map_keychain_error code))"

definition keychain_delete :: "'s keychain_api \<Rightarrow> rstr \<Rightarrow> 's \<Rightarrow> 's \<times> unit port_result" where
  "keychain_delete api locator s =
     (case delete_generic_password api keychain_service locator s of
        (s', Ok _) \<Rightarrow> (s', Ok ())
      | (s', Err code) \<Rightarrow>
          (s', if code = err_sec_item_not_found then Ok () else Err (map_keychain_error code)))"

definition credential_locator_new :: "rstr \<Rightarrow> (rstr, string) result" where
  "credential_locator_new value =
     (if value = [] \<or> byte_len value > 128 \<or> \<not> is_ascii value \<or> list_ex is_control value
      then Err ''credential locator must be bounded printable ASCII''
      else Ok value)"

section \<open>References in the database\<close>

text \<open>
  The texts the crates produce: UUID parsing and printing, the timestamp of a millisecond count, and
  the JSON of the two receipts.
\<close>

record credential_env =
  env_externals :: externals
  env_parse_uuid :: "rstr \<Rightarrow> uuid option"
  env_uuid_text :: "uuid \<Rightarrow> rstr"
  env_timestamp :: "int \<Rightarrow> rstr option"
  env_rfc3339 :: "rstr \<Rightarrow> unit option"
  env_save_receipt :: "rstr \<Rightarrow> rstr"
  env_delete_receipt :: "rstr \<Rightarrow> rstr"

datatype save_plan = WriteSecret rstr credential_reference | SaveReplay credential_reference
datatype delete_plan = DeleteSecret rstr uuid | DeleteReplay uuid bool

fun provider_to_db :: "credential_provider \<Rightarrow> rstr" where
  "provider_to_db Gmail = lit ''gmail''"
| "provider_to_db OpenAi = lit ''open_ai''"

definition provider_from_db :: "rstr \<Rightarrow> credential_provider platform_result" where
  "provider_from_db value =
     (if value = lit ''gmail'' then Ok Gmail
      else if value = lit ''open_ai'' then Ok OpenAi
      else Err Sqlite)"

fun credential_status_from_db :: "credential_state \<Rightarrow> credential_status" where
  "credential_status_from_db Active = CredActive"
| "credential_status_from_db PendingSave = CredPendingSave"
| "credential_status_from_db PendingDelete = CredPendingDelete"
| "credential_status_from_db SaveFailed = CredNeedsAttention"

definition core_credential_from_row ::
  "credential_env \<Rightarrow> credential_row \<Rightarrow> credential_reference platform_result" where
  "core_credential_from_row env row =
     and_then (ok_or (env_parse_uuid env (cx_credential_id row)) Sqlite) (\<lambda>uuid.
     and_then (map_err (\<lambda>_. Sqlite) (id_new uuid)) (\<lambda>credential_id.
     and_then (provider_from_db (cx_provider row)) (\<lambda>provider.
     and_then (ok_or (env_timestamp env (cx_updated_at_ms row)) Sqlite) (\<lambda>updated_at.
       Ok \<lparr>cr_credential_id = credential_id, cr_provider = provider,
           cr_display_label = cx_display_label row,
           cr_status = credential_status_from_db (cx_status row), cr_updated_at = updated_at\<rparr>))))"

definition credential_and_locator_from_row ::
  "credential_env \<Rightarrow> credential_row \<Rightarrow> (credential_reference \<times> rstr) platform_result" where
  "credential_and_locator_from_row env row =
     and_then (core_credential_from_row env row) (\<lambda>reference.
     and_then (map_err (\<lambda>_. Sqlite) (credential_locator_new (cx_locator row))) (\<lambda>locator.
       Ok (reference, locator)))"

definition query_credential ::
  "credential_env \<Rightarrow> (credential_row \<Rightarrow> bool) \<Rightarrow> database \<Rightarrow>
   (credential_reference \<times> rstr) option platform_result" where
  "query_credential env where_clause db =
     (case find where_clause (db_credentials db) of
        None \<Rightarrow> Ok None
      | Some row \<Rightarrow> and_then (credential_and_locator_from_row env row) (\<lambda>p. Ok (Some p)))"

definition query_credential_by_save_request ::
  "credential_env \<Rightarrow> rstr \<Rightarrow> database \<Rightarrow> (credential_reference \<times> rstr) option platform_result" where
  "query_credential_by_save_request env request =
     query_credential env (\<lambda>r. cx_save_request_id r = request)"

definition query_credential_by_id ::
  "credential_env \<Rightarrow> rstr \<Rightarrow> database \<Rightarrow> (credential_reference \<times> rstr) option platform_result" where
  "query_credential_by_id env credential_id =
     query_credential env (\<lambda>r. cx_credential_id r = credential_id)"

section \<open>The two phases\<close>

definition insert_credential :: "credential_row \<Rightarrow> database \<Rightarrow> database platform_result" where
  "insert_credential row db =
     (if list_ex (\<lambda>r. cx_locator r = cx_locator row \<or> cx_credential_id r = cx_credential_id row
            \<or> cx_save_request_id r = cx_save_request_id row) (db_credentials db)
      then Err Sqlite
      else Ok (db\<lparr>db_credentials := db_credentials db @ [row]\<rparr>))"

definition save_envelope :: "credential_env \<Rightarrow> rstr \<Rightarrow> rstr \<Rightarrow> rstr \<Rightarrow> rstr" where
  "save_envelope env request provider_text display_label =
     digest_text (env_externals env) (lit ''save_credential_v1:'' @ request @ lit '':''
       @ provider_text @ lit '':'' @ display_label)"

text \<open>\<open>clock\<close> is \<open>unix_now_ms\<close>, \<open>new_locator\<close> the text of a random UUID.\<close>

definition reserve_core_credential ::
  "credential_env \<Rightarrow> int platform_result \<Rightarrow> rstr \<Rightarrow> uuid \<Rightarrow> credential_provider \<Rightarrow> rstr \<Rightarrow>
   database \<Rightarrow> (database \<times> save_plan) platform_result" where
  "reserve_core_credential env clock new_locator request_id provider display_label db =
     (let request = env_uuid_text env request_id;
          provider_text = provider_to_db provider;
          envelope = save_envelope env request provider_text display_label
      in and_then clock (\<lambda>now_ms.
         case find (\<lambda>r. cm_request_id r = request) (db_command_receipts db) of
           Some receipt \<Rightarrow>
             if cm_command_name receipt \<noteq> lit ''save_credential_v1''
                \<or> cm_envelope_hash receipt \<noteq> envelope
             then Err (Conflict ''command_envelope_changed'')
             else and_then (query_credential_by_save_request env request db) (\<lambda>found.
                  and_then (ok_or found (Corrupt ''credential_receipt_without_reference'')) (\<lambda>p.
                  case p of (reference, locator) \<Rightarrow>
                    Ok (db, if cr_status reference = CredActive then SaveReplay reference
                            else WriteSecret locator reference)))
         | None \<Rightarrow>
             (let credential_id = stable_id (env_externals env) (lit ''credential'') request
              in and_then (insert_credential
                     \<lparr>cx_locator = new_locator, cx_credential_id = credential_id,
                      cx_save_request_id = request, cx_delete_request_id = None,
                      cx_provider = provider_text, cx_display_label = display_label,
                      cx_status = PendingSave, cx_created_at_ms = now_ms,
                      cx_updated_at_ms = now_ms\<rparr> db) (\<lambda>db.
                 and_then (insert_receipt
                     \<lparr>cm_request_id = request, cm_command_name = lit ''save_credential_v1'',
                      cm_envelope_hash = envelope,
                      cm_response_json = env_save_receipt env credential_id,
                      cm_created_at_ms = now_ms\<rparr> db) (\<lambda>db.
                 and_then (query_credential_by_save_request env request db) (\<lambda>found.
                 and_then (ok_or found (Corrupt ''credential_insert_missing'')) (\<lambda>p.
                 case p of (reference, locator) \<Rightarrow> Ok (db, WriteSecret locator reference))))))))"

text \<open>
  \<open>activate_core_credential\<close> runs outside a transaction: the update stays when the query after it
  fails.
\<close>

definition activate_core_credential ::
  "credential_env \<Rightarrow> int platform_result \<Rightarrow> uuid \<Rightarrow> uuid \<Rightarrow> database \<Rightarrow>
   database \<times> credential_reference platform_result" where
  "activate_core_credential env clock request_id credential_id db =
     (case clock of
        Err e \<Rightarrow> (db, Err e)
      | Ok now_ms \<Rightarrow>
          (let matches = (\<lambda>r. cx_save_request_id r = env_uuid_text env request_id
                 \<and> cx_credential_id r = env_uuid_text env credential_id
                 \<and> cx_status r \<in> {PendingSave, Active});
               db' = db\<lparr>db_credentials := update_rows matches
                   (\<lambda>r. r\<lparr>cx_status := Active, cx_updated_at_ms := now_ms\<rparr>) (db_credentials db)\<rparr>
           in if changed_rows matches (db_credentials db) \<noteq> 1
              then (db', Err (Conflict ''credential_activation_mismatch''))
              else (db', and_then (query_credential_by_id env (env_uuid_text env credential_id) db')
                     (\<lambda>found. and_then (ok_or found (Corrupt ''credential_activation_missing''))
                       (\<lambda>p. Ok (fst p))))))"

definition delete_envelope :: "credential_env \<Rightarrow> rstr \<Rightarrow> rstr \<Rightarrow> rstr" where
  "delete_envelope env request credential =
     digest_text (env_externals env) (lit ''delete_credential_v1:'' @ request @ lit '':'' @ credential)"

text \<open>
  A delete request id that another reference already carries violates the \<open>UNIQUE\<close> constraint of its
  column.
\<close>

definition mark_pending_delete ::
  "rstr \<Rightarrow> rstr \<Rightarrow> int \<Rightarrow> database \<Rightarrow> database platform_result" where
  "mark_pending_delete credential request now_ms db =
     (if list_ex (\<lambda>r. cx_credential_id r \<noteq> credential \<and> cx_delete_request_id r = Some request)
           (db_credentials db)
      then Err Sqlite
      else Ok (db\<lparr>db_credentials := update_rows (\<lambda>r. cx_credential_id r = credential)
             (\<lambda>r. r\<lparr>cx_status := PendingDelete, cx_delete_request_id := Some request,
                    cx_updated_at_ms := now_ms\<rparr>) (db_credentials db)\<rparr>))"

definition prepare_core_credential_delete ::
  "credential_env \<Rightarrow> int platform_result \<Rightarrow> uuid \<Rightarrow> uuid \<Rightarrow> database \<Rightarrow>
   (database \<times> delete_plan) platform_result" where
  "prepare_core_credential_delete env clock request_id credential_id db =
     (let request = env_uuid_text env request_id;
          credential = env_uuid_text env credential_id;
          envelope = delete_envelope env request credential
      in and_then clock (\<lambda>now_ms.
         case find (\<lambda>r. cm_request_id r = request) (db_command_receipts db) of
           Some receipt \<Rightarrow>
             if cm_command_name receipt \<noteq> lit ''delete_credential_v1''
                \<or> cm_envelope_hash receipt \<noteq> envelope
             then Err (Conflict ''command_envelope_changed'')
             else and_then (query_credential_by_id env credential db) (\<lambda>existing.
                  Ok (db, case existing of
                        Some (_, locator) \<Rightarrow> DeleteSecret locator credential_id
                      | None \<Rightarrow> DeleteReplay credential_id True))
         | None \<Rightarrow>
             and_then (query_credential_by_id env credential db) (\<lambda>existing.
             and_then (ok_or existing (InvalidInput ''credential_id'')) (\<lambda>p.
             and_then (mark_pending_delete credential request now_ms db) (\<lambda>db.
             and_then (insert_receipt
                 \<lparr>cm_request_id = request, cm_command_name = lit ''delete_credential_v1'',
                  cm_envelope_hash = envelope,
                  cm_response_json = env_delete_receipt env credential,
                  cm_created_at_ms = now_ms\<rparr> db) (\<lambda>db.
               Ok (db, DeleteSecret (snd p) credential_id)))))))"

definition finish_core_credential_delete ::
  "credential_env \<Rightarrow> uuid \<Rightarrow> uuid \<Rightarrow> database \<Rightarrow> database \<times> unit platform_result" where
  "finish_core_credential_delete env request_id credential_id db =
     (let matches = (\<lambda>r. cx_credential_id r = env_uuid_text env credential_id
            \<and> cx_delete_request_id r = Some (env_uuid_text env request_id)
            \<and> cx_status r = PendingDelete);
          db' = db\<lparr>db_credentials := delete_rows matches (db_credentials db)\<rparr>
      in (db', if changed_rows matches (db_credentials db) > 1
               then Err (Corrupt ''credential_delete_cardinality'') else Ok ()))"

section \<open>Reconciliation at start-up\<close>

fun platform_credential_error :: "port_error \<Rightarrow> platform_error" where
  "platform_credential_error PortConflict = Conflict ''credential''"
| "platform_credential_error PortDataIntegrity = Corrupt ''credential''"
| "platform_credential_error PortNotFound = Keychain ''not_found''"
| "platform_credential_error PortPermissionDenied = Keychain ''permission_denied''"
| "platform_credential_error PortUnavailable = Keychain ''unavailable''"
| "platform_credential_error PortInternal = Keychain ''internal''"

definition reconcile_save ::
  "'s keychain_api \<Rightarrow> int \<Rightarrow> rstr \<Rightarrow> 's \<Rightarrow> database \<Rightarrow> 's \<times> database \<times> unit platform_result" where
  "reconcile_save api now_ms locator s db =
     (case keychain_contains api locator s of
        Err e \<Rightarrow> (s, db, Err (platform_credential_error e))
      | Ok present \<Rightarrow>
          (s, db\<lparr>db_credentials := update_rows
                 (\<lambda>r. cx_locator r = locator \<and> cx_status r = PendingSave)
                 (\<lambda>r. r\<lparr>cx_status := (if present then Active else SaveFailed),
                        cx_updated_at_ms := now_ms\<rparr>) (db_credentials db)\<rparr>, Ok ()))"

definition reconcile_delete ::
  "'s keychain_api \<Rightarrow> rstr \<Rightarrow> 's \<Rightarrow> database \<Rightarrow> 's \<times> database \<times> unit platform_result" where
  "reconcile_delete api locator s db =
     (case keychain_delete api locator s of
        (s', Err e) \<Rightarrow> (s', db, Err (platform_credential_error e))
      | (s', Ok _) \<Rightarrow>
          (s', db\<lparr>db_credentials := delete_rows
                 (\<lambda>r. cx_locator r = locator \<and> cx_status r = PendingDelete) (db_credentials db)\<rparr>,
           Ok ()))"

fun reconcile_loop ::
  "'s keychain_api \<Rightarrow> int \<Rightarrow> (rstr \<times> credential_state) list \<Rightarrow> 's \<Rightarrow> database \<Rightarrow>
   's \<times> database \<times> unit platform_result" where
  "reconcile_loop api now_ms [] s db = (s, db, Ok ())"
| "reconcile_loop api now_ms ((locator_text, status) # pending) s db =
     (case credential_locator_new locator_text of
        Err _ \<Rightarrow> (s, db, Err (Corrupt ''credential_locator''))
      | Ok locator \<Rightarrow>
          (case (case status of
                   PendingSave \<Rightarrow> reconcile_save api now_ms locator s db
                 | PendingDelete \<Rightarrow> reconcile_delete api locator s db
                 | _ \<Rightarrow> (s, db, Err (Corrupt ''credential_status''))) of
             (s', db', Err e) \<Rightarrow> (s', db', Err e)
           | (s', db', Ok _) \<Rightarrow> reconcile_loop api now_ms pending s' db'))"

definition pending_credentials :: "database \<Rightarrow> (rstr \<times> credential_state) list" where
  "pending_credentials db =
     map (\<lambda>r. (cx_locator r, cx_status r))
       (sort_key (\<lambda>r. (cx_created_at_ms r, cx_locator r))
         (filter (\<lambda>r. cx_status r \<in> {PendingSave, PendingDelete}) (db_credentials db)))"

definition reconcile_credentials ::
  "'s keychain_api \<Rightarrow> int \<Rightarrow> 's \<Rightarrow> database \<Rightarrow> 's \<times> database \<times> unit platform_result" where
  "reconcile_credentials api now_ms s db = reconcile_loop api now_ms (pending_credentials db) s db"

text \<open>
  The update of the references in \<open>normalize_restored_state\<close>; the statements before it, which detach
  the locators of interrupted Gmail disconnections, belong to the Gmail connector.
\<close>

definition restore_credentials :: "int \<Rightarrow> database \<Rightarrow> database" where
  "restore_credentials now_ms db =
     db\<lparr>db_credentials := update_rows (\<lambda>r. cx_status r \<in> {PendingDelete, PendingSave})
          (\<lambda>r. r\<lparr>cx_status := SaveFailed, cx_delete_request_id := None, cx_updated_at_ms := now_ms\<rparr>)
          (db_credentials db)\<rparr>"

end
