(* ===== verification/Credential_Service.thy ===== *)
theory Credential_Service
  imports Credential_Store
begin

text \<open>
  The credential commands of \<open>service.rs\<close> and the translation of port errors into the errors a command
  returns. A command returns the Keychain and the database it leaves behind, also when it fails.
\<close>

definition plain_error :: "error_code \<Rightarrow> bool \<Rightarrow> user_action_key \<Rightarrow> command_error" where
  "plain_error code retryable user_action =
     \<lparr>ce_schema_version = schema_version_v1, ce_code = code, ce_retryable = retryable,
      ce_user_action = user_action, ce_field = None\<rparr>"

fun map_port_error :: "bool \<Rightarrow> port_error \<Rightarrow> command_error" where
  "map_port_error credential_context PortUnavailable =
     plain_error (if credential_context then CredentialUnavailable else StorageUnavailable) True Retry"
| "map_port_error _ PortConflict = plain_error RequestConflict False StartNewRequest"
| "map_port_error credential_context PortPermissionDenied =
     plain_error PermissionDenied False (if credential_context then UnlockKeychain else ReviewStorage)"
| "map_port_error _ PortDataIntegrity = plain_error DataIntegrity False ReviewStorage"
| "map_port_error _ PortNotFound = plain_error NotFound False CorrectRequest"
| "map_port_error _ PortInternal = plain_error Internal True RestartApplication"

definition map_storage_error :: "port_error \<Rightarrow> command_error" where
  "map_storage_error = map_port_error False"

definition map_credential_database_error :: "port_error \<Rightarrow> command_error" where
  "map_credential_database_error = map_port_error True"

fun map_credential_error :: "port_error \<Rightarrow> command_error" where
  "map_credential_error PortUnavailable = plain_error CredentialUnavailable True Retry"
| "map_credential_error PortPermissionDenied = plain_error PermissionDenied True UnlockKeychain"
| "map_credential_error PortConflict = plain_error RequestConflict False StartNewRequest"
| "map_credential_error PortDataIntegrity = plain_error DataIntegrity False RestartApplication"
| "map_credential_error PortNotFound = plain_error NotFound False CorrectRequest"
| "map_credential_error PortInternal = plain_error Internal True Retry"

definition internal_data_error :: command_error where
  "internal_data_error = plain_error DataIntegrity False ReviewStorage"

type_synonym 'a command_result = "('a, command_error) result"

record save_credential_response =
  sp_schema_version :: u8
  sp_request_id :: uuid
  sp_credential :: credential_reference
  sp_replay_status :: replay_status

record delete_credential_response =
  dp_schema_version :: u8
  dp_request_id :: uuid
  dp_credential_id :: uuid
  dp_deleted :: bool
  dp_replay_status :: replay_status

definition finish_save ::
  "credential_env \<Rightarrow> uuid \<Rightarrow> credential_reference \<Rightarrow> replay_status \<Rightarrow>
   save_credential_response command_result" where
  "finish_save env request_id credential replay =
     (case credential_reference_validate (env_rfc3339 env) credential of
        Err _ \<Rightarrow> Err internal_data_error
      | Ok _ \<Rightarrow>
          if cr_status credential \<noteq> CredActive then Err internal_data_error
          else Ok \<lparr>sp_schema_version = schema_version_v1, sp_request_id = request_id,
                   sp_credential = credential, sp_replay_status = replay\<rparr>)"

text \<open>
  \<open>clock1\<close> and \<open>clock2\<close> are the clock readings of the reservation and of the activation.
\<close>

definition save_credential_v1 ::
  "credential_env \<Rightarrow> 's keychain_api \<Rightarrow> int platform_result \<Rightarrow> int platform_result \<Rightarrow> rstr \<Rightarrow>
   save_credential_request \<Rightarrow> 's \<Rightarrow> database \<Rightarrow>
   's \<times> database \<times> save_credential_response command_result" where
  "save_credential_v1 env api clock1 clock2 new_locator request s db =
     (case save_credential_validate request of
        Err e \<Rightarrow> (s, db, Err (command_error_of_validation e))
      | Ok _ \<Rightarrow>
          (case reserve_core_credential env clock1 new_locator (scr_request_id request)
                  (scr_provider request) (scr_display_label request) db of
             Err e \<Rightarrow> (s, db, Err (map_credential_database_error (database_port_error e)))
           | Ok (db, SaveReplay reference) \<Rightarrow>
               (s, db, finish_save env (scr_request_id request) reference Replayed)
           | Ok (db, WriteSecret locator pending_reference) \<Rightarrow>
               (case keychain_put api locator (scr_secret request) s of
                  (s, Err e) \<Rightarrow> (s, db, Err (map_credential_error e))
                | (s, Ok _) \<Rightarrow>
                    (case activate_core_credential env clock2 (scr_request_id request)
                            (cr_credential_id pending_reference) db of
                       (db, Err e) \<Rightarrow>
                         (s, db, Err (map_credential_database_error (database_port_error e)))
                     | (db, Ok reference) \<Rightarrow>
                         (s, db, finish_save env (scr_request_id request) reference Created)))))"

definition delete_credential_v1 ::
  "credential_env \<Rightarrow> 's keychain_api \<Rightarrow> int platform_result \<Rightarrow> delete_credential_request \<Rightarrow>
   's \<Rightarrow> database \<Rightarrow> 's \<times> database \<times> delete_credential_response command_result" where
  "delete_credential_v1 env api clock request s db =
     (let respond = (\<lambda>credential_id deleted replay.
            \<lparr>dp_schema_version = schema_version_v1, dp_request_id = dcr_request_id request,
             dp_credential_id = credential_id, dp_deleted = deleted, dp_replay_status = replay\<rparr>)
      in case delete_credential_validate request of
        Err e \<Rightarrow> (s, db, Err (command_error_of_validation e))
      | Ok _ \<Rightarrow>
          (case prepare_core_credential_delete env clock (dcr_request_id request)
                  (dcr_credential_id request) db of
             Err e \<Rightarrow> (s, db, Err (map_credential_database_error (database_port_error e)))
           | Ok (db, DeleteReplay credential_id deleted) \<Rightarrow>
               (s, db, Ok (respond credential_id deleted Replayed))
           | Ok (db, DeleteSecret locator credential_id) \<Rightarrow>
               (case keychain_delete api locator s of
                  (s, Err e) \<Rightarrow> (s, db, Err (map_credential_error e))
                | (s, Ok _) \<Rightarrow>
                    (case finish_core_credential_delete env (dcr_request_id request) credential_id db of
                       (db, Err e) \<Rightarrow>
                         (s, db, Err (map_credential_database_error (database_port_error e)))
                     | (db, Ok _) \<Rightarrow> (s, db, Ok (respond credential_id True Created))))))"

end
