(* ===== verification/Credential_Invariant.thy ===== *)
theory Credential_Invariant
  imports Credential_Service
begin

text \<open>
  The invariant of credentials across the database and the Keychain: an active reference has its
  secret, and every stored secret has a reference. The laws of the Keychain are the locale
  \<open>security_framework\<close>; they make the port of \<open>credential.rs\<close> a \<open>credential_port\<close>, on which the proofs
  about the commands rest.
\<close>

section \<open>Interfaces\<close>

locale credential_port =
  fixes contents :: "'s \<Rightarrow> rstr \<rightharpoonup> u8 list"
    and put :: "rstr \<Rightarrow> rstr \<Rightarrow> 's \<Rightarrow> 's \<times> unit port_result"
    and delete :: "rstr \<Rightarrow> 's \<Rightarrow> 's \<times> unit port_result"
    and contains :: "rstr \<Rightarrow> 's \<Rightarrow> bool port_result"
  assumes put_Ok: "put l x s = (s', Ok ()) \<Longrightarrow> contents s' = (contents s)(l \<mapsto> utf8_bytes x)"
    and put_Err: "put l x s = (s', Err e) \<Longrightarrow> contents s' = contents s"
    and delete_Ok: "delete l s = (s', Ok ()) \<Longrightarrow> contents s' = (contents s)(l := None)"
    and delete_Err: "delete l s = (s', Err e) \<Longrightarrow> contents s' = contents s"
    and contains_Ok: "contains l s = Ok b \<Longrightarrow> b \<longleftrightarrow> contents s l \<noteq> None"
begin

lemma put_cases:
  assumes "put l x s = (s', r)"
  shows "contents s' = (contents s)(l \<mapsto> utf8_bytes x) \<or> contents s' = contents s"
  using assms put_Ok put_Err by (cases r) auto

lemma delete_cases:
  assumes "delete l s = (s', r)"
  shows "contents s' = (contents s)(l := None) \<or> contents s' = contents s"
  using assms delete_Ok delete_Err by (cases r) auto

end

locale security_framework =
  fixes api :: "'s keychain_api" and contents :: "'s \<Rightarrow> rstr \<rightharpoonup> u8 list"
  assumes set_Ok: "set_generic_password api keychain_service l b s = (s', Ok ()) \<Longrightarrow>
        contents s' = (contents s)(l \<mapsto> b)"
    and set_Err: "set_generic_password api keychain_service l b s = (s', Err c) \<Longrightarrow>
        contents s' = contents s"
    and get_Ok: "get_generic_password api keychain_service l s = Ok b \<Longrightarrow> contents s l = Some b"
    and get_missing: "get_generic_password api keychain_service l s = Err err_sec_item_not_found \<Longrightarrow>
        contents s l = None"
    and api_delete_Ok: "delete_generic_password api keychain_service l s = (s', Ok ()) \<Longrightarrow>
        contents s' = (contents s)(l := None)"
    and api_delete_missing: "delete_generic_password api keychain_service l s = (s', Err err_sec_item_not_found) \<Longrightarrow>
        contents s l = None"
    and api_delete_Err: "delete_generic_password api keychain_service l s = (s', Err c) \<Longrightarrow>
        contents s' = contents s"

lemma keychain_delete_Ok:
  assumes "keychain_delete api l s = (s', Ok ())"
  shows "delete_generic_password api keychain_service l s = (s', Ok ())
    \<or> delete_generic_password api keychain_service l s = (s', Err err_sec_item_not_found)"
proof (cases "delete_generic_password api keychain_service l s")
  case (Pair t r)
  then show ?thesis using assms by (cases r) (simp_all add: keychain_delete_def split: if_splits)
qed

lemma keychain_delete_Err:
  assumes "keychain_delete api l s = (s', Err e)"
  shows "\<exists>c. delete_generic_password api keychain_service l s = (s', Err c)"
proof (cases "delete_generic_password api keychain_service l s")
  case (Pair t r)
  then show ?thesis using assms by (cases r) (simp_all add: keychain_delete_def split: if_splits)
qed

sublocale security_framework \<subseteq> port: credential_port contents "keychain_put api" "keychain_delete api"
    "keychain_contains api"
proof unfold_locales
  show "contents s' = (contents s)(l \<mapsto> utf8_bytes x)" if "keychain_put api l x s = (s', Ok ())" for l x s s'
    using that set_Ok by (auto simp: keychain_put_def split: prod.splits)
  show "contents s' = contents s" if "keychain_put api l x s = (s', Err e)" for l x s s' e
    using that set_Err by (auto simp: keychain_put_def map_err_Err split: prod.splits)
  show "contents s' = (contents s)(l := None)" if del: "keychain_delete api l s = (s', Ok ())" for l s s'
    using keychain_delete_Ok [OF del] api_delete_Ok api_delete_missing api_delete_Err by (metis fun_upd_triv)
  show "contents s' = contents s" if del: "keychain_delete api l s = (s', Err e)" for l s s' e
    using keychain_delete_Err [OF del] api_delete_Err by blast
  show "b \<longleftrightarrow> contents s l \<noteq> None" if "keychain_contains api l s = Ok b" for l s b
    using that get_Ok get_missing by (auto simp: keychain_contains_def split: result.splits if_splits)
qed

section \<open>The invariant\<close>

text \<open>The credentials a committed delete request was about.\<close>

definition delete_requested :: "credential_env \<Rightarrow> database \<Rightarrow> uuid \<Rightarrow> bool" where
  "delete_requested env db u \<longleftrightarrow>
     list_ex (\<lambda>rc. cm_command_name rc = lit ''delete_credential_v1''
        \<and> cm_envelope_hash rc = delete_envelope env (cm_request_id rc) (env_uuid_text env u))
       (db_command_receipts db)"

definition credential_of_request :: "credential_env \<Rightarrow> rstr \<Rightarrow> rstr" where
  "credential_of_request env request = stable_id (env_externals env) (lit ''credential'') request"

definition save_requests :: "database \<Rightarrow> rstr set" where
  "save_requests db =
     cm_request_id ` {rc \<in> set (db_command_receipts db). cm_command_name rc = lit ''save_credential_v1''}"

text \<open>
  \<open>known\<close> are the identifiers that occur as request and credential ids. The digests that name a
  credential and that bind a delete request to its credential are assumed not to collide on them.
\<close>

definition collision_free :: "credential_env \<Rightarrow> uuid set \<Rightarrow> bool" where
  "collision_free env known \<longleftrightarrow>
     inj_on (credential_of_request env) (env_uuid_text env ` known)
     \<and> (\<forall>r\<in>known. inj_on (\<lambda>u. delete_envelope env (env_uuid_text env r) (env_uuid_text env u)) known)"

definition cred_inv :: "credential_env \<Rightarrow> uuid set \<Rightarrow> (rstr \<rightharpoonup> u8 list) \<Rightarrow> database \<Rightarrow> bool" where
  "cred_inv env known secrets db \<longleftrightarrow>
     distinct (map cx_locator (db_credentials db))
     \<and> distinct (map cx_credential_id (db_credentials db))
     \<and> distinct (map cx_save_request_id (db_credentials db))
     \<and> (\<forall>r\<in>set (db_credentials db). cx_credential_id r = credential_of_request env (cx_save_request_id r)
           \<and> cx_save_request_id r \<in> save_requests db)
     \<and> (\<forall>r\<in>set (db_credentials db). cx_status r = Active \<longrightarrow> secrets (cx_locator r) \<noteq> None)
     \<and> dom secrets \<subseteq> cx_locator ` set (db_credentials db)
     \<and> save_requests db \<subseteq> env_uuid_text env ` known
     \<and> (\<forall>u\<in>known. delete_requested env db u \<longrightarrow>
           env_uuid_text env u \<in> credential_of_request env ` save_requests db
           \<and> (\<forall>r\<in>set (db_credentials db). cx_credential_id r = env_uuid_text env u \<longrightarrow>
                 cx_status r = PendingDelete))"

lemma cred_invD:
  assumes "cred_inv env known secrets db"
  shows "distinct (map cx_locator (db_credentials db))"
    "distinct (map cx_credential_id (db_credentials db))"
    "distinct (map cx_save_request_id (db_credentials db))"
    "\<And>r. r \<in> set (db_credentials db) \<Longrightarrow> cx_credential_id r = credential_of_request env (cx_save_request_id r)"
    "\<And>r. r \<in> set (db_credentials db) \<Longrightarrow> cx_save_request_id r \<in> save_requests db"
    "\<And>r. r \<in> set (db_credentials db) \<Longrightarrow> cx_status r = Active \<Longrightarrow> secrets (cx_locator r) \<noteq> None"
    "dom secrets \<subseteq> cx_locator ` set (db_credentials db)"
    "save_requests db \<subseteq> env_uuid_text env ` known"
    "\<And>u. u \<in> known \<Longrightarrow> delete_requested env db u \<Longrightarrow>
        env_uuid_text env u \<in> credential_of_request env ` save_requests db"
    "\<And>u r. u \<in> known \<Longrightarrow> delete_requested env db u \<Longrightarrow> r \<in> set (db_credentials db) \<Longrightarrow>
        cx_credential_id r = env_uuid_text env u \<Longrightarrow> cx_status r = PendingDelete"
  using assms unfolding cred_inv_def by blast+

interpretation by_locator: keyed_table cx_locator "\<lambda>f. \<forall>r. cx_locator (f r) = cx_locator r"
  by unfold_locales simp

interpretation by_credential: keyed_table cx_credential_id "\<lambda>f. \<forall>r. cx_credential_id (f r) = cx_credential_id r"
  by unfold_locales simp

interpretation by_save_request: keyed_table cx_save_request_id
  "\<lambda>f. \<forall>r. cx_save_request_id (f r) = cx_save_request_id r"
  by unfold_locales simp

text \<open>An update of the status columns of some rows.\<close>

definition restates :: "(credential_row \<Rightarrow> credential_row) \<Rightarrow> bool" where
  "restates f \<longleftrightarrow> (\<forall>r. cx_locator (f r) = cx_locator r \<and> cx_credential_id (f r) = cx_credential_id r
     \<and> cx_save_request_id (f r) = cx_save_request_id r)"

lemma cred_inv_update:
  assumes inv: "cred_inv env known secrets db" and f: "restates f"
    and active: "\<And>r. r \<in> set (db_credentials db) \<Longrightarrow> P r \<Longrightarrow> cx_status (f r) = Active \<Longrightarrow>
        secrets (cx_locator r) \<noteq> None"
    and keeps: "\<And>r. r \<in> set (db_credentials db) \<Longrightarrow> P r \<Longrightarrow> cx_status r = PendingDelete \<Longrightarrow>
        cx_status (f r) = PendingDelete"
  shows "cred_inv env known secrets (db\<lparr>db_credentials := update_rows P f (db_credentials db)\<rparr>)"
proof -
  have same: "cx_locator (f r) = cx_locator r" "cx_credential_id (f r) = cx_credential_id r"
    "cx_save_request_id (f r) = cx_save_request_id r" for r
    using f by (simp_all add: restates_def)
  have rows: "\<exists>r\<in>set (db_credentials db). cx_locator r' = cx_locator r \<and> cx_credential_id r' = cx_credential_id r
      \<and> cx_save_request_id r' = cx_save_request_id r \<and> (r' = r \<or> (P r \<and> r' = f r))"
    if "r' \<in> set (update_rows P f (db_credentials db))" for r'
    using that same by (auto simp: update_rows_def)
  have locs: "cx_locator ` set (update_rows P f (db_credentials db)) = cx_locator ` set (db_credentials db)"
    using by_locator.keys_update [of f P "db_credentials db"] same by (simp flip: set_map)
  have "secrets (cx_locator r') \<noteq> None"
    if "r' \<in> set (update_rows P f (db_credentials db))" "cx_status r' = Active" for r'
    using rows [OF that(1)] that(2) active cred_invD(6) [OF inv] by metis
  moreover have "cx_status r' = PendingDelete"
    if "u \<in> known" "delete_requested env db u" "r' \<in> set (update_rows P f (db_credentials db))"
      "cx_credential_id r' = env_uuid_text env u" for u r'
    using rows [OF that(3)] that cred_invD(10) [OF inv] keeps by metis
  moreover have "cx_credential_id r' = credential_of_request env (cx_save_request_id r')
      \<and> cx_save_request_id r' \<in> save_requests db"
    if "r' \<in> set (update_rows P f (db_credentials db))" for r'
    using rows [OF that] cred_invD(4,5) [OF inv] by metis
  ultimately show ?thesis
    using cred_invD(1-3,7-9) [OF inv] locs same
    unfolding cred_inv_def
    by (simp add: by_locator.keys_update by_credential.keys_update by_save_request.keys_update
        save_requests_def delete_requested_def)
qed

lemma cred_inv_delete:
  assumes inv: "cred_inv env known secrets db"
    and gone: "\<And>r. r \<in> set (db_credentials db) \<Longrightarrow> P r \<Longrightarrow> secrets (cx_locator r) = None"
  shows "cred_inv env known secrets (db\<lparr>db_credentials := delete_rows P (db_credentials db)\<rparr>)"
proof -
  have "dom secrets \<subseteq> cx_locator ` set (delete_rows P (db_credentials db))"
    using cred_invD(7) [OF inv] gone by (fastforce simp: delete_rows_def)
  moreover have "r \<in> set (db_credentials db)" if "r \<in> set (delete_rows P (db_credentials db))" for r
    using that by (simp add: delete_rows_def)
  ultimately show ?thesis
    using cred_invD [OF inv]
    unfolding cred_inv_def
    by (simp add: by_locator.keys_delete by_credential.keys_delete by_save_request.keys_delete
        save_requests_def delete_requested_def)
qed

lemma cred_inv_put:
  "cred_inv env known secrets db \<Longrightarrow> l \<in> cx_locator ` set (db_credentials db) \<Longrightarrow> cred_inv env known (secrets(l \<mapsto> b)) db"
  unfolding cred_inv_def by auto

lemma cred_inv_unset:
  assumes inv: "cred_inv env known secrets db"
    and "\<And>r. r \<in> set (db_credentials db) \<Longrightarrow> cx_locator r = l \<Longrightarrow> cx_status r \<noteq> Active"
  shows "cred_inv env known (secrets(l := None)) db"
proof -
  have "(secrets(l := None)) (cx_locator r) \<noteq> None" if "r \<in> set (db_credentials db)" "cx_status r = Active" for r
    using cred_invD(6) [OF inv that] assms(2) that by auto
  moreover have "dom (secrets(l := None)) \<subseteq> cx_locator ` set (db_credentials db)"
    using cred_invD(7) [OF inv] by auto
  ultimately show ?thesis using cred_invD [OF inv] unfolding cred_inv_def by blast
qed

end
