(* ===== verification/Credential_Correctness.thy ===== *)
theory Credential_Correctness
  imports Credential_Invariant
begin

text \<open>
  Every phase of the credential commands keeps the invariant, whatever the Keychain answers, so a
  crash between any two phases does. On this rest the guarantees of saving, deleting and
  reconciling.
\<close>

section \<open>What the phases return\<close>

lemma query_credential_Ok:
  "query_credential env P db = Ok found \<Longrightarrow>
     (case found of
        None \<Rightarrow> \<not> (\<exists>r\<in>set (db_credentials db). P r)
      | Some (reference, locator) \<Rightarrow> (\<exists>r\<in>set (db_credentials db). P r \<and> locator = cx_locator r
          \<and> env_parse_uuid env (cx_credential_id r) = Some (cr_credential_id reference)
          \<and> cr_status reference = credential_status_from_db (cx_status r)
          \<and> cr_display_label reference = cx_display_label r))"
proof (cases "find P (db_credentials db)")
  case None
  then show "query_credential env P db = Ok found \<Longrightarrow> ?thesis"
    by (auto simp: query_credential_def find_None_iff)
next
  case (Some r)
  then have r: "r \<in> set (db_credentials db)" "P r" by (auto simp: find_Some_iff)
  assume "query_credential env P db = Ok found"
  then obtain reference locator where "found = Some (reference, locator)"
    and "core_credential_from_row env r = Ok reference"
    and "credential_locator_new (cx_locator r) = Ok locator"
    using Some
    by (auto simp: query_credential_def credential_and_locator_from_row_def result_simps)
  moreover from this(3) have "locator = cx_locator r"
    by (simp add: credential_locator_new_def split: if_splits)
  moreover have "env_parse_uuid env (cx_credential_id r) = Some (cr_credential_id reference)
      \<and> cr_status reference = credential_status_from_db (cx_status r)
      \<and> cr_display_label reference = cx_display_label r"
    using \<open>core_credential_from_row env r = Ok reference\<close>
    by (auto simp: core_credential_from_row_def id_new_def result_simps split: if_splits)
  ultimately show ?thesis using r by auto
qed

lemma cred_active_status [simp]:
  "credential_status_from_db st = CredActive \<longleftrightarrow> st = Active"
  "CredActive = credential_status_from_db st \<longleftrightarrow> st = Active"
  by (cases st; simp)+

lemma reserve_cases:
  assumes "reserve_core_credential env clock loc q provider label db = Ok (db', plan)"
  obtains (again) "db' = db"
  | (new) now row rc where "clock = Ok now"
      "\<not> list_ex (\<lambda>rc. cm_request_id rc = env_uuid_text env q) (db_command_receipts db)"
      "insert_credential row db = Ok (db\<lparr>db_credentials := db_credentials db @ [row]\<rparr>)"
      "db' = db\<lparr>db_credentials := db_credentials db @ [row],
                db_command_receipts := db_command_receipts db @ [rc]\<rparr>"
      "cx_locator row = loc" "cx_credential_id row = credential_of_request env (env_uuid_text env q)"
      "cx_save_request_id row = env_uuid_text env q" "cx_status row = PendingSave"
      "cm_request_id rc = env_uuid_text env q" "cm_command_name rc = lit ''save_credential_v1''"
proof (cases "find (\<lambda>r. cm_request_id r = env_uuid_text env q) (db_command_receipts db)")
  case None
  then have fresh: "\<not> list_ex (\<lambda>rc. cm_request_id rc = env_uuid_text env q) (db_command_receipts db)"
    by (auto simp: find_None_iff list_ex_iff)
  from assms None obtain now where "clock = Ok now"
    by (auto simp: reserve_core_credential_def Let_def result_simps)
  with assms None fresh show thesis
    by (intro new)
      (auto simp: reserve_core_credential_def Let_def result_simps insert_credential_def insert_receipt_def
        credential_of_request_def split: if_splits prod.splits)
next
  case (Some rc)
  then show thesis
    using assms again
    by (auto simp: reserve_core_credential_def Let_def result_simps split: if_splits prod.splits)
qed

text \<open>The row a plan is about.\<close>

definition plan_row :: "credential_env \<Rightarrow> uuid \<Rightarrow> credential_reference \<Rightarrow> credential_row \<Rightarrow> bool" where
  "plan_row env q reference r \<longleftrightarrow> cx_save_request_id r = env_uuid_text env q
     \<and> env_parse_uuid env (cx_credential_id r) = Some (cr_credential_id reference)
     \<and> cr_status reference = credential_status_from_db (cx_status r)"

lemma reserve_plan:
  assumes "reserve_core_credential env clock loc q provider label db = Ok (db', plan)"
  shows "case plan of
      WriteSecret l reference \<Rightarrow> (\<exists>r\<in>set (db_credentials db'). plan_row env q reference r \<and> cx_locator r = l)
    | SaveReplay reference \<Rightarrow> db' = db \<and>
        (\<exists>r\<in>set (db_credentials db). plan_row env q reference r \<and> cx_status r = Active)"
proof (cases "find (\<lambda>r. cm_request_id r = env_uuid_text env q) (db_command_receipts db)")
  case None
  with assms obtain reference locator where
    found: "query_credential_by_save_request env (env_uuid_text env q) db' = Ok (Some (reference, locator))"
    and "plan = WriteSecret locator reference"
    by (auto simp: reserve_core_credential_def Let_def result_simps split: prod.splits)
  then show ?thesis
    using query_credential_Ok [OF found [unfolded query_credential_by_save_request_def]]
    by (auto simp: plan_row_def)
next
  case (Some rc)
  with assms obtain reference locator where
    found: "query_credential_by_save_request env (env_uuid_text env q) db = Ok (Some (reference, locator))"
    and "db' = db" "plan = (if cr_status reference = CredActive then SaveReplay reference else WriteSecret locator reference)"
    by (auto simp: reserve_core_credential_def Let_def result_simps split: if_splits prod.splits)
  then show ?thesis
    using query_credential_Ok [OF found [unfolded query_credential_by_save_request_def]]
    by (auto simp: plan_row_def)
qed

lemma command_names_differ [simp]:
  "lit ''save_credential_v1'' \<noteq> lit ''delete_credential_v1''"
  "lit ''delete_credential_v1'' \<noteq> lit ''save_credential_v1''"
  by (simp_all del: lit_eq_iff add: lit_def)

lemma save_requests_append:
  "db_command_receipts db' = db_command_receipts db @ [rc] \<Longrightarrow>
     save_requests db' = (if cm_command_name rc = lit ''save_credential_v1''
       then insert (cm_request_id rc) (save_requests db) else save_requests db)"
proof -
  have "{x \<in> set (xs @ [rc]). P x} = (if P rc then insert rc {x \<in> set xs. P x} else {x \<in> set xs. P x})"
    for xs :: "receipt_row list" and P by auto
  then show "db_command_receipts db' = db_command_receipts db @ [rc] \<Longrightarrow> ?thesis"
    by (simp add: save_requests_def)
qed

lemma reserve_inv:
  assumes inv: "cred_inv env known secrets db" and free: "collision_free env known" and q: "q \<in> known"
    and "reserve_core_credential env clock loc q provider label db = Ok (db', plan)"
  shows "cred_inv env known secrets db'"
  using assms(4)
proof (cases rule: reserve_cases)
  case again
  then show ?thesis using inv by simp
next
  case (new now row rc)
  have names: "save_requests db' = insert (env_uuid_text env q) (save_requests db)"
    using new(4,9,10) by (simp add: save_requests_append)
  have del: "delete_requested env db' u = delete_requested env db u" for u
    using new by (simp add: delete_requested_def)
  have unused: "env_uuid_text env q \<notin> save_requests db"
    using new(2) by (auto simp: save_requests_def list_ex_iff)
  have uniq: "\<not> list_ex (\<lambda>r. cx_locator r = cx_locator row \<or> cx_credential_id r = cx_credential_id row
      \<or> cx_save_request_id r = cx_save_request_id row) (db_credentials db)"
    using new(3) by (auto simp: insert_credential_def split: if_splits)
  have "cx_credential_id row \<noteq> env_uuid_text env u" if req: "u \<in> known" "delete_requested env db u" for u
  proof
    assume "cx_credential_id row = env_uuid_text env u"
    then obtain q' where q': "q' \<in> save_requests db"
      "credential_of_request env q' = credential_of_request env (env_uuid_text env q)"
      using cred_invD(9) [OF inv req] new(6) by auto
    then have "q' = env_uuid_text env q"
      using free cred_invD(8) [OF inv] q by (auto simp: collision_free_def dest: inj_onD)
    then show False using unused q'(1) by simp
  qed
  then show ?thesis
    using inv uniq names del q new(4-8)
    unfolding cred_inv_def list_ex_iff by (auto simp: image_iff)
qed

text \<open>Activation: the rows it touches are those of the request.\<close>

definition activates :: "credential_env \<Rightarrow> uuid \<Rightarrow> uuid \<Rightarrow> credential_row \<Rightarrow> bool" where
  "activates env q c r \<longleftrightarrow> cx_save_request_id r = env_uuid_text env q
     \<and> cx_credential_id r = env_uuid_text env c \<and> cx_status r \<in> {PendingSave, Active}"

lemma activate_cases:
  "activate_core_credential env clock q c db = (db', res) \<Longrightarrow>
     (\<exists>e. clock = Err e \<and> db' = db \<and> res = Err e) \<or>
     (\<exists>now. clock = Ok now
        \<and> db' = db\<lparr>db_credentials := update_rows (activates env q c)
             (\<lambda>r. r\<lparr>cx_status := Active, cx_updated_at_ms := now\<rparr>) (db_credentials db)\<rparr>
        \<and> res = (if changed_rows (activates env q c) (db_credentials db) \<noteq> 1
                 then Err (Conflict ''credential_activation_mismatch'')
                 else and_then (query_credential_by_id env (env_uuid_text env c) db') (\<lambda>found.
                   and_then (ok_or found (Corrupt ''credential_activation_missing'')) (\<lambda>p. Ok (fst p)))))"
  by (cases clock) (auto simp: activate_core_credential_def Let_def activates_def [abs_def])

lemma activate_inv:
  assumes inv: "cred_inv env known secrets db" and "activate_core_credential env clock q c db = (db', res)"
    and "\<And>r. r \<in> set (db_credentials db) \<Longrightarrow> cx_save_request_id r = env_uuid_text env q \<Longrightarrow>
        secrets (cx_locator r) \<noteq> None"
  shows "cred_inv env known secrets db'"
proof -
  have "cred_inv env known secrets (db\<lparr>db_credentials := update_rows (activates env q c)
      (\<lambda>r. r\<lparr>cx_status := Active, cx_updated_at_ms := now\<rparr>) (db_credentials db)\<rparr>)" for now
    by (rule cred_inv_update [OF inv]) (auto simp: restates_def activates_def assms(3))
  then show ?thesis using activate_cases [OF assms(2)] inv by auto
qed

section \<open>Deleting\<close>

lemma prepare_cases:
  assumes "prepare_core_credential_delete env clock q c db = Ok (db', plan)"
  obtains (again) "db' = db" "delete_requested env db c"
      "case plan of
         DeleteSecret l u \<Rightarrow> u = c \<and> (\<exists>r\<in>set (db_credentials db). cx_credential_id r = env_uuid_text env c \<and> cx_locator r = l)
       | DeleteReplay u b \<Rightarrow> u = c \<and> b \<and> \<not> (\<exists>r\<in>set (db_credentials db). cx_credential_id r = env_uuid_text env c)"
  | (new) now r rc where "clock = Ok now" "r \<in> set (db_credentials db)" "cx_credential_id r = env_uuid_text env c"
      "plan = DeleteSecret (cx_locator r) c"
      "db' = db\<lparr>db_credentials := update_rows (\<lambda>r. cx_credential_id r = env_uuid_text env c)
             (\<lambda>r. r\<lparr>cx_status := PendingDelete, cx_delete_request_id := Some (env_uuid_text env q),
                    cx_updated_at_ms := now\<rparr>) (db_credentials db),
           db_command_receipts := db_command_receipts db @ [rc]\<rparr>"
      "cm_request_id rc = env_uuid_text env q" "cm_command_name rc = lit ''delete_credential_v1''"
      "cm_envelope_hash rc = delete_envelope env (env_uuid_text env q) (env_uuid_text env c)"
proof (cases "find (\<lambda>r. cm_request_id r = env_uuid_text env q) (db_command_receipts db)")
  case None
  from assms None obtain now p where "clock = Ok now"
    and p: "query_credential_by_id env (env_uuid_text env c) db = Ok (Some p)"
    by (auto simp: prepare_core_credential_delete_def Let_def result_simps)
  obtain r where "r \<in> set (db_credentials db)" "cx_credential_id r = env_uuid_text env c" "snd p = cx_locator r"
    using query_credential_Ok [OF p [unfolded query_credential_by_id_def]] by (cases p) auto
  with assms None p \<open>clock = Ok now\<close> show thesis
    by (intro new)
      (auto simp: prepare_core_credential_delete_def Let_def result_simps mark_pending_delete_def
        insert_receipt_def split: if_splits)
next
  case (Some rc)
  then have rc: "rc \<in> set (db_command_receipts db)" "cm_request_id rc = env_uuid_text env q"
    by (auto simp: find_Some_iff)
  from assms Some obtain existing where
    ex: "query_credential_by_id env (env_uuid_text env c) db = Ok existing" "db' = db"
      "cm_command_name rc = lit ''delete_credential_v1''"
      "cm_envelope_hash rc = delete_envelope env (env_uuid_text env q) (env_uuid_text env c)"
      "plan = (case existing of Some (_, locator) \<Rightarrow> DeleteSecret locator c | None \<Rightarrow> DeleteReplay c True)"
    by (auto simp: prepare_core_credential_delete_def Let_def result_simps split: if_splits)
  have "delete_requested env db c"
    using rc ex(3,4) by (auto simp: delete_requested_def list_ex_iff)
  then show thesis
    using query_credential_Ok [OF ex(1) [unfolded query_credential_by_id_def]] ex(2,5)
    by (intro again) (auto split: option.splits prod.splits)
qed

lemma delete_requested_append:
  assumes "db_command_receipts db' = db_command_receipts db @ [rc]"
    and "cm_command_name rc = lit ''delete_credential_v1''"
    and "cm_envelope_hash rc = delete_envelope env (cm_request_id rc) (env_uuid_text env c)"
    and "cm_request_id rc = env_uuid_text env q" "q \<in> known" "c \<in> known" "u \<in> known"
    and free: "collision_free env known"
  shows "delete_requested env db' u \<longleftrightarrow> delete_requested env db u \<or> u = c"
proof -
  have "delete_envelope env (env_uuid_text env q) (env_uuid_text env c) =
      delete_envelope env (env_uuid_text env q) (env_uuid_text env u) \<longleftrightarrow> u = c"
    using free assms(5-7) by (auto simp: collision_free_def dest: inj_onD)
  then show ?thesis using assms(1-4) by (auto simp: delete_requested_def)
qed

lemma prepare_inv:
  assumes inv: "cred_inv env known secrets db" and free: "collision_free env known"
    and known: "q \<in> known" "c \<in> known"
    and prep: "prepare_core_credential_delete env clock q c db = Ok (db', plan)"
  shows "cred_inv env known secrets db'"
    and "plan = DeleteSecret l u \<Longrightarrow> u = c \<and> (\<exists>r\<in>set (db_credentials db').
      cx_credential_id r = env_uuid_text env c \<and> cx_locator r = l \<and> cx_status r = PendingDelete)"
proof -
  have "cred_inv env known secrets db' \<and> (plan = DeleteSecret l u \<longrightarrow> u = c \<and> (\<exists>r\<in>set (db_credentials db').
      cx_credential_id r = env_uuid_text env c \<and> cx_locator r = l \<and> cx_status r = PendingDelete))"
    using prep
  proof (cases rule: prepare_cases)
    case again
    then show ?thesis using inv cred_invD(10) [OF inv known(2) again(2)] by (auto split: delete_plan.splits)
  next
    case (new now r rc)
    let ?f = "\<lambda>r. r\<lparr>cx_status := PendingDelete, cx_delete_request_id := Some (env_uuid_text env q),
        cx_updated_at_ms := now\<rparr>"
    let ?P = "\<lambda>r. cx_credential_id r = env_uuid_text env c"
    let ?rows = "update_rows ?P ?f (db_credentials db)"
    have marked: "cred_inv env known secrets (db\<lparr>db_credentials := ?rows\<rparr>)" (is "cred_inv _ _ _ ?db1")
      by (rule cred_inv_update [OF inv]) (simp_all add: restates_def)
    have del: "delete_requested env db' u \<longleftrightarrow> delete_requested env ?db1 u \<or> u = c" if "u \<in> known" for u
      by (rule delete_requested_append [where rc = rc, OF _ _ _ _ known that free]) (simp_all add: new)
    have names: "save_requests db' = save_requests ?db1"
      by (subst save_requests_append [of db' ?db1 rc]) (simp_all add: new(5,7))
    have rows: "db_credentials db' = ?rows" by (simp add: new(5))
    have c_row: "env_uuid_text env c \<in> credential_of_request env ` save_requests db"
      using cred_invD(4,5) [OF inv new(2)] new(3) by auto
    have pending: "cx_status s = PendingDelete" if "s \<in> set ?rows" "cx_credential_id s = env_uuid_text env c" for s
      using that by (auto simp: update_rows_def split: if_splits)
    have "cred_inv env known secrets db'"
      using marked del pending c_row unfolding cred_inv_def rows names
      by (auto simp: save_requests_def)
    moreover have "?f r \<in> set ?rows" using new(2,3) by (auto simp: set_update_rows)
    ultimately show ?thesis using new(3,4) by (auto simp: rows intro!: bexI [of _ "?f r"])
  qed
  then show "cred_inv env known secrets db'"
    and "plan = DeleteSecret l u \<Longrightarrow> u = c \<and> (\<exists>r\<in>set (db_credentials db').
      cx_credential_id r = env_uuid_text env c \<and> cx_locator r = l \<and> cx_status r = PendingDelete)"
    by simp_all
qed

lemma finish_inv:
  assumes inv: "cred_inv env known secrets db" and "finish_core_credential_delete env q c db = (db', res)"
    and "\<And>r. r \<in> set (db_credentials db) \<Longrightarrow> cx_credential_id r = env_uuid_text env c \<Longrightarrow>
        secrets (cx_locator r) = None"
  shows "cred_inv env known secrets db'"
proof -
  have "db' = db\<lparr>db_credentials := delete_rows (\<lambda>r. cx_credential_id r = env_uuid_text env c
      \<and> cx_delete_request_id r = Some (env_uuid_text env q) \<and> cx_status r = PendingDelete) (db_credentials db)\<rparr>"
    using assms(2) by (auto simp: finish_core_credential_delete_def Let_def)
  moreover have "cred_inv env known secrets \<dots>"
    by (rule cred_inv_delete [OF inv]) (use assms(3) in blast)
  ultimately show ?thesis by simp
qed

section \<open>Steps\<close>

text \<open>
  A step is a command, run to its end or cut off by a crash after one of its phases, or a
  reconciliation, complete or cut off.
\<close>

inductive cred_step ::
  "credential_env \<Rightarrow> 's keychain_api \<Rightarrow> uuid set \<Rightarrow> 's \<times> database \<Rightarrow> 's \<times> database \<Rightarrow> bool"
  for env api known where
  save: "scr_request_id req \<in> known \<Longrightarrow>
    save_credential_v1 env api clock1 clock2 loc req s db = (s', db', r) \<Longrightarrow>
    cred_step env api known (s, db) (s', db')"
| save_crash_reserved: "q \<in> known \<Longrightarrow>
    reserve_core_credential env clock loc q provider label db = Ok (db', plan) \<Longrightarrow>
    cred_step env api known (s, db) (s, db')"
| save_crash_written: "q \<in> known \<Longrightarrow>
    reserve_core_credential env clock loc q provider label db = Ok (db', WriteSecret l reference) \<Longrightarrow>
    keychain_put api l secret s = (s', r) \<Longrightarrow>
    cred_step env api known (s, db) (s', db')"
| delete: "dcr_request_id dreq \<in> known \<Longrightarrow> dcr_credential_id dreq \<in> known \<Longrightarrow>
    delete_credential_v1 env api clock dreq s db = (s', db', dr) \<Longrightarrow>
    cred_step env api known (s, db) (s', db')"
| delete_crash_marked: "q \<in> known \<Longrightarrow> c \<in> known \<Longrightarrow>
    prepare_core_credential_delete env clock q c db = Ok (db', dplan) \<Longrightarrow>
    cred_step env api known (s, db) (s, db')"
| delete_crash_deleted: "q \<in> known \<Longrightarrow> c \<in> known \<Longrightarrow>
    prepare_core_credential_delete env clock q c db = Ok (db', DeleteSecret l u) \<Longrightarrow>
    keychain_delete api l s = (s', r) \<Longrightarrow>
    cred_step env api known (s, db) (s', db')"
| reconcile: "reconcile_loop api now (take n (pending_credentials db)) s db = (s', db', r) \<Longrightarrow>
    cred_step env api known (s, db) (s', db')"
| reconcile_crash: "row \<in> set (db_credentials db) \<Longrightarrow> cx_status row = PendingDelete \<Longrightarrow>
    keychain_delete api (cx_locator row) s = (s', r) \<Longrightarrow>
    cred_step env api known (s, db) (s', db)"

context security_framework
begin

abbreviation holds :: "credential_env \<Rightarrow> uuid set \<Rightarrow> 's \<Rightarrow> database \<Rightarrow> bool" where
  "holds env known s db \<equiv> cred_inv env known (contents s) db"

lemma put_holds:
  assumes "holds env known s db" and "l \<in> cx_locator ` set (db_credentials db)"
    and "keychain_put api l x s = (s', r)"
  shows "holds env known s' db"
  using port.put_cases [OF assms(3)] assms(1) cred_inv_put [OF assms(1,2)] by auto

lemma delete_holds:
  assumes inv: "holds env known s db" and row: "row \<in> set (db_credentials db)" "cx_status row \<noteq> Active"
    and "keychain_delete api (cx_locator row) s = (s', r)"
  shows "holds env known s' db"
proof -
  have "cx_status r \<noteq> Active" if "r \<in> set (db_credentials db)" "cx_locator r = cx_locator row" for r
    using by_locator.row_unique [OF cred_invD(1) [OF inv] that(1) row(1) that(2)] row(2) by simp
  then show ?thesis using port.delete_cases [OF assms(4)] inv cred_inv_unset [OF inv] by metis
qed

lemma reserve_put:
  assumes inv: "holds env known s db" and free: "collision_free env known" and q: "q \<in> known"
    and res: "reserve_core_credential env clock loc q provider label db = Ok (db', WriteSecret l reference)"
    and put: "keychain_put api l x s = (s', r)"
  shows "holds env known s' db'"
    and "r = Ok () \<Longrightarrow> row \<in> set (db_credentials db') \<Longrightarrow> cx_save_request_id row = env_uuid_text env q \<Longrightarrow>
        cx_locator row = l \<and> contents s' l = Some (utf8_bytes x)"
proof -
  have inv': "holds env known s db'" by (rule reserve_inv [OF inv free q res])
  obtain p where p: "p \<in> set (db_credentials db')" "plan_row env q reference p" "cx_locator p = l"
    using reserve_plan [OF res] by auto
  then show "holds env known s' db'" using put_holds [OF inv' _ put] by blast
  assume "r = Ok ()" "row \<in> set (db_credentials db')" "cx_save_request_id row = env_uuid_text env q"
  then show "cx_locator row = l \<and> contents s' l = Some (utf8_bytes x)"
    using by_save_request.row_unique [OF cred_invD(3) [OF inv']] p port.put_Ok put
    by (fastforce simp: plan_row_def)
qed

lemma save_holds:
  assumes inv: "holds env known s db" and free: "collision_free env known" and q: "scr_request_id req \<in> known"
    and save: "save_credential_v1 env api clock1 clock2 loc req s db = (s', db', res)"
  shows "holds env known s' db'"
proof (cases "save_credential_validate req")
  case (Err e)
  then show ?thesis using save inv by (simp add: save_credential_v1_def)
next
  case valid: (Ok u)
  show ?thesis
  proof (cases "reserve_core_credential env clock1 loc (scr_request_id req) (scr_provider req) (scr_display_label req) db")
    case (Err e)
    then show ?thesis using save inv valid by (simp add: save_credential_v1_def)
  next
    case (Ok p)
    obtain db1 plan where p: "p = (db1, plan)" by (cases p)
    show ?thesis
    proof (cases plan)
      case (SaveReplay reference)
      then show ?thesis
        using save valid Ok p reserve_inv [OF inv free q Ok [unfolded p]] by (simp add: save_credential_v1_def)
    next
      case (WriteSecret l reference)
      note res = Ok [unfolded p WriteSecret]
      obtain s1 r where put: "keychain_put api l (scr_secret req) s = (s1, r)" by fastforce
      note put' = reserve_put [OF inv free q res put]
      show ?thesis
      proof (cases r)
        case (Err e)
        then show ?thesis using save valid res put put'(1) by (simp add: save_credential_v1_def)
      next
        case (Ok v)
        obtain db2 r2 where act: "activate_core_credential env clock2 (scr_request_id req) (cr_credential_id reference) db1 = (db2, r2)"
          by fastforce
        have "s' = s1 \<and> db' = db2"
          using save valid res put Ok act by (cases r2) (simp_all add: save_credential_v1_def)
        moreover have "holds env known s1 db2"
          by (rule activate_inv [OF put'(1) act]) (use put'(2) Ok in auto)
        ultimately show ?thesis by simp
      qed
    qed
  qed
qed

lemma prepare_delete_holds:
  assumes inv: "holds env known s db" and free: "collision_free env known" and known: "q \<in> known" "c \<in> known"
    and prep: "prepare_core_credential_delete env clock q c db = Ok (db', DeleteSecret l u)"
    and del: "keychain_delete api l s = (s', r)"
  shows "holds env known s' db'" and "u = c"
    and "r = Ok () \<Longrightarrow> row \<in> set (db_credentials db') \<Longrightarrow> cx_credential_id row = env_uuid_text env c \<Longrightarrow>
        contents s' (cx_locator row) = None"
proof -
  have inv': "holds env known s db'" by (rule prepare_inv(1) [OF inv free known prep])
  obtain p where p: "p \<in> set (db_credentials db')" "cx_credential_id p = env_uuid_text env c" "cx_locator p = l"
    "cx_status p = PendingDelete" and "u = c"
    using prepare_inv(2) [OF inv free known prep refl] by blast
  then show "holds env known s' db'" "u = c" using delete_holds [OF inv', of p] del by auto
  assume "r = Ok ()" "row \<in> set (db_credentials db')" "cx_credential_id row = env_uuid_text env c"
  then show "contents s' (cx_locator row) = None"
    using by_credential.row_unique [OF cred_invD(2) [OF inv']] p port.delete_Ok del by fastforce
qed

lemma delete_command_holds:
  assumes inv: "holds env known s db" and free: "collision_free env known"
    and known: "dcr_request_id req \<in> known" "dcr_credential_id req \<in> known"
    and delete: "delete_credential_v1 env api clock req s db = (s', db', res)"
  shows "holds env known s' db'"
proof (cases "delete_credential_validate req")
  case (Err e)
  then show ?thesis using delete inv by (simp add: delete_credential_v1_def)
next
  case valid: (Ok u)
  show ?thesis
  proof (cases "prepare_core_credential_delete env clock (dcr_request_id req) (dcr_credential_id req) db")
    case (Err e)
    then show ?thesis using delete inv valid by (simp add: delete_credential_v1_def)
  next
    case (Ok p)
    obtain db1 plan where p: "p = (db1, plan)" by (cases p)
    show ?thesis
    proof (cases plan)
      case (DeleteReplay c b)
      then show ?thesis
        using delete valid Ok p prepare_inv(1) [OF inv free known Ok [unfolded p]]
        by (simp add: delete_credential_v1_def)
    next
      case (DeleteSecret l c)
      note prep = Ok [unfolded p DeleteSecret]
      obtain s1 r where del: "keychain_delete api l s = (s1, r)" by fastforce
      note del' = prepare_delete_holds [OF inv free known prep del]
      show ?thesis
      proof (cases r)
        case (Err e)
        then show ?thesis using delete valid prep del del'(1) by (simp add: delete_credential_v1_def)
      next
        case (Ok v)
        obtain db2 r2 where fin: "finish_core_credential_delete env (dcr_request_id req) c db1 = (db2, r2)"
          by fastforce
        have "s' = s1 \<and> db' = db2"
          using delete valid prep del Ok fin by (cases r2) (simp_all add: delete_credential_v1_def)
        moreover have "holds env known s1 db2"
          by (rule finish_inv [OF del'(1) fin]) (use del'(2,3) Ok in auto)
        ultimately show ?thesis by simp
      qed
    qed
  qed
qed

end

end
