(* ===== verification/Credential_Claims.thy ===== *)
theory Credential_Claims
  imports Credential_Correctness
begin

text \<open>
  The guarantees of the credential commands across crashes: active references have their secrets,
  secrets are never orphaned, the database never depends on a secret, the reconciliation leaves
  nothing pending, and what becomes of a save that is repeated after it has been given up.
\<close>

section \<open>Reconciliation\<close>

context security_framework
begin

lemma reconcile_save_holds:
  assumes inv: "holds env known s db" and rec: "reconcile_save api now l s db = (s', db', res)"
  shows "holds env known s' db'"
proof (cases "keychain_contains api l s")
  case (Ok present)
  let ?f = "\<lambda>r. r\<lparr>cx_status := (if present then Active else SaveFailed), cx_updated_at_ms := now\<rparr>"
  have "holds env known s (db\<lparr>db_credentials := update_rows
      (\<lambda>r. cx_locator r = l \<and> cx_status r = PendingSave) ?f (db_credentials db)\<rparr>)"
    by (rule cred_inv_update [OF inv])
      (use port.contains_Ok [OF Ok] in \<open>auto simp: restates_def split: if_splits\<close>)
  then show ?thesis using rec Ok by (auto simp: reconcile_save_def)
qed (use inv rec in \<open>simp add: reconcile_save_def\<close>)

lemma reconcile_delete_holds:
  assumes inv: "holds env known s db" and rec: "reconcile_delete api l s db = (s', db', res)"
    and "\<And>r. r \<in> set (db_credentials db) \<Longrightarrow> cx_locator r = l \<Longrightarrow> cx_status r = PendingDelete"
  shows "holds env known s' db'"
proof -
  obtain t r where del: "keychain_delete api l s = (t, r)" by fastforce
  have t: "holds env known t db"
    using port.delete_cases [OF del] inv cred_inv_unset [OF inv, of l] assms(3) by (metis credential_state.distinct(7))
  show ?thesis
  proof (cases r)
    case (Ok u)
    then have "contents t l = None" using port.delete_Ok del by simp
    then have "holds env known t (db\<lparr>db_credentials := delete_rows
        (\<lambda>r. cx_locator r = l \<and> cx_status r = PendingDelete) (db_credentials db)\<rparr>)"
      by (intro cred_inv_delete [OF t]) auto
    then show ?thesis using rec del Ok by (auto simp: reconcile_delete_def)
  qed (use t rec del in \<open>simp add: reconcile_delete_def\<close>)
qed

end

text \<open>What one iteration does to the rows: the locator's row leaves its pending status.\<close>

lemma locator_new_same: "credential_locator_new l = Ok l' \<Longrightarrow> l' = l"
  by (simp add: credential_locator_new_def split: if_splits)

definition reconcile_one ::
  "'s keychain_api \<Rightarrow> int \<Rightarrow> rstr \<times> credential_state \<Rightarrow> 's \<Rightarrow> database \<Rightarrow> 's \<times> database \<times> unit platform_result"
  where
  "reconcile_one api now p s db = reconcile_loop api now [p] s db"

lemma reconcile_loop_Cons:
  "reconcile_loop api now (p # ps) s db =
     (case reconcile_one api now p s db of
        (s', db', Err e) \<Rightarrow> (s', db', Err e)
      | (s', db', Ok _) \<Rightarrow> reconcile_loop api now ps s' db')"
  by (cases p) (simp add: reconcile_one_def split: prod.splits result.splits)

lemma reconcile_one_rows:
  assumes "reconcile_one api now (l, st) s db = (s', db', res)" and "r' \<in> set (db_credentials db')"
  shows "(r' \<in> set (db_credentials db) \<and> (res = Ok () \<longrightarrow> st \<in> {PendingSave, PendingDelete}
           \<and> \<not> (cx_locator r' = l \<and> cx_status r' = st)))
    \<or> (\<exists>r\<in>set (db_credentials db). cx_locator r = l \<and> cx_status r = PendingSave \<and> cx_locator r' = l
        \<and> cx_status r' \<in> {Active, SaveFailed})"
proof (cases "credential_locator_new l")
  case (Ok l')
  then have l': "l' = l" by (rule locator_new_same)
  show ?thesis
  proof (cases st)
    case save: PendingSave
    show ?thesis
    proof (cases "keychain_contains api l s")
      case (Err e)
      then show ?thesis using assms Ok l' save by (auto simp: reconcile_one_def reconcile_save_def)
    next
      case present: (Ok b)
      let ?P = "\<lambda>r. cx_locator r = l \<and> cx_status r = PendingSave"
      let ?f = "\<lambda>r. r\<lparr>cx_status := (if b then Active else SaveFailed), cx_updated_at_ms := now\<rparr>"
      have "db_credentials db' = update_rows ?P ?f (db_credentials db)"
        using assms(1) Ok l' save present by (simp add: reconcile_one_def reconcile_save_def) auto
      then obtain r where r: "r \<in> set (db_credentials db)" "r' = (if ?P r then ?f r else r)"
        using assms(2) unfolding update_rows_def by auto
      then show ?thesis
      proof (cases "?P r")
        case True
        then show ?thesis using r by (intro disjI2 bexI [of _ r]) simp_all
      next
        case False
        then show ?thesis using r save by auto
      qed
    qed
  next
    case PendingDelete
    then show ?thesis
      using assms Ok l'
      by (auto simp: reconcile_one_def reconcile_delete_def delete_rows_def split: prod.splits result.splits)
  qed (use assms Ok in \<open>auto simp: reconcile_one_def\<close>)
qed (use assms in \<open>auto simp: reconcile_one_def\<close>)

context security_framework
begin

lemma reconcile_one_holds:
  assumes inv: "holds env known s db" and rec: "reconcile_one api now (l, st) s db = (s', db', res)"
    and "\<And>r. st = PendingDelete \<Longrightarrow> r \<in> set (db_credentials db) \<Longrightarrow> cx_locator r = l \<Longrightarrow> cx_status r = PendingDelete"
  shows "holds env known s' db'"
proof (cases "credential_locator_new l")
  case (Ok l')
  then have l': "l' = l" by (rule locator_new_same)
  show ?thesis
  proof (cases st)
    case PendingSave
    obtain s1 db1 r where one: "reconcile_save api now l s db = (s1, db1, r)" by (metis prod_cases3)
    have "s' = s1 \<and> db' = db1" using rec Ok l' PendingSave one by (cases r) (simp_all add: reconcile_one_def)
    then show ?thesis using reconcile_save_holds [OF inv one] by simp
  next
    case PendingDelete
    obtain s1 db1 r where one: "reconcile_delete api l s db = (s1, db1, r)" by (metis prod_cases3)
    have "s' = s1 \<and> db' = db1" using rec Ok l' PendingDelete one by (cases r) (simp_all add: reconcile_one_def)
    then show ?thesis using reconcile_delete_holds [OF inv one] assms(3) PendingDelete by simp
  qed (use inv rec Ok in \<open>auto simp: reconcile_one_def\<close>)
qed (use inv rec in \<open>auto simp: reconcile_one_def\<close>)

lemma reconcile_loop_holds:
  assumes "holds env known s db" and "reconcile_loop api now ps s db = (s', db', res)"
    and "\<And>l r. (l, PendingDelete) \<in> set ps \<Longrightarrow> r \<in> set (db_credentials db) \<Longrightarrow> cx_locator r = l \<Longrightarrow>
        cx_status r = PendingDelete"
  shows "holds env known s' db'"
  using assms
proof (induction ps arbitrary: s db)
  case (Cons p ps)
  obtain l st where p: "p = (l, st)" by (cases p)
  obtain s1 db1 r where one: "reconcile_one api now (l, st) s db = (s1, db1, r)" by (metis prod_cases3)
  have h1: "holds env known s1 db1"
    by (rule reconcile_one_holds [OF Cons.prems(1) one]) (use Cons.prems(3) p in auto)
  show ?case
  proof (cases r)
    case (Ok u)
    have "cx_status r' = PendingDelete"
      if m: "(k, PendingDelete) \<in> set ps" "r' \<in> set (db_credentials db1)" "cx_locator r' = k" for k r'
    proof -
      have "r' \<in> set (db_credentials db)"
        using reconcile_one_rows [OF one m(2)] Cons.prems(3) m(1,3) by fastforce
      then show ?thesis using Cons.prems(3) m(1,3) by auto
    qed
    then show ?thesis
      using Cons.IH [OF h1] Cons.prems(2) one Ok by (simp add: p reconcile_loop_Cons)
  qed (use Cons.prems(2) one h1 in \<open>simp add: p reconcile_loop_Cons\<close>)
qed simp

end

lemma reconcile_loop_complete:
  assumes "reconcile_loop api now ps s db = (s', db', Ok ())"
    and "distinct (map cx_locator (db_credentials db))"
    and "\<And>r. r \<in> set (db_credentials db) \<Longrightarrow> cx_status r \<in> {PendingSave, PendingDelete} \<Longrightarrow>
        (cx_locator r, cx_status r) \<in> set ps"
    and "\<And>s db s' db' p r. reconcile_one api now p s db = (s', db', r) \<Longrightarrow>
        distinct (map cx_locator (db_credentials db)) \<Longrightarrow> distinct (map cx_locator (db_credentials db'))"
    and "r \<in> set (db_credentials db')"
  shows "cx_status r \<in> {Active, SaveFailed}"
  using assms(1-3,5)
proof (induction ps arbitrary: s db)
  case Nil
  then show ?case by (cases "cx_status r") auto
next
  case (Cons p ps)
  obtain l st where p: "p = (l, st)" by (cases p)
  obtain s1 db1 u where one: "reconcile_one api now (l, st) s db = (s1, db1, u)" by (metis prod_cases3)
  have u: "u = Ok ()" and rest: "reconcile_loop api now ps s1 db1 = (s', db', Ok ())"
    using Cons.prems(1) one by (cases u; simp add: p reconcile_loop_Cons)+
  show ?case
  proof (rule Cons.IH [OF rest assms(4) [OF one Cons.prems(2)] _ Cons.prems(4)])
    fix x
    assume x: "x \<in> set (db_credentials db1)" "cx_status x \<in> {PendingSave, PendingDelete}"
    then have "x \<in> set (db_credentials db)" "\<not> (cx_locator x = l \<and> cx_status x = st)"
      using reconcile_one_rows [OF one x(1)] u by auto
    then show "(cx_locator x, cx_status x) \<in> set ps" using Cons.prems(3) x(2) p by fastforce
  qed
qed

lemma reconcile_one_locators:
  assumes "reconcile_one api now p s db = (s', db', r)" and "distinct (map cx_locator (db_credentials db))"
  shows "distinct (map cx_locator (db_credentials db'))"
proof -
  obtain l st where p: "p = (l, st)" by (cases p)
  have upd: "map cx_locator (update_rows P (\<lambda>r. r\<lparr>cx_status := x, cx_updated_at_ms := now\<rparr>) rows) = map cx_locator rows"
    for P x rows by (rule by_locator.keys_update) simp
  consider "db' = db"
    | P x where "db_credentials db' = update_rows P (\<lambda>r. r\<lparr>cx_status := x, cx_updated_at_ms := now\<rparr>) (db_credentials db)"
    | P where "db_credentials db' = delete_rows P (db_credentials db)"
    using assms(1)
    by (cases st; cases "credential_locator_new l"; cases "keychain_contains api l s")
      (auto simp: p reconcile_one_def reconcile_save_def reconcile_delete_def dest: locator_new_same
        split: prod.splits result.splits)
  then show ?thesis using assms(2) by cases (auto simp: upd by_locator.keys_delete)
qed

lemma pending_credentials_set:
  "(l, st) \<in> set (pending_credentials db) \<longleftrightarrow>
     (\<exists>r\<in>set (db_credentials db). cx_locator r = l \<and> cx_status r = st \<and> st \<in> {PendingSave, PendingDelete})"
  by (auto simp: pending_credentials_def)

lemma pending_delete_rows:
  assumes "distinct (map cx_locator (db_credentials db))" and "(l, PendingDelete) \<in> set (pending_credentials db)"
    and "r \<in> set (db_credentials db)" "cx_locator r = l"
  shows "cx_status r = PendingDelete"
proof -
  obtain r' where "r' \<in> set (db_credentials db)" "cx_locator r' = l" "cx_status r' = PendingDelete"
    using assms(2) by (auto simp: pending_credentials_set)
  then show ?thesis using by_locator.row_unique [OF assms(1,3)] assms(4) by metis
qed

section \<open>The invariant along runs\<close>

context security_framework
begin

lemma cred_step_holds:
  assumes "cred_step env api known (s, db) (s', db')" and inv: "holds env known s db"
    and free: "collision_free env known"
  shows "holds env known s' db'"
  using assms(1)
proof cases
  case (save req clock1 clock2 loc r)
  then show ?thesis using save_holds [OF inv free] by blast
next
  case (save_crash_reserved q clock loc provider label plan)
  then show ?thesis using reserve_inv [OF inv free] by blast
next
  case (save_crash_written q clock loc provider label l reference secret r)
  then show ?thesis using reserve_put(1) [OF inv free] by blast
next
  case (delete dreq clock dr)
  then show ?thesis using delete_command_holds [OF inv free] by blast
next
  case (delete_crash_marked q c clock dplan)
  then show ?thesis using prepare_inv(1) [OF inv free] by blast
next
  case (delete_crash_deleted q c clock l u r)
  then show ?thesis using prepare_delete_holds(1) [OF inv free] by blast
next
  case (reconcile now n r)
  show ?thesis
    by (rule reconcile_loop_holds [OF inv reconcile])
      (use pending_delete_rows [OF cred_invD(1) [OF inv]] in \<open>auto dest: in_set_takeD\<close>)
next
  case (reconcile_crash row r)
  then show ?thesis using delete_holds [OF inv reconcile_crash(2), of s' r] by simp
qed

lemma put_stores: "keychain_put api l x s = (s', Ok ()) \<Longrightarrow> contents s' l = Some (utf8_bytes x)"
  using port.put_Ok by simp

lemma cred_run_holds:
  assumes "(cred_step env api known)\<^sup>*\<^sup>* x y" and "collision_free env known" and "holds env known (fst x) (snd x)"
  shows "holds env known (fst y) (snd y)"
  using assms(1,3)
proof (induction rule: rtranclp_induct)
  case (step y z)
  then show ?case using cred_step_holds [of env known "fst y" "snd y" "fst z" "snd z"] assms(2) by simp
qed

lemma initial_holds: "contents s = Map.empty \<Longrightarrow> holds env known s empty_database"
  by (simp add: cred_inv_def empty_database_def save_requests_def delete_requested_def)

end

section \<open>Phases of the commands\<close>

lemma save_created_phases:
  assumes "save_credential_v1 env api clock1 clock2 loc req s db = (s', db', Ok resp)"
    and "sp_replay_status resp = Created"
  shows "\<exists>db1 l reference.
    reserve_core_credential env clock1 loc (scr_request_id req) (scr_provider req) (scr_display_label req) db
      = Ok (db1, WriteSecret l reference)
    \<and> keychain_put api l (scr_secret req) s = (s', Ok ())
    \<and> (\<exists>x. activate_core_credential env clock2 (scr_request_id req) (cr_credential_id reference) db1 = (db', Ok x))"
proof (cases "save_credential_validate req")
  case (Err e)
  then show ?thesis using assms by (simp add: save_credential_v1_def)
next
  case valid: (Ok u)
  show ?thesis
  proof (cases "reserve_core_credential env clock1 loc (scr_request_id req) (scr_provider req) (scr_display_label req) db")
    case (Err e)
    then show ?thesis using assms valid by (simp add: save_credential_v1_def)
  next
    case (Ok p)
    obtain db1 plan where p: "p = (db1, plan)" by (cases p)
    show ?thesis
    proof (cases plan)
      case (SaveReplay reference)
      then have "finish_save env (scr_request_id req) reference Replayed = Ok resp"
        using assms(1) valid Ok p by (simp add: save_credential_v1_def)
      then show ?thesis
        using assms(2) by (auto simp: finish_save_def split: result.splits if_splits)
    next
      case (WriteSecret l reference)
      obtain s1 r where put: "keychain_put api l (scr_secret req) s = (s1, r)" by fastforce
      obtain db2 r2 where act: "activate_core_credential env clock2 (scr_request_id req) (cr_credential_id reference) db1 = (db2, r2)"
        by fastforce
      show ?thesis
        using assms(1) valid Ok p WriteSecret put act
        by (cases r; cases r2) (auto simp: save_credential_v1_def)
    qed
  qed
qed

lemma prepare_keeps_rows:
  assumes "prepare_core_credential_delete env clock q c db = Ok (db', plan)" and "r \<in> set (db_credentials db)"
  shows "\<exists>r'\<in>set (db_credentials db'). cx_credential_id r' = cx_credential_id r \<and> cx_locator r' = cx_locator r"
  using assms(1)
proof (cases rule: prepare_cases)
  case again
  then show ?thesis using assms(2) by blast
next
  case (new now p rc)
  let ?f = "\<lambda>r. if cx_credential_id r = env_uuid_text env c then r\<lparr>cx_status := PendingDelete,
      cx_delete_request_id := Some (env_uuid_text env q), cx_updated_at_ms := now\<rparr> else r"
  have "?f r \<in> set (db_credentials db')"
    using assms(2) unfolding new(5) by (auto simp: update_rows_def)
  then show ?thesis by (rule bexI [rotated]) simp
qed

lemma prepare_row_count:
  assumes "prepare_core_credential_delete env clock q c db = Ok (db', plan)"
  shows "changed_rows P (db_credentials db') \<le> length (db_credentials db)"
  using assms
proof (cases rule: prepare_cases)
  case again
  then show ?thesis by (simp add: changed_rows_def)
next
  case (new now p rc)
  then show ?thesis
    using length_filter_le [of P "db_credentials db'"] by (simp add: changed_rows_def update_rows_def)
qed

lemma delete_phases:
  assumes "delete_credential_v1 env api clock req s db = (s', db', Ok resp)"
    and "r \<in> set (db_credentials db)" and "cx_credential_id r = env_uuid_text env (dcr_credential_id req)"
  shows "\<exists>db1 l. prepare_core_credential_delete env clock (dcr_request_id req) (dcr_credential_id req) db
      = Ok (db1, DeleteSecret l (dcr_credential_id req))
    \<and> keychain_delete api l s = (s', Ok ()) \<and> dp_deleted resp \<and> dp_credential_id resp = dcr_credential_id req"
proof (cases "delete_credential_validate req")
  case (Err e)
  then show ?thesis using assms by (simp add: delete_credential_v1_def)
next
  case valid: (Ok u)
  show ?thesis
  proof (cases "prepare_core_credential_delete env clock (dcr_request_id req) (dcr_credential_id req) db")
    case (Err e)
    then show ?thesis using assms valid by (simp add: delete_credential_v1_def)
  next
    case (Ok p)
    obtain db1 plan where p: "p = (db1, plan)" by (cases p)
    obtain l where plan: "plan = DeleteSecret l (dcr_credential_id req)"
      using Ok [unfolded p]
    proof (cases rule: prepare_cases)
      case again
      then show ?thesis using assms(2,3) that by (cases plan) auto
    qed (use that in blast)
    obtain s1 r1 where del: "keychain_delete api l s = (s1, r1)" by fastforce
    obtain db2 r2 where fin: "finish_core_credential_delete env (dcr_request_id req) (dcr_credential_id req) db1 = (db2, r2)"
      by fastforce
    show ?thesis
      using assms(1) valid Ok p plan del fin
      by (cases r1; cases r2) (auto simp: delete_credential_v1_def Let_def)
  qed
qed

section \<open>A sample environment\<close>

text \<open>A Keychain in memory that never fails, and texts that are easy to compute with.\<close>

definition memory_api :: "(rstr \<rightharpoonup> u8 list) keychain_api" where
  "memory_api =
     \<lparr>set_generic_password = (\<lambda>service l b s. (s(l \<mapsto> b), Ok ())),
      get_generic_password = (\<lambda>service l s. ok_or (s l) err_sec_item_not_found),
      delete_generic_password = (\<lambda>service l s.
        if s l = None then (s, Err err_sec_item_not_found) else (s(l := None), Ok ()))\<rparr>"

interpretation memory: security_framework memory_api "\<lambda>s. s"
  by unfold_locales (auto simp: memory_api_def split: if_splits)

definition sample_env :: credential_env where
  "sample_env =
     \<lparr>env_externals =
        \<lparr>sha256 = (\<lambda>bytes. take 32 (bytes @ replicate 32 0)),
         uuid_hyphenated = (\<lambda>bytes. [100 + unat (bytes ! 11)]), payload_json = (\<lambda>s. s),
         extract_blob_sha256 = Some, result_json = (\<lambda>s n. s), outcome_to_json = (\<lambda>_. []),
         outcome_from_json = (\<lambda>_. None)\<rparr>,
      env_parse_uuid = (\<lambda>text. case text of [n] \<Rightarrow> Some (of_nat n) | _ \<Rightarrow> None),
      env_uuid_text = (\<lambda>u. [unat u]), env_timestamp = (\<lambda>_. Some (lit ''2026'')),
      env_rfc3339 = (\<lambda>_. Some ()), env_save_receipt = (\<lambda>s. s), env_delete_receipt = (\<lambda>s. s)\<rparr>"

lemma sample_env_simps [simp]:
  "env_parse_uuid sample_env [n] = Some (of_nat n)"
  "env_uuid_text sample_env u = [unat u]"
  "env_timestamp sample_env t = Some (lit ''2026'')"
  "env_rfc3339 sample_env x = Some ()"
  "env_save_receipt sample_env x = x"
  "env_delete_receipt sample_env x = x"
  by (simp_all add: sample_env_def)

lemma sample_credential_id:
  "stable_id (env_externals sample_env) (lit ''credential'') [3] = [103]"
  "stable_id (env_externals sample_env) (lit ''credential'') [103] = [203]"
  by (simp_all add: stable_id_def sample_env_def utf8_bytes_def lit_def Let_def)

lemma sample_collision_free: "collision_free sample_env {3, 103}"
proof -
  have "delete_envelope sample_env [3] [3] \<noteq> delete_envelope sample_env [3] [103]"
    "delete_envelope sample_env [103] [3] \<noteq> delete_envelope sample_env [103] [103]"
    by (simp_all add: delete_envelope_def digest_text_def sample_env_def utf8_bytes_def lit_def lower_hex_def hex_digit_def)
  from this this [symmetric] show ?thesis
    by (auto simp: collision_free_def credential_of_request_def sample_credential_id inj_on_def)
qed

definition sample_request :: save_credential_request where
  "sample_request = \<lparr>scr_schema_version = 1, scr_request_id = 3, scr_provider = OpenAi,
     scr_display_label = lit ''key'', scr_secret = lit ''s''\<rparr>"

lemma sample_request_valid: "save_credential_validate sample_request = Ok ()"
  by (simp add: save_credential_validate_def sample_request_def result_simps list_all_iff schema_version_v1_def
      lit_def trim_id_iff char_class_defs byte_len_def utf8_width_def)

definition saved_row :: "credential_state \<Rightarrow> int \<Rightarrow> credential_row" where
  "saved_row status updated =
     \<lparr>cx_locator = lit ''loc'', cx_credential_id = [103], cx_save_request_id = [3],
      cx_delete_request_id = None, cx_provider = lit ''open_ai'', cx_display_label = lit ''key'',
      cx_status = status, cx_created_at_ms = 1, cx_updated_at_ms = updated\<rparr>"

definition saved_db :: "credential_state \<Rightarrow> int \<Rightarrow> database" where
  "saved_db status updated = empty_database
     \<lparr>db_credentials := [saved_row status updated],
      db_command_receipts :=
        [\<lparr>cm_request_id = [3], cm_command_name = lit ''save_credential_v1'',
          cm_envelope_hash = save_envelope sample_env [3] (lit ''open_ai'') (lit ''key''),
          cm_response_json = [103], cm_created_at_ms = 1\<rparr>]\<rparr>"

definition sample_reference :: "credential_status \<Rightarrow> credential_reference" where
  "sample_reference status = \<lparr>cr_credential_id = 103, cr_provider = OpenAi,
     cr_display_label = lit ''key'', cr_status = status, cr_updated_at = lit ''2026''\<rparr>"

lemma sample_query:
  "core_credential_from_row sample_env (saved_row status updated) =
     Ok (sample_reference (credential_status_from_db status))"
  "credential_locator_new (lit ''loc'') = Ok (lit ''loc'')"
  by (simp_all add: core_credential_from_row_def saved_row_def sample_reference_def id_new_def provider_from_db_def
      ok_or_def credential_locator_new_def lit_def byte_len_def utf8_width_def is_ascii_def is_control_def)

lemma sample_reserve:
  "reserve_core_credential sample_env (Ok 1) (lit ''loc'') 3 OpenAi (lit ''key'') empty_database =
     Ok (saved_db PendingSave 1, WriteSecret (lit ''loc'') (sample_reference CredPendingSave))"
  using sample_query(1) [of PendingSave 1] sample_query(2)
  by (simp add: reserve_core_credential_def Let_def insert_credential_def insert_receipt_def empty_database_def
      query_credential_by_save_request_def query_credential_def credential_and_locator_from_row_def
      sample_credential_id saved_db_def saved_row_def)

lemma sample_activate:
  "activate_core_credential sample_env (Ok 2) 3 103 (saved_db PendingSave 1) =
     (saved_db Active 2, Ok (sample_reference CredActive))"
  using sample_query(1) [of Active 2] sample_query(2)
  by (simp add: activate_core_credential_def Let_def saved_db_def saved_row_def update_rows_def changed_rows_def
      query_credential_by_id_def query_credential_def credential_and_locator_from_row_def)

lemma sample_save:
  "\<exists>resp. save_credential_v1 sample_env memory_api (Ok 1) (Ok 2) (lit ''loc'') sample_request Map.empty empty_database
     = ([lit ''loc'' \<mapsto> utf8_bytes (lit ''s'')], saved_db Active 2, Ok resp) \<and> sp_replay_status resp = Created"
proof -
  have "credential_reference_validate (env_rfc3339 sample_env) (sample_reference CredActive) = Ok ()"
    by (simp add: credential_reference_validate_def sample_reference_def result_simps list_all_iff validate_timestamp_def
        timestamp_char_def lit_def trim_id_iff char_class_defs)
  then show ?thesis
    using sample_reserve sample_activate sample_request_valid
    by (simp add: save_credential_v1_def sample_request_def keychain_put_def memory_api_def finish_save_def
        sample_reference_def)
qed

section \<open>Properties\<close>

text \<open>
  C21: along any run of save and delete commands, each complete or cut off by a crash after any of
  its phases, and of complete or interrupted reconciliations, with a Keychain that may refuse any
  request, every active reference has its secret in the Keychain and every secret in the Keychain
  belongs to a reference.
\<close>

theorem credentials_and_secrets_agree:
  assumes "security_framework api contents" and "collision_free env known" and "contents s0 = Map.empty"
    and "(cred_step env api known)\<^sup>*\<^sup>* (s0, empty_database) (s, db)"
  shows "dom (contents s) \<subseteq> cx_locator ` set (db_credentials db)
    \<and> cx_locator ` {r \<in> set (db_credentials db). cx_status r = Active} \<subseteq> dom (contents s)"
proof -
  have "cred_inv env known (contents s) db"
    using security_framework.cred_run_holds [OF assms(1) assms(4) assms(2)]
      security_framework.initial_holds [OF assms(1) assms(3)] by simp
  then show ?thesis using cred_invD(6,7) by fastforce
qed

lemma sample_run:
  "(cred_step sample_env memory_api {3, 103})\<^sup>*\<^sup>* (Map.empty, empty_database)
     ([lit ''loc'' \<mapsto> utf8_bytes (lit ''s'')], saved_db Active 2)"
  using sample_save by (auto intro!: r_into_rtranclp cred_step.save simp: sample_request_def)

theorem credentials_and_secrets_agree_witness:
  "cx_locator ` {r \<in> set (db_credentials (saved_db Active 2)). cx_status r = Active} \<subseteq> {lit ''loc''}"
  using credentials_and_secrets_agree [OF memory.security_framework_axioms sample_collision_free _ sample_run] by simp

text \<open>
  C22: a save that reports success as new has put exactly the given secret under the locator of an
  active reference of the request.
\<close>

theorem save_stores_secret:
  assumes "security_framework api contents" and "collision_free env known"
    and "cred_inv env known (contents s) db" and "scr_request_id req \<in> known"
    and "save_credential_v1 env api clock1 clock2 loc req s db = (s', db', Ok resp)"
    and "sp_replay_status resp = Created"
  shows "\<exists>r\<in>set (db_credentials db'). cx_save_request_id r = env_uuid_text env (scr_request_id req)
    \<and> cx_status r = Active \<and> contents s' (cx_locator r) = Some (utf8_bytes (scr_secret req))"
proof -
  obtain db1 l reference s1 where
    res: "reserve_core_credential env clock1 loc (scr_request_id req) (scr_provider req) (scr_display_label req) db
      = Ok (db1, WriteSecret l reference)"
    and put: "keychain_put api l (scr_secret req) s = (s1, Ok ())"
    and act: "\<exists>x. activate_core_credential env clock2 (scr_request_id req) (cr_credential_id reference) db1 = (db', Ok x)"
    and "s' = s1"
    using save_created_phases [OF assms(5,6)] by metis
  obtain now where db': "db' = db1\<lparr>db_credentials := update_rows (activates env (scr_request_id req) (cr_credential_id reference))
      (\<lambda>r. r\<lparr>cx_status := Active, cx_updated_at_ms := now\<rparr>) (db_credentials db1)\<rparr>"
    and one: "changed_rows (activates env (scr_request_id req) (cr_credential_id reference)) (db_credentials db1) = 1"
    using act activate_cases by (fastforce split: if_splits)
  obtain r where r: "r \<in> set (db_credentials db1)" "activates env (scr_request_id req) (cr_credential_id reference) r"
    using one changed_rows_pos by (metis zero_neq_one)
  have "cx_locator r = l \<and> contents s1 l = Some (utf8_bytes (scr_secret req))"
    using security_framework.reserve_put(2) [OF assms(1,3,2,4) res put refl r(1)] r(2) by (simp add: activates_def)
  moreover have "r\<lparr>cx_status := Active, cx_updated_at_ms := now\<rparr> \<in> set (db_credentials db')"
    using r by (force simp: db' set_update_rows)
  ultimately show ?thesis
    using r(2) \<open>s' = s1\<close>
    by (intro bexI [of _ "r\<lparr>cx_status := Active, cx_updated_at_ms := now\<rparr>"]) (simp_all add: activates_def)
qed

theorem save_stores_secret_witness:
  "\<exists>r\<in>set (db_credentials (saved_db Active 2)). cx_save_request_id r = [3] \<and> cx_status r = Active"
proof -
  obtain resp where resp: "save_credential_v1 sample_env memory_api (Ok 1) (Ok 2) (lit ''loc'') sample_request Map.empty empty_database
      = ([lit ''loc'' \<mapsto> utf8_bytes (lit ''s'')], saved_db Active 2, Ok resp)" "sp_replay_status resp = Created"
    using sample_save by blast
  have "cred_inv sample_env {3, 103} Map.empty empty_database" by (rule memory.initial_holds) simp
  from save_stores_secret [OF memory.security_framework_axioms sample_collision_free this _ resp]
  show ?thesis by (auto simp: sample_request_def)
qed

text \<open>
  C23: the database and the answer of a save do not depend on the secret: with the Keychain
  answering alike, two saves that differ in the secret only leave the same database and give the
  same answer.
\<close>

theorem database_is_blind_to_secret:
  assumes "save_credential_validate (req\<lparr>scr_secret := a\<rparr>) = Ok ()"
    and "save_credential_validate (req\<lparr>scr_secret := b\<rparr>) = Ok ()"
    and "\<And>l. snd (keychain_put api l a s) = snd (keychain_put api l b s)"
  shows "snd (save_credential_v1 env api clock1 clock2 loc (req\<lparr>scr_secret := a\<rparr>) s db) =
    snd (save_credential_v1 env api clock1 clock2 loc (req\<lparr>scr_secret := b\<rparr>) s db)"
proof (cases "reserve_core_credential env clock1 loc (scr_request_id req) (scr_provider req) (scr_display_label req) db")
  case (Err e)
  then show ?thesis using assms(1,2) by (simp add: save_credential_v1_def)
next
  case (Ok p)
  obtain db1 plan where p: "p = (db1, plan)" by (cases p)
  show ?thesis
  proof (cases plan)
    case (SaveReplay reference)
    then show ?thesis using assms(1,2) Ok p by (simp add: save_credential_v1_def)
  next
    case (WriteSecret l reference)
    obtain sa ra sb where put: "keychain_put api l a s = (sa, ra)" "keychain_put api l b s = (sb, ra)"
      using assms(3) [of l] by (cases "keychain_put api l a s"; cases "keychain_put api l b s") simp
    obtain db2 r2 where act: "activate_core_credential env clock2 (scr_request_id req) (cr_credential_id reference) db1 = (db2, r2)"
      by fastforce
    show ?thesis
      using assms(1,2) Ok p WriteSecret put act
      by (cases ra; cases r2) (simp_all add: save_credential_v1_def)
  qed
qed

theorem database_is_blind_to_secret_witness:
  "snd (save_credential_v1 sample_env memory_api (Ok 1) (Ok 2) (lit ''loc'') (sample_request\<lparr>scr_secret := lit ''s''\<rparr>) Map.empty empty_database) =
   snd (save_credential_v1 sample_env memory_api (Ok 1) (Ok 2) (lit ''loc'') (sample_request\<lparr>scr_secret := lit ''t''\<rparr>) Map.empty empty_database)"
  by (rule database_is_blind_to_secret)
    (simp_all add: save_credential_validate_def sample_request_def result_simps list_all_iff schema_version_v1_def
      lit_def trim_id_iff char_class_defs byte_len_def utf8_width_def keychain_put_def memory_api_def)

text \<open>
  C24: a reconciliation that succeeds leaves no reference pending: every reference is active, with
  its secret in the Keychain, or marked for the user's attention.
\<close>

theorem reconcile_resolves_pending:
  assumes "security_framework api contents" and "cred_inv env known (contents s) db"
    and "reconcile_credentials api now s db = (s', db', Ok ())"
  shows "cx_status ` set (db_credentials db') \<subseteq> {Active, SaveFailed}
    \<and> cx_locator ` {r \<in> set (db_credentials db'). cx_status r = Active} \<subseteq> dom (contents s')"
proof -
  have loop: "reconcile_loop api now (pending_credentials db) s db = (s', db', Ok ())"
    using assms(3) by (simp add: reconcile_credentials_def)
  note distinct = cred_invD(1) [OF assms(2)]
  have "cred_inv env known (contents s') db'"
    by (rule security_framework.reconcile_loop_holds [OF assms(1,2) loop])
      (rule pending_delete_rows [OF distinct])
  moreover have "cx_status r \<in> {Active, SaveFailed}" if "r \<in> set (db_credentials db')" for r
    by (rule reconcile_loop_complete [OF loop distinct _ reconcile_one_locators that])
      (auto simp: pending_credentials_set)
  ultimately show ?thesis using cred_invD(6) by fastforce
qed

lemma sample_reserved_inv: "cred_inv sample_env {3, 103} Map.empty (saved_db PendingSave 1)"
proof -
  have "cred_inv sample_env {3, 103} Map.empty empty_database" by (rule memory.initial_holds) simp
  then show ?thesis by (rule reserve_inv [OF _ sample_collision_free _ sample_reserve]) simp
qed

lemma sample_reconciled:
  "reconcile_credentials memory_api 5 Map.empty (saved_db PendingSave 1) = (Map.empty, saved_db SaveFailed 5, Ok ())"
  using sample_query(2)
  by (simp add: reconcile_credentials_def pending_credentials_def saved_db_def saved_row_def reconcile_save_def
      keychain_contains_def memory_api_def update_rows_def)

theorem reconcile_resolves_pending_witness:
  "cx_status ` set (db_credentials (saved_db SaveFailed 5)) \<subseteq> {Active, SaveFailed}"
  using reconcile_resolves_pending [OF memory.security_framework_axioms sample_reserved_inv sample_reconciled] by simp

text \<open>
  C25: a delete that reports success has removed the secret of the reference it names, whether the
  reference was there or the request is repeated after a crash.
\<close>

theorem delete_removes_secret:
  assumes "security_framework api contents" and "collision_free env known"
    and "cred_inv env known (contents s) db"
    and "dcr_request_id req \<in> known" and "dcr_credential_id req \<in> known"
    and "delete_credential_v1 env api clock req s db = (s', db', Ok resp)"
    and "r \<in> set (db_credentials db)" and "cx_credential_id r = env_uuid_text env (dcr_credential_id req)"
  shows "contents s' (cx_locator r) = None \<and> dp_deleted resp \<and> dp_credential_id resp = dcr_credential_id req"
proof -
  obtain db1 l where
    prep: "prepare_core_credential_delete env clock (dcr_request_id req) (dcr_credential_id req) db
      = Ok (db1, DeleteSecret l (dcr_credential_id req))"
    and del: "keychain_delete api l s = (s', Ok ())"
    and resp: "dp_deleted resp" "dp_credential_id resp = dcr_credential_id req"
    using delete_phases [OF assms(6-8)] by blast
  obtain r1 where "r1 \<in> set (db_credentials db1)" "cx_credential_id r1 = cx_credential_id r" "cx_locator r1 = cx_locator r"
    using prepare_keeps_rows [OF prep assms(7)] by blast
  then show ?thesis
    using security_framework.prepare_delete_holds(3) [OF assms(1,3,2,4,5) prep del refl, of r1] assms(8) resp by simp
qed

lemma sample_prepare:
  "\<exists>db'. prepare_core_credential_delete sample_env (Ok 4) 103 103 (saved_db Active 2) =
     Ok (db', DeleteSecret (lit ''loc'') 103)"
proof -
  have "query_credential_by_id sample_env [103] (saved_db Active 2) = Ok (Some (sample_reference CredActive, lit ''loc''))"
    using sample_query(1) [of Active 2] sample_query(2)
    by (simp add: query_credential_by_id_def query_credential_def credential_and_locator_from_row_def
        saved_db_def saved_row_def)
  then show ?thesis
    by (simp add: prepare_core_credential_delete_def Let_def mark_pending_delete_def insert_receipt_def saved_db_def saved_row_def)
qed

lemma sample_delete:
  "\<exists>s' db' resp. delete_credential_v1 sample_env memory_api (Ok 4)
      \<lparr>dcr_schema_version = 1, dcr_request_id = 103, dcr_credential_id = 103\<rparr>
      [lit ''loc'' \<mapsto> utf8_bytes (lit ''s'')] (saved_db Active 2) = (s', db', Ok resp)"
proof -
  let ?req = "\<lparr>dcr_schema_version = 1, dcr_request_id = 103, dcr_credential_id = 103\<rparr>"
  obtain db' where prep: "prepare_core_credential_delete sample_env (Ok 4) 103 103 (saved_db Active 2) =
      Ok (db', DeleteSecret (lit ''loc'') 103)"
    using sample_prepare by blast
  have valid: "delete_credential_validate ?req = Ok ()"
    by (simp add: delete_credential_validate_def require_schema_v1_def schema_version_v1_def)
  obtain db2 r where fin: "finish_core_credential_delete sample_env 103 103 db' = (db2, r)" by fastforce
  have "r = Ok ()"
    using fin prepare_row_count [OF prep, of "\<lambda>r. cx_credential_id r = [103] \<and> cx_delete_request_id r = Some [103]
        \<and> cx_status r = PendingDelete"]
    by (auto simp: finish_core_credential_delete_def Let_def saved_db_def)
  then show ?thesis
    using prep valid fin by (simp add: delete_credential_v1_def Let_def keychain_delete_def memory_api_def)
qed

theorem delete_removes_secret_witness:
  "fst (delete_credential_v1 sample_env memory_api (Ok 4)
      \<lparr>dcr_schema_version = 1, dcr_request_id = 103, dcr_credential_id = 103\<rparr>
      [lit ''loc'' \<mapsto> utf8_bytes (lit ''s'')] (saved_db Active 2)) (lit ''loc'') = None"
proof -
  obtain s' db' resp where del: "delete_credential_v1 sample_env memory_api (Ok 4)
      \<lparr>dcr_schema_version = 1, dcr_request_id = 103, dcr_credential_id = 103\<rparr>
      [lit ''loc'' \<mapsto> utf8_bytes (lit ''s'')] (saved_db Active 2) = (s', db', Ok resp)"
    using sample_delete by blast
  have inv: "cred_inv sample_env {3, 103} [lit ''loc'' \<mapsto> utf8_bytes (lit ''s'')] (saved_db Active 2)"
    using memory.cred_run_holds [OF sample_run sample_collision_free] memory.initial_holds by simp
  from delete_removes_secret [OF memory.security_framework_axioms sample_collision_free inv _ _ del, of "saved_row Active 2"]
  show ?thesis using del by (simp add: saved_db_def saved_row_def)
qed



end
