(* ===== verification/Local_Mode_Store.thy ===== *)
theory Local_Mode_Store
  imports Database_Tables
begin

text \<open>
  The durable network mode of \<open>crates/wardrobe-platform/src/local_only.rs\<close>. The mode is kept in three
  files: the intent of a transition, the active mode and an acknowledgment that carries the digests
  of the other two. A change writes three private temporary files and renames them over the three
  leaves, one after the other, syncing the directory after each rename. A reader that finds anything
  but three matching files falls back to local-only.

  The directory is modelled with what a crash may leave behind: \<open>md_durable\<close> lists for each leaf the
  entries it may have after a power loss, the one at the last directory sync first. SHA-256, the JSON
  texts (\<open>serde_json\<close>), the random source and the outcome of every system call are arguments.
\<close>

unbundle bit_operations_syntax

definition max_record_bytes :: nat where "max_record_bytes = 4 * 1024"

datatype mode_leaf = IntentLeaf | ActiveLeaf | AcknowledgmentLeaf

datatype mode_store_error = Platform platform_error | PublicationOutcomeUnknown

record mode_snapshot =
  mo_local_only :: bool
  mo_revision :: u64
  mo_authority_health :: local_only_authority_health

definition mode_fail_closed :: mode_snapshot where
  "mode_fail_closed = \<lparr>mo_local_only = True, mo_revision = 0, mo_authority_health = FailClosedDefault\<rparr>"

section \<open>Records\<close>

record intent_body =
  ti_schema_version :: u8
  ti_prior_revision :: u64
  ti_target_revision :: u64
  ti_local_only :: bool
  ti_request_id :: uuid
  ti_request_sha256 :: rstr
  ti_transition_nonce :: rstr

record transition_intent = intent_body +
  ti_checksum_sha256 :: rstr

record active_body =
  am_schema_version :: u8
  am_revision :: u64
  am_local_only :: bool
  am_request_id :: uuid
  am_request_sha256 :: rstr

record active_mode = active_body +
  am_checksum_sha256 :: rstr

record acknowledgment_body =
  ta_schema_version :: u8
  ta_revision :: u64
  ta_transition_nonce :: rstr
  ta_intent_sha256 :: rstr
  ta_active_sha256 :: rstr

record transition_acknowledgment = acknowledgment_body +
  ta_checksum_sha256 :: rstr

text \<open>
  \<open>mc_sha256\<close> is SHA-256; the other fields are \<open>serde_json::to_vec\<close> and \<open>from_slice\<close> at the types the
  store uses them, \<open>None\<close> for their errors.
\<close>

record mode_codec =
  mc_sha256 :: "u8 list \<Rightarrow> u8 list"
  mc_request :: "set_local_only_request \<Rightarrow> u8 list option"
  mc_intent_body :: "intent_body \<Rightarrow> u8 list option"
  mc_intent :: "transition_intent \<Rightarrow> u8 list option"
  mc_active_body :: "active_body \<Rightarrow> u8 list option"
  mc_active :: "active_mode \<Rightarrow> u8 list option"
  mc_acknowledgment_body :: "acknowledgment_body \<Rightarrow> u8 list option"
  mc_acknowledgment :: "transition_acknowledgment \<Rightarrow> u8 list option"
  mc_intent_from :: "u8 list \<Rightarrow> transition_intent option"
  mc_active_from :: "u8 list \<Rightarrow> active_mode option"
  mc_acknowledgment_from :: "u8 list \<Rightarrow> transition_acknowledgment option"

definition canonical_bytes :: "('a \<Rightarrow> u8 list option) \<Rightarrow> 'a \<Rightarrow> u8 list platform_result" where
  "canonical_bytes to_vec value =
     and_then (ok_or (to_vec value) Json) (\<lambda>bytes.
       if bytes = [] \<or> length bytes > max_record_bytes
       then Err (Corrupt ''local_only_record_size'') else Ok bytes)"

definition digest_bytes :: "mode_codec \<Rightarrow> u8 list \<Rightarrow> rstr" where
  "digest_bytes mc bytes = lower_hex (mc_sha256 mc bytes)"

definition canonical_hash :: "mode_codec \<Rightarrow> ('a \<Rightarrow> u8 list option) \<Rightarrow> 'a \<Rightarrow> rstr platform_result" where
  "canonical_hash mc to_vec value =
     and_then (canonical_bytes to_vec value) (\<lambda>bytes. Ok (digest_bytes mc bytes))"

definition decode_canonical ::
  "(u8 list \<Rightarrow> 'a option) \<Rightarrow> ('a \<Rightarrow> u8 list option) \<Rightarrow> u8 list \<Rightarrow> 'a platform_result" where
  "decode_canonical from_slice to_vec bytes =
     (if bytes = [] \<or> length bytes > max_record_bytes
      then Err (Corrupt ''local_only_record_size'')
      else and_then (ok_or (from_slice bytes) Json) (\<lambda>value.
           and_then (canonical_bytes to_vec value) (\<lambda>canonical.
             if canonical \<noteq> bytes then Err (Corrupt ''local_only_record_canonical'') else Ok value)))"

definition valid_hash :: "rstr \<Rightarrow> bool" where
  "valid_hash value \<longleftrightarrow> byte_len value = 64 \<and> list_all is_lower_hex value"

definition intent_new ::
  "mode_codec \<Rightarrow> u64 \<Rightarrow> u64 \<Rightarrow> bool \<Rightarrow> uuid \<Rightarrow> rstr \<Rightarrow> rstr \<Rightarrow> transition_intent platform_result" where
  "intent_new mc prior_revision target_revision local_only request_id request_sha256 transition_nonce =
     (let body = \<lparr>ti_schema_version = schema_version_v1, ti_prior_revision = prior_revision,
            ti_target_revision = target_revision, ti_local_only = local_only,
            ti_request_id = request_id, ti_request_sha256 = request_sha256,
            ti_transition_nonce = transition_nonce\<rparr>
      in and_then (canonical_hash mc (mc_intent_body mc) body) (\<lambda>checksum.
           Ok (intent_body.extend body \<lparr>ti_checksum_sha256 = checksum\<rparr>)))"

definition intent_validate :: "mode_codec \<Rightarrow> transition_intent \<Rightarrow> unit platform_result" where
  "intent_validate mc i =
     (if ti_schema_version i \<noteq> schema_version_v1
         \<or> ti_target_revision i = 0
         \<or> ti_target_revision i > max_safe_integer_v1
         \<or> ti_prior_revision i \<ge> ti_target_revision i
         \<or> \<not> valid_hash (ti_request_sha256 i)
         \<or> \<not> valid_hash (ti_transition_nonce i)
         \<or> \<not> valid_hash (ti_checksum_sha256 i)
      then Err (Corrupt ''local_only_intent'')
      else and_then (canonical_hash mc (mc_intent_body mc) (intent_body.truncate i)) (\<lambda>checksum.
           if checksum \<noteq> ti_checksum_sha256 i then Err (Corrupt ''local_only_intent_checksum'') else Ok ()))"

definition active_new ::
  "mode_codec \<Rightarrow> u64 \<Rightarrow> bool \<Rightarrow> uuid \<Rightarrow> rstr \<Rightarrow> active_mode platform_result" where
  "active_new mc revision local_only request_id request_sha256 =
     (let body = \<lparr>am_schema_version = schema_version_v1, am_revision = revision,
            am_local_only = local_only, am_request_id = request_id,
            am_request_sha256 = request_sha256\<rparr>
      in and_then (canonical_hash mc (mc_active_body mc) body) (\<lambda>checksum.
           Ok (active_body.extend body \<lparr>am_checksum_sha256 = checksum\<rparr>)))"

definition active_validate :: "mode_codec \<Rightarrow> active_mode \<Rightarrow> unit platform_result" where
  "active_validate mc a =
     (if am_schema_version a \<noteq> schema_version_v1
         \<or> am_revision a = 0
         \<or> am_revision a > max_safe_integer_v1
         \<or> \<not> valid_hash (am_request_sha256 a)
         \<or> \<not> valid_hash (am_checksum_sha256 a)
      then Err (Corrupt ''local_only_active'')
      else and_then (canonical_hash mc (mc_active_body mc) (active_body.truncate a)) (\<lambda>checksum.
           if checksum \<noteq> am_checksum_sha256 a then Err (Corrupt ''local_only_active_checksum'') else Ok ()))"

definition acknowledgment_new ::
  "mode_codec \<Rightarrow> u64 \<Rightarrow> rstr \<Rightarrow> rstr \<Rightarrow> rstr \<Rightarrow> transition_acknowledgment platform_result" where
  "acknowledgment_new mc revision transition_nonce intent_sha256 active_sha256 =
     (let body = \<lparr>ta_schema_version = schema_version_v1, ta_revision = revision,
            ta_transition_nonce = transition_nonce, ta_intent_sha256 = intent_sha256,
            ta_active_sha256 = active_sha256\<rparr>
      in and_then (canonical_hash mc (mc_acknowledgment_body mc) body) (\<lambda>checksum.
           Ok (acknowledgment_body.extend body \<lparr>ta_checksum_sha256 = checksum\<rparr>)))"

definition acknowledgment_validate ::
  "mode_codec \<Rightarrow> transition_acknowledgment \<Rightarrow> unit platform_result" where
  "acknowledgment_validate mc k =
     (if ta_schema_version k \<noteq> schema_version_v1
         \<or> ta_revision k = 0
         \<or> ta_revision k > max_safe_integer_v1
         \<or> \<not> valid_hash (ta_transition_nonce k)
         \<or> \<not> valid_hash (ta_intent_sha256 k)
         \<or> \<not> valid_hash (ta_active_sha256 k)
         \<or> \<not> valid_hash (ta_checksum_sha256 k)
      then Err (Corrupt ''local_only_acknowledgment'')
      else and_then (canonical_hash mc (mc_acknowledgment_body mc) (acknowledgment_body.truncate k)) (\<lambda>checksum.
           if checksum \<noteq> ta_checksum_sha256 k
           then Err (Corrupt ''local_only_acknowledgment_checksum'') else Ok ()))"

section \<open>The private directory\<close>

record mode_inode =
  mi_regular :: bool
  mi_uid :: nat
  mi_mode :: u32
  mi_nlink :: nat
  mi_identity :: "nat \<times> nat"
  mi_bytes :: "u8 list"

record mode_directory =
  md_leaves :: "mode_leaf \<Rightarrow> mode_inode option"
  md_durable :: "mode_leaf \<Rightarrow> mode_inode option list"

definition rename_over :: "mode_leaf \<Rightarrow> mode_inode \<Rightarrow> mode_directory \<Rightarrow> mode_directory" where
  "rename_over leaf inode dir =
     dir\<lparr>md_leaves := (md_leaves dir)(leaf := Some inode),
         md_durable := (md_durable dir)(leaf := md_durable dir leaf @ [Some inode])\<rparr>"

definition directory_sync :: "mode_directory \<Rightarrow> mode_directory" where
  "directory_sync dir = dir\<lparr>md_durable := (\<lambda>leaf. [md_leaves dir leaf])\<rparr>"

text \<open>\<open>euid\<close> is the effective user of the process.\<close>

definition validate_private_file ::
  "nat \<Rightarrow> mode_inode \<Rightarrow> (nat \<times> nat) option \<Rightarrow> unit platform_result" where
  "validate_private_file euid file expected_identity =
     (if \<not> mi_regular file
         \<or> mi_uid file \<noteq> euid
         \<or> mi_mode file AND 0x1ff \<noteq> 0x180
         \<or> mi_nlink file \<noteq> 1
         \<or> (case expected_identity of Some identity \<Rightarrow> identity \<noteq> mi_identity file | None \<Rightarrow> False)
      then Err (Corrupt ''local_only_record_identity'') else Ok ())"

definition validate_named_identity ::
  "nat \<Rightarrow> mode_inode option \<Rightarrow> (nat \<times> nat) option \<Rightarrow> unit platform_result" where
  "validate_named_identity euid entry expected_identity =
     and_then (ok_or entry (Io IoNotFound)) (\<lambda>file. validate_private_file euid file expected_identity)"

text \<open>\<open>fault\<close> is the error of a system call that fails although the file is there.\<close>

definition read_private_record ::
  "nat \<Rightarrow> platform_error option \<Rightarrow> mode_inode option \<Rightarrow> u8 list platform_result" where
  "read_private_record euid fault entry =
     (case fault of Some e \<Rightarrow> Err e
      | None \<Rightarrow>
          and_then (ok_or entry (Io IoNotFound)) (\<lambda>file.
          let identity = mi_identity file; bytes = mi_bytes file
          in and_then (validate_private_file euid file (Some identity)) (\<lambda>_.
             if length bytes = 0 \<or> length bytes > max_record_bytes
             then Err (Corrupt ''local_only_record_size'')
             else and_then (validate_private_file euid file (Some identity)) (\<lambda>_.
                  and_then (validate_named_identity euid entry (Some identity)) (\<lambda>_.
                  Ok bytes)))))"

definition validate_target_for_replace ::
  "nat \<Rightarrow> platform_error option \<Rightarrow> mode_inode option \<Rightarrow> unit platform_result" where
  "validate_target_for_replace euid fault entry =
     (case fault of Some e \<Rightarrow> Err e
      | None \<Rightarrow>
          (case entry of None \<Rightarrow> Ok ()
           | Some stat \<Rightarrow>
               if mi_uid stat \<noteq> euid \<or> \<not> mi_regular stat \<or> mi_mode stat AND 0x1ff \<noteq> 0x180 \<or> mi_nlink stat \<noteq> 1
               then Err (Corrupt ''local_only_target_identity'') else Ok ()))"

definition verify_published ::
  "mode_codec \<Rightarrow> nat \<Rightarrow> platform_error option \<Rightarrow> mode_inode option \<Rightarrow> (nat \<times> nat) \<Rightarrow> u8 list \<Rightarrow>
   unit platform_result" where
  "verify_published mc euid fault entry identity expected =
     (case fault of Some e \<Rightarrow> Err e
      | None \<Rightarrow>
          and_then (ok_or entry (Io IoNotFound)) (\<lambda>file.
          and_then (validate_private_file euid file (Some identity)) (\<lambda>_.
          let actual = mi_bytes file
          in if length actual \<noteq> length expected \<or> mc_sha256 mc actual \<noteq> mc_sha256 mc expected
             then Err (Corrupt ''local_only_published_verification'') else Ok ())))"

section \<open>Reading the mode\<close>

record load_io =
  li_open :: "platform_error option"
  li_read :: "mode_leaf \<Rightarrow> platform_error option"

definition quiet_load :: load_io where
  "quiet_load = \<lparr>li_open = None, li_read = (\<lambda>_. None)\<rparr>"

type_synonym mode_records = "mode_leaf \<Rightarrow> u8 list"

definition records_of :: "u8 list \<Rightarrow> u8 list \<Rightarrow> u8 list \<Rightarrow> mode_records" where
  "records_of intent active acknowledgment = (\<lambda>leaf. case leaf of
     IntentLeaf \<Rightarrow> intent | ActiveLeaf \<Rightarrow> active | AcknowledgmentLeaf \<Rightarrow> acknowledgment)"

definition read_records :: "nat \<Rightarrow> load_io \<Rightarrow> mode_directory \<Rightarrow> mode_records platform_result" where
  "read_records euid io dir =
     (case li_open io of Some e \<Rightarrow> Err e
      | None \<Rightarrow>
          let read = (\<lambda>leaf. read_private_record euid (li_read io leaf) (md_leaves dir leaf))
          in and_then (read IntentLeaf) (\<lambda>intent_bytes.
             and_then (read ActiveLeaf) (\<lambda>active_bytes.
             and_then (read AcknowledgmentLeaf) (\<lambda>acknowledgment_bytes.
             Ok (records_of intent_bytes active_bytes acknowledgment_bytes)))))"

record loaded_chain =
  lc_active :: active_mode
  lc_records :: mode_records

definition chain_of_records :: "mode_codec \<Rightarrow> mode_records \<Rightarrow> loaded_chain platform_result" where
  "chain_of_records mc records =
     and_then (decode_canonical (mc_intent_from mc) (mc_intent mc) (records IntentLeaf)) (\<lambda>intent.
     and_then (decode_canonical (mc_active_from mc) (mc_active mc) (records ActiveLeaf)) (\<lambda>active.
     and_then (decode_canonical (mc_acknowledgment_from mc) (mc_acknowledgment mc)
                 (records AcknowledgmentLeaf)) (\<lambda>acknowledgment.
     and_then (intent_validate mc intent) (\<lambda>_.
     and_then (active_validate mc active) (\<lambda>_.
     and_then (acknowledgment_validate mc acknowledgment) (\<lambda>_.
       if ti_target_revision intent \<noteq> am_revision active
          \<or> ti_local_only intent \<noteq> am_local_only active
          \<or> ti_request_id intent \<noteq> am_request_id active
          \<or> ti_request_sha256 intent \<noteq> am_request_sha256 active
          \<or> ta_revision acknowledgment \<noteq> am_revision active
          \<or> ta_transition_nonce acknowledgment \<noteq> ti_transition_nonce intent
          \<or> ta_intent_sha256 acknowledgment \<noteq> digest_bytes mc (records IntentLeaf)
          \<or> ta_active_sha256 acknowledgment \<noteq> digest_bytes mc (records ActiveLeaf)
       then Err (Corrupt ''local_only_transition_mismatch'')
       else if ti_prior_revision intent = - 1 \<or> ti_prior_revision intent + 1 \<noteq> ti_target_revision intent
       then Err (Corrupt ''local_only_transition_revision'')
       else Ok \<lparr>lc_active = active, lc_records = records\<rparr>))))))"

definition load_chain ::
  "mode_codec \<Rightarrow> nat \<Rightarrow> load_io \<Rightarrow> mode_directory \<Rightarrow> loaded_chain platform_result" where
  "load_chain mc euid io dir = and_then (read_records euid io dir) (chain_of_records mc)"

definition mode_load :: "mode_codec \<Rightarrow> nat \<Rightarrow> load_io \<Rightarrow> mode_directory \<Rightarrow> mode_snapshot" where
  "mode_load mc euid io dir =
     (case load_chain mc euid io dir of
        Ok chain \<Rightarrow> \<lparr>mo_local_only = am_local_only (lc_active chain),
                      mo_revision = am_revision (lc_active chain), mo_authority_health = Persisted\<rparr>
      | Err _ \<Rightarrow> mode_fail_closed)"

section \<open>Changing the mode\<close>

record uncertain_publication =
  un_prior_revision :: u64
  un_prior_records :: mode_records
  un_target_records :: mode_records
  un_request_id :: uuid
  un_request_sha256 :: rstr

type_synonym store_state = "uncertain_publication option"

definition recognized_records ::
  "nat \<Rightarrow> load_io \<Rightarrow> mode_directory \<Rightarrow> uncertain_publication \<Rightarrow> mode_records option" where
  "recognized_records euid io dir uncertain =
     (case read_records euid io dir of
        Err _ \<Rightarrow> None
      | Ok records \<Rightarrow>
          if list_all (\<lambda>leaf. records leaf = un_prior_records uncertain leaf
                             \<or> records leaf = un_target_records uncertain leaf)
               [IntentLeaf, ActiveLeaf, AcknowledgmentLeaf]
          then Some records else None)"

record set_local_only_response =
  sr_schema_version :: u8
  sr_request_id :: uuid
  sr_local_only :: bool
  sr_revision :: u64
  sr_authority_health :: local_only_authority_health
  sr_replay_status :: replay_status

definition mode_response :: "uuid \<Rightarrow> bool \<Rightarrow> u64 \<Rightarrow> replay_status \<Rightarrow> set_local_only_response" where
  "mode_response request_id local_only revision replay_status =
     \<lparr>sr_schema_version = schema_version_v1, sr_request_id = request_id, sr_local_only = local_only,
      sr_revision = revision, sr_authority_health = Persisted, sr_replay_status = replay_status\<rparr>"

definition validate_request :: "set_local_only_request \<Rightarrow> unit platform_result" where
  "validate_request request =
     (if slo_schema_version request \<noteq> schema_version_v1 then Err (InvalidInput ''schema_version'')
      else if slo_expected_revision request \<ge> max_safe_integer_v1
      then Err (InvalidInput ''expected_revision'') else Ok ())"

text \<open>
  A prepared record is a private temporary file that holds the bytes of a leaf. Preparing it is the
  outcome \<open>si_create\<close>: the identity of the new file or the error.
\<close>

record prepared_record =
  pr_target_leaf :: mode_leaf
  pr_inode :: mode_inode
  pr_bytes :: "u8 list"

definition private_inode :: "nat \<Rightarrow> (nat \<times> nat) \<Rightarrow> u8 list \<Rightarrow> mode_inode" where
  "private_inode euid identity bytes =
     \<lparr>mi_regular = True, mi_uid = euid, mi_mode = 0x8180, mi_nlink = 1, mi_identity = identity, mi_bytes = bytes\<rparr>"

datatype rename_outcome = Renamed | RenameFailed bool

record publish_io =
  pi_stat :: "platform_error option"
  pi_rename :: rename_outcome
  pi_verify :: "platform_error option"
  pi_sync :: "platform_error option"

datatype publish_error = Before platform_error | Unknown

text \<open>A failing \<open>renameat\<close> may have replaced the target (\<open>RenameFailed True\<close>) or not.\<close>

definition publish ::
  "mode_codec \<Rightarrow> nat \<Rightarrow> publish_io \<Rightarrow> prepared_record \<Rightarrow> mode_directory \<Rightarrow>
   mode_directory \<times> (unit, publish_error) result" where
  "publish mc euid io record dir =
     (let leaf = pr_target_leaf record; inode = pr_inode record
      in case validate_target_for_replace euid (pi_stat io) (md_leaves dir leaf) of
           Err e \<Rightarrow> (dir, Err (Before e))
         | Ok _ \<Rightarrow>
             (case pi_rename io of
                RenameFailed applied \<Rightarrow> (if applied then rename_over leaf inode dir else dir, Err Unknown)
              | Renamed \<Rightarrow>
                  (let dir = rename_over leaf inode dir
                   in case verify_published mc euid (pi_verify io) (md_leaves dir leaf)
                             (mi_identity inode) (pr_bytes record) of
                        Err _ \<Rightarrow> (dir, Err Unknown)
                      | Ok _ \<Rightarrow>
                          (case pi_sync io of
                             Some _ \<Rightarrow> (dir, Err Unknown)
                           | None \<Rightarrow> (directory_sync dir, Ok ())))))"

fun publish_all ::
  "mode_codec \<Rightarrow> nat \<Rightarrow> (mode_leaf \<Rightarrow> publish_io) \<Rightarrow> bool \<Rightarrow> prepared_record list \<Rightarrow> mode_directory \<Rightarrow>
   mode_directory \<times> (unit, mode_store_error) result" where
  "publish_all mc euid io publication_started [] dir = (dir, Ok ())"
| "publish_all mc euid io publication_started (record # records) dir =
     (case publish mc euid (io (pr_target_leaf record)) record dir of
        (dir, Ok _) \<Rightarrow> publish_all mc euid io True records dir
      | (dir, Err Unknown) \<Rightarrow> (dir, Err PublicationOutcomeUnknown)
      | (dir, Err (Before e)) \<Rightarrow>
          (dir, Err (if publication_started then PublicationOutcomeUnknown else Platform e)))"

text \<open>The three records of a transition.\<close>

definition transition_records ::
  "mode_codec \<Rightarrow> u64 \<Rightarrow> u64 \<Rightarrow> set_local_only_request \<Rightarrow> rstr \<Rightarrow> rstr \<Rightarrow> mode_records platform_result" where
  "transition_records mc current_revision target_revision request envelope_sha256 transition_nonce =
     and_then (intent_new mc current_revision target_revision (slo_enabled request)
                 (slo_request_id request) envelope_sha256 transition_nonce) (\<lambda>intent.
     and_then (canonical_bytes (mc_intent mc) intent) (\<lambda>intent_bytes.
     and_then (active_new mc target_revision (slo_enabled request) (slo_request_id request)
                 envelope_sha256) (\<lambda>active.
     and_then (canonical_bytes (mc_active mc) active) (\<lambda>active_bytes.
     and_then (acknowledgment_new mc target_revision transition_nonce (digest_bytes mc intent_bytes)
                 (digest_bytes mc active_bytes)) (\<lambda>acknowledgment.
     and_then (canonical_bytes (mc_acknowledgment mc) acknowledgment) (\<lambda>acknowledgment_bytes.
     Ok (records_of intent_bytes active_bytes acknowledgment_bytes)))))))"

record set_io =
  si_load :: load_io
  si_recognize :: load_io
  si_nonce :: "rstr platform_result"
  si_open :: "platform_error option"
  si_create :: "mode_leaf \<Rightarrow> (nat \<times> nat) platform_result"
  si_target :: "mode_leaf \<Rightarrow> platform_error option"
  si_publish :: "mode_leaf \<Rightarrow> publish_io"
  si_reload :: load_io

definition create_record ::
  "nat \<Rightarrow> set_io \<Rightarrow> mode_records \<Rightarrow> mode_leaf \<Rightarrow> prepared_record platform_result" where
  "create_record euid io records leaf =
     and_then (si_create io leaf) (\<lambda>identity.
       Ok \<lparr>pr_target_leaf = leaf, pr_inode = private_inode euid identity (records leaf),
           pr_bytes = records leaf\<rparr>)"

definition prepare_records ::
  "nat \<Rightarrow> set_io \<Rightarrow> mode_records \<Rightarrow> mode_directory \<Rightarrow> prepared_record list platform_result" where
  "prepare_records euid io records dir =
     (case si_open io of Some e \<Rightarrow> Err e
      | None \<Rightarrow>
          and_then (create_record euid io records IntentLeaf) (\<lambda>intent.
          and_then (create_record euid io records ActiveLeaf) (\<lambda>active.
          and_then (create_record euid io records AcknowledgmentLeaf) (\<lambda>acknowledgment.
          and_then (try_for_each (\<lambda>record. validate_target_for_replace euid
                      (si_target io (pr_target_leaf record)) (md_leaves dir (pr_target_leaf record)))
                    [intent, active, acknowledgment]) (\<lambda>_.
          Ok [intent, active, acknowledgment])))))"

text \<open>The part of \<open>set\<close> from the prepared records to the response.\<close>

definition publish_transition ::
  "mode_codec \<Rightarrow> nat \<Rightarrow> set_io \<Rightarrow> set_local_only_request \<Rightarrow> u64 \<Rightarrow> store_state \<Rightarrow> prepared_record list \<Rightarrow>
   store_state \<Rightarrow> mode_directory \<Rightarrow>
   store_state \<times> mode_directory \<times> (set_local_only_response, mode_store_error) result" where
  "publish_transition mc euid io request target_revision uncertain_publication records state dir =
     (case publish_all mc euid (si_publish io) False records dir of
        (dir, Err PublicationOutcomeUnknown) \<Rightarrow> (uncertain_publication, dir, Err PublicationOutcomeUnknown)
      | (dir, Err (Platform e)) \<Rightarrow> (state, dir, Err (Platform e))
      | (dir, Ok _) \<Rightarrow>
          (case load_chain mc euid (si_reload io) dir of
             Err _ \<Rightarrow> (uncertain_publication, dir, Err PublicationOutcomeUnknown)
           | Ok loaded \<Rightarrow>
               if am_revision (lc_active loaded) \<noteq> target_revision
                  \<or> am_request_id (lc_active loaded) \<noteq> slo_request_id request
                  \<or> am_local_only (lc_active loaded) \<noteq> slo_enabled request
               then (uncertain_publication, dir, Err PublicationOutcomeUnknown)
               else (None, dir, Ok (mode_response (slo_request_id request) (slo_enabled request)
                      target_revision Created))))"

definition current_revision_of :: "loaded_chain option \<Rightarrow> mode_records option \<Rightarrow> store_state \<Rightarrow> u64" where
  "current_revision_of current recognized state =
     (case current of Some chain \<Rightarrow> am_revision (lc_active chain)
      | None \<Rightarrow> (case recognized of None \<Rightarrow> 0
                 | Some _ \<Rightarrow> (case state of Some uncertain \<Rightarrow> un_prior_revision uncertain | None \<Rightarrow> 0)))"

definition start_transition ::
  "mode_codec \<Rightarrow> nat \<Rightarrow> set_io \<Rightarrow> set_local_only_request \<Rightarrow> rstr \<Rightarrow> loaded_chain option \<Rightarrow>
   mode_records option \<Rightarrow> store_state \<Rightarrow> mode_directory \<Rightarrow>
   (u64 \<times> store_state \<times> prepared_record list) platform_result" where
  "start_transition mc euid io request envelope_sha256 current recognized state dir =
     (let current_revision = current_revision_of current recognized state;
          target_revision = current_revision + 1
      in if slo_expected_revision request \<noteq> current_revision
         then Err (Conflict ''local_only_stale_revision'')
         else if current_revision = - 1 \<or> target_revision > max_safe_integer_v1
         then Err (Conflict ''local_only_revision_exhausted'')
         else and_then (si_nonce io) (\<lambda>transition_nonce.
              and_then (transition_records mc current_revision target_revision request envelope_sha256
                          transition_nonce) (\<lambda>target_records.
              let prior_records = (case current of Some chain \<Rightarrow> Some (lc_records chain) | None \<Rightarrow> recognized);
                  uncertain_publication = map_option (\<lambda>prior_records.
                    \<lparr>un_prior_revision = current_revision, un_prior_records = prior_records,
                     un_target_records = target_records, un_request_id = slo_request_id request,
                     un_request_sha256 = envelope_sha256\<rparr>) prior_records
              in and_then (prepare_records euid io target_records dir) (\<lambda>records.
                 Ok (target_revision, uncertain_publication, records)))))"

definition mode_set ::
  "mode_codec \<Rightarrow> nat \<Rightarrow> set_io \<Rightarrow> set_local_only_request \<Rightarrow> store_state \<Rightarrow> mode_directory \<Rightarrow>
   store_state \<times> mode_directory \<times> (set_local_only_response, mode_store_error) result" where
  "mode_set mc euid io request state dir =
     (case and_then (validate_request request) (\<lambda>_. canonical_hash mc (mc_request mc) request) of
        Err e \<Rightarrow> (state, dir, Err (Platform e))
      | Ok envelope_sha256 \<Rightarrow>
          (let current = (case load_chain mc euid (si_load io) dir of Ok chain \<Rightarrow> Some chain | Err _ \<Rightarrow> None);
               reused = (state, dir, Err (Platform (Conflict ''local_only_request_id_reused'')));
               recognized = (if current = None
                 then Option.bind state (recognized_records euid (si_recognize io) dir) else None);
               transition = (case start_transition mc euid io request envelope_sha256 current recognized state dir of
                   Err e \<Rightarrow> (state, dir, Err (Platform e))
                 | Ok (target_revision, uncertain_publication, records) \<Rightarrow>
                     publish_transition mc euid io request target_revision uncertain_publication records state dir)
           in if (case state of
                    Some uncertain \<Rightarrow> un_request_id uncertain = slo_request_id request
                      \<and> un_request_sha256 uncertain \<noteq> envelope_sha256
                  | None \<Rightarrow> False)
              then reused
              else case current of
                     Some chain \<Rightarrow>
                       if am_request_id (lc_active chain) = slo_request_id request
                       then if am_request_sha256 (lc_active chain) \<noteq> envelope_sha256 then reused
                         else (None, dir, Ok (mode_response (slo_request_id request)
                                (am_local_only (lc_active chain)) (am_revision (lc_active chain)) Replayed))
                       else transition
                   | None \<Rightarrow> transition))"

definition load_acknowledged_response ::
  "mode_codec \<Rightarrow> nat \<Rightarrow> load_io \<Rightarrow> set_local_only_request \<Rightarrow> store_state \<Rightarrow> mode_directory \<Rightarrow>
   store_state \<times> set_local_only_response option" where
  "load_acknowledged_response mc euid io request state dir =
     (case canonical_hash mc (mc_request mc) request of
        Err _ \<Rightarrow> (state, None)
      | Ok expected_hash \<Rightarrow>
          (case load_chain mc euid io dir of
             Err _ \<Rightarrow> (state, None)
           | Ok chain \<Rightarrow>
               if am_request_id (lc_active chain) \<noteq> slo_request_id request
                  \<or> am_request_sha256 (lc_active chain) \<noteq> expected_hash
                  \<or> am_local_only (lc_active chain) \<noteq> slo_enabled request
                  \<or> slo_expected_revision request = - 1
                  \<or> am_revision (lc_active chain) \<noteq> slo_expected_revision request + 1
               then (state, None)
               else (None, Some (mode_response (slo_request_id request) (am_local_only (lc_active chain))
                      (am_revision (lc_active chain)) Created))))"

end
