(* ===== verification/Outbound_Authority.thy ===== *)
theory Outbound_Authority
  imports Contracts "HOL-Library.Multiset"
begin

text \<open>
  The outbound authority of \<open>src-tauri/src/local_only.rs\<close>: the in-memory gate every use of the network
  passes. A connector acquires a lease before it talks to the network; a change of the network mode
  is a transition, which refuses new leases, waits on a condition variable until the leases are gone,
  and then publishes a new snapshot, fails closed or, when it is dropped, restores the old one.

  An operation is one critical section of the mutex, a function on the state the mutex guards. The
  function is \<open>None\<close> where the code panics. The threads around the mutex are the step relation
  \<open>authority_step\<close>, in which the critical sections interleave in any order.
\<close>

datatype outbound_capability =
    GmailAuthorize | GmailSync | GmailRevoke | ReceiptImageFetch | PhotoKitMaterialize
  | OpenAiRecommendation | OpenAiReceiptIntelligence | OpenAiTryOn

record outbound_snapshot =
  os_local_only :: bool
  os_revision :: u64
  os_health :: local_only_authority_health

record authority_state =
  au_snapshot :: outbound_snapshot
  au_transitioning :: bool
  au_active_leases :: u64

text \<open>A lease remembers its capability; the lease of a local clean-up has none.\<close>

type_synonym outbound_lease = "outbound_capability option"

datatype authority_error = Denied | TransitionInProgress

definition authority_new :: "outbound_snapshot \<Rightarrow> authority_state" where
  "authority_new snapshot =
     \<lparr>au_snapshot = snapshot, au_transitioning = False, au_active_leases = 0\<rparr>"

definition checked_add_lease :: "authority_state \<Rightarrow> authority_state option" where
  "checked_add_lease st =
     (if au_active_leases st = - 1 then None
      else Some (st\<lparr>au_active_leases := au_active_leases st + 1\<rparr>))"

definition acquire ::
  "outbound_capability \<Rightarrow> authority_state \<Rightarrow>
   (authority_state \<times> (outbound_lease, authority_error) result) option" where
  "acquire capability st =
     (if au_transitioning st then Some (st, Err TransitionInProgress)
      else if os_local_only (au_snapshot st) then Some (st, Err Denied)
      else map_option (\<lambda>st'. (st', Ok (Some capability))) (checked_add_lease st))"

definition acquire_local_cleanup ::
  "authority_state \<Rightarrow> (authority_state \<times> (outbound_lease, authority_error) result) option" where
  "acquire_local_cleanup st =
     (if au_transitioning st then Some (st, Err TransitionInProgress)
      else map_option (\<lambda>st'. (st', Ok None)) (checked_add_lease st))"

text \<open>Dropping a lease: the count is decremented with \<open>saturating_sub\<close>.\<close>

definition drop_lease :: "authority_state \<Rightarrow> authority_state" where
  "drop_lease st =
     st\<lparr>au_active_leases := (if au_active_leases st = 0 then 0 else au_active_leases st - 1)\<rparr>"

text \<open>
  \<open>begin_transition\<close> is two critical sections: it claims the transition, and it returns with the
  snapshot once it wakes up to no leases. In between it waits with the mutex released.
\<close>

definition begin_transition_claim :: "authority_state \<Rightarrow> (authority_state, authority_error) result" where
  "begin_transition_claim st =
     (if au_transitioning st then Err TransitionInProgress else Ok (st\<lparr>au_transitioning := True\<rparr>))"

definition begin_transition_return :: "authority_state \<Rightarrow> outbound_snapshot option" where
  "begin_transition_return st = (if au_active_leases st \<noteq> 0 then None else Some (au_snapshot st))"

definition transition_publish :: "outbound_snapshot \<Rightarrow> authority_state \<Rightarrow> authority_state" where
  "transition_publish snapshot st = st\<lparr>au_snapshot := snapshot, au_transitioning := False\<rparr>"

definition fail_closed_snapshot :: "outbound_snapshot \<Rightarrow> outbound_snapshot" where
  "fail_closed_snapshot prior =
     \<lparr>os_local_only = True, os_revision = os_revision prior,
      os_health = (if os_revision prior = 0 then FailClosedDefault else FailClosedUncertain)\<rparr>"

definition transition_fail_closed :: "outbound_snapshot \<Rightarrow> authority_state \<Rightarrow> authority_state" where
  "transition_fail_closed prior st =
     st\<lparr>au_snapshot := fail_closed_snapshot prior, au_transitioning := False\<rparr>"

definition transition_drop :: "outbound_snapshot \<Rightarrow> authority_state \<Rightarrow> authority_state" where
  "transition_drop prior st = st\<lparr>au_snapshot := prior, au_transitioning := False\<rparr>"

section \<open>Threads\<close>

text \<open>
  The world is the guarded state with the leases that are alive and the transition, if one is under
  way: \<open>Draining\<close> while \<open>begin_transition\<close> waits, \<open>Holding\<close> once it has returned.
\<close>

datatype transition_phase = Idle | Draining | Holding outbound_snapshot

record authority_world =
  aw_state :: authority_state
  aw_leases :: "outbound_lease multiset"
  aw_phase :: transition_phase

definition initial_world :: "outbound_snapshot \<Rightarrow> authority_world" where
  "initial_world snapshot =
     \<lparr>aw_state = authority_new snapshot, aw_leases = {#}, aw_phase = Idle\<rparr>"

inductive authority_step :: "authority_world \<Rightarrow> authority_world \<Rightarrow> bool" where
  acquire: "acquire capability (aw_state w) = Some (st, Ok lease) \<Longrightarrow>
    authority_step w (w\<lparr>aw_state := st, aw_leases := add_mset lease (aw_leases w)\<rparr>)"
| cleanup: "acquire_local_cleanup (aw_state w) = Some (st, Ok lease) \<Longrightarrow>
    authority_step w (w\<lparr>aw_state := st, aw_leases := add_mset lease (aw_leases w)\<rparr>)"
| drop_lease: "lease \<in># aw_leases w \<Longrightarrow>
    authority_step w (w\<lparr>aw_state := drop_lease (aw_state w), aw_leases := aw_leases w - {#lease#}\<rparr>)"
| claim: "begin_transition_claim (aw_state w) = Ok st \<Longrightarrow>
    authority_step w (w\<lparr>aw_state := st, aw_phase := Draining\<rparr>)"
| hold: "aw_phase w = Draining \<Longrightarrow> begin_transition_return (aw_state w) = Some prior \<Longrightarrow>
    authority_step w (w\<lparr>aw_phase := Holding prior\<rparr>)"
| publish: "aw_phase w = Holding prior \<Longrightarrow>
    authority_step w (w\<lparr>aw_state := transition_publish snapshot (aw_state w), aw_phase := Idle\<rparr>)"
| fail_closed: "aw_phase w = Holding prior \<Longrightarrow>
    authority_step w (w\<lparr>aw_state := transition_fail_closed prior (aw_state w), aw_phase := Idle\<rparr>)"
| drop_transition: "aw_phase w = Holding prior \<Longrightarrow>
    authority_step w (w\<lparr>aw_state := transition_drop prior (aw_state w), aw_phase := Idle\<rparr>)"

section \<open>Invariant\<close>

definition authority_inv :: "authority_world \<Rightarrow> bool" where
  "authority_inv w \<longleftrightarrow>
     unat (au_active_leases (aw_state w)) = size (aw_leases w)
     \<and> (au_transitioning (aw_state w) \<longleftrightarrow> aw_phase w \<noteq> Idle)
     \<and> (\<forall>prior. aw_phase w = Holding prior \<longrightarrow> aw_leases w = {#} \<and> prior = au_snapshot (aw_state w))
     \<and> (os_local_only (au_snapshot (aw_state w)) \<longrightarrow> set_mset (aw_leases w) \<subseteq> {None})"

lemma checked_add_lease_Some:
  "checked_add_lease st = Some st' \<longleftrightarrow>
     au_active_leases st \<noteq> - 1 \<and> st' = st\<lparr>au_active_leases := au_active_leases st + 1\<rparr>"
  by (auto simp: checked_add_lease_def)

lemma unat_Suc_lease: "n \<noteq> (- 1 :: u64) \<Longrightarrow> unat (n + 1) = Suc (unat n)"
  by (metis add.commute add.right_inverse add_left_cancel unatSuc)

lemma unat_pred_lease: "n \<noteq> (0 :: u64) \<Longrightarrow> unat (n - 1) = unat n - 1"
  by (rule unat_minus_one)

lemma authority_inv_initial: "authority_inv (initial_world snapshot)"
  by (simp add: authority_inv_def initial_world_def authority_new_def)

lemma authority_inv_step: "authority_step w w' \<Longrightarrow> authority_inv w \<Longrightarrow> authority_inv w'"
proof (induction rule: authority_step.induct)
  case (acquire capability w st lease)
  then show ?case
    by (auto simp: authority_inv_def acquire_def checked_add_lease_Some unat_Suc_lease split: if_splits)
next
  case (cleanup w st lease)
  then show ?case
    by (auto simp: authority_inv_def acquire_local_cleanup_def checked_add_lease_Some unat_Suc_lease split: if_splits)
next
  case (drop_lease lease w)
  then have "au_active_leases (aw_state w) \<noteq> 0" "size (aw_leases w) \<noteq> 0"
    by (auto simp: authority_inv_def)
  with drop_lease show ?case
    by (auto simp: authority_inv_def drop_lease_def unat_pred_lease size_Diff_singleton dest: in_diffD)
next
  case (claim w st)
  then show ?case by (auto simp: authority_inv_def begin_transition_claim_def split: if_splits)
next
  case (hold w prior)
  then show ?case by (auto simp: authority_inv_def begin_transition_return_def split: if_splits)
qed (simp_all add: authority_inv_def transition_publish_def transition_fail_closed_def transition_drop_def)

lemma authority_inv_run: "authority_step\<^sup>*\<^sup>* w w' \<Longrightarrow> authority_inv w \<Longrightarrow> authority_inv w'"
  by (induction rule: rtranclp_induct) (auto intro: authority_inv_step)

section \<open>Draining\<close>

text \<open>While a transition drains, the only steps drop a lease or end the draining.\<close>

lemma draining_step:
  assumes "authority_step w w'" and "authority_inv w" and "aw_phase w = Draining"
  shows "aw_phase w' = Draining \<and> Suc (size (aw_leases w')) = size (aw_leases w)
    \<or> aw_phase w' = Holding (au_snapshot (aw_state w)) \<and> aw_leases w = {#}"
  using assms(1)
proof (cases rule: authority_step.cases)
  case (drop_lease lease)
  then have "Suc (size (aw_leases w - {#lease#})) = size (aw_leases w)"
    by (metis One_nat_def Suc_pred nonempty_has_size size_Diff_singleton empty_iff set_mset_empty)
  then show ?thesis using drop_lease assms(3) by simp
next
  case (hold prior)
  then show ?thesis using assms by (auto simp: authority_inv_def begin_transition_return_def split: if_splits)
qed (use assms(2,3) in \<open>auto simp: authority_inv_def acquire_def acquire_local_cleanup_def begin_transition_claim_def\<close>)

lemma draining_proceeds:
  assumes "authority_inv w" and "aw_phase w = Draining"
  shows "\<exists>w'. authority_step w w'"
proof (cases "aw_leases w = {#}")
  case True
  then have "begin_transition_return (aw_state w) = Some (au_snapshot (aw_state w))"
    using assms(1) by (simp add: authority_inv_def begin_transition_return_def unat_eq_zero)
  then show ?thesis using authority_step.hold [OF assms(2)] by blast
next
  case False
  then obtain lease where "lease \<in># aw_leases w" by blast
  then show ?thesis using authority_step.drop_lease by blast
qed

text \<open>A run of \<open>n\<close> steps that is still draining has dropped \<open>n\<close> leases.\<close>

lemma draining_run:
  assumes "(authority_step ^^ n) w w'" and "authority_inv w" and "aw_phase w = Draining"
    and "n \<le> size (aw_leases w)"
  shows "authority_inv w' \<and> aw_phase w' = Draining \<and> size (aw_leases w') + n = size (aw_leases w)"
  using assms(1,4)
proof (induction n arbitrary: w')
  case 0
  then show ?case using assms by simp
next
  case (Suc n)
  then obtain v where v: "(authority_step ^^ n) w v" "authority_step v w'" by auto
  then have IH: "authority_inv v" "aw_phase v = Draining" "size (aw_leases v) + n = size (aw_leases w)"
    using Suc by auto
  have "aw_leases v \<noteq> {#}" using IH(3) Suc.prems(2) by auto
  then show ?case
    using draining_step [OF v(2) IH(1,2)] authority_inv_step [OF v(2) IH(1)] IH(3) by auto
qed

end
