(* ===== verification/Local_Mode_Command.thy ===== *)
theory Local_Mode_Command
  imports Local_Mode_Store Outbound_Authority
begin

text \<open>
  The command \<open>set_local_only_v1\<close> of \<open>src-tauri/src/lib.rs\<close>, which joins the durable mode and the
  outbound authority: it drains the leases, changes the durable mode and ends the transition with
  what it knows of the outcome. The log event the handler emits is not part of the model.
\<close>

definition set_local_only_response_validate :: "set_local_only_response \<Rightarrow> validation" where
  "set_local_only_response_validate r =
     all_ok [require_schema_v1 (sr_schema_version r),
             ensure (\<not> (sr_revision r = 0 \<or> sr_revision r > max_safe_integer_v1))
               (ValidationError ExpectedLocalOnlyRevision),
             ensure (sr_authority_health r = Persisted) (ValidationError LocalOnlyAuthority)]"

definition desktop_error ::
  "error_code \<Rightarrow> bool \<Rightarrow> user_action_key \<Rightarrow> safe_field option \<Rightarrow> command_error" where
  "desktop_error code retryable user_action field =
     \<lparr>ce_schema_version = schema_version_v1, ce_code = code, ce_retryable = retryable,
      ce_user_action = user_action, ce_field = field\<rparr>"

definition desktop_invalid_request :: "safe_field option \<Rightarrow> command_error" where
  "desktop_invalid_request field = desktop_error InvalidRequest False CorrectRequest field"

definition desktop_worker_error :: "error_code \<Rightarrow> command_error" where
  "desktop_worker_error code = desktop_error code True Retry None"

definition map_authority_error :: "authority_error \<Rightarrow> command_error" where
  "map_authority_error error = desktop_error ProviderUnavailable False NoAction None"

fun map_local_mode_error :: "platform_error \<Rightarrow> command_error" where
  "map_local_mode_error (Conflict _) = desktop_error RequestConflict False StartNewRequest None"
| "map_local_mode_error (InvalidInput _) = desktop_invalid_request None"
| "map_local_mode_error (Corrupt _) = desktop_error DataIntegrity False ReviewStorage None"
| "map_local_mode_error Json = desktop_error DataIntegrity False ReviewStorage None"
| "map_local_mode_error (Io IoPermissionDenied) = desktop_error PermissionDenied False ReviewStorage None"
| "map_local_mode_error (Io _) = desktop_error StorageUnavailable True Retry None"
| "map_local_mode_error Sqlite = desktop_error StorageUnavailable True Retry None"
| "map_local_mode_error _ = desktop_worker_error Internal"

text \<open>How the handler ends the transition it holds; \<open>EndDrop\<close> is the destructor.\<close>

datatype transition_end = EndPublish outbound_snapshot | EndFailClosed | EndDrop

fun end_transition :: "transition_end \<Rightarrow> outbound_snapshot \<Rightarrow> authority_state \<Rightarrow> authority_state" where
  "end_transition (EndPublish snapshot) prior st = transition_publish snapshot st"
| "end_transition EndFailClosed prior st = transition_fail_closed prior st"
| "end_transition EndDrop prior st = transition_drop prior st"

definition snapshot_of_response :: "set_local_only_response \<Rightarrow> outbound_snapshot" where
  "snapshot_of_response r =
     \<lparr>os_local_only = sr_local_only r, os_revision = sr_revision r, os_health = sr_authority_health r\<rparr>"

record mode_outcome =
  mh_end :: transition_end
  mh_cancel_queued :: bool
  mh_result :: "(set_local_only_response, command_error) result"

text \<open>
  \<open>handle_transition\<close> is the handler from the moment \<open>begin_transition\<close> has returned; \<open>mh_cancel_queued\<close>
  tells whether it cancels the queued try-on jobs.
\<close>

definition handle_transition ::
  "mode_codec \<Rightarrow> nat \<Rightarrow> set_io \<Rightarrow> load_io \<Rightarrow> set_local_only_request \<Rightarrow> store_state \<Rightarrow> mode_directory \<Rightarrow>
   store_state \<times> mode_directory \<times> mode_outcome" where
  "handle_transition mc euid io proof_io request state dir =
     (case mode_set mc euid io request state dir of
        (state, dir, Ok response) \<Rightarrow>
          (state, dir, \<lparr>mh_end = EndPublish (snapshot_of_response response),
             mh_cancel_queued = sr_local_only response,
             mh_result = (case set_local_only_response_validate response of
                Ok _ \<Rightarrow> Ok response | Err _ \<Rightarrow> Err (desktop_worker_error Internal))\<rparr>)
      | (state, dir, Err PublicationOutcomeUnknown) \<Rightarrow>
          (case load_acknowledged_response mc euid proof_io request state dir of
             (state, Some proven) \<Rightarrow>
               (state, dir, \<lparr>mh_end = EndPublish (snapshot_of_response proven),
                  mh_cancel_queued = sr_local_only proven,
                  mh_result = Err (desktop_error StorageUnavailable True Retry None)\<rparr>)
           | (state, None) \<Rightarrow>
               (state, dir, \<lparr>mh_end = EndFailClosed, mh_cancel_queued = True,
                  mh_result = Err (desktop_error StorageUnavailable True Retry None)\<rparr>))
      | (state, dir, Err (Platform e)) \<Rightarrow>
          (state, dir, \<lparr>mh_end = EndDrop, mh_cancel_queued = False,
             mh_result = Err (map_local_mode_error e)\<rparr>))"

text \<open>
  The whole command when no other thread runs: with leases alive \<open>begin_transition\<close> does not return,
  which is \<open>None\<close>.
\<close>

definition handle_set_local_only ::
  "mode_codec \<Rightarrow> nat \<Rightarrow> set_io \<Rightarrow> load_io \<Rightarrow> set_local_only_request \<Rightarrow>
   authority_state \<Rightarrow> store_state \<Rightarrow> mode_directory \<Rightarrow>
   (authority_state \<times> store_state \<times> mode_directory \<times>
    (set_local_only_response, command_error) result) option" where
  "handle_set_local_only mc euid io proof_io request st state dir =
     (case set_local_only_validate request of
        Err e \<Rightarrow> Some (st, state, dir, Err (desktop_invalid_request (Some (ve_field e))))
      | Ok _ \<Rightarrow>
          (case begin_transition_claim st of
             Err e \<Rightarrow> Some (st, state, dir, Err (map_authority_error e))
           | Ok st \<Rightarrow>
               (case begin_transition_return st of
                  None \<Rightarrow> None
                | Some prior \<Rightarrow>
                    (case handle_transition mc euid io proof_io request state dir of
                       (state, dir, outcome) \<Rightarrow>
                         Some (end_transition (mh_end outcome) prior st, state, dir, mh_result outcome)))))"

section \<open>The application\<close>

text \<open>
  The application is the authority with its threads, the state of the mode store and the directory. A
  transition ends in the handler; a restart, after a crash or not, loads the mode anew.
\<close>

definition snapshot_of_mode :: "mode_snapshot \<Rightarrow> outbound_snapshot" where
  "snapshot_of_mode m =
     \<lparr>os_local_only = mo_local_only m, os_revision = mo_revision m, os_health = mo_authority_health m\<rparr>"

definition crash :: "mode_directory \<Rightarrow> mode_directory \<Rightarrow> bool" where
  "crash dir dir' \<longleftrightarrow>
     (\<forall>leaf. md_leaves dir' leaf \<in> insert (md_leaves dir leaf) (set (md_durable dir leaf))
        \<and> md_durable dir' leaf = [md_leaves dir' leaf])"

record application =
  ap_world :: authority_world
  ap_store :: store_state
  ap_directory :: mode_directory

inductive app_step :: "mode_codec \<Rightarrow> nat \<Rightarrow> application \<Rightarrow> application \<Rightarrow> bool" for mc euid where
  threads: "authority_step (ap_world a) w \<Longrightarrow> \<nexists>prior. aw_phase (ap_world a) = Holding prior \<Longrightarrow>
    app_step mc euid a (a\<lparr>ap_world := w\<rparr>)"
| handler: "aw_phase (ap_world a) = Holding prior \<Longrightarrow>
    handle_transition mc euid io proof_io request (ap_store a) (ap_directory a) = (state, dir, outcome) \<Longrightarrow>
    app_step mc euid a
      \<lparr>ap_world = (ap_world a)\<lparr>aw_state := end_transition (mh_end outcome) prior (aw_state (ap_world a)),
                              aw_phase := Idle\<rparr>,
       ap_store = state, ap_directory = dir\<rparr>"
| restart: "dir = ap_directory a \<or> crash (ap_directory a) dir \<Longrightarrow>
    app_step mc euid a
      \<lparr>ap_world = initial_world (snapshot_of_mode (mode_load mc euid io dir)),
       ap_store = None, ap_directory = dir\<rparr>"

definition app_start :: "mode_codec \<Rightarrow> nat \<Rightarrow> load_io \<Rightarrow> mode_directory \<Rightarrow> application" where
  "app_start mc euid io dir =
     \<lparr>ap_world = initial_world (snapshot_of_mode (mode_load mc euid io dir)),
      ap_store = None, ap_directory = dir\<rparr>"

end
