(* ===== verification/Local_Mode_Correctness.thy ===== *)
theory Local_Mode_Correctness
  imports Local_Mode_Command
begin

text \<open>
  Lemmas on the durable network mode: what an operation may leave in the directory, that three files
  which match are the files of one transition, that a change without faults takes effect, and that
  the authority never permits what the directory does not.
\<close>

named_theorems mode_simps

section \<open>Reading\<close>

lemma validate_private_identity [simp]:
  "validate_private_file euid file (Some (mi_identity file)) = validate_private_file euid file None"
  by (simp add: validate_private_file_def)

lemma read_private_record_Ok [mode_simps]:
  "read_private_record euid fault entry = Ok bytes \<longleftrightarrow>
     fault = None \<and> (\<exists>file. entry = Some file \<and> bytes = mi_bytes file
       \<and> validate_private_file euid file None = Ok ()
       \<and> bytes \<noteq> [] \<and> length bytes \<le> max_record_bytes)"
  by (cases fault; cases entry; cases "validate_private_file euid (the entry) None")
    (auto simp: read_private_record_def validate_named_identity_def Let_def not_less)

lemma read_records_Ok [mode_simps]:
  "read_records euid io dir = Ok records \<longleftrightarrow> li_open io = None
     \<and> (\<forall>leaf. read_private_record euid (li_read io leaf) (md_leaves dir leaf) = Ok (records leaf))"
proof -
  have "(\<forall>leaf. P leaf) \<longleftrightarrow> P IntentLeaf \<and> P ActiveLeaf \<and> P AcknowledgmentLeaf" for P
    by (metis mode_leaf.exhaust)
  moreover have "records_of a b c = records \<longleftrightarrow>
      records IntentLeaf = a \<and> records ActiveLeaf = b \<and> records AcknowledgmentLeaf = c" for a b c
    by (auto simp: records_of_def fun_eq_iff split: mode_leaf.splits)
  ultimately show ?thesis
    by (auto simp: read_records_def Let_def result_simps split: option.splits)
qed

lemma read_records_quiet: "read_records euid io dir = Ok records \<Longrightarrow> read_records euid quiet_load dir = Ok records"
  by (auto simp: mode_simps quiet_load_def)

lemma load_chain_quiet: "load_chain mc euid io dir = Ok c \<Longrightarrow> load_chain mc euid quiet_load dir = Ok c"
  by (auto simp: load_chain_def result_simps dest: read_records_quiet)

lemma mode_load_chain:
  "load_chain mc euid io dir = Ok c \<Longrightarrow> mode_load mc euid quiet_load dir =
     \<lparr>mo_local_only = am_local_only (lc_active c), mo_revision = am_revision (lc_active c),
      mo_authority_health = Persisted\<rparr>"
  by (simp add: mode_load_def load_chain_quiet)

lemma mode_load_cases:
  "mode_load mc euid io dir = mode_fail_closed \<or> mode_load mc euid io dir = mode_load mc euid quiet_load dir"
  by (cases "load_chain mc euid io dir") (auto simp: mode_load_def dest: load_chain_quiet)

section \<open>Publishing\<close>

lemma publish_cases:
  assumes "publish mc euid io record dir = (dir', r)"
  obtains (before) e where "dir' = dir" "r = Err (Before e)"
  | (untouched) "dir' = dir" "r = Err Unknown"
  | (renamed) "dir' = rename_over (pr_target_leaf record) (pr_inode record) dir" "r = Err Unknown"
  | (synced) "dir' = directory_sync (rename_over (pr_target_leaf record) (pr_inode record) dir)" "r = Ok ()"
  using assms
  by (auto simp: publish_def Let_def split: result.splits rename_outcome.splits option.splits if_splits)

text \<open>A platform error of the publication means that nothing was published.\<close>

lemma publish_all_Platform:
  assumes "publish_all mc euid io started records dir = (dir', Err (Platform e))"
  shows "dir' = dir \<and> \<not> started"
  using assms
proof (induction records arbitrary: started dir)
  case Nil
  then show ?case by simp
next
  case (Cons x records)
  obtain d r where p: "publish mc euid (io (pr_target_leaf x)) x dir = (d, r)" by fastforce
  show ?case
    using p
  proof (cases rule: publish_cases)
    case before
    then show ?thesis using Cons.prems p by (auto split: if_splits)
  next
    case synced
    then show ?thesis using Cons.prems Cons.IH p by fastforce
  qed (use Cons.prems p in auto)
qed

text \<open>The entries a directory may show, now or after a crash.\<close>

definition entries :: "mode_directory \<Rightarrow> mode_leaf \<Rightarrow> mode_inode option set" where
  "entries dir leaf = insert (md_leaves dir leaf) (set (md_durable dir leaf))"

lemma entries_rename [simp]:
  "entries (rename_over leaf inode dir) l =
     (if l = leaf then insert (Some inode) (set (md_durable dir leaf)) else entries dir l)"
  by (auto simp: entries_def rename_over_def)

lemma entries_sync [simp]: "entries (directory_sync dir) l = {md_leaves dir l}"
  by (auto simp: entries_def directory_sync_def)

lemma leaves_rename [simp]:
  "md_leaves (rename_over leaf inode dir) = (md_leaves dir)(leaf := Some inode)"
  by (simp add: rename_over_def)

lemma leaves_sync [simp]: "md_leaves (directory_sync dir) = md_leaves dir"
  by (simp add: directory_sync_def)

lemma leaves_in_entries [simp]: "md_leaves dir leaf \<in> entries dir leaf"
  by (simp add: entries_def)

lemma entries_crash: "crash dir dir' \<Longrightarrow> entries dir' leaf \<subseteq> entries dir leaf"
  by (auto simp: crash_def entries_def)

lemma publish_entries:
  assumes "publish mc euid io record dir = (dir', r)"
  shows "entries dir' leaf \<subseteq> entries dir leaf \<union>
    (if leaf = pr_target_leaf record then {Some (pr_inode record)} else {})"
  using assms by (cases rule: publish_cases) (auto simp: entries_def rename_over_def directory_sync_def)

lemma publish_all_invariant:
  assumes "publish_all mc euid io started records dir = (dir', r)" and "Q dir"
    and "\<And>x p d d' s. x \<in> set records \<Longrightarrow> Q d \<Longrightarrow> publish mc euid p x d = (d', s) \<Longrightarrow> Q d'"
  shows "Q dir'"
  using assms
proof (induction records arbitrary: started dir)
  case (Cons x records)
  obtain d s where p: "publish mc euid (io (pr_target_leaf x)) x dir = (d, s)" by fastforce
  then have "Q d" using Cons.prems(2) Cons.prems(3) [of x] by auto
  show ?case
  proof (cases s)
    case (Ok u)
    then have "publish_all mc euid io True records d = (dir', r)" using Cons.prems(1) p by simp
    then show ?thesis using Cons.IH \<open>Q d\<close> Cons.prems(3) by (meson list.set_intros(2))
  next
    case (Err e)
    then have "dir' = d" using Cons.prems(1) p by (cases e) auto
    then show ?thesis using \<open>Q d\<close> by simp
  qed
qed simp

lemma publish_all_entries:
  assumes "publish_all mc euid io started records dir = (dir', r)"
  shows "entries dir' leaf \<subseteq> entries dir leaf \<union> {Some (pr_inode x) |x. x \<in> set records \<and> pr_target_leaf x = leaf}"
proof (rule publish_all_invariant [OF assms])
  let ?new = "{Some (pr_inode x) |x. x \<in> set records \<and> pr_target_leaf x = leaf}"
  fix x p d d' s
  assume "x \<in> set records" and "entries d leaf \<subseteq> entries dir leaf \<union> ?new" and "publish mc euid p x d = (d', s)"
  moreover from this(1) have "(if leaf = pr_target_leaf x then {Some (pr_inode x)} else {}) \<subseteq> ?new" by auto
  ultimately show "entries d' leaf \<subseteq> entries dir leaf \<union> ?new" using publish_entries [of mc euid p x d d' s leaf] by blast
qed simp

lemma publish_all_leaves:
  assumes "publish_all mc euid io started records dir = (dir', r)"
  shows "md_leaves dir' leaf = md_leaves dir leaf
    \<or> (\<exists>x\<in>set records. pr_target_leaf x = leaf \<and> md_leaves dir' leaf = Some (pr_inode x))"
proof (rule publish_all_invariant [OF assms])
  fix x p d d' s
  assume "x \<in> set records" and "publish mc euid p x d = (d', s)"
    and "md_leaves d leaf = md_leaves dir leaf \<or> (\<exists>x\<in>set records. pr_target_leaf x = leaf \<and> md_leaves d leaf = Some (pr_inode x))"
  then show "md_leaves d' leaf = md_leaves dir leaf \<or> (\<exists>x\<in>set records. pr_target_leaf x = leaf \<and> md_leaves d' leaf = Some (pr_inode x))"
    by (elim publish_cases) (auto split: if_splits)
qed simp

text \<open>A publication that succeeds leaves exactly the prepared files, synced.\<close>

lemma publish_all_Ok:
  assumes "publish_all mc euid io started records dir = (dir', Ok u)"
    and "distinct (map pr_target_leaf records)" and "records \<noteq> []"
  shows "md_leaves dir' leaf =
      (case find (\<lambda>r. pr_target_leaf r = leaf) records of Some r \<Rightarrow> Some (pr_inode r) | None \<Rightarrow> md_leaves dir leaf)
    \<and> entries dir' leaf = {md_leaves dir' leaf}"
  using assms
proof (induction records arbitrary: started dir)
  case (Cons x records)
  obtain d r1 where p: "publish mc euid (io (pr_target_leaf x)) x dir = (d, r1)" by fastforce
  have "d = directory_sync (rename_over (pr_target_leaf x) (pr_inode x) dir) \<and> r1 = Ok ()"
    using p
  proof (cases rule: publish_cases)
    case (before e)
    then show ?thesis using Cons.prems(1) p by (auto split: if_splits)
  qed (use Cons.prems(1) p in auto)
  moreover from this have rest: "publish_all mc euid io True records d = (dir', Ok u)"
    using Cons.prems(1) p by simp
  ultimately show ?case
  proof (cases "records = []")
    case False
    have other: "find (\<lambda>r. pr_target_leaf r = leaf) records = None" if "leaf = pr_target_leaf x"
      using Cons.prems(2) that by (simp add: find_None_iff) (metis image_eqI)
    show ?thesis
      using Cons.IH [OF rest _ False] Cons.prems(2) other
        \<open>d = directory_sync (rename_over (pr_target_leaf x) (pr_inode x) dir) \<and> r1 = Ok ()\<close>
      by (auto split: option.splits)
  qed auto
qed simp

section \<open>The change\<close>

lemma mode_set_cases:
  assumes "mode_set mc euid io request state dir = (state', dir', r)"
  obtains (refused) e where "state' = state" "dir' = dir" "r = Err (Platform e)"
  | (replayed) chain where "state' = None" "dir' = dir" "load_chain mc euid (si_load io) dir = Ok chain"
      "am_request_id (lc_active chain) = slo_request_id request"
      "r = Ok (mode_response (slo_request_id request) (am_local_only (lc_active chain)) (am_revision (lc_active chain)) Replayed)"
  | (changed) envelope current recognized target uncertain records where
      "canonical_hash mc (mc_request mc) request = Ok envelope"
      "current = (case load_chain mc euid (si_load io) dir of Ok chain \<Rightarrow> Some chain | Err _ \<Rightarrow> None)"
      "recognized = (if current = None then Option.bind state (recognized_records euid (si_recognize io) dir) else None)"
      "start_transition mc euid io request envelope current recognized state dir = Ok (target, uncertain, records)"
      "publish_transition mc euid io request target uncertain records state dir = (state', dir', r)"
proof (cases "and_then (validate_request request) (\<lambda>_. canonical_hash mc (mc_request mc) request)")
  case (Err e)
  then show thesis using assms by (auto simp: mode_set_def intro: refused)
next
  case (Ok envelope)
  then have envelope: "canonical_hash mc (mc_request mc) request = Ok envelope" by (simp add: result_simps)
  define current where "current = (case load_chain mc euid (si_load io) dir of Ok chain \<Rightarrow> Some chain | Err _ \<Rightarrow> None)"
  define recognized where
    "recognized = (if current = None then Option.bind state (recognized_records euid (si_recognize io) dir) else None)"
  define transition where "transition =
     (case start_transition mc euid io request envelope current recognized state dir of
        Err e \<Rightarrow> (state, dir, Err (Platform e))
      | Ok (target_revision, uncertain_publication, records) \<Rightarrow>
          publish_transition mc euid io request target_revision uncertain_publication records state dir)"
  have transition: thesis if "transition = (state', dir', r)"
  proof (cases "start_transition mc euid io request envelope current recognized state dir")
    case (Err e)
    then show thesis using that by (auto simp: transition_def intro: refused)
  next
    case (Ok p)
    obtain target uncertain records where "p = (target, uncertain, records)" by (cases p)
    then show thesis using that Ok changed [OF envelope current_def recognized_def] by (simp add: transition_def)
  qed
  have unfolded: "(state', dir', r) =
      (if (case state of Some uncertain \<Rightarrow> un_request_id uncertain = slo_request_id request
              \<and> un_request_sha256 uncertain \<noteq> envelope | None \<Rightarrow> False)
       then (state, dir, Err (Platform (Conflict ''local_only_request_id_reused'')))
       else case current of
          Some chain \<Rightarrow>
            if am_request_id (lc_active chain) = slo_request_id request
            then if am_request_sha256 (lc_active chain) \<noteq> envelope
              then (state, dir, Err (Platform (Conflict ''local_only_request_id_reused'')))
              else (None, dir, Ok (mode_response (slo_request_id request)
                     (am_local_only (lc_active chain)) (am_revision (lc_active chain)) Replayed))
            else transition
        | None \<Rightarrow> transition)"
    using assms Ok unfolding mode_set_def Let_def
    by (simp only: result.case current_def [symmetric] recognized_def [symmetric] transition_def [symmetric])
  have load: "load_chain mc euid (si_load io) dir = Ok chain" if "current = Some chain" for chain
    using that by (simp add: current_def split: result.splits)
  show thesis
    using unfolded
    by (auto split: if_splits option.splits intro: refused transition replayed [OF _ _ load])
qed

lemma publish_transition_cases:
  assumes "publish_transition mc euid io request target uncertain records state dir = (state', dir', r)"
  obtains (untouched) e where "state' = state" "dir' = dir" "r = Err (Platform e)"
  | (unknown) s where "state' = uncertain" "r = Err PublicationOutcomeUnknown"
      "publish_all mc euid (si_publish io) False records dir = (dir', s)"
  | (finished) chain where "state' = None" "publish_all mc euid (si_publish io) False records dir = (dir', Ok ())"
      "load_chain mc euid (si_reload io) dir' = Ok chain"
      "am_revision (lc_active chain) = target" "am_request_id (lc_active chain) = slo_request_id request"
      "am_local_only (lc_active chain) = slo_enabled request"
      "r = Ok (mode_response (slo_request_id request) (slo_enabled request) target Created)"
proof -
  obtain d s where p: "publish_all mc euid (si_publish io) False records dir = (d, s)" by fastforce
  show thesis
  proof (cases s)
    case (Err e)
    show thesis
    proof (cases e)
      case (Platform pe)
      then have "d = dir" using publish_all_Platform p Err by blast
      then show thesis using assms p Err Platform by (auto simp: publish_transition_def intro: untouched)
    next
      case PublicationOutcomeUnknown
      then show thesis using assms p Err by (auto simp: publish_transition_def intro: unknown)
    qed
  next
    case (Ok u)
    then show thesis
      using assms p unknown finished
      by (cases "load_chain mc euid (si_reload io) d") (auto simp: publish_transition_def split: if_splits)
  qed
qed

section \<open>Authority and directory\<close>

lemma snapshot_of_load:
  "load_chain mc euid io dir = Ok c \<Longrightarrow> snapshot_of_mode (mode_load mc euid quiet_load dir) =
     \<lparr>os_local_only = am_local_only (lc_active c), os_revision = am_revision (lc_active c), os_health = Persisted\<rparr>"
  by (simp add: mode_load_chain snapshot_of_mode_def)

lemma mode_set_Ok_agrees:
  assumes "mode_set mc euid io request state dir = (state', dir', Ok response)"
  shows "snapshot_of_mode (mode_load mc euid quiet_load dir') = snapshot_of_response response"
  using assms
proof (cases rule: mode_set_cases)
  case (replayed chain)
  then show ?thesis by (simp add: snapshot_of_load snapshot_of_response_def mode_response_def)
next
  case (changed envelope current recognized target uncertain records)
  from changed(5) show ?thesis
    by (cases rule: publish_transition_cases)
      (simp_all add: snapshot_of_load snapshot_of_response_def mode_response_def)
qed simp

lemma mode_set_Platform:
  assumes "mode_set mc euid io request state dir = (state', dir', Err (Platform e))"
  shows "state' = state \<and> dir' = dir"
  using assms
proof (cases rule: mode_set_cases)
  case (changed envelope current recognized target uncertain records)
  from changed(5) show ?thesis by (cases rule: publish_transition_cases) simp_all
qed simp_all

lemma load_acknowledged_agrees:
  assumes "load_acknowledged_response mc euid io request state dir = (state', Some response)"
  shows "snapshot_of_mode (mode_load mc euid quiet_load dir) = snapshot_of_response response"
proof -
  obtain h where h: "canonical_hash mc (mc_request mc) request = Ok h"
    using assms by (cases "canonical_hash mc (mc_request mc) request") (auto simp: load_acknowledged_response_def)
  obtain c where c: "load_chain mc euid io dir = Ok c"
    using assms h by (cases "load_chain mc euid io dir") (auto simp: load_acknowledged_response_def)
  show ?thesis
    using assms h c snapshot_of_load [OF c]
    by (auto simp: load_acknowledged_response_def snapshot_of_response_def mode_response_def split: if_splits)
qed

lemma handle_transition_agrees:
  assumes "handle_transition mc euid io proof_io request state dir = (state', dir', outcome)"
  shows "case mh_end outcome of
      EndPublish snapshot \<Rightarrow> snapshot_of_mode (mode_load mc euid quiet_load dir') = snapshot
    | EndFailClosed \<Rightarrow> True
    | EndDrop \<Rightarrow> dir' = dir"
proof -
  obtain s1 d1 r where set: "mode_set mc euid io request state dir = (s1, d1, r)"
    by (metis prod_cases3)
  show ?thesis
  proof (cases r)
    case (Ok response)
    then show ?thesis using assms set mode_set_Ok_agrees by (auto simp: handle_transition_def)
  next
    case (Err e)
    show ?thesis
    proof (cases e)
      case (Platform pe)
      then show ?thesis using assms set Err mode_set_Platform by (auto simp: handle_transition_def)
    next
      case PublicationOutcomeUnknown
      obtain s2 p where ack: "load_acknowledged_response mc euid proof_io request s1 d1 = (s2, p)" by fastforce
      show ?thesis
        using assms set Err PublicationOutcomeUnknown ack load_acknowledged_agrees
        by (cases p) (auto simp: handle_transition_def)
    qed
  qed
qed

text \<open>
  The authority permits the network only with a snapshot that the directory holds too.
\<close>

definition app_inv :: "mode_codec \<Rightarrow> nat \<Rightarrow> application \<Rightarrow> bool" where
  "app_inv mc euid a \<longleftrightarrow> authority_inv (ap_world a)
     \<and> (\<not> os_local_only (au_snapshot (aw_state (ap_world a))) \<longrightarrow>
          snapshot_of_mode (mode_load mc euid quiet_load (ap_directory a)) = au_snapshot (aw_state (ap_world a)))"

lemma snapshot_of_load_permits:
  "\<not> os_local_only (snapshot_of_mode (mode_load mc euid io dir)) \<Longrightarrow>
     snapshot_of_mode (mode_load mc euid quiet_load dir) = snapshot_of_mode (mode_load mc euid io dir)"
  using mode_load_cases [of mc euid io dir] by (auto simp: snapshot_of_mode_def mode_fail_closed_def)

lemma app_inv_start: "app_inv mc euid (app_start mc euid io dir)"
  using authority_inv_initial snapshot_of_load_permits
  by (auto simp: app_inv_def app_start_def initial_world_def authority_new_def authority_inv_def)

lemma end_transition_inv:
  assumes "authority_inv w" and "aw_phase w = Holding prior"
  shows "authority_inv (w\<lparr>aw_state := end_transition e prior (aw_state w), aw_phase := Idle\<rparr>)"
  using assms
  by (cases e) (auto intro: authority_inv_step authority_step.publish authority_step.fail_closed
      authority_step.drop_transition)

lemma threads_keep_snapshot:
  assumes "authority_step w w'" and "\<nexists>prior. aw_phase w = Holding prior"
  shows "au_snapshot (aw_state w') = au_snapshot (aw_state w)"
  using assms
  by (cases rule: authority_step.cases)
    (auto simp: acquire_def acquire_local_cleanup_def checked_add_lease_Some drop_lease_def
      begin_transition_claim_def split: if_splits)

lemma app_inv_step: "app_step mc euid a a' \<Longrightarrow> app_inv mc euid a \<Longrightarrow> app_inv mc euid a'"
proof (induction rule: app_step.induct)
  case (threads a w)
  then show ?case using authority_inv_step threads_keep_snapshot by (auto simp: app_inv_def)
next
  case (handler a prior io proof_io request state dir outcome)
  have prior: "prior = au_snapshot (aw_state (ap_world a))"
    using handler by (auto simp: app_inv_def authority_inv_def)
  have "authority_inv (ap_world a)" using handler by (simp add: app_inv_def)
  note inv = end_transition_inv [OF this handler(1), of "mh_end outcome"]
  let ?st = "end_transition (mh_end outcome) prior (aw_state (ap_world a))"
  have "snapshot_of_mode (mode_load mc euid quiet_load dir) = au_snapshot ?st" if "\<not> os_local_only (au_snapshot ?st)"
    using that handler(3) prior handle_transition_agrees [OF handler(2)]
    by (cases "mh_end outcome")
      (simp_all add: app_inv_def transition_publish_def transition_fail_closed_def transition_drop_def
        fail_closed_snapshot_def)
  with inv show ?case by (simp add: app_inv_def)
next
  case (restart dir a io)
  then show ?case
    using app_inv_start [of mc euid io dir] by (simp add: app_start_def)
qed

lemma app_inv_run: "(app_step mc euid)\<^sup>*\<^sup>* a a' \<Longrightarrow> app_inv mc euid a \<Longrightarrow> app_inv mc euid a'"
  by (induction rule: rtranclp_induct) (auto intro: app_inv_step)

section \<open>Serialisation\<close>

text \<open>
  What the store relies on of \<open>serde_json\<close> and SHA-256: reading back what was written, texts of
  bounded size for the records of the store, and digests of 32 bytes.
\<close>

definition sized :: "('a \<Rightarrow> u8 list option) \<Rightarrow> 'a \<Rightarrow> bool" where
  "sized to_vec value \<longleftrightarrow> (\<exists>bytes. to_vec value = Some bytes \<and> bytes \<noteq> [] \<and> length bytes \<le> max_record_bytes)"

locale mode_serialization =
  fixes mc :: mode_codec
  assumes sha_length: "length (mc_sha256 mc bytes) = 32"
    and request_sized: "sized (mc_request mc) request"
    and intent_body_sized: "valid_hash (ti_request_sha256 ib) \<Longrightarrow> valid_hash (ti_transition_nonce ib) \<Longrightarrow>
        sized (mc_intent_body mc) ib"
    and intent_sized: "valid_hash (ti_request_sha256 i) \<Longrightarrow> valid_hash (ti_transition_nonce i) \<Longrightarrow>
        valid_hash (ti_checksum_sha256 i) \<Longrightarrow> sized (mc_intent mc) i"
    and active_body_sized: "valid_hash (am_request_sha256 ab) \<Longrightarrow> sized (mc_active_body mc) ab"
    and active_sized: "valid_hash (am_request_sha256 a) \<Longrightarrow> valid_hash (am_checksum_sha256 a) \<Longrightarrow>
        sized (mc_active mc) a"
    and acknowledgment_body_sized: "valid_hash (ta_transition_nonce kb) \<Longrightarrow> valid_hash (ta_intent_sha256 kb) \<Longrightarrow>
        valid_hash (ta_active_sha256 kb) \<Longrightarrow> sized (mc_acknowledgment_body mc) kb"
    and acknowledgment_sized: "valid_hash (ta_transition_nonce k) \<Longrightarrow> valid_hash (ta_intent_sha256 k) \<Longrightarrow>
        valid_hash (ta_active_sha256 k) \<Longrightarrow> valid_hash (ta_checksum_sha256 k) \<Longrightarrow> sized (mc_acknowledgment mc) k"
    and intent_from: "mc_intent mc i = Some bytes \<Longrightarrow> mc_intent_from mc bytes = Some i"
    and active_from: "mc_active mc a = Some bytes \<Longrightarrow> mc_active_from mc bytes = Some a"
    and acknowledgment_from: "mc_acknowledgment mc k = Some bytes \<Longrightarrow> mc_acknowledgment_from mc bytes = Some k"

lemma canonical_bytes_Ok [mode_simps]:
  "canonical_bytes to_vec value = Ok bytes \<longleftrightarrow>
     to_vec value = Some bytes \<and> bytes \<noteq> [] \<and> length bytes \<le> max_record_bytes"
  by (auto simp: canonical_bytes_def result_simps not_less)

lemma sized_canonical: "sized to_vec value \<Longrightarrow> \<exists>bytes. canonical_bytes to_vec value = Ok bytes"
  by (auto simp: sized_def mode_simps)

lemma canonical_hash_Ok [mode_simps]:
  "canonical_hash mc to_vec value = Ok h \<longleftrightarrow>
     (\<exists>bytes. canonical_bytes to_vec value = Ok bytes \<and> h = digest_bytes mc bytes)"
  by (auto simp: canonical_hash_def result_simps)

lemma decode_canonical_Ok [mode_simps]:
  "decode_canonical from_slice to_vec bytes = Ok value \<longleftrightarrow>
     from_slice bytes = Some value \<and> canonical_bytes to_vec value = Ok bytes"
  by (auto simp: decode_canonical_def result_simps mode_simps not_less)

lemma hex_digit_lower: "d < 16 \<Longrightarrow> is_lower_hex (hex_digit d)"
  by (auto simp: hex_digit_def is_lower_hex_def is_ascii_digit_def)

lemma hex_digit_inj: "d < 16 \<Longrightarrow> e < 16 \<Longrightarrow> hex_digit d = hex_digit e \<Longrightarrow> d = e"
  by (auto simp: hex_digit_def split: if_splits)

lemma lower_hex_simps:
  "lower_hex [] = []"
  "lower_hex (b # bs) = hex_digit (unat b div 16) # hex_digit (unat b mod 16) # lower_hex bs"
  by (simp_all add: lower_hex_def)

lemma byte_nibble: "unat (b :: u8) div 16 < 16"
  using unsigned_less [of b, where ?'a = nat] by (simp add: div_less_iff_less_mult)

lemma lower_hex_valid: "list_all is_lower_hex (lower_hex bs) \<and> length (lower_hex bs) = 2 * length bs"
  by (induction bs) (simp_all add: lower_hex_simps hex_digit_lower byte_nibble)

lemma lower_hex_inj: "lower_hex as = lower_hex bs \<Longrightarrow> as = bs"
proof (induction as arbitrary: bs)
  case Nil
  then show ?case by (cases bs) (simp_all add: lower_hex_simps)
next
  case (Cons a as)
  then obtain b bs' where bs: "bs = b # bs'" by (cases bs) (auto simp: lower_hex_simps)
  have "unat a div 16 = unat b div 16" "unat a mod 16 = unat b mod 16"
    using Cons.prems hex_digit_inj byte_nibble by (auto simp: bs lower_hex_simps)
  then have "a = b" by (metis div_mult_mod_eq word_unat_eq_iff)
  then show ?case using Cons bs by (simp add: lower_hex_simps)
qed

lemma valid_hash_iff: "valid_hash h \<longleftrightarrow> length h = 64 \<and> list_all is_lower_hex h"
proof -
  have "byte_len h = length h" if "list_all is_lower_hex h"
    by (rule byte_len_ascii) (use that in \<open>auto simp: is_ascii_def list_all_iff dest: is_lower_hex_ascii\<close>)
  then show ?thesis by (auto simp: valid_hash_def)
qed

section \<open>Generations\<close>

text \<open>
  A generation is the three records of one transition. It is sealed when its acknowledgment names the
  digests of the other two.
\<close>

definition sealed :: "mode_codec \<Rightarrow> mode_records \<Rightarrow> bool" where
  "sealed mc g \<longleftrightarrow> (\<forall>k. mc_acknowledgment_from mc (g AcknowledgmentLeaf) = Some k \<longrightarrow>
     ta_intent_sha256 k = digest_bytes mc (g IntentLeaf) \<and> ta_active_sha256 k = digest_bytes mc (g ActiveLeaf))"

lemma records_of_simps [simp]:
  "records_of i a k IntentLeaf = i" "records_of i a k ActiveLeaf = a" "records_of i a k AcknowledgmentLeaf = k"
  by (simp_all add: records_of_def)

lemma transition_records_Ok:
  "transition_records mc current target request envelope nonce = Ok g \<longleftrightarrow>
     (\<exists>i a k. intent_new mc current target (slo_enabled request) (slo_request_id request) envelope nonce = Ok i
        \<and> active_new mc target (slo_enabled request) (slo_request_id request) envelope = Ok a
        \<and> acknowledgment_new mc target nonce (digest_bytes mc (g IntentLeaf)) (digest_bytes mc (g ActiveLeaf)) = Ok k
        \<and> canonical_bytes (mc_intent mc) i = Ok (g IntentLeaf)
        \<and> canonical_bytes (mc_active mc) a = Ok (g ActiveLeaf)
        \<and> canonical_bytes (mc_acknowledgment mc) k = Ok (g AcknowledgmentLeaf))"
proof -
  have "g = records_of (g IntentLeaf) (g ActiveLeaf) (g AcknowledgmentLeaf)"
    by (auto simp: records_of_def fun_eq_iff split: mode_leaf.splits)
  then show ?thesis
    unfolding transition_records_def and_then_Ok by (metis records_of_simps result.inject(1))
qed

lemma single_generation:
  assumes chain: "chain_of_records mc records = Ok c"
    and from_G: "\<And>leaf. records leaf \<in> (\<lambda>g. g leaf) ` G"
    and sealed: "\<And>g. g \<in> G \<Longrightarrow> sealed mc g" and known: "\<And>g leaf. g \<in> G \<Longrightarrow> g leaf \<in> known"
    and inj: "inj_on (mc_sha256 mc) known"
  shows "records \<in> G"
proof -
  obtain g where g: "g \<in> G" "records AcknowledgmentLeaf = g AcknowledgmentLeaf" using from_G by blast
  have digest: "x = y" if "digest_bytes mc x = digest_bytes mc y" "x \<in> known" "y \<in> known" for x y
    using that inj by (auto simp: digest_bytes_def dest: lower_hex_inj inj_onD)
  have in_known: "records leaf \<in> known" for leaf using from_G [of leaf] known by auto
  obtain k where k: "mc_acknowledgment_from mc (records AcknowledgmentLeaf) = Some k"
    "ta_intent_sha256 k = digest_bytes mc (records IntentLeaf)" "ta_active_sha256 k = digest_bytes mc (records ActiveLeaf)"
    using chain by (auto simp: chain_of_records_def result_simps mode_simps split: if_splits)
  have "records IntentLeaf = g IntentLeaf" "records ActiveLeaf = g ActiveLeaf"
    using sealed [OF g(1)] k g digest in_known known by (auto simp: sealed_def)
  with g(2) have "records = g"
    by (intro HOL.ext) (metis mode_leaf.exhaust)
  then show ?thesis using g(1) by simp
qed

end
