(* ===== verification/Local_Mode_Repair.thy ===== *)
theory Local_Mode_Repair
  imports Local_Mode_Durability
begin

text \<open>
  Liveness of the durable mode: a change under which no system call fails takes effect, whatever an
  earlier change with an unknown outcome has left behind.
\<close>

definition quiet_publish :: publish_io where
  "quiet_publish = \<lparr>pi_stat = None, pi_rename = Renamed, pi_verify = None, pi_sync = None\<rparr>"

definition quiet_set :: "rstr \<Rightarrow> (mode_leaf \<Rightarrow> nat \<times> nat) \<Rightarrow> set_io" where
  "quiet_set nonce identity =
     \<lparr>si_load = quiet_load, si_recognize = quiet_load, si_nonce = Ok nonce, si_open = None,
      si_create = (\<lambda>leaf. Ok (identity leaf)), si_target = (\<lambda>_. None),
      si_publish = (\<lambda>_. quiet_publish), si_reload = quiet_load\<rparr>"

text \<open>The three leaves, where they exist, are private files.\<close>

definition replaceable :: "nat \<Rightarrow> mode_directory \<Rightarrow> bool" where
  "replaceable euid dir \<longleftrightarrow>
     (\<forall>leaf f. md_leaves dir leaf = Some f \<longrightarrow> validate_private_file euid f None = Ok ())"

definition prepared_for :: "nat \<Rightarrow> (mode_leaf \<Rightarrow> nat \<times> nat) \<Rightarrow> mode_records \<Rightarrow> prepared_record list" where
  "prepared_for euid identity g = map (\<lambda>leaf. \<lparr>pr_target_leaf = leaf,
     pr_inode = private_inode euid (identity leaf) (g leaf), pr_bytes = g leaf\<rparr>)
     [IntentLeaf, ActiveLeaf, AcknowledgmentLeaf]"

lemma private_inode_valid [simp]:
  "validate_private_file euid (private_inode euid identity bytes) (Some identity) = Ok ()"
  "validate_private_file euid (private_inode euid identity bytes) None = Ok ()"
  by (simp_all add: validate_private_file_def private_inode_def)

lemma private_inode_sel [simp]:
  "mi_bytes (private_inode euid identity bytes) = bytes" "mi_identity (private_inode euid identity bytes) = identity"
  by (simp_all add: private_inode_def)

lemma replaceable_target: "replaceable euid dir \<Longrightarrow> validate_target_for_replace euid None (md_leaves dir leaf) = Ok ()"
  by (auto simp: replaceable_def validate_target_for_replace_def validate_private_file_def split: option.splits if_splits)

lemma load_chain_replaceable: "load_chain mc euid io dir = Ok c \<Longrightarrow> replaceable euid dir"
  unfolding load_chain_def and_then_Ok read_records_Ok read_private_record_Ok replaceable_def by (metis option.inject)

lemma publish_quiet:
  assumes "replaceable euid dir" and "pr_inode r = private_inode euid identity (pr_bytes r)"
  shows "\<exists>dir'. publish mc euid quiet_publish r dir = (dir', Ok ()) \<and> replaceable euid dir'"
proof -
  let ?dir = "directory_sync (rename_over (pr_target_leaf r) (pr_inode r) dir)"
  have "publish mc euid quiet_publish r dir = (?dir, Ok ())"
    using replaceable_target [OF assms(1)] assms(2)
    by (simp add: publish_def quiet_publish_def Let_def verify_published_def)
  moreover have "replaceable euid ?dir"
    using assms by (auto simp: replaceable_def split: if_splits)
  ultimately show ?thesis by blast
qed

lemma publish_all_quiet:
  assumes "replaceable euid dir" and "\<And>r. r \<in> set records \<Longrightarrow> \<exists>identity. pr_inode r = private_inode euid identity (pr_bytes r)"
  shows "\<exists>dir'. publish_all mc euid (\<lambda>_. quiet_publish) started records dir = (dir', Ok ())"
  using assms
proof (induction records arbitrary: started dir)
  case (Cons r records)
  obtain identity where "pr_inode r = private_inode euid identity (pr_bytes r)" using Cons.prems(2) [of r] by auto
  from publish_quiet [OF Cons.prems(1) this] obtain d where
    "publish mc euid quiet_publish r dir = (d, Ok ())" "replaceable euid d" by blast
  then show ?case using Cons.IH [of d True] Cons.prems(2) by auto
qed simp

lemma publish_prepared:
  assumes "replaceable euid dir"
  shows "\<exists>dir'. publish_all mc euid (\<lambda>_. quiet_publish) False (prepared_for euid identity g) dir = (dir', Ok ())
    \<and> (\<forall>leaf. md_leaves dir' leaf = Some (private_inode euid (identity leaf) (g leaf)))"
proof -
  have "\<exists>i. pr_inode r = private_inode euid i (pr_bytes r)" if "r \<in> set (prepared_for euid identity g)" for r
    using that by (auto simp: prepared_for_def simp del: split_paired_Ex)
  then obtain dir' where dir': "publish_all mc euid (\<lambda>_. quiet_publish) False (prepared_for euid identity g) dir = (dir', Ok ())"
    using publish_all_quiet [OF assms] by blast
  have "md_leaves dir' leaf = Some (private_inode euid (identity leaf) (g leaf))" for leaf
    using publish_all_Ok [OF dir', of leaf] by (cases leaf) (simp_all add: prepared_for_def)
  with dir' show ?thesis by blast
qed

context mode_serialization
begin

lemma digest_valid: "valid_hash (digest_bytes mc bytes)"
  using lower_hex_valid [of "mc_sha256 mc bytes"] by (simp add: valid_hash_iff digest_bytes_def sha_length)

lemma sized_hash: "sized to_vec value \<Longrightarrow> \<exists>h. canonical_hash mc to_vec value = Ok h \<and> valid_hash h"
  by (drule sized_canonical) (auto simp: canonical_hash_def digest_valid)

lemma intent_new_valid:
  assumes "valid_hash envelope" and "valid_hash nonce" and "0 < target" and "target \<le> max_safe_integer_v1" and "current < target"
  shows "\<exists>i bytes. intent_new mc current target local_only q envelope nonce = Ok i \<and> intent_validate mc i = Ok ()
    \<and> canonical_bytes (mc_intent mc) i = Ok bytes
    \<and> ti_prior_revision i = current \<and> ti_target_revision i = target \<and> ti_local_only i = local_only
    \<and> ti_request_id i = q \<and> ti_request_sha256 i = envelope \<and> ti_transition_nonce i = nonce"
proof -
  let ?b = "\<lparr>ti_schema_version = schema_version_v1, ti_prior_revision = current, ti_target_revision = target,
      ti_local_only = local_only, ti_request_id = q, ti_request_sha256 = envelope, ti_transition_nonce = nonce\<rparr>"
  obtain h where h: "canonical_hash mc (mc_intent_body mc) ?b = Ok h" "valid_hash h"
    using sized_hash [OF intent_body_sized [of ?b]] assms by auto
  let ?i = "intent_body.extend ?b \<lparr>ti_checksum_sha256 = h\<rparr>"
  obtain bytes where "canonical_bytes (mc_intent mc) ?i = Ok bytes"
    using sized_canonical [OF intent_sized [of ?i]] assms h(2) by (auto simp: intent_body.defs)
  then show ?thesis
    using assms h by (auto simp: intent_new_def Let_def intent_validate_def intent_body.defs)
qed

lemma active_new_valid:
  assumes "valid_hash envelope" and "0 < target" and "target \<le> max_safe_integer_v1"
  shows "\<exists>a bytes. active_new mc target local_only q envelope = Ok a \<and> active_validate mc a = Ok ()
    \<and> canonical_bytes (mc_active mc) a = Ok bytes
    \<and> am_revision a = target \<and> am_local_only a = local_only \<and> am_request_id a = q \<and> am_request_sha256 a = envelope"
proof -
  let ?b = "\<lparr>am_schema_version = schema_version_v1, am_revision = target, am_local_only = local_only,
      am_request_id = q, am_request_sha256 = envelope\<rparr>"
  obtain h where h: "canonical_hash mc (mc_active_body mc) ?b = Ok h" "valid_hash h"
    using sized_hash [OF active_body_sized [of ?b]] assms by auto
  let ?a = "active_body.extend ?b \<lparr>am_checksum_sha256 = h\<rparr>"
  obtain bytes where "canonical_bytes (mc_active mc) ?a = Ok bytes"
    using sized_canonical [OF active_sized [of ?a]] assms h(2) by (auto simp: active_body.defs)
  then show ?thesis
    using assms h by (auto simp: active_new_def Let_def active_validate_def active_body.defs)
qed

lemma acknowledgment_new_valid:
  assumes "valid_hash nonce" and "valid_hash x" and "valid_hash y" and "0 < target" and "target \<le> max_safe_integer_v1"
  shows "\<exists>k bytes. acknowledgment_new mc target nonce x y = Ok k \<and> acknowledgment_validate mc k = Ok ()
    \<and> canonical_bytes (mc_acknowledgment mc) k = Ok bytes
    \<and> ta_revision k = target \<and> ta_transition_nonce k = nonce \<and> ta_intent_sha256 k = x \<and> ta_active_sha256 k = y"
proof -
  let ?b = "\<lparr>ta_schema_version = schema_version_v1, ta_revision = target, ta_transition_nonce = nonce,
      ta_intent_sha256 = x, ta_active_sha256 = y\<rparr>"
  obtain h where h: "canonical_hash mc (mc_acknowledgment_body mc) ?b = Ok h" "valid_hash h"
    using sized_hash [OF acknowledgment_body_sized [of ?b]] assms by auto
  let ?k = "acknowledgment_body.extend ?b \<lparr>ta_checksum_sha256 = h\<rparr>"
  obtain bytes where "canonical_bytes (mc_acknowledgment mc) ?k = Ok bytes"
    using sized_canonical [OF acknowledgment_sized [of ?k]] assms h(2) by (auto simp: acknowledgment_body.defs)
  then show ?thesis
    using assms h by (auto simp: acknowledgment_new_def Let_def acknowledgment_validate_def acknowledgment_body.defs)
qed

text \<open>The records of a transition form a chain that a reader accepts.\<close>

lemma transition_chain:
  assumes hashes: "valid_hash envelope" "valid_hash nonce" and target: "current + 1 \<le> max_safe_integer_v1" "current \<noteq> - 1"
  shows "\<exists>g a. transition_records mc current (current + 1) request envelope nonce = Ok g
    \<and> (\<forall>leaf. g leaf \<noteq> [] \<and> length (g leaf) \<le> max_record_bytes)
    \<and> chain_of_records mc g = Ok \<lparr>lc_active = a, lc_records = g\<rparr> \<and> am_revision a = current + 1
    \<and> am_request_id a = slo_request_id request \<and> am_local_only a = slo_enabled request"
proof -
  have pos: "0 < current + 1" and less: "current < current + 1"
    using unat_Suc_lease [OF target(2)] by (simp_all add: word_less_nat_alt)
  obtain i ib where i: "intent_new mc current (current + 1) (slo_enabled request) (slo_request_id request) envelope nonce = Ok i"
    "intent_validate mc i = Ok ()" "canonical_bytes (mc_intent mc) i = Ok ib" "ti_prior_revision i = current"
    "ti_target_revision i = current + 1" "ti_local_only i = slo_enabled request" "ti_request_id i = slo_request_id request"
    "ti_request_sha256 i = envelope" "ti_transition_nonce i = nonce"
    using intent_new_valid [OF hashes pos target(1) less] by blast
  obtain a ab where a: "active_new mc (current + 1) (slo_enabled request) (slo_request_id request) envelope = Ok a"
    "active_validate mc a = Ok ()" "canonical_bytes (mc_active mc) a = Ok ab" "am_revision a = current + 1"
    "am_local_only a = slo_enabled request" "am_request_id a = slo_request_id request" "am_request_sha256 a = envelope"
    using active_new_valid [OF hashes(1) pos target(1)] by blast
  obtain k kb where k: "acknowledgment_new mc (current + 1) nonce (digest_bytes mc ib) (digest_bytes mc ab) = Ok k"
    "acknowledgment_validate mc k = Ok ()" "canonical_bytes (mc_acknowledgment mc) k = Ok kb" "ta_revision k = current + 1"
    "ta_transition_nonce k = nonce" "ta_intent_sha256 k = digest_bytes mc ib" "ta_active_sha256 k = digest_bytes mc ab"
    using acknowledgment_new_valid [OF hashes(2) digest_valid digest_valid pos target(1)] by blast
  let ?g = "records_of ib ab kb"
  have "transition_records mc current (current + 1) request envelope nonce = Ok ?g"
    unfolding transition_records_Ok records_of_simps using i a k by blast
  moreover have "?g leaf \<noteq> [] \<and> length (?g leaf) \<le> max_record_bytes" for leaf
    using i(3) a(3) k(3) by (cases leaf) (auto simp: canonical_bytes_Ok)
  moreover have "chain_of_records mc ?g = Ok \<lparr>lc_active = a, lc_records = ?g\<rparr>"
  proof -
    have "decode_canonical (mc_intent_from mc) (mc_intent mc) ib = Ok i"
      "decode_canonical (mc_active_from mc) (mc_active mc) ab = Ok a"
      "decode_canonical (mc_acknowledgment_from mc) (mc_acknowledgment mc) kb = Ok k"
      using i(3) a(3) k(3) by (auto simp: mode_simps intro: intent_from active_from acknowledgment_from)
    then show ?thesis using i a k target(2) by (simp add: chain_of_records_def)
  qed
  ultimately show ?thesis using a by blast
qed


text \<open>
  Up to the reading after the publication, whose outcome is \<open>reload\<close>, nothing can fail: the new mode
  is on disk.
\<close>

lemma quiet_publication:
  assumes valid: "validate_request request = Ok ()" and nonce: "valid_hash nonce" and rep: "replaceable euid dir"
    and current: "current = (case load_chain mc euid quiet_load dir of Ok c \<Rightarrow> Some c | Err _ \<Rightarrow> None)"
    and recognized: "recognized = (if current = None then Option.bind state (recognized_records euid quiet_load dir) else None)"
    and expected: "slo_expected_revision request = current_revision_of current recognized state"
    and fresh: "\<And>u. state = Some u \<Longrightarrow> un_request_id u \<noteq> slo_request_id request"
      "\<And>c. current = Some c \<Longrightarrow> am_request_id (lc_active c) \<noteq> slo_request_id request"
  shows "\<exists>uncertain dir' c. mode_set mc euid ((quiet_set nonce identity)\<lparr>si_reload := reload\<rparr>) request state dir =
      (case load_chain mc euid reload dir' of
         Ok _ \<Rightarrow> (None, dir', Ok (mode_response (slo_request_id request) (slo_enabled request) (slo_expected_revision request + 1) Created))
       | Err _ \<Rightarrow> (uncertain, dir', Err PublicationOutcomeUnknown))
    \<and> load_chain mc euid quiet_load dir' = Ok c \<and> am_revision (lc_active c) = slo_expected_revision request + 1
    \<and> am_request_id (lc_active c) = slo_request_id request \<and> am_local_only (lc_active c) = slo_enabled request"
proof -
  let ?rev = "slo_expected_revision request"
  let ?io = "(quiet_set nonce identity)\<lparr>si_reload := reload\<rparr>"
  have less: "?rev < max_safe_integer_v1"
    using valid by (auto simp: validate_request_def not_le split: if_splits)
  then have bound: "?rev + 1 \<le> max_safe_integer_v1" by (rule inc_le)
  have top: "?rev \<noteq> - 1" using less by (metis leD word_n1_ge)
  obtain envelope where envelope: "canonical_hash mc (mc_request mc) request = Ok envelope" "valid_hash envelope"
    using sized_hash [OF request_sized] by blast
  obtain g a where g: "transition_records mc ?rev (?rev + 1) request envelope nonce = Ok g"
    "\<And>leaf. g leaf \<noteq> [] \<and> length (g leaf) \<le> max_record_bytes"
    and a: "chain_of_records mc g = Ok \<lparr>lc_active = a, lc_records = g\<rparr>" "am_revision a = ?rev + 1"
      "am_request_id a = slo_request_id request" "am_local_only a = slo_enabled request"
    using transition_chain [OF envelope(2) nonce bound top] by blast
  obtain dir' where dir': "publish_all mc euid (\<lambda>_. quiet_publish) False (prepared_for euid identity g) dir = (dir', Ok ())"
    "\<And>leaf. md_leaves dir' leaf = Some (private_inode euid (identity leaf) (g leaf))"
    using publish_prepared [OF rep] by blast
  have "read_records euid quiet_load dir' = Ok g"
    unfolding read_records_Ok by (simp add: quiet_load_def read_private_record_Ok dir'(2) g(2))
  then have chain: "load_chain mc euid quiet_load dir' = Ok \<lparr>lc_active = a, lc_records = g\<rparr>"
    using a(1) by (simp add: load_chain_def)
  have "prepare_records euid ?io g dir = Ok (prepared_for euid identity g)"
    unfolding prepare_records_Ok
    using replaceable_target [OF rep] by (auto simp: quiet_set_def prepared_for_def simp del: split_paired_Ex)
  then obtain uncertain where start: "start_transition mc euid ?io request envelope current recognized state dir =
      Ok (?rev + 1, uncertain, prepared_for euid identity g)"
    using g(1) bound top expected by (auto simp: start_transition_Ok Let_def quiet_set_def)
  have publish: "publish_transition mc euid ?io request (?rev + 1) uncertain (prepared_for euid identity g) state dir =
      (case load_chain mc euid reload dir' of
         Ok _ \<Rightarrow> (None, dir', Ok (mode_response (slo_request_id request) (slo_enabled request) (?rev + 1) Created))
       | Err _ \<Rightarrow> (uncertain, dir', Err PublicationOutcomeUnknown))"
    using dir'(1) chain a load_chain_quiet [of mc euid reload dir']
    by (cases "load_chain mc euid reload dir'") (simp_all add: publish_transition_def quiet_set_def)
  have no_clash: "\<not> (case state of Some uncertain \<Rightarrow> un_request_id uncertain = slo_request_id request
      \<and> un_request_sha256 uncertain \<noteq> envelope | None \<Rightarrow> False)"
    using fresh(1) by (auto split: option.splits)
  have io: "si_load ?io = quiet_load" "si_recognize ?io = quiet_load" by (simp_all add: quiet_set_def)
  have "mode_set mc euid ?io request state dir =
      (case load_chain mc euid reload dir' of
         Ok _ \<Rightarrow> (None, dir', Ok (mode_response (slo_request_id request) (slo_enabled request) (?rev + 1) Created))
       | Err _ \<Rightarrow> (uncertain, dir', Err PublicationOutcomeUnknown))"
    unfolding mode_set_def Let_def io current [symmetric] recognized [symmetric]
    using valid envelope(1) no_clash start publish fresh(2) by (cases current) simp_all
  then show ?thesis using chain a by (intro exI [of _ uncertain] exI [of _ dir'] exI [of _ "\<lparr>lc_active = a, lc_records = g\<rparr>"]) simp
qed

lemma quiet_change:
  assumes "validate_request request = Ok ()" and "valid_hash nonce" and "replaceable euid dir"
    and "current = (case load_chain mc euid quiet_load dir of Ok c \<Rightarrow> Some c | Err _ \<Rightarrow> None)"
    and "recognized = (if current = None then Option.bind state (recognized_records euid quiet_load dir) else None)"
    and "slo_expected_revision request = current_revision_of current recognized state"
    and "\<And>u. state = Some u \<Longrightarrow> un_request_id u \<noteq> slo_request_id request"
    and "\<And>c. current = Some c \<Longrightarrow> am_request_id (lc_active c) \<noteq> slo_request_id request"
  shows "\<exists>dir'. mode_set mc euid (quiet_set nonce identity) request state dir =
      (None, dir', Ok (mode_response (slo_request_id request) (slo_enabled request) (slo_expected_revision request + 1) Created))
    \<and> mode_load mc euid quiet_load dir' =
      \<lparr>mo_local_only = slo_enabled request, mo_revision = slo_expected_revision request + 1, mo_authority_health = Persisted\<rparr>"
proof -
  have same: "(quiet_set nonce identity)\<lparr>si_reload := quiet_load\<rparr> = quiet_set nonce identity" by (simp add: quiet_set_def)
  from quiet_publication [OF assms, where identity = identity and reload = quiet_load] show ?thesis
    unfolding same using mode_load_chain by fastforce
qed

lemma unknown_leaves:
  assumes chain: "load_chain mc euid (si_load io) dir = Ok chain"
    and set: "mode_set mc euid io request state dir = (state', dir', Err PublicationOutcomeUnknown)"
  shows "\<exists>g h. state' = Some \<lparr>un_prior_revision = am_revision (lc_active chain), un_prior_records = lc_records chain,
        un_target_records = g, un_request_id = slo_request_id request, un_request_sha256 = h\<rparr>
      \<and> replaceable euid dir'
      \<and> (\<exists>records. read_records euid quiet_load dir' = Ok records
          \<and> (\<forall>leaf. records leaf = lc_records chain leaf \<or> records leaf = g leaf))"
  using set
proof (cases rule: mode_set_cases)
  case (changed envelope current recognized target uncertain records)
  have current: "current = Some chain" using changed(2) chain by simp
  obtain nonce g where g: "transition_records mc (am_revision (lc_active chain)) target request envelope nonce = Ok g"
    "prepare_records euid io g dir = Ok records"
    "uncertain = Some \<lparr>un_prior_revision = am_revision (lc_active chain), un_prior_records = lc_records chain,
        un_target_records = g, un_request_id = slo_request_id request, un_request_sha256 = envelope\<rparr>"
    using changed(4) current by (auto simp: start_transition_Ok Let_def current_revision_of_def)
  have old: "read_records euid quiet_load dir = Ok (lc_records chain)"
    using load_chain_quiet [OF chain]
    by (auto simp: load_chain_def chain_of_records_def result_simps split: if_splits)
  have sizes: "g leaf \<noteq> [] \<and> length (g leaf) \<le> max_record_bytes" for leaf
    using g(1) by (cases leaf) (auto simp: transition_records_Ok canonical_bytes_Ok)
  note new = prepared_inode [OF g(2)]
  have "state' = uncertain \<and> (\<exists>s. publish_all mc euid (si_publish io) False records dir = (dir', s))"
    using changed(5) by (cases rule: publish_transition_cases) auto
  then obtain s where pub: "publish_all mc euid (si_publish io) False records dir = (dir', s)" and "state' = uncertain"
    by blast
  have leaf: "\<exists>f. md_leaves dir' leaf = Some f \<and> validate_private_file euid f None = Ok ()
      \<and> mi_bytes f \<noteq> [] \<and> length (mi_bytes f) \<le> max_record_bytes
      \<and> (mi_bytes f = lc_records chain leaf \<or> mi_bytes f = g leaf)" for leaf
    using publish_all_leaves [OF pub, of leaf]
  proof
    assume "md_leaves dir' leaf = md_leaves dir leaf"
    moreover obtain f where "md_leaves dir leaf = Some f" "lc_records chain leaf = mi_bytes f"
      "validate_private_file euid f None = Ok ()" "mi_bytes f \<noteq> []" "length (mi_bytes f) \<le> max_record_bytes"
      using old unfolding read_records_Ok read_private_record_Ok by metis
    ultimately show ?thesis by simp
  next
    assume "\<exists>x\<in>set records. pr_target_leaf x = leaf \<and> md_leaves dir' leaf = Some (pr_inode x)"
    then show ?thesis using new sizes [of leaf] by fastforce
  qed
  define now where "now leaf = mi_bytes (the (md_leaves dir' leaf))" for leaf
  have "read_private_record euid None (md_leaves dir' leaf) = Ok (now leaf)" for leaf
    using leaf [of leaf] by (auto simp: read_private_record_Ok now_def)
  then have "read_records euid quiet_load dir' = Ok now" by (simp add: read_records_Ok quiet_load_def)
  moreover have "now leaf = lc_records chain leaf \<or> now leaf = g leaf" for leaf
    using leaf [of leaf] by (auto simp: now_def)
  moreover have "replaceable euid dir'" unfolding replaceable_def using leaf by (metis option.inject)
  ultimately show ?thesis using g(3) \<open>state' = uncertain\<close> by blast
qed simp_all

lemma unknown_is_repairable:
  assumes "load_chain mc euid (si_load io) dir = Ok chain"
    and "mode_set mc euid io request state dir = (state', dir', Err PublicationOutcomeUnknown)"
    and "validate_request retry = Ok ()" and "valid_hash nonce"
    and "slo_expected_revision retry = (case load_chain mc euid quiet_load dir' of
        Ok c \<Rightarrow> am_revision (lc_active c) | Err _ \<Rightarrow> am_revision (lc_active chain))"
    and "slo_request_id retry \<noteq> slo_request_id request"
    and "\<And>c. load_chain mc euid quiet_load dir' = Ok c \<Longrightarrow> am_request_id (lc_active c) \<noteq> slo_request_id retry"
  shows "\<exists>dir''. mode_set mc euid (quiet_set nonce identity) retry state' dir' =
      (None, dir'', Ok (mode_response (slo_request_id retry) (slo_enabled retry) (slo_expected_revision retry + 1) Created))
    \<and> mode_load mc euid quiet_load dir'' =
      \<lparr>mo_local_only = slo_enabled retry, mo_revision = slo_expected_revision retry + 1, mo_authority_health = Persisted\<rparr>"
proof -
  obtain g h records where state': "state' = Some \<lparr>un_prior_revision = am_revision (lc_active chain),
      un_prior_records = lc_records chain, un_target_records = g, un_request_id = slo_request_id request, un_request_sha256 = h\<rparr>"
    and rep: "replaceable euid dir'" and records: "read_records euid quiet_load dir' = Ok records"
      "\<forall>leaf. records leaf = lc_records chain leaf \<or> records leaf = g leaf"
    using unknown_leaves [OF assms(1,2)] by blast
  have recognized: "Option.bind state' (recognized_records euid quiet_load dir') = Some records"
    using records by (simp add: state' recognized_records_def)
  have fresh: "un_request_id u \<noteq> slo_request_id retry" if "state' = Some u" for u
    using that assms(6) state' by auto
  show ?thesis
  proof (rule quiet_change [OF assms(3,4) rep refl refl _ fresh])
    show "slo_expected_revision retry = current_revision_of
        (case load_chain mc euid quiet_load dir' of Ok c \<Rightarrow> Some c | Err _ \<Rightarrow> None)
        (if (case load_chain mc euid quiet_load dir' of Ok c \<Rightarrow> Some c | Err _ \<Rightarrow> None) = None
         then Option.bind state' (recognized_records euid quiet_load dir') else None) state'"
      using assms(5) recognized by (simp add: current_revision_of_def state' split: result.splits)
  qed (use assms(7) in \<open>auto split: result.splits\<close>)
qed

end

end
