(* ===== verification/Local_Mode_Sample.thy ===== *)
theory Local_Mode_Sample
  imports Local_Mode_Repair
begin

text \<open>
  A codec that has the properties the durable mode relies on: the fields of a record as texts, joined
  by commas, and a digest that is the length. It instantiates the results on the durable mode.
\<close>

definition sample_bytes :: "rstr list \<Rightarrow> u8 list" where
  "sample_bytes ts = map of_nat (join_on 44 ts)"

definition sample_fields :: "u8 list \<Rightarrow> rstr list" where
  "sample_fields bytes = split_on 44 (map unat bytes)"

definition show_bool :: "bool \<Rightarrow> rstr" where "show_bool b = show_digits (if b then 1 else 0)"

definition read_bool :: "rstr \<Rightarrow> bool" where "read_bool s = (digits_value s = 1)"

definition request_fields :: "set_local_only_request \<Rightarrow> rstr list" where
  "request_fields r = [show_digits (unat (slo_schema_version r)), show_digits (unat (slo_request_id r)),
     show_bool (slo_enabled r), show_digits (unat (slo_expected_revision r))]"

definition intent_fields :: "'a intent_body_scheme \<Rightarrow> rstr list" where
  "intent_fields i = [show_digits (unat (ti_schema_version i)), show_digits (unat (ti_prior_revision i)),
     show_digits (unat (ti_target_revision i)), show_bool (ti_local_only i), show_digits (unat (ti_request_id i)),
     ti_request_sha256 i, ti_transition_nonce i]"

definition active_fields :: "'a active_body_scheme \<Rightarrow> rstr list" where
  "active_fields a = [show_digits (unat (am_schema_version a)), show_digits (unat (am_revision a)),
     show_bool (am_local_only a), show_digits (unat (am_request_id a)), am_request_sha256 a]"

definition acknowledgment_fields :: "'a acknowledgment_body_scheme \<Rightarrow> rstr list" where
  "acknowledgment_fields k = [show_digits (unat (ta_schema_version k)), show_digits (unat (ta_revision k)),
     ta_transition_nonce k, ta_intent_sha256 k, ta_active_sha256 k]"

text \<open>Texts of hexadecimal digits only, at most 64 of them, are serialised.\<close>

definition plain_fields :: "rstr list \<Rightarrow> bool" where
  "plain_fields ts \<longleftrightarrow> list_all (\<lambda>f. list_all is_lower_hex f \<and> length f \<le> 64) ts"

definition sample_to_vec :: "rstr list \<Rightarrow> u8 list option" where
  "sample_to_vec ts = (if plain_fields ts then Some (sample_bytes ts) else None)"

definition sample_codec :: mode_codec where
  "sample_codec =
     \<lparr>mc_sha256 = (\<lambda>bytes. replicate 31 0 @ [of_nat (length bytes)]),
      mc_request = (\<lambda>r. sample_to_vec (request_fields r)),
      mc_intent_body = (\<lambda>i. sample_to_vec (intent_fields i)),
      mc_intent = (\<lambda>i. sample_to_vec (intent_fields i @ [ti_checksum_sha256 i])),
      mc_active_body = (\<lambda>a. sample_to_vec (active_fields a)),
      mc_active = (\<lambda>a. sample_to_vec (active_fields a @ [am_checksum_sha256 a])),
      mc_acknowledgment_body = (\<lambda>k. sample_to_vec (acknowledgment_fields k)),
      mc_acknowledgment = (\<lambda>k. sample_to_vec (acknowledgment_fields k @ [ta_checksum_sha256 k])),
      mc_intent_from = (\<lambda>bytes. case sample_fields bytes of
          [a, b, c, d, e, f, g, h] \<Rightarrow>
            Some \<lparr>ti_schema_version = of_nat (digits_value a), ti_prior_revision = of_nat (digits_value b),
              ti_target_revision = of_nat (digits_value c), ti_local_only = read_bool d,
              ti_request_id = of_nat (digits_value e), ti_request_sha256 = f, ti_transition_nonce = g,
              ti_checksum_sha256 = h\<rparr>
        | _ \<Rightarrow> None),
      mc_active_from = (\<lambda>bytes. case sample_fields bytes of
          [a, b, c, d, e, f] \<Rightarrow>
            Some \<lparr>am_schema_version = of_nat (digits_value a), am_revision = of_nat (digits_value b),
              am_local_only = read_bool c, am_request_id = of_nat (digits_value d), am_request_sha256 = e,
              am_checksum_sha256 = f\<rparr>
        | _ \<Rightarrow> None),
      mc_acknowledgment_from = (\<lambda>bytes. case sample_fields bytes of
          [a, b, c, d, e, f] \<Rightarrow>
            Some \<lparr>ta_schema_version = of_nat (digits_value a), ta_revision = of_nat (digits_value b),
              ta_transition_nonce = c, ta_intent_sha256 = d, ta_active_sha256 = e, ta_checksum_sha256 = f\<rparr>
        | _ \<Rightarrow> None)\<rparr>"

lemma sample_codec_sel:
  "mc_sha256 sample_codec bytes = replicate 31 0 @ [of_nat (length bytes)]"
  "mc_intent sample_codec i = sample_to_vec (intent_fields i @ [ti_checksum_sha256 i])"
  "mc_active sample_codec a = sample_to_vec (active_fields a @ [am_checksum_sha256 a])"
  "mc_acknowledgment sample_codec k = sample_to_vec (acknowledgment_fields k @ [ta_checksum_sha256 k])"
  by (simp_all add: sample_codec_def)

lemma sample_roundtrip:
  assumes "sample_to_vec ts = Some bytes" and "ts \<noteq> []"
  shows "sample_fields bytes = ts"
proof -
  have plain: "\<forall>f\<in>set ts. list_all is_lower_hex f" and bytes: "bytes = sample_bytes ts"
    using assms(1) by (auto simp: sample_to_vec_def plain_fields_def list_all_iff split: if_splits)
  have comma: "\<forall>f\<in>set ts. 44 \<notin> set f"
    using plain by (fastforce simp: list_all_iff is_lower_hex_def is_ascii_digit_def)
  have small: "c < 256" if "c \<in> set (join_on 44 ts)" for c
    using that plain by (induction "44::nat" ts rule: join_on.induct)
      (fastforce simp: list_all_iff is_lower_hex_def is_ascii_digit_def)+
  have "map unat (map (of_nat :: nat \<Rightarrow> u8) (join_on 44 ts)) = join_on 44 ts"
    using small by (simp add: unat_of_nat map_idI)
  then show ?thesis using split_join_on assms(2) comma by (simp add: bytes sample_fields_def sample_bytes_def)
qed

lemma show_digits_length: "n < 10 ^ Suc k \<Longrightarrow> length (show_digits n) \<le> Suc k"
proof (induction k arbitrary: n)
  case 0
  then show ?case by (simp add: show_digits.simps)
next
  case (Suc k)
  have "length (show_digits (n div 10)) \<le> Suc k"
    by (rule Suc.IH) (use Suc.prems in \<open>simp add: div_less_iff_less_mult mult.commute\<close>)
  then show ?case by (cases "n < 10") (simp_all add: show_digits.simps [of n])
qed

lemma show_word_length: "LENGTH('a::len) \<le> 128 \<Longrightarrow> length (show_digits (unat (w :: 'a word))) \<le> 64"
proof -
  assume "LENGTH('a) \<le> 128"
  then have "(2::nat) ^ LENGTH('a) \<le> 2 ^ 128" by (rule power_increasing) simp
  also have "\<dots> < 10 ^ Suc 63" by simp
  finally have "unat w < 10 ^ Suc 63" using unsigned_less [of w, where ?'a = nat] by (rule less_trans [rotated])
  then show ?thesis using show_digits_length by fastforce
qed

lemma show_digits_hex: "list_all is_lower_hex (show_digits n)"
  using show_digits_ascii_digits [of n] by (auto simp: list_all_iff is_lower_hex_def)

lemma show_bool_plain: "list_all is_lower_hex (show_bool b) \<and> length (show_bool b) \<le> 64"
  using show_digits_hex by (simp add: show_bool_def show_digits.simps is_lower_hex_def is_ascii_digit_def)

lemma read_show_bool [simp]: "read_bool (show_bool b) = b"
  by (simp add: read_bool_def show_bool_def)

lemma sample_length:
  assumes "plain_fields ts" and "length ts \<le> 8" and "ts \<noteq> []"
  shows "length (sample_bytes ts) \<le> max_record_bytes" and "hd ts \<noteq> [] \<Longrightarrow> sample_bytes ts \<noteq> []"
proof -
  have "length (join_on 44 ts) \<le> 65 * length ts"
    using assms(1) by (induction "44::nat" ts rule: join_on.induct) (auto simp: plain_fields_def)
  then show "length (sample_bytes ts) \<le> max_record_bytes"
    using assms(2) by (simp add: sample_bytes_def max_record_bytes_def)
  show "sample_bytes ts \<noteq> []" if "hd ts \<noteq> []"
    using that assms(3) by (cases ts; cases "tl ts") (auto simp: sample_bytes_def)
qed

lemma sample_sized:
  assumes "plain_fields ts" and "length ts \<le> 8" and "ts \<noteq> []" and "hd ts \<noteq> []"
    and "to_vec x = sample_to_vec ts"
  shows "sized to_vec x"
  using sample_length assms by (auto simp: sized_def sample_to_vec_def)

lemma valid_hash_plain: "valid_hash h \<Longrightarrow> list_all is_lower_hex h \<and> length h \<le> 64"
  by (simp add: valid_hash_iff)

lemmas plain_simps = plain_fields_def valid_hash_plain show_digits_hex show_word_length show_bool_plain
  request_fields_def intent_fields_def active_fields_def acknowledgment_fields_def

interpretation sample: mode_serialization sample_codec
proof unfold_locales
  show "length (mc_sha256 sample_codec bytes) = 32" for bytes by (simp add: sample_codec_def)
  show "sized (mc_request sample_codec) r" for r
    by (rule sample_sized [of "request_fields r"]) (simp_all add: plain_simps sample_codec_def)
  show "sized (mc_intent_body sample_codec) i" if "valid_hash (ti_request_sha256 i)" "valid_hash (ti_transition_nonce i)" for i
    using that by (intro sample_sized [of "intent_fields i"]) (simp_all add: plain_simps sample_codec_def)
  show "sized (mc_intent sample_codec) i" if "valid_hash (ti_request_sha256 i)" "valid_hash (ti_transition_nonce i)"
      "valid_hash (ti_checksum_sha256 i)" for i
    using that by (intro sample_sized [of "intent_fields i @ [ti_checksum_sha256 i]"]) (simp_all add: plain_simps sample_codec_def)
  show "sized (mc_active_body sample_codec) a" if "valid_hash (am_request_sha256 a)" for a
    using that by (intro sample_sized [of "active_fields a"]) (simp_all add: plain_simps sample_codec_def)
  show "sized (mc_active sample_codec) a" if "valid_hash (am_request_sha256 a)" "valid_hash (am_checksum_sha256 a)" for a
    using that by (intro sample_sized [of "active_fields a @ [am_checksum_sha256 a]"]) (simp_all add: plain_simps sample_codec_def)
  show "sized (mc_acknowledgment_body sample_codec) k" if "valid_hash (ta_transition_nonce k)" "valid_hash (ta_intent_sha256 k)"
      "valid_hash (ta_active_sha256 k)" for k
    using that by (intro sample_sized [of "acknowledgment_fields k"]) (simp_all add: plain_simps sample_codec_def)
  show "sized (mc_acknowledgment sample_codec) k" if "valid_hash (ta_transition_nonce k)" "valid_hash (ta_intent_sha256 k)"
      "valid_hash (ta_active_sha256 k)" "valid_hash (ta_checksum_sha256 k)" for k
    using that by (intro sample_sized [of "acknowledgment_fields k @ [ta_checksum_sha256 k]"])
      (simp_all add: plain_simps sample_codec_def)
  show "mc_intent_from sample_codec bytes = Some i" if "mc_intent sample_codec i = Some bytes" for i bytes
    using sample_roundtrip [of "intent_fields i @ [ti_checksum_sha256 i]" bytes] that
    by (simp add: sample_codec_def intent_fields_def)
  show "mc_active_from sample_codec bytes = Some a" if "mc_active sample_codec a = Some bytes" for a bytes
    using sample_roundtrip [of "active_fields a @ [am_checksum_sha256 a]" bytes] that
    by (simp add: sample_codec_def active_fields_def)
  show "mc_acknowledgment_from sample_codec bytes = Some k" if "mc_acknowledgment sample_codec k = Some bytes" for k bytes
    using sample_roundtrip [of "acknowledgment_fields k @ [ta_checksum_sha256 k]" bytes] that
    by (simp add: sample_codec_def acknowledgment_fields_def)
qed

end
