(* ===== verification/Local_Mode_Claims.thy ===== *)
theory Local_Mode_Claims
  imports Local_Mode_Sample
begin

text \<open>
  The properties of the network mode: the leases of the authority and the durable mode behind it.
\<close>

section \<open>Samples\<close>

definition permissive :: outbound_snapshot where
  "permissive = \<lparr>os_local_only = False, os_revision = 1, os_health = Persisted\<rparr>"

definition restrictive :: outbound_snapshot where
  "restrictive = \<lparr>os_local_only = True, os_revision = 2, os_health = Persisted\<rparr>"

definition sample_world :: "outbound_snapshot \<Rightarrow> outbound_lease list \<Rightarrow> transition_phase \<Rightarrow> authority_world" where
  "sample_world snapshot leases phase =
     \<lparr>aw_state = \<lparr>au_snapshot = snapshot, au_transitioning = (phase \<noteq> Idle), au_active_leases = of_nat (length leases)\<rparr>,
      aw_leases = mset leases, aw_phase = phase\<rparr>"

lemma sample_initial: "initial_world snapshot = sample_world snapshot [] Idle"
  by (simp add: initial_world_def authority_new_def sample_world_def)

lemma sample_acquire: "authority_step (sample_world permissive [] Idle) (sample_world permissive [Some GmailSync] Idle)"
  using authority_step.acquire [of GmailSync "sample_world permissive [] Idle"]
  by (simp add: sample_world_def acquire_def checked_add_lease_def permissive_def)

lemma sample_cleanup: "authority_step (sample_world restrictive [] Idle) (sample_world restrictive [None] Idle)"
  using authority_step.cleanup [of "sample_world restrictive [] Idle"]
  by (simp add: sample_world_def acquire_local_cleanup_def checked_add_lease_def)

lemma sample_drop: "authority_step (sample_world permissive [Some GmailSync] Draining) (sample_world permissive [] Draining)"
  using authority_step.drop_lease [of "Some GmailSync" "sample_world permissive [Some GmailSync] Draining"]
  by (simp add: sample_world_def drop_lease_def)

lemma sample_claim: "authority_step (sample_world permissive leases Idle) (sample_world permissive leases Draining)"
  using authority_step.claim [of "sample_world permissive leases Idle"]
  by (simp add: sample_world_def begin_transition_claim_def)

lemma sample_hold: "authority_step (sample_world permissive [] Draining) (sample_world permissive [] (Holding permissive))"
  using authority_step.hold [of "sample_world permissive [] Draining" permissive]
  by (simp add: sample_world_def begin_transition_return_def)

lemma sample_publish: "authority_step (sample_world permissive [] (Holding permissive)) (sample_world restrictive [] Idle)"
  using authority_step.publish [of "sample_world permissive [] (Holding permissive)" permissive restrictive]
  by (simp add: sample_world_def transition_publish_def)

lemmas sample_steps = converse_rtranclp_into_rtranclp [where r = authority_step]

section \<open>Leases and transitions\<close>

text \<open>
  C27: under every interleaving of the threads, a published local-only snapshot leaves no outbound
  lease alive, local clean-ups apart, a transition that has returned from its wait leaves no lease
  alive at all, and the count of the leases is exact.
\<close>

theorem local_only_admits_no_lease:
  assumes "authority_step\<^sup>*\<^sup>* (initial_world snapshot) w"
  shows "(os_local_only (au_snapshot (aw_state w)) \<longrightarrow> set_mset (aw_leases w) \<subseteq> {None})
    \<and> (aw_phase w = Holding prior \<longrightarrow> aw_leases w = {#} \<and> prior = au_snapshot (aw_state w))
    \<and> unat (au_active_leases (aw_state w)) = size (aw_leases w)"
  using authority_inv_run [OF assms authority_inv_initial] by (auto simp: authority_inv_def)

theorem local_only_admits_no_lease_witness:
  "authority_step\<^sup>*\<^sup>* (initial_world permissive) (sample_world restrictive [None] Idle)
   \<and> set_mset (aw_leases (sample_world restrictive [None] Idle)) \<subseteq> {None}"
proof -
  have run: "authority_step\<^sup>*\<^sup>* (initial_world permissive) (sample_world restrictive [None] Idle)"
    unfolding sample_initial
    by (rule sample_steps, rule sample_claim, rule sample_steps, rule sample_hold,
        rule sample_steps, rule sample_publish, rule r_into_rtranclp, rule sample_cleanup)
  from local_only_admits_no_lease [OF run] run show ?thesis
    by (simp add: sample_world_def restrictive_def)
qed

text \<open>
  C28: a transition that waits for the leases ends its wait. While it waits no lease is granted: a run
  of \<open>n\<close> steps drops \<open>n\<close> leases and a further step is possible, and after one step more than there
  were leases the transition is held and no lease is alive.
\<close>

theorem transition_drains:
  assumes "authority_step\<^sup>*\<^sup>* (initial_world snapshot) w" and "aw_phase w = Draining"
    and "(authority_step ^^ n) w w'"
  shows "(n \<le> size (aw_leases w) \<longrightarrow>
      aw_phase w' = Draining \<and> size (aw_leases w') + n = size (aw_leases w) \<and> (\<exists>w''. authority_step w' w''))
    \<and> (n = Suc (size (aw_leases w)) \<longrightarrow> aw_phase w' = Holding (au_snapshot (aw_state w')) \<and> aw_leases w' = {#})"
proof -
  have inv: "authority_inv w" by (rule authority_inv_run [OF assms(1) authority_inv_initial])
  have "aw_phase w' = Holding (au_snapshot (aw_state w')) \<and> aw_leases w' = {#}" if n: "n = Suc (size (aw_leases w))"
  proof -
    obtain v where v: "(authority_step ^^ size (aw_leases w)) w v" "authority_step v w'"
      using assms(3) n by auto
    have v': "authority_inv v" "aw_phase v = Draining" "size (aw_leases v) = 0"
      using draining_run [OF v(1) inv assms(2)] by simp_all
    obtain prior where "aw_phase w' = Holding prior" using draining_step [OF v(2) v'(1,2)] v'(3) by auto
    then show ?thesis using authority_inv_step [OF v(2) v'(1)] by (auto simp: authority_inv_def)
  qed
  then show ?thesis using draining_run [OF assms(3) inv assms(2)] draining_proceeds by blast
qed

theorem transition_drains_witness:
  "aw_phase (sample_world permissive [] (Holding permissive)) = Holding permissive"
proof -
  have run: "authority_step\<^sup>*\<^sup>* (initial_world permissive) (sample_world permissive [Some GmailSync] Draining)"
    unfolding sample_initial
    by (rule sample_steps, rule sample_acquire, rule r_into_rtranclp, rule sample_claim)
  have two: "(authority_step ^^ 2) (sample_world permissive [Some GmailSync] Draining) (sample_world permissive [] (Holding permissive))"
    using sample_drop sample_hold by (auto simp: numeral_2_eq_2)
  show ?thesis using transition_drains [OF run _ two] by (simp add: sample_world_def)
qed

section \<open>The durable mode\<close>

definition sample_nonce :: rstr where "sample_nonce = replicate 64 48"

definition mode_request :: "uuid \<Rightarrow> bool \<Rightarrow> u64 \<Rightarrow> set_local_only_request" where
  "mode_request q enabled revision = \<lparr>slo_schema_version = 1, slo_request_id = q, slo_enabled = enabled,
     slo_expected_revision = revision\<rparr>"

definition empty_directory :: mode_directory where
  "empty_directory = \<lparr>md_leaves = (\<lambda>_. None), md_durable = (\<lambda>_. [None])\<rparr>"

definition sample_identity :: "mode_leaf \<Rightarrow> nat \<times> nat" where "sample_identity leaf = (0, 0)"

lemma sample_nonce_valid: "valid_hash sample_nonce"
  by (simp add: sample_nonce_def valid_hash_iff list_all_iff is_lower_hex_def is_ascii_digit_def)

lemma mode_request_valid: "revision \<in> {0, 1, 2} \<Longrightarrow> validate_request (mode_request q enabled revision) = Ok ()"
  by (auto simp: validate_request_def mode_request_def schema_version_v1_def max_safe_integer_v1_def word_le_nat_alt)

lemma empty_load: "load_chain sample_codec 0 quiet_load empty_directory = Err (Io IoNotFound)"
  by (simp add: load_chain_def read_records_def quiet_load_def read_private_record_def empty_directory_def Let_def)

text \<open>The first change of an empty directory.\<close>

lemma first_change:
  "\<exists>dir. mode_set sample_codec 0 (quiet_set sample_nonce sample_identity) (mode_request q enabled 0) None empty_directory =
      (None, dir, Ok (mode_response q enabled 1 Created))
    \<and> mode_load sample_codec 0 quiet_load dir = \<lparr>mo_local_only = enabled, mo_revision = 1, mo_authority_health = Persisted\<rparr>"
  using sample.quiet_change [of "mode_request q enabled 0" sample_nonce 0 empty_directory None None None sample_identity]
    mode_request_valid sample_nonce_valid empty_load
  by (simp add: mode_request_def replaceable_def empty_directory_def current_revision_of_def)

lemma first_chain:
  "\<exists>dir c. load_chain sample_codec 0 quiet_load dir = Ok c \<and> am_revision (lc_active c) = 1 \<and> am_request_id (lc_active c) = 7"
  using sample.quiet_publication [of "mode_request 7 True 0" sample_nonce 0 empty_directory None None None quiet_load sample_identity]
    mode_request_valid sample_nonce_valid empty_load
  by (auto simp: mode_request_def replaceable_def empty_directory_def current_revision_of_def)

lemma sample_digest_length: "length (digest_bytes sample_codec b) = 64"
  using sample.digest_valid by (simp add: valid_hash_iff)

lemma first_attempt:
  assumes "attempted_records sample_codec 0 (quiet_set sample_nonce sample_identity) (mode_request 7 True 0) None empty_directory = Some g"
  shows "inj_on (mc_sha256 sample_codec) (range g)"
proof -
  obtain envelope where h: "canonical_hash sample_codec (mc_request sample_codec) (mode_request 7 True 0) = Ok envelope" "valid_hash envelope"
    using sample.sized_hash [OF sample.request_sized] by blast
  have "transition_records sample_codec 0 1 (mode_request 7 True 0) envelope sample_nonce = Ok g"
    using assms h empty_load
    by (simp add: attempted_records_def quiet_set_def current_revision_of_def split: result.splits)
  then obtain i a k where parts:
    "intent_new sample_codec 0 1 True 7 envelope sample_nonce = Ok i"
    "active_new sample_codec 1 True 7 envelope = Ok a"
    "acknowledgment_new sample_codec 1 sample_nonce (digest_bytes sample_codec (g IntentLeaf)) (digest_bytes sample_codec (g ActiveLeaf)) = Ok k"
    "canonical_bytes (mc_intent sample_codec) i = Ok (g IntentLeaf)"
    "canonical_bytes (mc_active sample_codec) a = Ok (g ActiveLeaf)"
    "canonical_bytes (mc_acknowledgment sample_codec) k = Ok (g AcknowledgmentLeaf)"
    by (auto simp: transition_records_Ok mode_request_def)
  have envelope: "length envelope = 64" using h(2) by (simp add: valid_hash_iff)
  note defs = sample_codec_sel sample_to_vec_def sample_bytes_def show_bool_def
    show_digits.simps schema_version_v1_def sample_nonce_def
  have "length (g IntentLeaf) = 204"
  proof -
    obtain b where "i = intent_body.extend \<lparr>ti_schema_version = schema_version_v1, ti_prior_revision = 0, ti_target_revision = 1,
        ti_local_only = True, ti_request_id = 7, ti_request_sha256 = envelope, ti_transition_nonce = sample_nonce\<rparr>
        \<lparr>ti_checksum_sha256 = digest_bytes sample_codec b\<rparr>"
      using parts(1) by (auto simp: intent_new_def Let_def result_simps mode_simps)
    then show ?thesis
      using parts(4) [unfolded canonical_bytes_Ok, THEN conjunct1, symmetric] envelope sample_digest_length
      by (auto simp: intent_fields_def intent_body.defs defs split: if_splits)
  qed
  moreover have "length (g ActiveLeaf) = 137"
  proof -
    obtain b where "a = active_body.extend \<lparr>am_schema_version = schema_version_v1, am_revision = 1, am_local_only = True,
        am_request_id = 7, am_request_sha256 = envelope\<rparr> \<lparr>am_checksum_sha256 = digest_bytes sample_codec b\<rparr>"
      using parts(2) by (auto simp: active_new_def Let_def result_simps mode_simps)
    then show ?thesis
      using parts(5) [unfolded canonical_bytes_Ok, THEN conjunct1, symmetric] envelope sample_digest_length
      by (auto simp: active_fields_def active_body.defs defs split: if_splits)
  qed
  moreover have "length (g AcknowledgmentLeaf) = 263"
  proof -
    obtain b where "k = acknowledgment_body.extend \<lparr>ta_schema_version = schema_version_v1, ta_revision = 1,
        ta_transition_nonce = sample_nonce, ta_intent_sha256 = digest_bytes sample_codec (g IntentLeaf),
        ta_active_sha256 = digest_bytes sample_codec (g ActiveLeaf)\<rparr> \<lparr>ta_checksum_sha256 = digest_bytes sample_codec b\<rparr>"
      using parts(3) by (auto simp: acknowledgment_new_def Let_def result_simps mode_simps)
    then show ?thesis
      using parts(6) [unfolded canonical_bytes_Ok, THEN conjunct1, symmetric] sample_digest_length
      by (auto simp: acknowledgment_fields_def acknowledgment_body.defs defs split: if_splits)
  qed
  moreover have "range g = {g IntentLeaf, g ActiveLeaf, g AcknowledgmentLeaf}"
    by (auto simp: image_iff) (metis mode_leaf.exhaust)
  ultimately show ?thesis by (auto simp: inj_on_def sample_codec_sel)
qed

text \<open>
  C29: once a change to local-only is reported as done, no crash, fault or restart brings the network
  back: as long as every later request asks for local-only, whatever becomes of those requests, every
  reading of the mode is local-only.
\<close>

theorem acknowledged_local_only_survives:
  assumes "mode_serialization mc" and "inj_on (mc_sha256 mc) known"
    and "\<And>g. attempted_records mc euid io request state dir = Some g \<Longrightarrow> range g \<subseteq> known"
    and "mode_set mc euid io request state dir = (state', dir', Ok response)"
    and "sr_replay_status response = Created" and "sr_local_only response"
    and "(blocking_step mc euid known)\<^sup>*\<^sup>* (state', dir') (state'', dir'')"
  shows "mo_local_only (mode_load mc euid later dir'')"
  using mode_serialization.blocked_run [OF assms(1,7)]
    mode_serialization.blocked_Created [OF assms(1,4,5,6,3)] blocked_load [OF _ assms(2)]
  by simp

theorem acknowledged_local_only_survives_witness:
  "\<exists>dir. fst (snd (mode_set sample_codec 0 (quiet_set sample_nonce sample_identity) (mode_request 7 True 0) None empty_directory)) = dir
    \<and> mo_local_only (mode_load sample_codec 0 \<lparr>li_open = None, li_read = (\<lambda>_. None)\<rparr> dir)"
proof -
  let ?io = "quiet_set sample_nonce sample_identity"
  obtain dir where dir: "mode_set sample_codec 0 ?io (mode_request 7 True 0) None empty_directory =
      (None, dir, Ok (mode_response 7 True 1 Created))"
    using first_change by blast
  obtain g where g: "attempted_records sample_codec 0 ?io (mode_request 7 True 0) None empty_directory = Some g"
    using mode_set_Created [OF dir] by (auto simp: mode_response_def)
  have "crash dir dir \<or> dir = dir" by simp
  then have run: "(blocking_step sample_codec 0 (range g))\<^sup>*\<^sup>* (None, dir) (None, dir)" by simp
  have "mo_local_only (mode_load sample_codec 0 \<lparr>li_open = None, li_read = (\<lambda>_. None)\<rparr> dir)"
    by (rule acknowledged_local_only_survives [OF sample.mode_serialization_axioms first_attempt [OF g] _ dir _ _ run])
      (use g in \<open>simp_all add: mode_response_def\<close>)
  then show ?thesis using dir by simp
qed

text \<open>
  C30: a change whose outcome is unknown does not lock the mode. A retry under which no system call
  fails, with a new request id and the revision that is read afterwards, or the revision from before
  if the files do not match, succeeds, and its mode is what is read from then on.
\<close>

theorem unknown_outcome_is_repairable:
  assumes "mode_serialization mc"
    and "load_chain mc euid (si_load io) dir = Ok chain"
    and "mode_set mc euid io request state dir = (state', dir', Err PublicationOutcomeUnknown)"
    and "validate_request retry = Ok ()" and "valid_hash nonce"
    and "slo_expected_revision retry = (case load_chain mc euid quiet_load dir' of
        Ok c \<Rightarrow> am_revision (lc_active c) | Err _ \<Rightarrow> am_revision (lc_active chain))"
    and "slo_request_id retry \<noteq> slo_request_id request"
    and "\<And>c. load_chain mc euid quiet_load dir' = Ok c \<Longrightarrow> am_request_id (lc_active c) \<noteq> slo_request_id retry"
  shows "\<exists>dir''. mode_set mc euid (quiet_set nonce identity) retry state' dir' =
      (None, dir'', Ok (mode_response (slo_request_id retry) (slo_enabled retry) (slo_expected_revision retry + 1) Created))
    \<and> mode_load mc euid quiet_load dir'' =
      \<lparr>mo_local_only = slo_enabled retry, mo_revision = slo_expected_revision retry + 1, mo_authority_health = Persisted\<rparr>"
  by (rule mode_serialization.unknown_is_repairable [OF assms])

text \<open>A change whose files are published but cannot be read back.\<close>

definition unread_io :: set_io where
  "unread_io = (quiet_set sample_nonce sample_identity)\<lparr>si_reload := \<lparr>li_open = Some (Io IoOther), li_read = (\<lambda>_. None)\<rparr>\<rparr>"

lemma unread_change:
  assumes "load_chain sample_codec 0 quiet_load dir = Ok c" and "am_revision (lc_active c) = 1" and "am_request_id (lc_active c) = 7"
  shows "\<exists>state d c. mode_set sample_codec 0 unread_io (mode_request 8 True 1) None dir = (state, d, Err PublicationOutcomeUnknown)
    \<and> load_chain sample_codec 0 quiet_load d = Ok c \<and> am_revision (lc_active c) = 2 \<and> am_request_id (lc_active c) = 8"
proof -
  let ?reload = "\<lparr>li_open = Some (Io IoOther), li_read = (\<lambda>_. None)\<rparr>"
  have unread: "load_chain mc euid ?reload d = Err (Io IoOther)" for mc euid d
    by (simp add: load_chain_def read_records_def)
  have io: "unread_io = (quiet_set sample_nonce sample_identity)\<lparr>si_reload := ?reload\<rparr>" by (simp add: unread_io_def)
  have rev: "slo_expected_revision (mode_request 8 True 1) = current_revision_of (Some c) None None"
    and q: "slo_request_id (mode_request 8 True 1) = 8" and rev2: "slo_expected_revision (mode_request 8 True 1) + 1 = 2"
    using assms(2) by (simp_all add: mode_request_def current_revision_of_def)
  show ?thesis
    using sample.quiet_publication [OF mode_request_valid sample_nonce_valid load_chain_replaceable [OF assms(1)] _ _ rev,
        where identity = sample_identity and reload = ?reload] assms(1,3)
    unfolding unread io q rev2 by fastforce
qed

theorem unknown_outcome_is_repairable_witness:
  "\<exists>state dir dir''. mode_set sample_codec 0 (quiet_set sample_nonce sample_identity) (mode_request 9 False 2) state dir =
      (None, dir'', Ok (mode_response 9 False 3 Created))"
proof -
  obtain d1 c1 where c1: "load_chain sample_codec 0 quiet_load d1 = Ok c1" "am_revision (lc_active c1) = 1" "am_request_id (lc_active c1) = 7"
    using first_chain by blast
  obtain state d2 c2 where unknown: "mode_set sample_codec 0 unread_io (mode_request 8 True 1) None d1 = (state, d2, Err PublicationOutcomeUnknown)"
    and c2: "load_chain sample_codec 0 quiet_load d2 = Ok c2" "am_revision (lc_active c2) = 2" "am_request_id (lc_active c2) = 8"
    using unread_change [OF c1] by blast
  have io: "load_chain sample_codec 0 (si_load unread_io) d1 = Ok c1" using c1(1) by (simp add: unread_io_def quiet_set_def)
  from unknown_outcome_is_repairable [OF sample.mode_serialization_axioms io unknown _ sample_nonce_valid,
      where retry = "mode_request 9 False 2" and identity = sample_identity]
  show ?thesis using c2 mode_request_valid by (auto simp: mode_request_def)
qed

text \<open>
  C31: the whole application, under every interleaving of its threads with crashes, faults and
  restarts, never holds an outbound lease while the mode on disk is local-only or unreadable.
\<close>

theorem lease_needs_durable_permission:
  assumes "(app_step mc euid)\<^sup>*\<^sup>* (app_start mc euid io dir) a" and "Some capability \<in># aw_leases (ap_world a)"
  shows "\<not> mo_local_only (mode_load mc euid quiet_load (ap_directory a))
    \<and> mo_revision (mode_load mc euid quiet_load (ap_directory a)) = os_revision (au_snapshot (aw_state (ap_world a)))"
proof -
  have inv: "app_inv mc euid a" by (rule app_inv_run [OF assms(1) app_inv_start])
  then have permits: "\<not> os_local_only (au_snapshot (aw_state (ap_world a)))"
    using assms(2) by (auto simp: app_inv_def authority_inv_def)
  then have "snapshot_of_mode (mode_load mc euid quiet_load (ap_directory a)) = au_snapshot (aw_state (ap_world a))"
    using inv by (simp add: app_inv_def)
  then show ?thesis using permits by (metis outbound_snapshot.select_convs(1,2) snapshot_of_mode_def)
qed

theorem lease_needs_durable_permission_witness:
  "\<exists>dir. \<not> mo_local_only (mode_load sample_codec 0 quiet_load dir)"
proof -
  obtain dir where dir: "mode_load sample_codec 0 quiet_load dir = \<lparr>mo_local_only = False, mo_revision = 1, mo_authority_health = Persisted\<rparr>"
    using first_change by blast
  let ?a = "app_start sample_codec 0 quiet_load dir"
  have start: "ap_world ?a = sample_world permissive [] Idle" "ap_directory ?a = dir"
    by (simp_all add: app_start_def dir snapshot_of_mode_def permissive_def flip: sample_initial)
  have "app_step sample_codec 0 ?a (?a\<lparr>ap_world := sample_world permissive [Some GmailSync] Idle\<rparr>)"
    by (rule app_step.threads) (simp_all add: start sample_acquire, simp add: sample_world_def)
  from lease_needs_durable_permission [OF r_into_rtranclp [where r = "app_step sample_codec 0", OF this], of GmailSync]
  show ?thesis using start(2) by (auto simp: sample_world_def)
qed

end
