(* ===== verification/Url_Detection.thy ===== *)
theory Url_Detection
  imports Database_Tables
begin

text \<open>
  The detector of web addresses in \<open>receipt_intelligence.rs\<close>: receipt text that is disclosed to a
  provider must not contain a URI with a scheme or a bare web address. The detector works on the UTF-8
  bytes of the text with index loops; a byte is a number here. The loops are functions of the index
  with the remaining length as measure; \<open>trim_dots\<close> counts down.
\<close>

type_synonym bytes = "nat list"

definition text_bytes :: "rstr \<Rightarrow> bytes" where
  "text_bytes text = map unat (utf8_bytes text)"

definition is_ascii_alphabetic :: "nat \<Rightarrow> bool" where
  "is_ascii_alphabetic b \<longleftrightarrow> is_ascii_lowercase b \<or> is_ascii_uppercase b"

text \<open>\<open>u8::is_ascii_whitespace\<close>: space, tab, line feed, form feed, carriage return.\<close>

definition is_ascii_whitespace :: "nat \<Rightarrow> bool" where
  "is_ascii_whitespace b \<longleftrightarrow> b \<in> {32, 9, 10, 12, 13}"

definition to_ascii_lowercase :: "nat \<Rightarrow> nat" where
  "to_ascii_lowercase b = (if is_ascii_uppercase b then b + 32 else b)"

definition ascii_eq_ignore_case :: "bytes \<Rightarrow> bytes \<Rightarrow> bool" where
  "ascii_eq_ignore_case left right \<longleftrightarrow> length left = length right
     \<and> list_all (\<lambda>(l, r). to_ascii_lowercase l = to_ascii_lowercase r) (zip left right)"

text \<open>\<open>bytes[start..end]\<close> where \<open>start \<le> end \<le> bytes.len()\<close>.\<close>

definition slice :: "bytes \<Rightarrow> nat \<Rightarrow> nat \<Rightarrow> bytes" where
  "slice bytes start stop = take (stop - start) (drop start bytes)"

section \<open>URIs with a scheme\<close>

definition uri_schemes_without_authority :: "bytes list" where
  "uri_schemes_without_authority = map lit
     [''bitcoin'', ''blob'', ''cid'', ''data'', ''facetime'', ''facetime-audio'', ''file'', ''ftp'', ''ftps'',
      ''geo'', ''http'', ''https'', ''intent'', ''javascript'', ''ldap'', ''ldaps'', ''magnet'', ''mailto'',
      ''market'', ''mid'', ''news'', ''nntp'', ''sip'', ''sips'', ''sms'', ''smsto'', ''sftp'', ''ssh'', ''tel'',
      ''urn'', ''vbscript'', ''webcal'', ''ws'', ''wss'']"

definition is_scheme_character :: "nat \<Rightarrow> bool" where
  "is_scheme_character b \<longleftrightarrow> is_ascii_alphanumeric b \<or> b \<in> set (lit ''+-.'')"

function scheme_end :: "bytes \<Rightarrow> nat \<Rightarrow> nat \<Rightarrow> nat" where
  "scheme_end bytes start stop =
     (if stop < length bytes \<and> stop - start \<le> 32 \<and> is_scheme_character (bytes ! stop)
      then scheme_end bytes start (stop + 1) else stop)"
  by pat_completeness auto
termination by (relation "measure (\<lambda>(bytes, start, stop). length bytes - stop)") auto

declare scheme_end.simps [simp del]

definition scheme_verdict :: "bytes \<Rightarrow> nat \<Rightarrow> nat \<Rightarrow> bool" where
  "scheme_verdict bytes start stop \<longleftrightarrow>
     (let scheme = slice bytes start stop;
          has_authority = (stop + 3 \<le> length bytes \<and> slice bytes (stop + 1) (stop + 3) = lit ''//'');
          known_opaque_scheme = list_ex (ascii_eq_ignore_case scheme) uri_schemes_without_authority;
          namespaced_scheme = list_ex (\<lambda>value. value \<in> set (lit ''+-.'')) scheme
      in has_authority \<or> known_opaque_scheme \<or> namespaced_scheme)"

definition uri_scheme_at :: "bytes \<Rightarrow> nat \<Rightarrow> bool" where
  "uri_scheme_at bytes index \<longleftrightarrow>
     (let starts_at_boundary = (index = 0 \<or> \<not> is_scheme_character (bytes ! (index - 1)))
      in starts_at_boundary \<and> is_ascii_alphabetic (bytes ! index)
         \<and> (let start = index; stop = scheme_end bytes start (index + 1)
            in stop < length bytes \<and> stop - start \<le> 32 \<and> bytes ! stop = 58
               \<and> stop + 1 < length bytes \<and> \<not> is_ascii_whitespace (bytes ! (stop + 1))
               \<and> scheme_verdict bytes start stop))"

function uri_scheme_loop :: "bytes \<Rightarrow> nat \<Rightarrow> bool" where
  "uri_scheme_loop bytes index =
     (if index < length bytes
      then if uri_scheme_at bytes index then True else uri_scheme_loop bytes (index + 1)
      else False)"
  by pat_completeness auto
termination by (relation "measure (\<lambda>(bytes, index). length bytes - index)") auto

declare uri_scheme_loop.simps [simp del]

definition contains_uri_scheme :: "bytes \<Rightarrow> bool" where
  "contains_uri_scheme bytes = uri_scheme_loop bytes 0"

section \<open>Bare web addresses\<close>

definition common_or_reserved_tlds :: "bytes list" where
  "common_or_reserved_tlds = map lit
     [''ai'', ''app'', ''au'', ''biz'', ''boutique'', ''br'', ''ca'', ''cc'', ''ch'', ''clothing'', ''cloud'',
      ''cn'', ''co'', ''com'', ''de'', ''dev'', ''dk'', ''edu'', ''email'', ''es'', ''eu'', ''example'',
      ''fashion'', ''fi'', ''fr'', ''gov'', ''hk'', ''ie'', ''in'', ''info'', ''invalid'', ''io'', ''it'', ''jp'',
      ''kr'', ''ly'', ''me'', ''mx'', ''net'', ''nl'', ''no'', ''nz'', ''online'', ''org'', ''sale'', ''se'', ''sg'',
      ''shoes'', ''shop'', ''site'', ''store'', ''tech'', ''test'', ''tv'', ''uk'', ''us'', ''website'', ''xyz'']"

definition is_hostname_character :: "nat \<Rightarrow> bool" where
  "is_hostname_character b \<longleftrightarrow> is_ascii_alphanumeric b \<or> b \<in> set (lit ''-.'')"

definition valid_hostname_label :: "bytes \<Rightarrow> bool" where
  "valid_hostname_label label \<longleftrightarrow> label \<noteq> [] \<and> length label \<le> 63
     \<and> is_ascii_alphanumeric (hd label) \<and> is_ascii_alphanumeric (last label)
     \<and> list_all (\<lambda>value. is_ascii_alphanumeric value \<or> value = 45) label"

definition is_known_tld :: "bytes \<Rightarrow> bool" where
  "is_known_tld tld \<longleftrightarrow>
     (length tld \<ge> 4 \<and> ascii_eq_ignore_case (take 4 tld) (lit ''xn--'')
      \<and> list_all is_ascii_alphanumeric (drop 4 tld))
     \<or> list_ex (ascii_eq_ignore_case tld) common_or_reserved_tlds"

definition has_url_tail :: "bytes \<Rightarrow> nat \<Rightarrow> bool" where
  "has_url_tail bytes hostname_end \<longleftrightarrow>
     hostname_end < length bytes
     \<and> (if bytes ! hostname_end \<in> set (lit ''/?#'') then True
        else if bytes ! hostname_end = 58
        then hostname_end + 1 < length bytes \<and> is_ascii_digit (bytes ! (hostname_end + 1))
        else False)"

definition is_ipv4_address :: "bytes list \<Rightarrow> bool" where
  "is_ipv4_address labels \<longleftrightarrow> length labels = 4
     \<and> list_all (\<lambda>label. label \<noteq> [] \<and> length label \<le> 3 \<and> list_all is_ascii_digit label
          \<and> parse_uint 255 label \<noteq> None) labels"

function hostname_run_end :: "bytes \<Rightarrow> nat \<Rightarrow> nat" where
  "hostname_run_end bytes stop =
     (if stop < length bytes \<and> is_hostname_character (bytes ! stop)
      then hostname_run_end bytes (stop + 1) else stop)"
  by pat_completeness auto
termination by (relation "measure (\<lambda>(bytes, stop). length bytes - stop)") auto

declare hostname_run_end.simps [simp del]

fun trim_dots :: "bytes \<Rightarrow> nat \<Rightarrow> nat \<Rightarrow> nat" where
  "trim_dots bytes start 0 = 0"
| "trim_dots bytes start (Suc n) =
     (if Suc n > start \<and> bytes ! n = 46 then trim_dots bytes start n else Suc n)"

definition web_address_verdict :: "bytes \<Rightarrow> nat \<Rightarrow> nat \<Rightarrow> bool" where
  "web_address_verdict bytes start hostname_end \<longleftrightarrow>
     (let hostname = slice bytes start hostname_end;
          labels = split_on 46 hostname;
          preceded_by_at = (start > 0 \<and> bytes ! (start - 1) = 64);
          protocol_relative = (start \<ge> 2 \<and> slice bytes (start - 2) start = lit ''//'');
          url_tail = has_url_tail bytes hostname_end
      in (length labels \<ge> 2 \<and> list_all valid_hostname_label labels \<and> (\<not> preceded_by_at \<or> url_tail)
          \<and> (let tld = last labels;
                 alphabetic_tld = (length tld \<ge> 2 \<and> list_all is_ascii_alphabetic tld);
                 www_prefixed = ascii_eq_ignore_case (hd labels) (lit ''www'')
             in is_ipv4_address labels \<or> is_known_tld tld \<or> protocol_relative
                \<or> (www_prefixed \<and> alphabetic_tld) \<or> (alphabetic_tld \<and> url_tail)))
         \<or> (ascii_eq_ignore_case hostname (lit ''localhost'') \<and> url_tail))"

definition web_boundary :: "bytes \<Rightarrow> nat \<Rightarrow> bool" where
  "web_boundary bytes index \<longleftrightarrow> is_ascii_alphanumeric (bytes ! index)
     \<and> (index = 0 \<or> \<not> is_hostname_character (bytes ! (index - 1)))"

lemma hostname_run_end_ge: "stop \<le> hostname_run_end bytes stop"
proof (induction bytes stop rule: hostname_run_end.induct)
  case (1 bytes stop)
  then show ?case by (subst hostname_run_end.simps) auto
qed

function web_address_loop :: "bytes \<Rightarrow> nat \<Rightarrow> bool" where
  "web_address_loop bytes index =
     (if index < length bytes
      then if \<not> web_boundary bytes index then web_address_loop bytes (index + 1)
        else let stop = hostname_run_end bytes (index + 1)
             in if web_address_verdict bytes index (trim_dots bytes index stop) then True
                else web_address_loop bytes (max stop (index + 1))
      else False)"
  by pat_completeness auto
termination
  by (relation "measure (\<lambda>(bytes, index). length bytes - index)") (auto simp: less_max_iff_disj intro!: diff_less_mono2)

declare web_address_loop.simps [simp del]

definition contains_bare_web_address :: "bytes \<Rightarrow> bool" where
  "contains_bare_web_address bytes = web_address_loop bytes 0"

definition contains_url_or_uri :: "rstr \<Rightarrow> bool" where
  "contains_url_or_uri text =
     (let bytes = text_bytes text in contains_uri_scheme bytes \<or> contains_bare_web_address bytes)"

end
