(* ===== verification/Receipt_Intelligence_Contracts.thy ===== *)
theory Receipt_Intelligence_Contracts
  imports Url_Detection Recommendation_Contracts
begin

text \<open>
  The contracts of receipt intelligence (\<open>receipt_intelligence.rs\<close>): the bounds that are fixed in the
  build, the projection of a receipt that is disclosed to the provider, the disclosure a user sees, the
  consent envelope that binds an approval to that disclosure, the reservation of a single attempt, the audit
  of what was sent, and the outcomes and summaries that are reported back.

  The digest \<open>sha\<close> (the \<open>sha2\<close> crate) and the RFC 3339 parser \<open>rfc3339\<close> (the \<open>time\<close> crate) are parameters.
  Identifiers are UUIDs. Sequential checks with \<open>?\<close> are \<open>all_ok\<close> lists, whose first error is returned.
\<close>

definition receipt_invalid :: validation_error where
  "receipt_invalid = ValidationError ReceiptProviderOutput"

definition receipt_intelligence_provider_v1 :: rstr where
  "receipt_intelligence_provider_v1 = lit ''openai''"
definition receipt_intelligence_model_v1 :: rstr where
  "receipt_intelligence_model_v1 = lit ''gpt-5.6-sol''"
definition receipt_intelligence_purpose_v1 :: rstr where
  "receipt_intelligence_purpose_v1 = lit ''receipt_intelligence''"
definition receipt_intelligence_prompt_revision_v1 :: rstr where
  "receipt_intelligence_prompt_revision_v1 = lit ''receipt-intelligence-prompt-v1''"
definition receipt_intelligence_schema_revision_v1 :: rstr where
  "receipt_intelligence_schema_revision_v1 = lit ''receipt-intelligence-v1''"
definition receipt_intelligence_projection_revision_v1 :: rstr where
  "receipt_intelligence_projection_revision_v1 = lit ''receipt-intelligence-projection-v1''"
definition receipt_intelligence_parameter_revision_v1 :: rstr where
  "receipt_intelligence_parameter_revision_v1 = lit ''receipt-intelligence-parameters-v1''"
definition receipt_intelligence_retention_revision_v1 :: rstr where
  "receipt_intelligence_retention_revision_v1 = lit ''p11-openai-responses-retention-v1''"

datatype ri_classification = ApparelOrder | ApparelLifecycleUpdate | Unrelated | Ambiguous

datatype ri_attempt_state = RiNotSent | RiDispatched | RiCompleted | RiRefused | RiFailed | RiOutcomeUnknown

datatype ri_reasoning_effort = RiLow

datatype ri_failure_code =
    RfApprovalExpired | RfApprovalConsumed | RfConsentMismatch | RfBoundExceeded | RfLocalOnly
  | RfReleaseEvidenceUnavailable | RfOutboundAuthorityUnavailable | RfCredentialUnavailable
  | RfRetentionDeclarationStale | RfSourceUnavailable | RfSourceRevisionChanged | RfProviderAuthentication
  | RfProviderRateLimited | RfProviderUnavailable | RfProviderProtocol | RfProviderOutputInvalid
  | RfCitationInvalid | RfPersistenceFailed | RfCancelled

datatype ri_user_action =
    RaNone | RaStartNewPreview | RaCheckOpenAiCredential | RaReviewRetentionSettings | RaRetryWhenAvailable
  | RaReviewSource | RaReviewProviderStatus

datatype ri_availability_reason =
    RrLocalOnly | RrReleaseEvidenceUnavailable | RrOutboundAuthorityUnavailable | RrCredentialUnavailable
  | RrRetentionDeclarationUnavailable

section \<open>Bounds\<close>

record preparation_bounds =
  pb_max_fragment_count :: u16
  pb_max_fragment_bytes :: u32
  pb_max_aggregate_text_bytes :: u32
  pb_max_serialized_request_bytes :: u32

definition preparation_bounds_production :: preparation_bounds where
  "preparation_bounds_production =
     \<lparr>pb_max_fragment_count = 64, pb_max_fragment_bytes = 16 * 1024,
      pb_max_aggregate_text_bytes = 128 * 1024, pb_max_serialized_request_bytes = 256 * 1024\<rparr>"

definition preparation_bounds_validate :: "preparation_bounds \<Rightarrow> validation" where
  "preparation_bounds_validate b = ensure (b = preparation_bounds_production) receipt_invalid"

record execution_bounds =
  eb_max_request_bytes :: u32
  eb_max_response_bytes :: u32
  eb_max_output_tokens :: u32
  eb_timeout_millis :: u32
  eb_max_attempts :: u8

definition execution_bounds_production :: execution_bounds where
  "execution_bounds_production =
     \<lparr>eb_max_request_bytes = 256 * 1024, eb_max_response_bytes = 2 * 1024 * 1024,
      eb_max_output_tokens = 4000, eb_timeout_millis = 60000, eb_max_attempts = 1\<rparr>"

definition execution_bounds_validate :: "execution_bounds \<Rightarrow> validation" where
  "execution_bounds_validate b = ensure (b = execution_bounds_production) receipt_invalid"

section \<open>The projection\<close>

record projection_fragment =
  pf_fragment_ref :: rstr
  pf_text :: rstr

text \<open>\<open>format!("fragment-\{ordinal:04\}")\<close>: at least four digits, padded with zeros.\<close>

definition fragment_handle :: "nat \<Rightarrow> rstr" where
  "fragment_handle ordinal =
     (let digits = show_digits ordinal in lit ''fragment-'' @ replicate (4 - length digits) 48 @ digits)"

definition fragment_validate_at :: "nat \<Rightarrow> preparation_bounds \<Rightarrow> projection_fragment \<Rightarrow> validation" where
  "fragment_validate_at ordinal bounds f =
     (let expected_handle = fragment_handle ordinal in
      if pf_fragment_ref f \<noteq> expected_handle
         \<or> pf_text f = []
         \<or> trim (pf_text f) = []
         \<or> byte_len (pf_text f) > unat (pb_max_fragment_bytes bounds)
         \<or> list_ex (\<lambda>c. is_control c \<and> c \<noteq> 10 \<and> c \<noteq> 9) (pf_text f)
         \<or> contains_url_or_uri (pf_text f)
      then Err receipt_invalid else Ok ())"

record projection =
  pj_revision :: rstr
  pj_fragments :: "projection_fragment list"

text \<open>The lengths are truncated to \<open>u32\<close> and the sum wraps, as in a release build.\<close>

definition aggregate_text_bytes :: "projection \<Rightarrow> u32" where
  "aggregate_text_bytes p = sum_list (map (\<lambda>f. of_nat (byte_len (pf_text f))) (pj_fragments p))"

definition u64_to_be_bytes :: "u64 \<Rightarrow> u8 list" where
  "u64_to_be_bytes w = map (\<lambda>i. ucast (drop_bit (8 * i) w)) [7, 6, 5, 4, 3, 2, 1, 0]"

text \<open>What \<open>hash_part\<close> feeds into the digest: the length as eight big-endian bytes, then the bytes.\<close>

definition hash_part :: "u8 list \<Rightarrow> u8 list" where
  "hash_part value = u64_to_be_bytes (of_nat (length value)) @ value"

definition projection_message :: "projection \<Rightarrow> u8 list" where
  "projection_message p =
     hash_part (utf8_bytes (pj_revision p))
     @ hash_part (u64_to_be_bytes (of_nat (length (pj_fragments p))))
     @ concat (map (\<lambda>f. hash_part (utf8_bytes (pf_fragment_ref f)) @ hash_part (utf8_bytes (pf_text f)))
         (pj_fragments p))"

definition projection_sha256 :: "(u8 list \<Rightarrow> u8 list) \<Rightarrow> projection \<Rightarrow> rstr" where
  "projection_sha256 sha p = lower_hex (sha (projection_message p))"

definition fragment_sha256 :: "(u8 list \<Rightarrow> u8 list) \<Rightarrow> projection \<Rightarrow> rstr list" where
  "fragment_sha256 sha p = map (\<lambda>f. lower_hex (sha (utf8_bytes (pf_text f)))) (pj_fragments p)"

fun validate_fragments :: "nat \<Rightarrow> preparation_bounds \<Rightarrow> projection_fragment list \<Rightarrow> validation" where
  "validate_fragments ordinal bounds [] = Ok ()"
| "validate_fragments ordinal bounds (f # fs) =
     and_then (fragment_validate_at ordinal bounds f) (\<lambda>_. validate_fragments (ordinal + 1) bounds fs)"

definition projection_validate_with :: "preparation_bounds \<Rightarrow> projection \<Rightarrow> validation" where
  "projection_validate_with bounds p =
     all_ok
       [preparation_bounds_validate bounds,
        ensure (\<not> (pj_revision p \<noteq> receipt_intelligence_projection_revision_v1
          \<or> pj_fragments p = []
          \<or> length (pj_fragments p) > unat (pb_max_fragment_count bounds)
          \<or> aggregate_text_bytes p > pb_max_aggregate_text_bytes bounds)) receipt_invalid,
        validate_fragments 0 bounds (pj_fragments p)]"

definition projection_validate :: "projection \<Rightarrow> validation" where
  "projection_validate p = projection_validate_with preparation_bounds_production p"

section \<open>Disclosure and consent\<close>

record receipt_retention_disclosure =
  rt_revision :: rstr
  rt_declaration :: retention_declaration
  rt_local_provider_payload_retained :: bool
  rt_store :: bool
  rt_store_false_is_not_organization_zdr :: bool
  rt_default_abuse_monitoring_max_days :: u8
  rt_safety_review_exceptions_apply :: bool

definition receipt_retention_for_declaration :: "retention_declaration \<Rightarrow> receipt_retention_disclosure" where
  "receipt_retention_for_declaration declaration =
     \<lparr>rt_revision = receipt_intelligence_retention_revision_v1, rt_declaration = declaration,
      rt_local_provider_payload_retained = False, rt_store = False,
      rt_store_false_is_not_organization_zdr = True, rt_default_abuse_monitoring_max_days = 30,
      rt_safety_review_exceptions_apply = True\<rparr>"

definition receipt_retention_validate :: "receipt_retention_disclosure \<Rightarrow> validation" where
  "receipt_retention_validate r =
     all_ok
       [retention_declaration_validate (rt_declaration r),
        ensure (rt_revision r = receipt_intelligence_retention_revision_v1
          \<and> rd_mode (rt_declaration r) \<noteq> RetentionUnknown
          \<and> \<not> rt_local_provider_payload_retained r
          \<and> \<not> rt_store r
          \<and> rt_store_false_is_not_organization_zdr r
          \<and> rt_default_abuse_monitoring_max_days r = 30
          \<and> rt_safety_review_exceptions_apply r) receipt_invalid]"

record receipt_disclosure =
  rd_provider :: rstr
  rd_model :: rstr
  rd_purpose :: rstr
  rd_projection :: projection
  rd_aggregate_text_bytes :: u32
  rd_raw_mime_disclosed :: bool
  rd_headers_disclosed :: bool
  rd_urls_disclosed :: bool
  rd_filenames_disclosed :: bool
  rd_attachment_metadata_disclosed :: bool
  rd_cid_metadata_disclosed :: bool
  rd_internal_identifiers_disclosed :: bool
  rd_hashes_disclosed :: bool
  rd_credentials_disclosed :: bool
  rd_image_bytes_disclosed :: bool
  rd_retention :: receipt_retention_disclosure
  rd_preparation_bounds :: preparation_bounds
  rd_execution_bounds :: execution_bounds

definition receipt_disclosure_validate :: "receipt_disclosure \<Rightarrow> validation" where
  "receipt_disclosure_validate d =
     all_ok
       [preparation_bounds_validate (rd_preparation_bounds d),
        execution_bounds_validate (rd_execution_bounds d),
        projection_validate_with (rd_preparation_bounds d) (rd_projection d),
        receipt_retention_validate (rd_retention d),
        ensure (rd_provider d = receipt_intelligence_provider_v1
          \<and> rd_model d = receipt_intelligence_model_v1
          \<and> rd_purpose d = receipt_intelligence_purpose_v1
          \<and> rd_aggregate_text_bytes d = aggregate_text_bytes (rd_projection d)
          \<and> \<not> rd_raw_mime_disclosed d
          \<and> \<not> rd_headers_disclosed d
          \<and> \<not> rd_urls_disclosed d
          \<and> \<not> rd_filenames_disclosed d
          \<and> \<not> rd_attachment_metadata_disclosed d
          \<and> \<not> rd_cid_metadata_disclosed d
          \<and> \<not> rd_internal_identifiers_disclosed d
          \<and> \<not> rd_hashes_disclosed d
          \<and> \<not> rd_credentials_disclosed d
          \<and> \<not> rd_image_bytes_disclosed d) receipt_invalid]"

record consent_envelope =
  cn_source_id :: uuid
  cn_source_revision_id :: uuid
  cn_source_revision_sha256 :: rstr
  cn_disclosed_fragment_sha256 :: "rstr list"
  cn_projection_sha256 :: rstr
  cn_serialized_request_sha256 :: rstr
  cn_serialized_request_bytes :: u32
  cn_credential_id :: uuid
  cn_provider :: rstr
  cn_model :: rstr
  cn_prompt_revision :: rstr
  cn_schema_revision :: rstr
  cn_projection_revision :: rstr
  cn_parameter_revision :: rstr
  cn_retention :: receipt_retention_disclosure
  cn_preparation_bounds :: preparation_bounds
  cn_execution_bounds :: execution_bounds
  cn_expires_at :: rstr

definition consent_envelope_validate :: "(rstr \<Rightarrow> 'ts option) \<Rightarrow> consent_envelope \<Rightarrow> validation" where
  "consent_envelope_validate rfc3339 c =
     all_ok
       [receipt_retention_validate (cn_retention c),
        preparation_bounds_validate (cn_preparation_bounds c),
        execution_bounds_validate (cn_execution_bounds c),
        validate_timestamp rfc3339 (cn_expires_at c),
        ensure (\<not> (cn_disclosed_fragment_sha256 c = []
          \<or> length (cn_disclosed_fragment_sha256 c) > unat (pb_max_fragment_count (cn_preparation_bounds c))
          \<or> cn_serialized_request_bytes c = 0
          \<or> cn_serialized_request_bytes c > pb_max_serialized_request_bytes (cn_preparation_bounds c)
          \<or> cn_serialized_request_bytes c > eb_max_request_bytes (cn_execution_bounds c)
          \<or> cn_provider c \<noteq> receipt_intelligence_provider_v1
          \<or> cn_model c \<noteq> receipt_intelligence_model_v1
          \<or> cn_prompt_revision c \<noteq> receipt_intelligence_prompt_revision_v1
          \<or> cn_schema_revision c \<noteq> receipt_intelligence_schema_revision_v1
          \<or> cn_projection_revision c \<noteq> receipt_intelligence_projection_revision_v1
          \<or> cn_parameter_revision c \<noteq> receipt_intelligence_parameter_revision_v1)) receipt_invalid]"

definition consent_validate_against ::
  "(u8 list \<Rightarrow> u8 list) \<Rightarrow> (rstr \<Rightarrow> 'ts option) \<Rightarrow> consent_envelope \<Rightarrow> receipt_disclosure \<Rightarrow> validation" where
  "consent_validate_against sha rfc3339 c d =
     all_ok
       [consent_envelope_validate rfc3339 c,
        receipt_disclosure_validate d,
        ensure (cn_provider c = rd_provider d
          \<and> cn_model c = rd_model d
          \<and> cn_projection_revision c = pj_revision (rd_projection d)
          \<and> cn_projection_sha256 c = projection_sha256 sha (rd_projection d)
          \<and> cn_disclosed_fragment_sha256 c = fragment_sha256 sha (rd_projection d)
          \<and> cn_retention c = rd_retention d
          \<and> cn_preparation_bounds c = rd_preparation_bounds d
          \<and> cn_execution_bounds c = rd_execution_bounds d) receipt_invalid]"

record receipt_preview =
  pv_disclosure :: receipt_disclosure
  pv_consent_envelope :: consent_envelope

definition receipt_preview_validate ::
  "(u8 list \<Rightarrow> u8 list) \<Rightarrow> (rstr \<Rightarrow> 'ts option) \<Rightarrow> receipt_preview \<Rightarrow> validation" where
  "receipt_preview_validate sha rfc3339 p =
     consent_validate_against sha rfc3339 (pv_consent_envelope p) (pv_disclosure p)"

record receipt_consent =
  cs_affirmative :: bool
  cs_preview :: receipt_preview

definition receipt_consent_validate ::
  "(u8 list \<Rightarrow> u8 list) \<Rightarrow> (rstr \<Rightarrow> 'ts option) \<Rightarrow> receipt_consent \<Rightarrow> validation" where
  "receipt_consent_validate sha rfc3339 c =
     (if \<not> cs_affirmative c then Err receipt_invalid
      else receipt_preview_validate sha rfc3339 (cs_preview c))"

record preview_receipt_request =
  pq_schema_version :: u8
  pq_request_id :: uuid
  pq_source_id :: uuid

definition preview_receipt_request_validate :: "preview_receipt_request \<Rightarrow> validation" where
  "preview_receipt_request_validate r = require_schema_v1 (pq_schema_version r)"

record preview_receipt_response =
  ps_schema_version :: u8
  ps_request_id :: uuid
  ps_preview :: receipt_preview

definition preview_receipt_response_validate ::
  "(u8 list \<Rightarrow> u8 list) \<Rightarrow> (rstr \<Rightarrow> 'ts option) \<Rightarrow> preview_receipt_response \<Rightarrow> validation" where
  "preview_receipt_response_validate sha rfc3339 r =
     all_ok [require_schema_v1 (ps_schema_version r), receipt_preview_validate sha rfc3339 (ps_preview r)]"

record request_receipt_request =
  rq_schema_version :: u8
  rq_request_id :: uuid
  rq_consent :: receipt_consent

definition request_receipt_request_validate ::
  "(u8 list \<Rightarrow> u8 list) \<Rightarrow> (rstr \<Rightarrow> 'ts option) \<Rightarrow> request_receipt_request \<Rightarrow> validation" where
  "request_receipt_request_validate sha rfc3339 r =
     all_ok [require_schema_v1 (rq_schema_version r), receipt_consent_validate sha rfc3339 (rq_consent r)]"

section \<open>Reservation, audit and outcome\<close>

record ri_reservation =
  rv_approval_id :: uuid
  rv_attempt_id :: uuid
  rv_source_id :: uuid
  rv_source_revision_id :: uuid
  rv_state :: ri_attempt_state
  rv_single_use :: bool
  rv_approval_created_at :: rstr
  rv_approval_consumed_at :: rstr
  rv_expires_at :: rstr

definition ri_reservation_validate :: "(rstr \<Rightarrow> 'ts::linorder option) \<Rightarrow> ri_reservation \<Rightarrow> validation" where
  "ri_reservation_validate rfc3339 r =
     and_then (parse_timestamp rfc3339 (rv_approval_created_at r)) (\<lambda>created.
     and_then (parse_timestamp rfc3339 (rv_approval_consumed_at r)) (\<lambda>consumed.
     and_then (parse_timestamp rfc3339 (rv_expires_at r)) (\<lambda>expires.
       ensure (rv_state r = RiNotSent \<and> rv_single_use r \<and> created = consumed \<and> consumed < expires)
         receipt_invalid)))"

record ri_provider_parameters =
  pm_revision :: rstr
  pm_store :: bool
  pm_background :: bool
  pm_tools_enabled :: bool
  pm_previous_response_id_present :: bool
  pm_strict_schema :: bool
  pm_reasoning_effort :: ri_reasoning_effort
  pm_max_output_tokens :: u32
  pm_timeout_millis :: u32
  pm_max_attempts :: u8

definition ri_provider_parameters_validate :: "ri_provider_parameters \<Rightarrow> validation" where
  "ri_provider_parameters_validate p =
     ensure (pm_revision p = receipt_intelligence_parameter_revision_v1
       \<and> \<not> pm_store p \<and> \<not> pm_background p \<and> \<not> pm_tools_enabled p
       \<and> \<not> pm_previous_response_id_present p \<and> pm_strict_schema p
       \<and> pm_reasoning_effort p = RiLow \<and> pm_max_output_tokens p = 4000
       \<and> pm_timeout_millis p = 60000 \<and> pm_max_attempts p = 1) receipt_invalid"

record ri_usage =
  ru_request_bytes :: u32
  ru_response_bytes :: u32
  ru_input_tokens :: u32
  ru_output_tokens :: u32
  ru_total_tokens :: u32
  ru_reasoning_tokens :: u32
  ru_cached_input_tokens :: u32
  ru_attempts :: u8

definition u32_saturating_add :: "u32 \<Rightarrow> u32 \<Rightarrow> u32" where
  "u32_saturating_add a b = (if unat a + unat b < 2 ^ 32 then a + b else - 1)"

definition ri_usage_validate_with :: "execution_bounds \<Rightarrow> ri_usage \<Rightarrow> validation" where
  "ri_usage_validate_with bounds u =
     all_ok
       [execution_bounds_validate bounds,
        ensure (ru_request_bytes u > 0
          \<and> ru_request_bytes u \<le> eb_max_request_bytes bounds
          \<and> ru_response_bytes u \<le> eb_max_response_bytes bounds
          \<and> ru_output_tokens u \<le> eb_max_output_tokens bounds
          \<and> ru_total_tokens u = u32_saturating_add (ru_input_tokens u) (ru_output_tokens u)
          \<and> ru_reasoning_tokens u \<le> ru_output_tokens u
          \<and> ru_cached_input_tokens u \<le> ru_input_tokens u
          \<and> ru_attempts u = 1
          \<and> ru_attempts u \<le> eb_max_attempts bounds) receipt_invalid]"

definition ri_usage_validate :: "ri_usage \<Rightarrow> validation" where
  "ri_usage_validate u = ri_usage_validate_with execution_bounds_production u"

definition receipt_bounded_identifier :: "rstr \<Rightarrow> nat \<Rightarrow> bool" where
  "receipt_bounded_identifier value max_chars \<longleftrightarrow>
     value \<noteq> [] \<and> byte_len value \<le> max_chars \<and> is_ascii value
     \<and> list_all (\<lambda>c. is_ascii_alphanumeric c \<or> c \<in> set (lit ''-_.:'')) value"

record ri_audit =
  au_audit_id :: uuid
  au_attempt_id :: uuid
  au_source_id :: uuid
  au_source_revision_id :: uuid
  au_source_revision_sha256 :: rstr
  au_projection_sha256 :: rstr
  au_serialized_request_sha256 :: rstr
  au_response_sha256 :: "rstr option"
  au_provider :: rstr
  au_model :: rstr
  au_provider_request_id :: "rstr option"
  au_response_id :: "rstr option"
  au_prompt_revision :: rstr
  au_schema_revision :: rstr
  au_projection_revision :: rstr
  au_retention_provenance :: rstr
  au_parameters :: ri_provider_parameters
  au_execution_bounds :: execution_bounds
  au_usage :: ri_usage
  au_dispatched_at :: rstr
  au_finished_at :: rstr

definition ri_audit_validate :: "(rstr \<Rightarrow> 'ts::linorder option) \<Rightarrow> ri_audit \<Rightarrow> validation" where
  "ri_audit_validate rfc3339 a =
     all_ok
       [ri_provider_parameters_validate (au_parameters a),
        execution_bounds_validate (au_execution_bounds a),
        ri_usage_validate_with (au_execution_bounds a) (au_usage a),
        ensure (\<not> (\<not> receipt_bounded_identifier (au_retention_provenance a) 128
          \<or> au_provider a \<noteq> receipt_intelligence_provider_v1
          \<or> au_model a \<noteq> receipt_intelligence_model_v1
          \<or> au_prompt_revision a \<noteq> receipt_intelligence_prompt_revision_v1
          \<or> au_schema_revision a \<noteq> receipt_intelligence_schema_revision_v1
          \<or> au_projection_revision a \<noteq> receipt_intelligence_projection_revision_v1)) receipt_invalid,
        try_for_each (\<lambda>value. ensure (receipt_bounded_identifier value 128) receipt_invalid)
          (flatten_options [au_provider_request_id a, au_response_id a]),
        and_then (parse_timestamp rfc3339 (au_dispatched_at a)) (\<lambda>dispatched.
        and_then (parse_timestamp rfc3339 (au_finished_at a)) (\<lambda>finished.
          ensure (dispatched \<le> finished) receipt_invalid))]"

record ri_classification_evidence =
  cv_classification_id :: uuid
  cv_attempt_id :: uuid
  cv_source_id :: uuid
  cv_source_revision_id :: uuid
  cv_classification :: ri_classification
  cv_order_evidence_id :: "uuid option"
  cv_created_at :: rstr

fun graph_shape_is_valid :: "ri_classification \<Rightarrow> uuid option \<Rightarrow> bool" where
  "graph_shape_is_valid ApparelOrder order \<longleftrightarrow> order \<noteq> None"
| "graph_shape_is_valid ApparelLifecycleUpdate order \<longleftrightarrow> order \<noteq> None"
| "graph_shape_is_valid Unrelated order \<longleftrightarrow> order = None"
| "graph_shape_is_valid Ambiguous order \<longleftrightarrow> order = None"

definition ri_classification_validate ::
  "(rstr \<Rightarrow> 'ts option) \<Rightarrow> ri_classification_evidence \<Rightarrow> validation" where
  "ri_classification_validate rfc3339 c =
     all_ok
       [validate_timestamp rfc3339 (cv_created_at c),
        ensure (graph_shape_is_valid (cv_classification c) (cv_order_evidence_id c)) receipt_invalid]"

record ri_failure =
  fl_code :: ri_failure_code
  fl_retryable :: bool
  fl_user_action :: ri_user_action

definition ri_failure_validate :: "ri_failure \<Rightarrow> validation" where
  "ri_failure_validate f = (if fl_retryable f then Err receipt_invalid else Ok ())"

datatype ri_outcome =
    OutReserved ri_reservation
  | OutDispatched uuid rstr
  | OutCompleted ri_classification_evidence ri_audit
  | OutRefused uuid ri_audit
  | OutFailed uuid ri_failure "ri_audit option"
  | OutUnknown uuid "ri_audit option"

fun ri_outcome_state :: "ri_outcome \<Rightarrow> ri_attempt_state" where
  "ri_outcome_state (OutReserved _) = RiNotSent"
| "ri_outcome_state (OutDispatched _ _) = RiDispatched"
| "ri_outcome_state (OutCompleted _ _) = RiCompleted"
| "ri_outcome_state (OutRefused _ _) = RiRefused"
| "ri_outcome_state (OutFailed _ _ _) = RiFailed"
| "ri_outcome_state (OutUnknown _ _) = RiOutcomeUnknown"

definition optional_audit_validate ::
  "(rstr \<Rightarrow> 'ts::linorder option) \<Rightarrow> uuid \<Rightarrow> ri_audit option \<Rightarrow> validation" where
  "optional_audit_validate rfc3339 attempt audit =
     (case audit of None \<Rightarrow> Ok ()
      | Some audit \<Rightarrow> all_ok [ri_audit_validate rfc3339 audit, ensure (attempt = au_attempt_id audit) receipt_invalid])"

fun ri_outcome_validate :: "(rstr \<Rightarrow> 'ts::linorder option) \<Rightarrow> ri_outcome \<Rightarrow> validation" where
  "ri_outcome_validate rfc3339 (OutReserved reservation) = ri_reservation_validate rfc3339 reservation"
| "ri_outcome_validate rfc3339 (OutDispatched attempt dispatched_at) = validate_timestamp rfc3339 dispatched_at"
| "ri_outcome_validate rfc3339 (OutCompleted classification audit) =
     all_ok
       [ri_classification_validate rfc3339 classification, ri_audit_validate rfc3339 audit,
        ensure (cv_attempt_id classification = au_attempt_id audit
          \<and> cv_source_id classification = au_source_id audit
          \<and> cv_source_revision_id classification = au_source_revision_id audit) receipt_invalid]"
| "ri_outcome_validate rfc3339 (OutRefused attempt audit) =
     all_ok [ri_audit_validate rfc3339 audit, ensure (attempt = au_attempt_id audit) receipt_invalid]"
| "ri_outcome_validate rfc3339 (OutFailed attempt failure audit) =
     all_ok [ri_failure_validate failure, optional_audit_validate rfc3339 attempt audit]"
| "ri_outcome_validate rfc3339 (OutUnknown attempt audit) = optional_audit_validate rfc3339 attempt audit"

record request_receipt_response =
  qs_schema_version :: u8
  qs_request_id :: uuid
  qs_outcome :: ri_outcome
  qs_replay_status :: replay_status

definition request_receipt_response_validate ::
  "(rstr \<Rightarrow> 'ts::linorder option) \<Rightarrow> request_receipt_response \<Rightarrow> validation" where
  "request_receipt_response_validate rfc3339 r =
     all_ok [require_schema_v1 (qs_schema_version r), ri_outcome_validate rfc3339 (qs_outcome r)]"

section \<open>Listing\<close>

record list_receipt_request =
  lq_schema_version :: u8
  lq_request_id :: uuid
  lq_state :: "ri_attempt_state option"
  lq_classification :: "ri_classification option"
  lq_cursor :: "rstr option"
  lq_limit :: u16

definition list_receipt_request_validate :: "list_receipt_request \<Rightarrow> validation" where
  "list_receipt_request_validate r =
     all_ok [require_schema_v1 (lq_schema_version r), validate_page (lq_limit r)]"

record ri_summary =
  sm_attempt_id :: uuid
  sm_approval_id :: uuid
  sm_source_id :: uuid
  sm_source_revision_id :: uuid
  sm_state :: ri_attempt_state
  sm_classification :: "ri_classification_evidence option"
  sm_failure :: "ri_failure option"
  sm_audit :: "ri_audit option"
  sm_created_at :: rstr
  sm_updated_at :: rstr

fun summary_shape ::
  "ri_attempt_state \<Rightarrow> ri_classification_evidence option \<Rightarrow> ri_failure option \<Rightarrow> ri_audit option \<Rightarrow> bool" where
  "summary_shape RiNotSent c f a \<longleftrightarrow> c = None \<and> f = None \<and> a = None"
| "summary_shape RiDispatched c f a \<longleftrightarrow> c = None \<and> f = None \<and> a = None"
| "summary_shape RiCompleted c f a \<longleftrightarrow> c \<noteq> None \<and> f = None \<and> a \<noteq> None"
| "summary_shape RiRefused c f a \<longleftrightarrow> c = None \<and> f = None \<and> a \<noteq> None"
| "summary_shape RiFailed c f a \<longleftrightarrow> c = None \<and> f \<noteq> None"
| "summary_shape RiOutcomeUnknown c f a \<longleftrightarrow> c = None \<and> f = None"

definition ri_summary_validate :: "(rstr \<Rightarrow> 'ts::linorder option) \<Rightarrow> ri_summary \<Rightarrow> validation" where
  "ri_summary_validate rfc3339 s =
     and_then (parse_timestamp rfc3339 (sm_created_at s)) (\<lambda>created.
     and_then (parse_timestamp rfc3339 (sm_updated_at s)) (\<lambda>updated.
     all_ok
       [ensure (\<not> created > updated) receipt_invalid,
        (case sm_classification s of None \<Rightarrow> Ok ()
         | Some classification \<Rightarrow>
             all_ok
               [ri_classification_validate rfc3339 classification,
                ensure (\<not> (cv_attempt_id classification \<noteq> sm_attempt_id s
                  \<or> cv_source_id classification \<noteq> sm_source_id s
                  \<or> cv_source_revision_id classification \<noteq> sm_source_revision_id s)) receipt_invalid]),
        (case sm_failure s of None \<Rightarrow> Ok () | Some failure \<Rightarrow> ri_failure_validate failure),
        (case sm_audit s of None \<Rightarrow> Ok ()
         | Some audit \<Rightarrow>
             all_ok
               [ri_audit_validate rfc3339 audit,
                ensure (\<not> (au_attempt_id audit \<noteq> sm_attempt_id s \<or> au_source_id audit \<noteq> sm_source_id s))
                  receipt_invalid,
                ensure (\<not> au_source_revision_id audit \<noteq> sm_source_revision_id s) receipt_invalid]),
        ensure (summary_shape (sm_state s) (sm_classification s) (sm_failure s) (sm_audit s)) receipt_invalid]))"

record ri_availability =
  av_available :: bool
  av_reason :: "ri_availability_reason option"
  av_offline_receipt_analysis_available :: bool
  av_existing_wardrobe_access_available :: bool

definition ri_availability_validate :: "ri_availability \<Rightarrow> validation" where
  "ri_availability_validate a =
     ensure (av_offline_receipt_analysis_available a
       \<and> av_existing_wardrobe_access_available a
       \<and> av_available a = (av_reason a = None)) receipt_invalid"

record list_receipt_response =
  ls_schema_version :: u8
  ls_request_id :: uuid
  ls_availability :: ri_availability
  ls_attempts :: "ri_summary list"
  ls_total_count :: u64
  ls_receipt_intelligence_revision :: u64
  ls_next_cursor :: "rstr option"

definition list_receipt_response_validate ::
  "(rstr \<Rightarrow> 'ts::linorder option) \<Rightarrow> list_receipt_response \<Rightarrow> validation" where
  "list_receipt_response_validate rfc3339 r =
     all_ok
       [require_schema_v1 (ls_schema_version r),
        ri_availability_validate (ls_availability r),
        ensure (\<not> (length (ls_attempts r) > 100
          \<or> ls_total_count r < of_nat (length (ls_attempts r))
          \<or> ls_total_count r \<ge> max_safe_integer_v1
          \<or> ls_receipt_intelligence_revision r \<ge> max_safe_integer_v1)) receipt_invalid,
        try_for_each (ri_summary_validate rfc3339) (ls_attempts r)]"

end
