(* ===== verification/Receipt_Attempt_Tables.thy ===== *)
theory Receipt_Attempt_Tables
  imports Receipt_Intelligence_Contracts Database_Tables
begin

text \<open>
  The tables of \<open>migrations/0016_receipt_intelligence.sql\<close> with their constraints and triggers, the columns
  of the tables of mail and receipts that the repository reads, and the data types of
  \<open>receipt_intelligence_repository.rs\<close>. A column with a closed set of texts is the datatype of those texts;
  the enums the repository has a second time (attempt states, classifications, failure codes) are those of
  the contracts.

  An insertion or update that violates a constraint or that a trigger aborts is the error \<open>Sqlite\<close>. The
  deletion triggers belong to hard deletion, which is not part of this model.
\<close>

section \<open>Data of the repository\<close>

record ri_bounds =
  bo_max_fragment_count :: u32
  bo_max_fragment_bytes :: u32
  bo_max_aggregate_text_bytes :: u32
  bo_max_serialized_request_bytes :: u32
  bo_max_request_bytes :: u32
  bo_max_response_bytes :: u32
  bo_max_output_tokens :: u32
  bo_timeout_ms :: u32
  bo_max_attempts :: u8

record ri_preview_fragment =
  vf_handle :: rstr
  vf_visible_text :: rstr
  vf_byte_length :: u32
  vf_content_sha256 :: rstr

record ri_preview =
  vw_source_revision_id :: rstr
  vw_local_source_id :: rstr
  vw_parse_id :: rstr
  vw_source_revision_sha256 :: rstr
  vw_fragments :: "ri_preview_fragment list"
  vw_aggregate_text_bytes :: u32
  vw_serialized_projection_bytes :: u32
  vw_fragment_set_sha256 :: rstr
  vw_projection_sha256 :: rstr
  vw_preview_binding_sha256 :: rstr

record ri_preview_context =
  vc_source_revision_id :: rstr
  vc_source_revision_sha256 :: rstr
  vc_credential_id :: rstr

record consent_reservation =
  cr_request_id :: rstr
  cr_command_sha256 :: rstr
  cr_source_revision_id :: rstr
  cr_source_revision_sha256 :: rstr
  cr_preview_binding_sha256 :: rstr
  cr_fragment_set_sha256 :: rstr
  cr_projection_sha256 :: rstr
  cr_serialized_request_sha256 :: rstr
  cr_serialized_request_bytes :: u32
  cr_credential_id :: rstr
  cr_provider :: rstr
  cr_model :: rstr
  cr_retention_mode :: rstr
  cr_retention_provenance :: rstr
  cr_prompt_revision :: rstr
  cr_schema_revision :: rstr
  cr_projection_revision :: rstr
  cr_parameters_sha256 :: rstr
  cr_bounds :: ri_bounds
  cr_expires_at_ms :: int

record audit_metadata =
  am_response_sha256 :: "rstr option"
  am_provider_request_id :: "rstr option"
  am_response_id :: "rstr option"
  am_request_bytes :: u32
  am_response_bytes :: u32
  am_input_tokens :: u32
  am_output_tokens :: u32
  am_total_tokens :: u32
  am_reasoning_tokens :: u32
  am_cached_input_tokens :: u32
  am_attempt_count :: u8
  am_dispatched_at_ms :: int

record reserved_attempt =
  ra_approval_id :: rstr
  ra_attempt_id :: rstr
  ra_state :: ri_attempt_state
  ra_replayed :: bool

fun publishes_order :: "ri_classification \<Rightarrow> bool" where
  "publishes_order ApparelOrder = True"
| "publishes_order ApparelLifecycleUpdate = True"
| "publishes_order Unrelated = False"
| "publishes_order Ambiguous = False"

text \<open>The texts of the column \<open>failure_code\<close>: a failure code, or one of the two that mark other states.\<close>

datatype attempt_failure = FailureCode ri_failure_code | FailureRefused | FailureOutcomeUnknown

section \<open>Rows\<close>

record bound_columns =
  bc_max_fragment_count :: int
  bc_max_fragment_bytes :: int
  bc_max_aggregate_text_bytes :: int
  bc_max_serialized_request_bytes :: int
  bc_max_request_bytes :: int
  bc_max_response_bytes :: int
  bc_max_output_tokens :: int
  bc_timeout_ms :: int
  bc_max_attempts :: int

record approval_row =
  ap_approval_id :: rstr
  ap_request_id :: rstr
  ap_envelope_sha256 :: rstr
  ap_preview_binding_sha256 :: rstr
  ap_source_revision_id :: rstr
  ap_local_source_id :: rstr
  ap_source_revision_sha256 :: rstr
  ap_fragment_set_sha256 :: rstr
  ap_projection_sha256 :: rstr
  ap_serialized_request_sha256 :: rstr
  ap_serialized_request_bytes :: int
  ap_credential_id :: rstr
  ap_provider :: rstr
  ap_model :: rstr
  ap_retention_mode :: rstr
  ap_retention_provenance :: rstr
  ap_prompt_revision :: rstr
  ap_schema_revision :: rstr
  ap_projection_revision :: rstr
  ap_parameters_sha256 :: rstr
  ap_bounds :: bound_columns
  ap_expires_at_ms :: int
  ap_consumed_request_id :: rstr
  ap_consumed_at_ms :: int
  ap_created_at_ms :: int

record attempt_row =
  at_attempt_id :: rstr
  at_request_id :: rstr
  at_approval_id :: rstr
  at_envelope_sha256 :: rstr
  at_source_revision_id :: rstr
  at_local_source_id :: rstr
  at_state :: ri_attempt_state
  at_failure_code :: "attempt_failure option"
  at_input_tokens :: "int option"
  at_output_tokens :: "int option"
  at_attempt_count :: int
  at_created_at_ms :: int
  at_dispatched_at_ms :: "int option"
  at_finalized_at_ms :: "int option"

record audit_row =
  ad_audit_id :: rstr
  ad_attempt_id :: rstr
  ad_source_revision_id :: rstr
  ad_local_source_id :: rstr
  ad_source_revision_sha256 :: rstr
  ad_projection_sha256 :: rstr
  ad_serialized_request_sha256 :: rstr
  ad_response_sha256 :: "rstr option"
  ad_provider :: rstr
  ad_model :: rstr
  ad_provider_request_id :: "rstr option"
  ad_response_id :: "rstr option"
  ad_prompt_revision :: rstr
  ad_schema_revision :: rstr
  ad_projection_revision :: rstr
  ad_retention_provenance :: rstr
  ad_parameters_sha256 :: rstr
  ad_request_bytes :: int
  ad_response_bytes :: int
  ad_input_tokens :: int
  ad_output_tokens :: int
  ad_total_tokens :: int
  ad_reasoning_tokens :: int
  ad_cached_input_tokens :: int
  ad_attempt_count :: int
  ad_dispatched_at_ms :: int
  ad_finished_at_ms :: int

record classification_row =
  cl_classification_id :: rstr
  cl_attempt_id :: rstr
  cl_source_revision_id :: rstr
  cl_local_source_id :: rstr
  cl_classification :: ri_classification
  cl_order_evidence_id :: "rstr option"
  cl_created_at_ms :: int

text \<open>The columns the repository reads of the tables of other components.\<close>

record source_revision_row =
  sr_revision_id :: rstr
  sr_graph_sha256 :: rstr
  sr_availability :: rstr

record materialization_row =
  mz_revision_id :: rstr
  mz_local_source_id :: rstr
  mz_blob_sha256 :: "rstr option"
  mz_created_at_ms :: int

record local_source_row =
  lc_source_id :: rstr
  lc_status :: rstr

record parse_row =
  pa_parse_id :: rstr
  pa_source_id :: rstr
  pa_created_at_ms :: int

record fragment_row =
  fg_fragment_id :: rstr
  fg_parse_id :: rstr
  fg_ordinal :: int
  fg_fragment_kind :: rstr
  fg_content_text :: rstr
  fg_content_sha256 :: rstr
  fg_byte_length :: int

record run_row =
  rn_run_id :: rstr
  rn_parse_id :: rstr

record order_row =
  or_order_evidence_id :: rstr
  or_run_id :: rstr

record decision_row =
  rw_review_decision_id :: rstr
  rw_order_evidence_id :: rstr

record authority_head_row =
  ah_local_source_id :: rstr
  ah_authority_id :: rstr
  ah_order_evidence_id :: rstr
  ah_review_decision_id :: rstr
  ah_receipt_revision :: int
  ah_authority_revision :: int

record sources_state =
  ss_credentials :: "credential_row list"
  ss_source_revisions :: "source_revision_row list"
  ss_materializations :: "materialization_row list"
  ss_local_sources :: "local_source_row list"
  ss_parses :: "parse_row list"
  ss_fragments :: "fragment_row list"
  ss_runs :: "run_row list"
  ss_orders :: "order_row list"
  ss_decisions :: "decision_row list"
  ss_authority_heads :: "authority_head_row list"
  ss_catalog_revision :: int

record attempt_store =
  st_approvals :: "approval_row list"
  st_attempts :: "attempt_row list"
  st_audits :: "audit_row list"
  st_classifications :: "classification_row list"
  st_revision :: int
  st_sources :: sources_state

section \<open>Constraints\<close>

definition sql_sha256 :: "rstr \<Rightarrow> bool" where
  "sql_sha256 s \<longleftrightarrow> sql_length s = 64 \<and> list_all is_lower_hex s"

definition sql_printable :: "rstr \<Rightarrow> bool" where
  "sql_printable s \<longleftrightarrow> 1 \<le> sql_length s \<and> sql_length s \<le> 128 \<and> list_all (\<lambda>c. 32 \<le> c \<and> c \<le> 126) s"

definition sql_identifier :: "rstr \<Rightarrow> bool" where
  "sql_identifier s \<longleftrightarrow> 1 \<le> sql_length s \<and> sql_length s \<le> 128
     \<and> list_all (\<lambda>c. is_ascii_alphanumeric c \<or> c \<in> set (lit ''._:-'')) s"

definition approval_checks :: "approval_row \<Rightarrow> bool" where
  "approval_checks r \<longleftrightarrow>
     sql_uuid (ap_approval_id r) \<and> sql_uuid (ap_request_id r)
     \<and> sql_sha256 (ap_envelope_sha256 r) \<and> sql_sha256 (ap_preview_binding_sha256 r)
     \<and> sql_sha256 (ap_source_revision_sha256 r) \<and> sql_sha256 (ap_fragment_set_sha256 r)
     \<and> sql_sha256 (ap_projection_sha256 r) \<and> sql_sha256 (ap_serialized_request_sha256 r)
     \<and> between 1 2097152 (ap_serialized_request_bytes r)
     \<and> ap_provider r = lit ''openai'' \<and> sql_printable (ap_model r)
     \<and> ap_retention_mode r \<in> {lit ''unknown'', lit ''default'', lit ''MAM'', lit ''ZDR''}
     \<and> sql_identifier (ap_retention_provenance r)
     \<and> sql_printable (ap_prompt_revision r) \<and> sql_printable (ap_schema_revision r)
     \<and> sql_printable (ap_projection_revision r) \<and> sql_sha256 (ap_parameters_sha256 r)
     \<and> between 1 200 (bc_max_fragment_count (ap_bounds r))
     \<and> between 1 32768 (bc_max_fragment_bytes (ap_bounds r))
     \<and> between 1 1048576 (bc_max_aggregate_text_bytes (ap_bounds r))
     \<and> between 1 2097152 (bc_max_serialized_request_bytes (ap_bounds r))
     \<and> between 1 2097152 (bc_max_request_bytes (ap_bounds r))
     \<and> between 1 2097152 (bc_max_response_bytes (ap_bounds r))
     \<and> between 1 65536 (bc_max_output_tokens (ap_bounds r))
     \<and> between 1 300000 (bc_timeout_ms (ap_bounds r))
     \<and> bc_max_attempts (ap_bounds r) = 1
     \<and> 0 \<le> ap_expires_at_ms r \<and> ap_consumed_request_id r = ap_request_id r \<and> 0 \<le> ap_consumed_at_ms r
     \<and> 0 \<le> ap_created_at_ms r \<and> ap_created_at_ms r = ap_consumed_at_ms r
     \<and> ap_created_at_ms r \<le> ap_expires_at_ms r
     \<and> ap_serialized_request_bytes r \<le> bc_max_serialized_request_bytes (ap_bounds r)
     \<and> ap_serialized_request_bytes r \<le> bc_max_request_bytes (ap_bounds r)"

definition insert_approval :: "approval_row \<Rightarrow> attempt_store \<Rightarrow> attempt_store platform_result" where
  "insert_approval row st =
     (if approval_checks row
         \<and> \<not> list_ex (\<lambda>r. ap_approval_id r = ap_approval_id row \<or> ap_request_id r = ap_request_id row
               \<or> ap_consumed_request_id r = ap_consumed_request_id row) (st_approvals st)
         \<and> list_ex (\<lambda>r. sr_revision_id r = ap_source_revision_id row) (ss_source_revisions (st_sources st))
         \<and> list_ex (\<lambda>r. lc_source_id r = ap_local_source_id row) (ss_local_sources (st_sources st))
         \<and> list_ex (\<lambda>r. cx_credential_id r = ap_credential_id row) (ss_credentials (st_sources st))
      then Ok (st\<lparr>st_approvals := st_approvals st @ [row]\<rparr>) else Err Sqlite)"

definition not_before :: "int \<Rightarrow> int option \<Rightarrow> bool" where
  "not_before created t = (case t of None \<Rightarrow> True | Some ms \<Rightarrow> created \<le> ms)"

definition non_negative :: "int option \<Rightarrow> bool" where
  "non_negative n = (case n of None \<Rightarrow> True | Some k \<Rightarrow> 0 \<le> k)"

fun attempt_shape :: "ri_attempt_state \<Rightarrow> attempt_failure option \<Rightarrow> int option \<Rightarrow> int option \<Rightarrow> bool" where
  "attempt_shape RiNotSent f d z \<longleftrightarrow> f = None \<and> d = None \<and> z = None"
| "attempt_shape RiDispatched f d z \<longleftrightarrow> f = None \<and> d \<noteq> None \<and> z = None"
| "attempt_shape RiCompleted f d z \<longleftrightarrow> f = None \<and> d \<noteq> None \<and> z \<noteq> None"
| "attempt_shape RiRefused f d z \<longleftrightarrow> f = Some FailureRefused \<and> d \<noteq> None \<and> z \<noteq> None"
| "attempt_shape RiFailed f d z \<longleftrightarrow> f \<noteq> None \<and> f \<notin> {Some FailureRefused, Some FailureOutcomeUnknown} \<and> z \<noteq> None"
| "attempt_shape RiOutcomeUnknown f d z \<longleftrightarrow> f = Some FailureOutcomeUnknown \<and> d \<noteq> None \<and> z \<noteq> None"

definition attempt_checks :: "attempt_row \<Rightarrow> bool" where
  "attempt_checks r \<longleftrightarrow>
     sql_uuid (at_attempt_id r) \<and> sql_uuid (at_request_id r) \<and> sql_sha256 (at_envelope_sha256 r)
     \<and> non_negative (at_input_tokens r) \<and> non_negative (at_output_tokens r) \<and> at_attempt_count r = 1
     \<and> 0 \<le> at_created_at_ms r
     \<and> not_before (at_created_at_ms r) (at_dispatched_at_ms r)
     \<and> not_before (at_created_at_ms r) (at_finalized_at_ms r)
     \<and> attempt_shape (at_state r) (at_failure_code r) (at_dispatched_at_ms r) (at_finalized_at_ms r)
     \<and> (at_state r \<in> {RiCompleted, RiRefused} \<or> at_input_tokens r = None \<and> at_output_tokens r = None)"

definition insert_attempt :: "attempt_row \<Rightarrow> attempt_store \<Rightarrow> attempt_store platform_result" where
  "insert_attempt row st =
     (if attempt_checks row
         \<and> \<not> list_ex (\<lambda>r. at_attempt_id r = at_attempt_id row \<or> at_request_id r = at_request_id row
               \<or> at_approval_id r = at_approval_id row) (st_attempts st)
         \<and> list_ex (\<lambda>r. ap_approval_id r = at_approval_id row
               \<and> ap_source_revision_id r = at_source_revision_id row
               \<and> ap_local_source_id r = at_local_source_id row) (st_approvals st)
      then Ok (st\<lparr>st_attempts := st_attempts st @ [row]\<rparr>) else Err Sqlite)"

text \<open>The trigger \<open>receipt_intelligence_attempts_state_transition\<close> lets an update pass.\<close>

fun state_transition :: "ri_attempt_state \<Rightarrow> ri_attempt_state \<Rightarrow> bool" where
  "state_transition RiNotSent s \<longleftrightarrow> s \<in> {RiDispatched, RiFailed}"
| "state_transition RiDispatched s \<longleftrightarrow> s \<in> {RiCompleted, RiRefused, RiFailed, RiOutcomeUnknown}"
| "state_transition _ s \<longleftrightarrow> False"

definition attempt_transition :: "attempt_row \<Rightarrow> attempt_row \<Rightarrow> bool" where
  "attempt_transition old new \<longleftrightarrow>
     at_attempt_id new = at_attempt_id old \<and> at_request_id new = at_request_id old
     \<and> at_approval_id new = at_approval_id old \<and> at_envelope_sha256 new = at_envelope_sha256 old
     \<and> at_source_revision_id new = at_source_revision_id old \<and> at_local_source_id new = at_local_source_id old
     \<and> at_attempt_count new = at_attempt_count old \<and> at_created_at_ms new = at_created_at_ms old
     \<and> state_transition (at_state old) (at_state new)"

text \<open>The triggers that ask for a classification and an audit of a completed, an audit of a refused attempt.\<close>

definition attempt_evidence :: "attempt_store \<Rightarrow> attempt_row \<Rightarrow> bool" where
  "attempt_evidence st new \<longleftrightarrow>
     (at_state new = RiCompleted \<longrightarrow>
        list_ex (\<lambda>c. cl_attempt_id c = at_attempt_id new) (st_classifications st)
        \<and> list_ex (\<lambda>a. ad_attempt_id a = at_attempt_id new) (st_audits st))
     \<and> (at_state new = RiRefused \<longrightarrow> list_ex (\<lambda>a. ad_attempt_id a = at_attempt_id new) (st_audits st))"

definition update_attempts ::
  "(attempt_row \<Rightarrow> bool) \<Rightarrow> (attempt_row \<Rightarrow> attempt_row) \<Rightarrow> attempt_store \<Rightarrow> (attempt_store \<times> nat) platform_result" where
  "update_attempts where_clause assign st =
     (if list_all (\<lambda>r. where_clause r \<longrightarrow>
           attempt_transition r (assign r) \<and> attempt_evidence st (assign r) \<and> attempt_checks (assign r)) (st_attempts st)
      then Ok (st\<lparr>st_attempts := update_rows where_clause assign (st_attempts st)\<rparr>,
               changed_rows where_clause (st_attempts st))
      else Err Sqlite)"

definition optional :: "('a \<Rightarrow> bool) \<Rightarrow> 'a option \<Rightarrow> bool" where
  "optional P x = (case x of None \<Rightarrow> True | Some y \<Rightarrow> P y)"

definition audit_checks :: "audit_row \<Rightarrow> bool" where
  "audit_checks r \<longleftrightarrow>
     sql_uuid (ad_audit_id r) \<and> sql_sha256 (ad_source_revision_sha256 r) \<and> sql_sha256 (ad_projection_sha256 r)
     \<and> sql_sha256 (ad_serialized_request_sha256 r) \<and> optional sql_sha256 (ad_response_sha256 r)
     \<and> ad_provider r = lit ''openai'' \<and> sql_printable (ad_model r)
     \<and> optional sql_identifier (ad_provider_request_id r) \<and> optional sql_identifier (ad_response_id r)
     \<and> sql_printable (ad_prompt_revision r) \<and> sql_printable (ad_schema_revision r)
     \<and> sql_printable (ad_projection_revision r) \<and> sql_identifier (ad_retention_provenance r)
     \<and> sql_sha256 (ad_parameters_sha256 r)
     \<and> between 1 2097152 (ad_request_bytes r) \<and> between 0 2097152 (ad_response_bytes r)
     \<and> 0 \<le> ad_input_tokens r \<and> 0 \<le> ad_output_tokens r
     \<and> ad_total_tokens r = ad_input_tokens r + ad_output_tokens r
     \<and> between 0 (ad_output_tokens r) (ad_reasoning_tokens r)
     \<and> between 0 (ad_input_tokens r) (ad_cached_input_tokens r)
     \<and> ad_attempt_count r = 1 \<and> 0 \<le> ad_dispatched_at_ms r \<and> ad_dispatched_at_ms r \<le> ad_finished_at_ms r"

text \<open>The trigger \<open>receipt_intelligence_audits_validate_insert\<close> finds the dispatched attempt and its approval.\<close>

definition audit_matches :: "attempt_store \<Rightarrow> audit_row \<Rightarrow> bool" where
  "audit_matches st r \<longleftrightarrow>
     list_ex (\<lambda>t. list_ex (\<lambda>p. ap_approval_id p = at_approval_id t
         \<and> at_attempt_id t = ad_attempt_id r \<and> at_state t = RiDispatched
         \<and> at_source_revision_id t = ad_source_revision_id r \<and> at_local_source_id t = ad_local_source_id r
         \<and> ap_source_revision_sha256 p = ad_source_revision_sha256 r
         \<and> ap_projection_sha256 p = ad_projection_sha256 r
         \<and> ap_serialized_request_sha256 p = ad_serialized_request_sha256 r
         \<and> ap_provider p = ad_provider r \<and> ap_model p = ad_model r
         \<and> ap_prompt_revision p = ad_prompt_revision r \<and> ap_schema_revision p = ad_schema_revision r
         \<and> ap_projection_revision p = ad_projection_revision r
         \<and> ap_retention_provenance p = ad_retention_provenance r
         \<and> ap_parameters_sha256 p = ad_parameters_sha256 r
         \<and> ad_request_bytes r \<le> bc_max_request_bytes (ap_bounds p)
         \<and> ad_response_bytes r \<le> bc_max_response_bytes (ap_bounds p)
         \<and> ad_output_tokens r \<le> bc_max_output_tokens (ap_bounds p)
         \<and> ad_attempt_count r \<le> bc_max_attempts (ap_bounds p)) (st_approvals st)) (st_attempts st)"

definition insert_audit_row :: "audit_row \<Rightarrow> attempt_store \<Rightarrow> attempt_store platform_result" where
  "insert_audit_row row st =
     (if audit_matches st row \<and> audit_checks row
         \<and> \<not> list_ex (\<lambda>r. ad_audit_id r = ad_audit_id row \<or> ad_attempt_id r = ad_attempt_id row) (st_audits st)
      then Ok (st\<lparr>st_audits := st_audits st @ [row]\<rparr>) else Err Sqlite)"

definition order_of_source :: "sources_state \<Rightarrow> rstr \<Rightarrow> rstr \<Rightarrow> bool" where
  "order_of_source ss order_id local_source_id \<longleftrightarrow>
     list_ex (\<lambda>o'. or_order_evidence_id o' = order_id
       \<and> list_ex (\<lambda>run. rn_run_id run = or_run_id o'
           \<and> list_ex (\<lambda>p. pa_parse_id p = rn_parse_id run \<and> pa_source_id p = local_source_id) (ss_parses ss))
           (ss_runs ss)) (ss_orders ss)"

definition insert_classification :: "classification_row \<Rightarrow> attempt_store \<Rightarrow> attempt_store platform_result" where
  "insert_classification row st =
     (if list_ex (\<lambda>t. at_attempt_id t = cl_attempt_id row \<and> at_state t = RiDispatched
             \<and> at_source_revision_id t = cl_source_revision_id row
             \<and> at_local_source_id t = cl_local_source_id row) (st_attempts st)
         \<and> optional (\<lambda>order. order_of_source (st_sources st) order (cl_local_source_id row)) (cl_order_evidence_id row)
         \<and> sql_uuid (cl_classification_id row) \<and> 0 \<le> cl_created_at_ms row
         \<and> (publishes_order (cl_classification row) \<longleftrightarrow> cl_order_evidence_id row \<noteq> None)
         \<and> \<not> list_ex (\<lambda>r. cl_classification_id r = cl_classification_id row \<or> cl_attempt_id r = cl_attempt_id row
               \<or> cl_order_evidence_id row \<noteq> None \<and> cl_order_evidence_id r = cl_order_evidence_id row)
             (st_classifications st)
      then Ok (st\<lparr>st_classifications := st_classifications st @ [row]\<rparr>) else Err Sqlite)"

definition advance_receipt_intelligence_revision :: "attempt_store \<Rightarrow> attempt_store platform_result" where
  "advance_receipt_intelligence_revision st =
     (if st_revision st < 9007199254740990 then Ok (st\<lparr>st_revision := st_revision st + 1\<rparr>)
      else Err (Corrupt ''receipt_intelligence_revision_exhausted''))"

end
