(* ===== verification/Receipt_Attempt_Store.thy ===== *)
theory Receipt_Attempt_Store
  imports Receipt_Attempt_Tables
begin

text \<open>
  The operations of \<open>receipt_intelligence_repository.rs\<close>. An approval is consumed by the attempt it is
  reserved with; the attempt is marked as dispatched before anything is sent, and is finished once, as
  completed, refused, failed or of unknown outcome. Every operation is one immediate transaction: it
  returns the new store or an error, which leaves the store as it was.

  Parameters are the digest and the text of UUIDs (\<open>externals\<close>), and in \<open>ri_externals\<close> the parser of UUIDs
  and the JSON texts that are measured or hashed. The publication of an order is an argument of the
  completion, as in the code.
\<close>

record ri_externals =
  rx_parse_uuid :: "rstr \<Rightarrow> uuid option"
  rx_projection_json :: "(rstr \<times> rstr) list \<Rightarrow> u8 list"
  rx_fragment_set_json :: "(rstr \<times> rstr \<times> u32) list \<Rightarrow> u8 list"
  rx_binding_json ::
    "rstr \<times> rstr \<times> rstr \<times> rstr \<times> rstr \<times> rstr \<times> rstr \<times> (rstr \<times> rstr) list \<times> ri_bounds \<Rightarrow> u8 list"

section \<open>Validation\<close>

definition ri_validate_uuid :: "ri_externals \<Rightarrow> rstr \<Rightarrow> string \<Rightarrow> unit platform_result" where
  "ri_validate_uuid rx value field =
     (case rx_parse_uuid rx value of
        None \<Rightarrow> Err (InvalidInput field)
      | Some parsed \<Rightarrow> if parsed = 0 then Err (InvalidInput field) else Ok ())"

definition ri_validate_hash :: "rstr \<Rightarrow> string \<Rightarrow> unit platform_result" where
  "ri_validate_hash value field =
     (if byte_len value \<noteq> 64 \<or> \<not> list_all is_lower_hex value then Err (InvalidInput field) else Ok ())"

text \<open>\<open>u8::is_ascii_graphic\<close> or a space.\<close>

definition validate_ascii_revision :: "rstr \<Rightarrow> string \<Rightarrow> unit platform_result" where
  "validate_ascii_revision value field =
     (if value = [] \<or> byte_len value > 128 \<or> \<not> list_all (\<lambda>c. (33 \<le> c \<and> c \<le> 126) \<or> c = 32) value
      then Err (InvalidInput field) else Ok ())"

definition validate_bounds :: "ri_bounds \<Rightarrow> unit platform_result" where
  "validate_bounds b =
     (if bo_max_fragment_count b = 0 \<or> bo_max_fragment_count b > 200
         \<or> bo_max_fragment_bytes b = 0 \<or> bo_max_fragment_bytes b > 32768
         \<or> bo_max_aggregate_text_bytes b = 0 \<or> bo_max_aggregate_text_bytes b > 1048576
         \<or> bo_max_serialized_request_bytes b = 0 \<or> bo_max_serialized_request_bytes b > 2097152
         \<or> bo_max_request_bytes b = 0 \<or> bo_max_request_bytes b > 2097152
         \<or> bo_max_response_bytes b = 0 \<or> bo_max_response_bytes b > 2097152
         \<or> bo_max_output_tokens b = 0 \<or> bo_max_output_tokens b > 65536
         \<or> bo_timeout_ms b = 0 \<or> bo_timeout_ms b > 300000
         \<or> bo_max_attempts b \<noteq> 1
      then Err (InvalidInput ''receipt_intelligence_bounds'') else Ok ())"

definition approval_lifetime_ms :: int where
  "approval_lifetime_ms = 10 * 60 * 1000"

definition validate_reservation :: "ri_externals \<Rightarrow> consent_reservation \<Rightarrow> int \<Rightarrow> unit platform_result" where
  "validate_reservation rx c now_ms =
     all_ok
       [ri_validate_uuid rx (cr_request_id c) ''receipt_intelligence_request_id'',
        ri_validate_uuid rx (cr_source_revision_id c) ''receipt_intelligence_source_revision_id'',
        ri_validate_uuid rx (cr_credential_id c) ''receipt_intelligence_credential_id'',
        try_for_each (\<lambda>(value, field). ri_validate_hash value field)
          [(cr_command_sha256 c, ''receipt_intelligence_command_sha256''),
           (cr_preview_binding_sha256 c, ''receipt_intelligence_preview_binding_sha256''),
           (cr_fragment_set_sha256 c, ''receipt_intelligence_fragment_set_sha256''),
           (cr_parameters_sha256 c, ''receipt_intelligence_parameters_sha256''),
           (cr_source_revision_sha256 c, ''receipt_intelligence_source_revision_sha256''),
           (cr_projection_sha256 c, ''receipt_intelligence_projection_sha256''),
           (cr_serialized_request_sha256 c, ''receipt_intelligence_serialized_request_sha256'')],
        ensure (cr_provider c = lit ''openai'') (InvalidInput ''receipt_intelligence_provider''),
        validate_ascii_revision (cr_model c) ''receipt_intelligence_model'',
        validate_ascii_revision (cr_prompt_revision c) ''receipt_intelligence_prompt_revision'',
        validate_ascii_revision (cr_schema_revision c) ''receipt_intelligence_schema_revision'',
        validate_ascii_revision (cr_projection_revision c) ''receipt_intelligence_projection_revision'',
        ensure (cr_retention_mode c \<in> {lit ''unknown'', lit ''default'', lit ''MAM'', lit ''ZDR''})
          (InvalidInput ''receipt_intelligence_retention_mode''),
        ensure (\<not> (cr_retention_provenance c = [] \<or> byte_len (cr_retention_provenance c) > 128
            \<or> \<not> list_all (\<lambda>c. is_ascii_alphanumeric c \<or> c \<in> set (lit ''-_.:'')) (cr_retention_provenance c)))
          (InvalidInput ''receipt_intelligence_retention_provenance''),
        validate_bounds (cr_bounds c),
        ensure (\<not> (cr_serialized_request_bytes c = 0
            \<or> cr_serialized_request_bytes c > bo_max_serialized_request_bytes (cr_bounds c)
            \<or> cr_serialized_request_bytes c > bo_max_request_bytes (cr_bounds c)))
          (InvalidInput ''receipt_intelligence_serialized_request_bytes''),
        and_then (ok_or (i64_checked_add now_ms approval_lifetime_ms)
            (InvalidInput ''receipt_intelligence_approval_expiry'')) (\<lambda>latest_expiry.
          ensure (\<not> (now_ms < 0 \<or> cr_expires_at_ms c < now_ms \<or> cr_expires_at_ms c > latest_expiry))
            (InvalidInput ''receipt_intelligence_approval_expiry''))]"

definition validate_audit_metadata :: "audit_metadata \<Rightarrow> int \<Rightarrow> unit platform_result" where
  "validate_audit_metadata a now_ms =
     all_ok
       [(case am_response_sha256 a of None \<Rightarrow> Ok ()
         | Some hash \<Rightarrow> ri_validate_hash hash ''receipt_intelligence_response_sha256''),
        try_for_each (\<lambda>value. ensure (\<not> (value = [] \<or> byte_len value > 128
             \<or> \<not> list_all (\<lambda>c. is_ascii_alphanumeric c \<or> c \<in> set (lit ''-_.:'')) value))
             (InvalidInput ''receipt_intelligence_provider_identifier''))
          (flatten_options [am_provider_request_id a, am_response_id a]),
        ensure (\<not> (am_request_bytes a = 0
            \<or> am_total_tokens a \<noteq> u32_saturating_add (am_input_tokens a) (am_output_tokens a)
            \<or> am_reasoning_tokens a > am_output_tokens a
            \<or> am_cached_input_tokens a > am_input_tokens a
            \<or> am_attempt_count a \<noteq> 1
            \<or> am_dispatched_at_ms a < 0
            \<or> now_ms < am_dispatched_at_ms a)) (InvalidInput ''receipt_intelligence_audit'')]"

section \<open>The preview of a source\<close>

definition last_by :: "('r \<Rightarrow> 'k::linorder) \<Rightarrow> 'r list \<Rightarrow> 'r option" where
  "last_by order rows = (case rev (sort_key order rows) of [] \<Rightarrow> None | r # _ \<Rightarrow> Some r)"

definition first_row :: "'r list \<Rightarrow> 'r option" where
  "first_row rows = (case rows of [] \<Rightarrow> None | r # _ \<Rightarrow> Some r)"

text \<open>The join of revisions, materialisations and imported sources.\<close>

definition available_sources :: "sources_state \<Rightarrow> (source_revision_row \<times> materialization_row) list" where
  "available_sources ss =
     [(revision, materialization). revision \<leftarrow> ss_source_revisions ss, materialization \<leftarrow> ss_materializations ss,
        source \<leftarrow> ss_local_sources ss,
        mz_revision_id materialization = sr_revision_id revision
        \<and> lc_source_id source = mz_local_source_id materialization
        \<and> sr_availability revision = lit ''available'' \<and> mz_blob_sha256 materialization \<noteq> None
        \<and> lc_status source = lit ''imported'']"

definition receipt_intelligence_preview_context ::
  "ri_externals \<Rightarrow> rstr \<Rightarrow> attempt_store \<Rightarrow> ri_preview_context platform_result" where
  "receipt_intelligence_preview_context rx local_source_id st =
     (let ss = st_sources st in
      and_then (ri_validate_uuid rx local_source_id ''receipt_intelligence_local_source_id'') (\<lambda>_.
      and_then (ok_or (last_by (\<lambda>p. (mz_created_at_ms (snd p), sr_revision_id (fst p)))
          (filter (\<lambda>p. mz_local_source_id (snd p) = local_source_id) (available_sources ss)))
        (Conflict ''receipt_intelligence_source_unavailable'')) (\<lambda>p.
      and_then (ok_or (last_by (\<lambda>r. (cx_updated_at_ms r, cx_credential_id r))
          (filter (\<lambda>r. cx_provider r = lit ''open_ai'' \<and> cx_status r = credential_state.Active) (ss_credentials ss)))
        (Conflict ''receipt_intelligence_credential_unavailable'')) (\<lambda>credential.
        Ok \<lparr>vc_source_revision_id = sr_revision_id (fst p), vc_source_revision_sha256 = sr_graph_sha256 (fst p),
            vc_credential_id = cx_credential_id credential\<rparr>))))"

definition contains_text :: "rstr \<Rightarrow> rstr \<Rightarrow> bool" where
  "contains_text needle value \<longleftrightarrow> list_ex (\<lambda>k. take (length needle) (drop k value) = needle) [0..<Suc (length value)]"

definition visible_text_rejected :: "rstr \<Rightarrow> bool" where
  "visible_text_rejected visible_text \<longleftrightarrow>
     (let lower = map to_ascii_lowercase visible_text in
      trim visible_text = []
      \<or> list_ex (\<lambda>c. is_control c \<and> c \<noteq> 10 \<and> c \<noteq> 9) visible_text
      \<or> list_ex (\<lambda>sentinel. contains_text sentinel lower) [lit ''http://'', lit ''https://'', lit ''www.''])"

text \<open>
  The loop over the rows: the ordinal, the aggregate so far and the fragments so far. The aggregate is
  checked after every addition, so it cannot leave \<open>u64\<close>; the lengths are numbers of bytes in memory.
\<close>

fun preview_fragments ::
  "externals \<Rightarrow> ri_bounds \<Rightarrow> nat \<Rightarrow> nat \<Rightarrow> fragment_row list \<Rightarrow> (nat \<times> ri_preview_fragment list) platform_result" where
  "preview_fragments ext bounds ordinal aggregate [] = Ok (aggregate, [])"
| "preview_fragments ext bounds ordinal aggregate (row # rows) =
     (let visible_text = fg_content_text row; actual_length = byte_len visible_text;
          total = aggregate + actual_length in
      and_then (ri_validate_hash (fg_content_sha256 row) ''receipt_intelligence_fragment_sha256'') (\<lambda>_.
      if digest_text ext visible_text \<noteq> fg_content_sha256 row
      then Err (Corrupt ''receipt_intelligence_fragment_sha256'')
      else if \<not> (int actual_length \<le> i64_max \<and> int actual_length = fg_byte_length row)
      then Err (Corrupt ''receipt_intelligence_fragment_length'')
      else if actual_length > unat (bo_max_fragment_bytes bounds)
      then Err (InvalidInput ''receipt_intelligence_fragment_bytes'')
      else if visible_text_rejected visible_text
      then Err (InvalidInput ''receipt_intelligence_visible_text'')
      else if total \<ge> 2 ^ 64 then Err (InvalidInput ''receipt_intelligence_aggregate_text_bytes'')
      else if total > unat (bo_max_aggregate_text_bytes bounds)
      then Err (InvalidInput ''receipt_intelligence_aggregate_text_bytes'')
      else if actual_length \<ge> 2 ^ 32 then Err (InvalidInput ''receipt_intelligence_fragment_bytes'')
      else and_then (preview_fragments ext bounds (ordinal + 1) total rows) (\<lambda>(final, fragments).
        Ok (final, \<lparr>vf_handle = fragment_handle ordinal, vf_visible_text = visible_text,
                    vf_byte_length = of_nat actual_length, vf_content_sha256 = fg_content_sha256 row\<rparr> # fragments))))"

definition hash_projection :: "externals \<Rightarrow> ri_preview_fragment list \<Rightarrow> rstr" where
  "hash_projection ext fragments =
     lower_hex (sha256 ext
       (hash_part (utf8_bytes (lit ''receipt-intelligence-projection-v1''))
        @ hash_part (u64_to_be_bytes (of_nat (length fragments)))
        @ concat (map (\<lambda>f. hash_part (utf8_bytes (vf_handle f)) @ hash_part (utf8_bytes (vf_visible_text f))) fragments)))"

definition visible_fragment_rows :: "sources_state \<Rightarrow> rstr \<Rightarrow> fragment_row list" where
  "visible_fragment_rows ss parse_id =
     sort_key (\<lambda>r. (fg_ordinal r, fg_fragment_id r))
       (filter (\<lambda>r. fg_parse_id r = parse_id
           \<and> fg_fragment_kind r \<in> {lit ''plain_text'', lit ''sanitized_html''}) (ss_fragments ss))"

definition read_preview ::
  "externals \<Rightarrow> ri_externals \<Rightarrow> sources_state \<Rightarrow> rstr \<Rightarrow> rstr \<Rightarrow> ri_bounds \<Rightarrow> ri_preview platform_result" where
  "read_preview ext rx ss request_id source_revision_id bounds =
     and_then (ok_or (first_row (filter (\<lambda>p. sr_revision_id (fst p) = source_revision_id) (available_sources ss)))
       (Conflict ''receipt_intelligence_source_unavailable'')) (\<lambda>p.
     let local_source_id = mz_local_source_id (snd p); source_revision_sha256 = sr_graph_sha256 (fst p) in
     and_then (ri_validate_hash source_revision_sha256 ''receipt_intelligence_source_revision_sha256'') (\<lambda>_.
     and_then (ok_or (last_by (\<lambda>r. (pa_created_at_ms r, pa_parse_id r))
         (filter (\<lambda>r. pa_source_id r = local_source_id) (ss_parses ss)))
       (Conflict ''receipt_intelligence_parse_unavailable'')) (\<lambda>parse.
     let rows = visible_fragment_rows ss (pa_parse_id parse) in
     if rows = [] then Err (Conflict ''receipt_intelligence_visible_text_unavailable'')
     else if length rows > unat (bo_max_fragment_count bounds)
     then Err (InvalidInput ''receipt_intelligence_fragment_count'')
     else and_then (preview_fragments ext bounds 0 0 rows) (\<lambda>(aggregate, fragments).
       let projection = map (\<lambda>f. (vf_handle f, vf_visible_text f)) fragments;
           serialized_projection_bytes = length (rx_projection_json rx projection) in
       if serialized_projection_bytes > unat (bo_max_serialized_request_bytes bounds)
       then Err (InvalidInput ''receipt_intelligence_serialized_request_bytes'')
       else
         (let fragment_set_sha256 = lower_hex (sha256 ext (rx_fragment_set_json rx
                (map (\<lambda>f. (vf_handle f, vf_content_sha256 f, vf_byte_length f)) fragments)));
              projection_sha256 = hash_projection ext fragments;
              preview_binding_sha256 = lower_hex (sha256 ext (rx_binding_json rx
                (request_id, source_revision_id, local_source_id, pa_parse_id parse, source_revision_sha256,
                 fragment_set_sha256, projection_sha256, projection, bounds)))
          in if aggregate \<ge> 2 ^ 32 then Err (InvalidInput ''receipt_intelligence_aggregate_text_bytes'')
             else if serialized_projection_bytes \<ge> 2 ^ 32
             then Err (InvalidInput ''receipt_intelligence_request_bytes'')
             else Ok \<lparr>vw_source_revision_id = source_revision_id, vw_local_source_id = local_source_id,
                      vw_parse_id = pa_parse_id parse, vw_source_revision_sha256 = source_revision_sha256,
                      vw_fragments = fragments, vw_aggregate_text_bytes = of_nat aggregate,
                      vw_serialized_projection_bytes = of_nat serialized_projection_bytes,
                      vw_fragment_set_sha256 = fragment_set_sha256, vw_projection_sha256 = projection_sha256,
                      vw_preview_binding_sha256 = preview_binding_sha256\<rparr>)))))"

definition preview_receipt_intelligence ::
  "externals \<Rightarrow> ri_externals \<Rightarrow> rstr \<Rightarrow> rstr \<Rightarrow> ri_bounds \<Rightarrow> attempt_store \<Rightarrow> ri_preview platform_result" where
  "preview_receipt_intelligence ext rx request_id source_revision_id bounds st =
     and_then (ri_validate_uuid rx request_id ''receipt_intelligence_request_id'') (\<lambda>_.
     and_then (ri_validate_uuid rx source_revision_id ''receipt_intelligence_source_revision_id'') (\<lambda>_.
     and_then (validate_bounds bounds) (\<lambda>_.
       read_preview ext rx (st_sources st) request_id source_revision_id bounds)))"

section \<open>Reservation\<close>

definition replay_reservation ::
  "rstr \<Rightarrow> rstr \<Rightarrow> attempt_store \<Rightarrow> reserved_attempt option platform_result" where
  "replay_reservation request_id command_sha256 st =
     (case find (\<lambda>r. at_request_id r = request_id) (st_attempts st) of
        None \<Rightarrow> Ok None
      | Some r \<Rightarrow>
          if at_envelope_sha256 r \<noteq> command_sha256 then Err (Conflict ''receipt_intelligence_command_changed'')
          else Ok (Some \<lparr>ra_approval_id = at_approval_id r, ra_attempt_id = at_attempt_id r,
                         ra_state = at_state r, ra_replayed = True\<rparr>))"

definition preflight_receipt_intelligence_replay ::
  "ri_externals \<Rightarrow> rstr \<Rightarrow> rstr \<Rightarrow> attempt_store \<Rightarrow> reserved_attempt option platform_result" where
  "preflight_receipt_intelligence_replay rx request_id command_sha256 st =
     and_then (ri_validate_uuid rx request_id ''receipt_intelligence_request_id'') (\<lambda>_.
     and_then (ri_validate_hash command_sha256 ''receipt_intelligence_command_sha256'') (\<lambda>_.
       replay_reservation request_id command_sha256 st))"

definition active_openai_credential :: "sources_state \<Rightarrow> rstr \<Rightarrow> bool" where
  "active_openai_credential ss credential_id \<longleftrightarrow>
     list_ex (\<lambda>r. cx_credential_id r = credential_id \<and> cx_provider r = lit ''open_ai''
       \<and> cx_status r = credential_state.Active) (ss_credentials ss)"

definition require_active_credential :: "rstr \<Rightarrow> attempt_store \<Rightarrow> unit platform_result" where
  "require_active_credential credential_id st =
     ensure (active_openai_credential (st_sources st) credential_id)
       (Conflict ''receipt_intelligence_credential_unavailable'')"

definition bound_columns_of :: "ri_bounds \<Rightarrow> bound_columns" where
  "bound_columns_of b =
     \<lparr>bc_max_fragment_count = uint (bo_max_fragment_count b), bc_max_fragment_bytes = uint (bo_max_fragment_bytes b),
      bc_max_aggregate_text_bytes = uint (bo_max_aggregate_text_bytes b),
      bc_max_serialized_request_bytes = uint (bo_max_serialized_request_bytes b),
      bc_max_request_bytes = uint (bo_max_request_bytes b), bc_max_response_bytes = uint (bo_max_response_bytes b),
      bc_max_output_tokens = uint (bo_max_output_tokens b), bc_timeout_ms = uint (bo_timeout_ms b),
      bc_max_attempts = uint (bo_max_attempts b)\<rparr>"

definition new_approval :: "rstr \<Rightarrow> consent_reservation \<Rightarrow> rstr \<Rightarrow> int \<Rightarrow> approval_row" where
  "new_approval approval_id c local_source_id now_ms =
     \<lparr>ap_approval_id = approval_id, ap_request_id = cr_request_id c, ap_envelope_sha256 = cr_command_sha256 c,
      ap_preview_binding_sha256 = cr_preview_binding_sha256 c, ap_source_revision_id = cr_source_revision_id c,
      ap_local_source_id = local_source_id, ap_source_revision_sha256 = cr_source_revision_sha256 c,
      ap_fragment_set_sha256 = cr_fragment_set_sha256 c, ap_projection_sha256 = cr_projection_sha256 c,
      ap_serialized_request_sha256 = cr_serialized_request_sha256 c,
      ap_serialized_request_bytes = uint (cr_serialized_request_bytes c), ap_credential_id = cr_credential_id c,
      ap_provider = cr_provider c, ap_model = cr_model c, ap_retention_mode = cr_retention_mode c,
      ap_retention_provenance = cr_retention_provenance c, ap_prompt_revision = cr_prompt_revision c,
      ap_schema_revision = cr_schema_revision c, ap_projection_revision = cr_projection_revision c,
      ap_parameters_sha256 = cr_parameters_sha256 c, ap_bounds = bound_columns_of (cr_bounds c),
      ap_expires_at_ms = cr_expires_at_ms c, ap_consumed_request_id = cr_request_id c,
      ap_consumed_at_ms = now_ms, ap_created_at_ms = now_ms\<rparr>"

definition new_attempt :: "rstr \<Rightarrow> rstr \<Rightarrow> consent_reservation \<Rightarrow> rstr \<Rightarrow> int \<Rightarrow> attempt_row" where
  "new_attempt attempt_id approval_id c local_source_id now_ms =
     \<lparr>at_attempt_id = attempt_id, at_request_id = cr_request_id c, at_approval_id = approval_id,
      at_envelope_sha256 = cr_command_sha256 c, at_source_revision_id = cr_source_revision_id c,
      at_local_source_id = local_source_id, at_state = RiNotSent, at_failure_code = None,
      at_input_tokens = None, at_output_tokens = None, at_attempt_count = 1, at_created_at_ms = now_ms,
      at_dispatched_at_ms = None, at_finalized_at_ms = None\<rparr>"

definition reserve_receipt_intelligence ::
  "externals \<Rightarrow> ri_externals \<Rightarrow> consent_reservation \<Rightarrow> int \<Rightarrow> attempt_store \<Rightarrow>
   (attempt_store \<times> reserved_attempt) platform_result" where
  "reserve_receipt_intelligence ext rx c now_ms st =
     and_then (replay_reservation (cr_request_id c) (cr_command_sha256 c) st) (\<lambda>existing.
       case existing of Some reserved \<Rightarrow> Ok (st, reserved)
       | None \<Rightarrow>
           and_then (validate_reservation rx c now_ms) (\<lambda>_.
           and_then (read_preview ext rx (st_sources st) (cr_request_id c) (cr_source_revision_id c) (cr_bounds c)) (\<lambda>preview.
           if vw_preview_binding_sha256 preview \<noteq> cr_preview_binding_sha256 c
              \<or> vw_fragment_set_sha256 preview \<noteq> cr_fragment_set_sha256 c
              \<or> vw_source_revision_sha256 preview \<noteq> cr_source_revision_sha256 c
              \<or> vw_projection_sha256 preview \<noteq> cr_projection_sha256 c
           then Err (Conflict ''receipt_intelligence_preview_changed'')
           else
             and_then (require_active_credential (cr_credential_id c) st) (\<lambda>_.
             let approval_id = stable_id ext (lit ''receipt-intelligence-approval'') (cr_request_id c);
                 attempt_id = stable_id ext (lit ''receipt-intelligence-attempt'') (cr_request_id c) in
             and_then (insert_approval (new_approval approval_id c (vw_local_source_id preview) now_ms) st) (\<lambda>st.
             and_then (insert_attempt (new_attempt attempt_id approval_id c (vw_local_source_id preview) now_ms) st) (\<lambda>st.
             and_then (advance_receipt_intelligence_revision st) (\<lambda>st.
               Ok (st, \<lparr>ra_approval_id = approval_id, ra_attempt_id = attempt_id, ra_state = RiNotSent,
                        ra_replayed = False\<rparr>))))))))"

section \<open>Dispatch\<close>

definition attempt_with_approval :: "rstr \<Rightarrow> attempt_store \<Rightarrow> (attempt_row \<times> approval_row) option" where
  "attempt_with_approval attempt_id st =
     first_row [(t, p). t \<leftarrow> st_attempts st, p \<leftarrow> st_approvals st,
                  ap_approval_id p = at_approval_id t \<and> at_attempt_id t = attempt_id]"

definition receipt_intelligence_credential_locator ::
  "ri_externals \<Rightarrow> rstr \<Rightarrow> int \<Rightarrow> attempt_store \<Rightarrow> rstr platform_result" where
  "receipt_intelligence_credential_locator rx attempt_id now_ms st =
     and_then (ri_validate_uuid rx attempt_id ''receipt_intelligence_attempt_id'') (\<lambda>_.
     and_then (ok_or (attempt_with_approval attempt_id st)
       (Conflict ''receipt_intelligence_credential_unavailable'')) (\<lambda>(t, p).
     if at_state t \<noteq> RiNotSent then Err (Conflict ''receipt_intelligence_attempt_already_authorized'')
     else if ap_expires_at_ms p < now_ms then Err (Conflict ''receipt_intelligence_approval_expired'')
     else (case find (\<lambda>r. cx_credential_id r = ap_credential_id p) (ss_credentials (st_sources st)) of
             None \<Rightarrow> Err (Conflict ''receipt_intelligence_credential_unavailable'')
           | Some r \<Rightarrow>
               if cx_provider r = lit ''open_ai'' \<and> cx_status r = credential_state.Active then Ok (cx_locator r)
               else Err (Conflict ''receipt_intelligence_credential_unavailable''))))"

definition mark_receipt_intelligence_dispatched ::
  "ri_externals \<Rightarrow> rstr \<Rightarrow> int \<Rightarrow> attempt_store \<Rightarrow> attempt_store platform_result" where
  "mark_receipt_intelligence_dispatched rx attempt_id now_ms st =
     and_then (ri_validate_uuid rx attempt_id ''receipt_intelligence_attempt_id'') (\<lambda>_.
     and_then (ok_or (attempt_with_approval attempt_id st) (InvalidInput ''receipt_intelligence_attempt_id'')) (\<lambda>(t, p).
     if at_state t \<noteq> RiNotSent then Err (Conflict ''receipt_intelligence_attempt_already_authorized'')
     else if ap_expires_at_ms p < now_ms then Err (Conflict ''receipt_intelligence_approval_expired'')
     else if \<not> active_openai_credential (st_sources st) (ap_credential_id p)
     then Err (Conflict ''receipt_intelligence_credential_unavailable'')
     else and_then (update_attempts (\<lambda>r. at_attempt_id r = attempt_id \<and> at_state r = RiNotSent)
            (\<lambda>r. r\<lparr>at_state := RiDispatched, at_dispatched_at_ms := Some now_ms\<rparr>) st) (\<lambda>(st, changed).
          if changed \<noteq> 1 then Err (Conflict ''receipt_intelligence_attempt_already_authorized'')
          else advance_receipt_intelligence_revision st)))"

section \<open>Outcomes\<close>

definition fail_receipt_intelligence ::
  "ri_externals \<Rightarrow> rstr \<Rightarrow> ri_failure_code \<Rightarrow> int \<Rightarrow> attempt_store \<Rightarrow> attempt_store platform_result" where
  "fail_receipt_intelligence rx attempt_id code now_ms st =
     and_then (ri_validate_uuid rx attempt_id ''receipt_intelligence_attempt_id'') (\<lambda>_.
     and_then (update_attempts (\<lambda>r. at_attempt_id r = attempt_id \<and> at_state r \<in> {RiNotSent, RiDispatched})
       (\<lambda>r. r\<lparr>at_state := RiFailed, at_failure_code := Some (FailureCode code), at_finalized_at_ms := Some now_ms\<rparr>) st)
       (\<lambda>(st, changed).
     if changed \<noteq> 1 then Err (Conflict ''receipt_intelligence_attempt_terminal'')
     else advance_receipt_intelligence_revision st))"

definition mark_receipt_intelligence_outcome_unknown ::
  "ri_externals \<Rightarrow> rstr \<Rightarrow> int \<Rightarrow> attempt_store \<Rightarrow> attempt_store platform_result" where
  "mark_receipt_intelligence_outcome_unknown rx attempt_id now_ms st =
     and_then (ri_validate_uuid rx attempt_id ''receipt_intelligence_attempt_id'') (\<lambda>_.
     and_then (update_attempts (\<lambda>r. at_attempt_id r = attempt_id \<and> at_state r = RiDispatched)
       (\<lambda>r. r\<lparr>at_state := RiOutcomeUnknown, at_failure_code := Some FailureOutcomeUnknown,
              at_finalized_at_ms := Some now_ms\<rparr>) st) (\<lambda>(st, changed).
     if changed \<noteq> 1 then Err (Conflict ''receipt_intelligence_attempt_not_dispatched'')
     else advance_receipt_intelligence_revision st))"

definition new_audit :: "rstr \<Rightarrow> audit_metadata \<Rightarrow> int \<Rightarrow> attempt_row \<Rightarrow> approval_row \<Rightarrow> audit_row" where
  "new_audit audit_id a now_ms t p =
     \<lparr>ad_audit_id = audit_id, ad_attempt_id = at_attempt_id t, ad_source_revision_id = at_source_revision_id t,
      ad_local_source_id = at_local_source_id t, ad_source_revision_sha256 = ap_source_revision_sha256 p,
      ad_projection_sha256 = ap_projection_sha256 p,
      ad_serialized_request_sha256 = ap_serialized_request_sha256 p, ad_response_sha256 = am_response_sha256 a,
      ad_provider = ap_provider p, ad_model = ap_model p, ad_provider_request_id = am_provider_request_id a,
      ad_response_id = am_response_id a, ad_prompt_revision = ap_prompt_revision p,
      ad_schema_revision = ap_schema_revision p, ad_projection_revision = ap_projection_revision p,
      ad_retention_provenance = ap_retention_provenance p, ad_parameters_sha256 = ap_parameters_sha256 p,
      ad_request_bytes = uint (am_request_bytes a), ad_response_bytes = uint (am_response_bytes a),
      ad_input_tokens = uint (am_input_tokens a), ad_output_tokens = uint (am_output_tokens a),
      ad_total_tokens = uint (am_total_tokens a), ad_reasoning_tokens = uint (am_reasoning_tokens a),
      ad_cached_input_tokens = uint (am_cached_input_tokens a), ad_attempt_count = uint (am_attempt_count a),
      ad_dispatched_at_ms = am_dispatched_at_ms a, ad_finished_at_ms = now_ms\<rparr>"

text \<open>
  \<open>INSERT \<dots> SELECT\<close>: one row per dispatched attempt of this id with its approval. The selected
  \<open>dispatched_at_ms\<close> is the one compared with the audit's.
\<close>

definition insert_audit ::
  "externals \<Rightarrow> rstr \<Rightarrow> audit_metadata \<Rightarrow> int \<Rightarrow> attempt_store \<Rightarrow> attempt_store platform_result" where
  "insert_audit ext attempt_id a now_ms st =
     (let audit_id = stable_id ext (lit ''receipt-intelligence-audit'') attempt_id in
      case [new_audit audit_id a now_ms t p. t \<leftarrow> st_attempts st, p \<leftarrow> st_approvals st,
              ap_approval_id p = at_approval_id t \<and> at_attempt_id t = attempt_id \<and> at_state t = RiDispatched
              \<and> at_dispatched_at_ms t = Some (am_dispatched_at_ms a)] of
        [] \<Rightarrow> Err (Conflict ''receipt_intelligence_audit_attempt_changed'')
      | [row] \<Rightarrow> insert_audit_row row st
      | _ \<Rightarrow> Err Sqlite)"

definition finalize_dispatched ::
  "externals \<Rightarrow> ri_externals \<Rightarrow> rstr \<Rightarrow> ri_attempt_state \<Rightarrow> attempt_failure \<Rightarrow> audit_metadata \<Rightarrow> int \<Rightarrow>
   attempt_store \<Rightarrow> attempt_store platform_result" where
  "finalize_dispatched ext rx attempt_id state failure_code a now_ms st =
     and_then (ri_validate_uuid rx attempt_id ''receipt_intelligence_attempt_id'') (\<lambda>_.
     and_then (validate_audit_metadata a now_ms) (\<lambda>_.
     and_then (insert_audit ext attempt_id a now_ms st) (\<lambda>st.
     and_then (update_attempts (\<lambda>r. at_attempt_id r = attempt_id \<and> at_state r = RiDispatched)
       (\<lambda>r. r\<lparr>at_state := state, at_failure_code := Some failure_code,
              at_input_tokens := Some (uint (am_input_tokens a)), at_output_tokens := Some (uint (am_output_tokens a)),
              at_finalized_at_ms := Some now_ms\<rparr>) st) (\<lambda>(st, changed).
     if changed \<noteq> 1 then Err (Conflict ''receipt_intelligence_attempt_not_dispatched'')
     else advance_receipt_intelligence_revision st))))"

definition refuse_receipt_intelligence ::
  "externals \<Rightarrow> ri_externals \<Rightarrow> rstr \<Rightarrow> audit_metadata \<Rightarrow> int \<Rightarrow> attempt_store \<Rightarrow> attempt_store platform_result" where
  "refuse_receipt_intelligence ext rx attempt_id a now_ms st =
     finalize_dispatched ext rx attempt_id RiRefused FailureRefused a now_ms st"

text \<open>\<open>u32::try_from\<close> and \<open>u8::try_from\<close> on the stored bounds.\<close>

definition bounds_of_columns :: "bound_columns \<Rightarrow> ri_bounds platform_result" where
  "bounds_of_columns b =
     (if list_all (between 0 (2 ^ 32 - 1))
           [bc_max_fragment_count b, bc_max_fragment_bytes b, bc_max_aggregate_text_bytes b,
            bc_max_serialized_request_bytes b, bc_max_request_bytes b, bc_max_response_bytes b,
            bc_max_output_tokens b, bc_timeout_ms b] \<and> between 0 255 (bc_max_attempts b)
      then Ok \<lparr>bo_max_fragment_count = of_int (bc_max_fragment_count b),
               bo_max_fragment_bytes = of_int (bc_max_fragment_bytes b),
               bo_max_aggregate_text_bytes = of_int (bc_max_aggregate_text_bytes b),
               bo_max_serialized_request_bytes = of_int (bc_max_serialized_request_bytes b),
               bo_max_request_bytes = of_int (bc_max_request_bytes b),
               bo_max_response_bytes = of_int (bc_max_response_bytes b),
               bo_max_output_tokens = of_int (bc_max_output_tokens b), bo_timeout_ms = of_int (bc_timeout_ms b),
               bo_max_attempts = of_int (bc_max_attempts b)\<rparr>
      else Err (Corrupt ''receipt_intelligence_bounds''))"

definition ensure_approved_preview_is_current ::
  "externals \<Rightarrow> ri_externals \<Rightarrow> rstr \<Rightarrow> attempt_store \<Rightarrow> unit platform_result" where
  "ensure_approved_preview_is_current ext rx attempt_id st =
     and_then (ok_or (attempt_with_approval attempt_id st) (InvalidInput ''receipt_intelligence_attempt_id'')) (\<lambda>(t, p).
     and_then (bounds_of_columns (ap_bounds p)) (\<lambda>bounds.
     and_then (read_preview ext rx (st_sources st) (ap_request_id p) (ap_source_revision_id p) bounds) (\<lambda>current.
       ensure (vw_preview_binding_sha256 current = ap_preview_binding_sha256 p)
         (Conflict ''receipt_intelligence_source_revision_changed''))))"

definition authority_snapshot :: "sources_state \<Rightarrow> rstr \<Rightarrow> (rstr \<times> rstr \<times> rstr \<times> int \<times> int) option" where
  "authority_snapshot ss local_source_id =
     map_option (\<lambda>h. (ah_authority_id h, ah_order_evidence_id h, ah_review_decision_id h,
         ah_receipt_revision h, ah_authority_revision h))
       (find (\<lambda>h. ah_local_source_id h = local_source_id) (ss_authority_heads ss))"

definition source_review_count :: "sources_state \<Rightarrow> rstr \<Rightarrow> nat" where
  "source_review_count ss local_source_id =
     length [d. d \<leftarrow> ss_decisions ss, o' \<leftarrow> ss_orders ss, run \<leftarrow> ss_runs ss, p \<leftarrow> ss_parses ss,
       or_order_evidence_id o' = rw_order_evidence_id d \<and> rn_run_id run = or_run_id o'
       \<and> pa_parse_id p = rn_parse_id run \<and> pa_source_id p = local_source_id]"

definition complete_receipt_intelligence_with_publication ::
  "externals \<Rightarrow> ri_externals \<Rightarrow> rstr \<Rightarrow> ri_classification \<Rightarrow> audit_metadata \<Rightarrow> int \<Rightarrow>
   (attempt_store \<Rightarrow> (attempt_store \<times> rstr option) platform_result) \<Rightarrow> attempt_store \<Rightarrow> attempt_store platform_result" where
  "complete_receipt_intelligence_with_publication ext rx attempt_id classification a now_ms publish st =
     and_then (ri_validate_uuid rx attempt_id ''receipt_intelligence_attempt_id'') (\<lambda>_.
     and_then (validate_audit_metadata a now_ms) (\<lambda>_.
     and_then (ok_or (find (\<lambda>r. at_attempt_id r = attempt_id) (st_attempts st))
       (InvalidInput ''receipt_intelligence_attempt_id'')) (\<lambda>t.
     if at_state t \<noteq> RiDispatched then Err (Conflict ''receipt_intelligence_attempt_not_dispatched'')
     else
       and_then (ensure_approved_preview_is_current ext rx attempt_id st) (\<lambda>_.
       let local_source_id = at_local_source_id t;
           authority_before = authority_snapshot (st_sources st) local_source_id;
           catalog_revision_before = ss_catalog_revision (st_sources st);
           review_count_before = source_review_count (st_sources st) local_source_id in
       and_then (publish st) (\<lambda>(st, order_evidence_id).
       if publishes_order classification \<noteq> (order_evidence_id \<noteq> None)
       then Err (InvalidInput ''receipt_intelligence_publication'')
       else
         and_then (case order_evidence_id of None \<Rightarrow> Ok ()
             | Some order_id \<Rightarrow>
                 and_then (ri_validate_uuid rx order_id ''receipt_intelligence_order_evidence_id'') (\<lambda>_.
                   ensure (order_of_source (st_sources st) order_id local_source_id)
                     (Conflict ''receipt_intelligence_order_source_changed''))) (\<lambda>_.
         if authority_snapshot (st_sources st) local_source_id \<noteq> authority_before
            \<or> source_review_count (st_sources st) local_source_id \<noteq> review_count_before
            \<or> ss_catalog_revision (st_sources st) \<noteq> catalog_revision_before
         then Err (Conflict ''receipt_intelligence_publication_authority'')
         else
           and_then (insert_audit ext attempt_id a now_ms st) (\<lambda>st.
           and_then (insert_classification
             \<lparr>cl_classification_id = stable_id ext (lit ''receipt-intelligence-classification'') attempt_id,
              cl_attempt_id = attempt_id, cl_source_revision_id = at_source_revision_id t,
              cl_local_source_id = local_source_id, cl_classification = classification,
              cl_order_evidence_id = order_evidence_id, cl_created_at_ms = now_ms\<rparr> st) (\<lambda>st.
           and_then (update_attempts (\<lambda>r. at_attempt_id r = attempt_id \<and> at_state r = RiDispatched)
             (\<lambda>r. r\<lparr>at_state := RiCompleted, at_input_tokens := Some (uint (am_input_tokens a)),
                    at_output_tokens := Some (uint (am_output_tokens a)), at_finalized_at_ms := Some now_ms\<rparr>) st)
             (\<lambda>(st, changed).
           if changed \<noteq> 1 then Err (Conflict ''receipt_intelligence_attempt_not_dispatched'')
           else advance_receipt_intelligence_revision st)))))))))"

definition complete_receipt_intelligence_without_order ::
  "externals \<Rightarrow> ri_externals \<Rightarrow> rstr \<Rightarrow> ri_classification \<Rightarrow> audit_metadata \<Rightarrow> int \<Rightarrow> attempt_store \<Rightarrow>
   attempt_store platform_result" where
  "complete_receipt_intelligence_without_order ext rx attempt_id classification a now_ms st =
     (if publishes_order classification then Err (InvalidInput ''receipt_intelligence_classification'')
      else complete_receipt_intelligence_with_publication ext rx attempt_id classification a now_ms
             (\<lambda>st. Ok (st, None)) st)"

section \<open>Recovery\<close>

definition recover_receipt_intelligence_attempts ::
  "int \<Rightarrow> attempt_store \<Rightarrow> (attempt_store \<times> rstr list) platform_result" where
  "recover_receipt_intelligence_attempts now_ms st =
     and_then (update_attempts (\<lambda>r. at_state r = RiDispatched)
       (\<lambda>r. r\<lparr>at_state := RiOutcomeUnknown, at_failure_code := Some FailureOutcomeUnknown,
              at_finalized_at_ms := Some now_ms\<rparr>) st) (\<lambda>(st, recovered).
     let resumable = map at_attempt_id (sort_key (\<lambda>r. (at_created_at_ms r, at_attempt_id r))
           (filter (\<lambda>r. at_state r = RiNotSent) (st_attempts st))) in
     and_then (if recovered > 0 then advance_receipt_intelligence_revision st else Ok st) (\<lambda>st.
       Ok (st, resumable)))"

end
