(* ===== verification/Receipt_Attempt_Invariant.thy ===== *)
theory Receipt_Attempt_Invariant
  imports Receipt_Attempt_Store
begin

text \<open>
  The invariant of the attempt tables and its preservation. An update of the attempts, together with the
  audits and classifications that are inserted before it, is one lemma for all operations.
\<close>

section \<open>Runs\<close>

text \<open>
  What a publication may touch: it gets the transaction, writes orders and what belongs to them, and leaves
  the tables of this repository alone.
\<close>

definition publication_frame ::
  "(attempt_store \<Rightarrow> (attempt_store \<times> rstr option) platform_result) \<Rightarrow> bool" where
  "publication_frame publish \<longleftrightarrow> (\<forall>st st' order. publish st = Ok (st', order) \<longrightarrow> (\<exists>ss. st' = st\<lparr>st_sources := ss\<rparr>))"

datatype ri_event = EvReserve reserved_attempt | EvDispatch rstr | EvFinish rstr | EvRecover | EvOther

text \<open>
  One successful transaction of the repository, or a change of the other tables by another component. A
  transaction that fails is no step: it leaves the store as it was.
\<close>

inductive ri_step :: "externals \<Rightarrow> ri_externals \<Rightarrow> attempt_store \<Rightarrow> ri_event \<Rightarrow> attempt_store \<Rightarrow> bool"
  for ext rx where
  reserve: "reserve_receipt_intelligence ext rx c now_ms st = Ok (st', r) \<Longrightarrow> ri_step ext rx st (EvReserve r) st'"
| dispatch: "mark_receipt_intelligence_dispatched rx k now_ms st = Ok st' \<Longrightarrow> ri_step ext rx st (EvDispatch k) st'"
| fail: "fail_receipt_intelligence rx k code now_ms st = Ok st' \<Longrightarrow> ri_step ext rx st (EvFinish k) st'"
| refuse: "refuse_receipt_intelligence ext rx k a now_ms st = Ok st' \<Longrightarrow> ri_step ext rx st (EvFinish k) st'"
| unknown: "mark_receipt_intelligence_outcome_unknown rx k now_ms st = Ok st' \<Longrightarrow> ri_step ext rx st (EvFinish k) st'"
| complete: "publication_frame publish \<Longrightarrow>
    complete_receipt_intelligence_with_publication ext rx k classification a now_ms publish st = Ok st' \<Longrightarrow>
    ri_step ext rx st (EvFinish k) st'"
| complete_without: "complete_receipt_intelligence_without_order ext rx k classification a now_ms st = Ok st' \<Longrightarrow>
    ri_step ext rx st (EvFinish k) st'"
| recover: "recover_receipt_intelligence_attempts now_ms st = Ok (st', resumable) \<Longrightarrow> ri_step ext rx st EvRecover st'"
| environment: "ri_step ext rx st EvOther (st\<lparr>st_sources := ss\<rparr>)"

inductive ri_run :: "externals \<Rightarrow> ri_externals \<Rightarrow> attempt_store \<Rightarrow> ri_event list \<Rightarrow> attempt_store \<Rightarrow> bool"
  for ext rx where
  start: "ri_run ext rx st [] st"
| extend: "ri_run ext rx st evs st' \<Longrightarrow> ri_step ext rx st' e st'' \<Longrightarrow> ri_run ext rx st (evs @ [e]) st''"

definition fresh_store :: "attempt_store \<Rightarrow> bool" where
  "fresh_store st \<longleftrightarrow> st_approvals st = [] \<and> st_attempts st = [] \<and> st_audits st = [] \<and> st_classifications st = []"

section \<open>The invariant\<close>

definition approved :: "attempt_row \<Rightarrow> approval_row \<Rightarrow> bool" where
  "approved t p \<longleftrightarrow>
     ap_approval_id p = at_approval_id t \<and> ap_request_id p = at_request_id t
     \<and> ap_envelope_sha256 p = at_envelope_sha256 t \<and> ap_source_revision_id p = at_source_revision_id t
     \<and> ap_local_source_id p = at_local_source_id t \<and> ap_created_at_ms p = at_created_at_ms t
     \<and> (\<forall>d. at_dispatched_at_ms t = Some d \<longrightarrow> d \<le> ap_expires_at_ms p)"

definition audit_of :: "attempt_row \<Rightarrow> approval_row \<Rightarrow> audit_row \<Rightarrow> bool" where
  "audit_of t p a \<longleftrightarrow>
     ad_attempt_id a = at_attempt_id t \<and> at_state t \<in> {RiCompleted, RiRefused} \<and> audit_checks a
     \<and> at_dispatched_at_ms t = Some (ad_dispatched_at_ms a) \<and> at_finalized_at_ms t = Some (ad_finished_at_ms a)
     \<and> at_input_tokens t = Some (ad_input_tokens a) \<and> at_output_tokens t = Some (ad_output_tokens a)
     \<and> ad_source_revision_sha256 a = ap_source_revision_sha256 p \<and> ad_projection_sha256 a = ap_projection_sha256 p
     \<and> ad_serialized_request_sha256 a = ap_serialized_request_sha256 p \<and> ad_model a = ap_model p
     \<and> ad_retention_provenance a = ap_retention_provenance p \<and> ad_parameters_sha256 a = ap_parameters_sha256 p
     \<and> ad_request_bytes a \<le> bc_max_request_bytes (ap_bounds p)
     \<and> ad_response_bytes a \<le> bc_max_response_bytes (ap_bounds p)
     \<and> ad_output_tokens a \<le> bc_max_output_tokens (ap_bounds p)"

definition classification_of :: "attempt_row \<Rightarrow> classification_row \<Rightarrow> bool" where
  "classification_of t c \<longleftrightarrow>
     cl_attempt_id c = at_attempt_id t \<and> at_state t = RiCompleted
     \<and> cl_source_revision_id c = at_source_revision_id t \<and> cl_local_source_id c = at_local_source_id t
     \<and> (publishes_order (cl_classification c) \<longleftrightarrow> cl_order_evidence_id c \<noteq> None)"

definition attempt_ok :: "attempt_store \<Rightarrow> attempt_row \<Rightarrow> bool" where
  "attempt_ok st t \<longleftrightarrow> attempt_checks t \<and> (\<exists>p\<in>set (st_approvals st). approved t p)
     \<and> (at_state t \<in> {RiCompleted, RiRefused} \<longleftrightarrow> (\<exists>a\<in>set (st_audits st). ad_attempt_id a = at_attempt_id t))
     \<and> (at_state t = RiCompleted \<longleftrightarrow> (\<exists>c\<in>set (st_classifications st). cl_attempt_id c = at_attempt_id t))"

definition approval_ok :: "attempt_store \<Rightarrow> approval_row \<Rightarrow> bool" where
  "approval_ok st p \<longleftrightarrow> approval_checks p \<and> ap_expires_at_ms p \<le> ap_created_at_ms p + approval_lifetime_ms
     \<and> (\<exists>t\<in>set (st_attempts st). approved t p)"

definition ri_inv :: "attempt_store \<Rightarrow> bool" where
  "ri_inv st \<longleftrightarrow>
     distinct (map at_attempt_id (st_attempts st)) \<and> distinct (map at_request_id (st_attempts st))
     \<and> distinct (map at_approval_id (st_attempts st)) \<and> distinct (map ap_approval_id (st_approvals st))
     \<and> (\<forall>t\<in>set (st_attempts st). attempt_ok st t) \<and> (\<forall>p\<in>set (st_approvals st). approval_ok st p)
     \<and> distinct (map ad_attempt_id (st_audits st))
     \<and> (\<forall>a\<in>set (st_audits st). \<exists>t\<in>set (st_attempts st). \<exists>p\<in>set (st_approvals st). approved t p \<and> audit_of t p a)
     \<and> distinct (map cl_attempt_id (st_classifications st))
     \<and> (\<forall>c\<in>set (st_classifications st). \<exists>t\<in>set (st_attempts st). classification_of t c)"

section \<open>Tables\<close>

lemma map_update_rows: "(\<And>r. r \<in> set rows \<Longrightarrow> P r \<Longrightarrow> g (f r) = g r) \<Longrightarrow> map g (update_rows P f rows) = map g rows"
  by (induction rows) (auto simp: update_rows_def)

interpretation attempts: keyed_table at_attempt_id "\<lambda>f. \<forall>r. at_attempt_id (f r) = at_attempt_id r"
  by unfold_locales simp

interpretation approvals: keyed_table ap_approval_id "\<lambda>f. \<forall>r. ap_approval_id (f r) = ap_approval_id r"
  by unfold_locales simp

lemma update_attempts_Ok:
  "update_attempts P f st = Ok (st', n) \<longleftrightarrow>
     st' = st\<lparr>st_attempts := update_rows P f (st_attempts st)\<rparr> \<and> n = changed_rows P (st_attempts st)
     \<and> (\<forall>r\<in>set (st_attempts st). P r \<longrightarrow> attempt_transition r (f r) \<and> attempt_evidence st (f r) \<and> attempt_checks (f r))"
  by (auto simp: update_attempts_def list_all_iff)

lemma advance_Ok:
  "advance_receipt_intelligence_revision st = Ok st' \<longleftrightarrow>
     st_revision st < 9007199254740990 \<and> st' = st\<lparr>st_revision := st_revision st + 1\<rparr>"
  by (auto simp: advance_receipt_intelligence_revision_def)

lemma attempt_with_approval_Some:
  assumes "attempt_with_approval k st = Some (t, p)"
  shows "t \<in> set (st_attempts st)" "p \<in> set (st_approvals st)" "ap_approval_id p = at_approval_id t" "at_attempt_id t = k"
proof -
  have "(t, p) \<in> set [(t, p). t \<leftarrow> st_attempts st, p \<leftarrow> st_approvals st,
      ap_approval_id p = at_approval_id t \<and> at_attempt_id t = k]"
    using assms unfolding attempt_with_approval_def first_row_def by (auto simp del: set_concat set_map split: list.splits)
  then show "t \<in> set (st_attempts st)" "p \<in> set (st_approvals st)" "ap_approval_id p = at_approval_id t" "at_attempt_id t = k"
    by auto
qed

lemma transition_from: "attempt_transition r r' \<Longrightarrow> at_state r \<in> {RiNotSent, RiDispatched}"
  by (cases "at_state r") (auto simp: attempt_transition_def)

lemma transition_to: "attempt_transition r r' \<Longrightarrow> at_state r' \<noteq> RiNotSent"
  by (cases "at_state r") (auto simp: attempt_transition_def)

lemma ri_inv_cong:
  "ri_inv st \<Longrightarrow> st_approvals st' = st_approvals st \<Longrightarrow> st_attempts st' = st_attempts st \<Longrightarrow>
   st_audits st' = st_audits st \<Longrightarrow> st_classifications st' = st_classifications st \<Longrightarrow> ri_inv st'"
proof -
  assume inv: "ri_inv st" and eq: "st_approvals st' = st_approvals st" "st_attempts st' = st_attempts st"
    "st_audits st' = st_audits st" "st_classifications st' = st_classifications st"
  show "ri_inv st'" using inv unfolding ri_inv_def attempt_ok_def approval_ok_def eq .
qed

lemma inv_attempt: "ri_inv st \<Longrightarrow> t \<in> set (st_attempts st) \<Longrightarrow> attempt_ok st t"
  by (simp add: ri_inv_def)

lemma inv_approval: "ri_inv st \<Longrightarrow> p \<in> set (st_approvals st) \<Longrightarrow> approval_ok st p"
  by (simp add: ri_inv_def)

lemma inv_approved_unique:
  assumes "ri_inv st" "t \<in> set (st_attempts st)" "p \<in> set (st_approvals st)" "ap_approval_id p = at_approval_id t"
  shows "approved t p"
proof -
  obtain q where q: "q \<in> set (st_approvals st)" "approved t q"
    using inv_attempt [OF assms(1,2)] by (auto simp: attempt_ok_def)
  then have "q = p"
    using approvals.row_unique [of "st_approvals st" q p] assms by (simp add: ri_inv_def approved_def)
  with q show ?thesis by simp
qed

section \<open>Preservation\<close>

text \<open>
  The rows that change move along a transition; the audits and classifications inserted with them belong to
  the rows that become completed or refused.
\<close>

lemma inv_update:
  assumes inv: "ri_inv st"
    and rows: "\<And>r. r \<in> set (st_attempts st) \<Longrightarrow> P r \<Longrightarrow> attempt_transition r (f r) \<and> attempt_checks (f r)"
    and dispatched: "\<And>r p. r \<in> set (st_attempts st) \<Longrightarrow> P r \<Longrightarrow> p \<in> set (st_approvals st) \<Longrightarrow> approved r p \<Longrightarrow> approved (f r) p"
    and audits: "\<And>r. r \<in> set (st_attempts st) \<Longrightarrow> P r \<Longrightarrow>
        at_state (f r) \<in> {RiCompleted, RiRefused} \<longleftrightarrow> (\<exists>a\<in>set as. ad_attempt_id a = at_attempt_id r)"
    and audit: "\<And>a. a \<in> set as \<Longrightarrow>
        \<exists>r\<in>set (st_attempts st). \<exists>p\<in>set (st_approvals st). P r \<and> approved (f r) p \<and> audit_of (f r) p a"
    and as: "distinct (map ad_attempt_id as)"
    and classes: "\<And>r. r \<in> set (st_attempts st) \<Longrightarrow> P r \<Longrightarrow>
        at_state (f r) = RiCompleted \<longleftrightarrow> (\<exists>c\<in>set cs. cl_attempt_id c = at_attempt_id r)"
    and cls: "\<And>c. c \<in> set cs \<Longrightarrow> \<exists>r\<in>set (st_attempts st). P r \<and> classification_of (f r) c"
    and cs: "distinct (map cl_attempt_id cs)"
  shows "ri_inv (st\<lparr>st_attempts := update_rows P f (st_attempts st), st_audits := st_audits st @ as,
    st_classifications := st_classifications st @ cs, st_revision := n, st_sources := ss\<rparr>)" (is "ri_inv ?st")
proof -
  let ?A = "st_attempts st" and ?A' = "update_rows P f (st_attempts st)"
  have ids: "at_attempt_id (f r) = at_attempt_id r" "at_request_id (f r) = at_request_id r"
    "at_approval_id (f r) = at_approval_id r" if "r \<in> set ?A" "P r" for r
    using rows [OF that] by (auto simp: attempt_transition_def)
  have keys: "map at_attempt_id ?A' = map at_attempt_id ?A" "map at_request_id ?A' = map at_request_id ?A"
    "map at_approval_id ?A' = map at_approval_id ?A"
    using ids by (simp_all add: map_update_rows)
  have uniq: "r = s" if "r \<in> set ?A" "s \<in> set ?A" "at_attempt_id r = at_attempt_id s" for r s
    using inv that attempts.row_unique [of ?A r s] by (simp add: ri_inv_def)
  have open_row: "at_state r \<in> {RiNotSent, RiDispatched}" if "r \<in> set ?A" "P r" for r
    using rows [OF that] transition_from by blast
  have no_old: "ad_attempt_id a \<noteq> at_attempt_id r" "cl_attempt_id c \<noteq> at_attempt_id r"
    if "r \<in> set ?A" "P r" "a \<in> set (st_audits st)" "c \<in> set (st_classifications st)" for r a c
    using inv open_row [OF that(1,2)] that by (auto simp: ri_inv_def attempt_ok_def)
  have changed: "f r \<in> set ?A'" if "r \<in> set ?A" "P r" for r using that by (auto simp: set_update_rows)
  have kept: "r \<in> set ?A'" if "r \<in> set ?A" "\<not> P r" for r using that by (auto simp: set_update_rows)
  have closed: "\<not> P r" if "r \<in> set ?A" "at_state r \<in> {RiCompleted, RiRefused}" for r
    using open_row [OF that(1)] that(2) by auto
  have owner: "\<exists>r\<in>set ?A. P r \<and> at_attempt_id r = ad_attempt_id a" if "a \<in> set as" for a
    using audit [OF that] ids by (auto simp: audit_of_def)
  have cowner: "\<exists>r\<in>set ?A. P r \<and> at_attempt_id r = cl_attempt_id c" if "c \<in> set cs" for c
    using cls [OF that] ids by (auto simp: classification_of_def)
  have "attempt_ok ?st t" if t: "t \<in> set ?A'" for t
  proof (cases "t \<in> set ?A \<and> \<not> P t")
    case True
    have "\<not> (\<exists>a\<in>set as. ad_attempt_id a = at_attempt_id t)" "\<not> (\<exists>c\<in>set cs. cl_attempt_id c = at_attempt_id t)"
      using owner cowner uniq True by metis+
    moreover have "attempt_ok st t" using inv True by (simp add: ri_inv_def)
    ultimately show ?thesis by (auto simp: attempt_ok_def)
  next
    case False
    then obtain r where r: "r \<in> set ?A" "P r" "t = f r" using t by (auto simp: set_update_rows)
    obtain p where p: "p \<in> set (st_approvals st)" "approved r p" using inv_attempt [OF inv r(1)] by (auto simp: attempt_ok_def)
    have "\<not> (\<exists>a\<in>set (st_audits st). ad_attempt_id a = at_attempt_id r)" "\<not> (\<exists>c\<in>set (st_classifications st). cl_attempt_id c = at_attempt_id r)"
      using inv open_row [OF r(1,2)] r(1) by (auto simp: ri_inv_def attempt_ok_def)
    then show ?thesis
      using rows [OF r(1,2)] dispatched [OF r(1,2) p] p(1) audits [OF r(1,2)] classes [OF r(1,2)] ids(1) [OF r(1,2)] r(3)
      by (auto simp: attempt_ok_def)
  qed
  moreover have "approval_ok ?st p" if p: "p \<in> set (st_approvals st)" for p
  proof -
    obtain t where "approval_checks p" "ap_expires_at_ms p \<le> ap_created_at_ms p + approval_lifetime_ms"
      "t \<in> set ?A" "approved t p"
      using inv_approval [OF inv p] by (auto simp: approval_ok_def)
    moreover from this have "\<exists>t\<in>set ?A'. approved t p" using changed kept dispatched p by (cases "P t") blast+
    ultimately show ?thesis by (simp add: approval_ok_def)
  qed
  moreover have "\<exists>t\<in>set ?A'. \<exists>p\<in>set (st_approvals st). approved t p \<and> audit_of t p a" if a: "a \<in> set (st_audits st @ as)" for a
  proof (cases "a \<in> set as")
    case True
    then show ?thesis using audit changed by blast
  next
    case False
    then obtain t p where "t \<in> set ?A" "p \<in> set (st_approvals st)" "approved t p" "audit_of t p a"
      using inv a by (auto simp: ri_inv_def)
    then show ?thesis using closed kept by (auto simp: audit_of_def)
  qed
  moreover have "\<exists>t\<in>set ?A'. classification_of t c" if c: "c \<in> set (st_classifications st @ cs)" for c
  proof (cases "c \<in> set cs")
    case True
    then show ?thesis using cls changed by blast
  next
    case False
    then obtain t where "t \<in> set ?A" "classification_of t c" using inv c by (auto simp: ri_inv_def)
    then show ?thesis using closed kept by (auto simp: classification_of_def)
  qed
  moreover have "distinct (map ad_attempt_id (st_audits st @ as))"
  proof -
    have "ad_attempt_id a \<noteq> ad_attempt_id b" if ab: "a \<in> set (st_audits st)" "b \<in> set as" for a b
    proof -
      obtain r where r: "r \<in> set ?A" "P r" "at_attempt_id r = ad_attempt_id b" using owner [OF ab(2)] by blast
      then show ?thesis using inv open_row [OF r(1,2)] ab(1) by (auto simp: ri_inv_def attempt_ok_def)
    qed
    then show ?thesis using inv as by (auto simp: ri_inv_def)
  qed
  moreover have "distinct (map cl_attempt_id (st_classifications st @ cs))"
  proof -
    have "cl_attempt_id a \<noteq> cl_attempt_id b" if ab: "a \<in> set (st_classifications st)" "b \<in> set cs" for a b
    proof -
      obtain r where r: "r \<in> set ?A" "P r" "at_attempt_id r = cl_attempt_id b" using cowner [OF ab(2)] by blast
      then show ?thesis using inv open_row [OF r(1,2)] ab(1) by (auto simp: ri_inv_def attempt_ok_def)
    qed
    then show ?thesis using inv cs by (auto simp: ri_inv_def)
  qed
  ultimately show ?thesis using inv keys by (simp add: ri_inv_def)
qed

text \<open>An update without evidence: no row becomes completed or refused.\<close>

lemma inv_simple_update:
  assumes inv: "ri_inv st" and upd: "update_attempts P f st = Ok (st', k)"
    and states: "\<And>r. P r \<Longrightarrow> at_state (f r) \<notin> {RiCompleted, RiRefused}"
    and dispatched: "\<And>r p. r \<in> set (st_attempts st) \<Longrightarrow> P r \<Longrightarrow> p \<in> set (st_approvals st) \<Longrightarrow> approved r p \<Longrightarrow> approved (f r) p"
  shows "ri_inv (st'\<lparr>st_revision := n\<rparr>)"
proof -
  have rows: "attempt_transition r (f r) \<and> attempt_checks (f r)" if "r \<in> set (st_attempts st)" "P r" for r
    using upd that by (auto simp: update_attempts_Ok)
  have "ri_inv (st\<lparr>st_attempts := update_rows P f (st_attempts st), st_audits := st_audits st @ [],
    st_classifications := st_classifications st @ [], st_revision := n, st_sources := st_sources st\<rparr>)"
    using inv rows dispatched states by (intro inv_update) auto
  then show ?thesis using upd by (simp add: update_attempts_Ok)
qed

lemma inv_dispatch:
  assumes inv: "ri_inv st" and ok: "mark_receipt_intelligence_dispatched rx k now_ms st = Ok st'"
  shows "ri_inv st'"
proof -
  let ?P = "\<lambda>r. at_attempt_id r = k \<and> at_state r = RiNotSent"
  let ?f = "\<lambda>r. r\<lparr>at_state := RiDispatched, at_dispatched_at_ms := Some now_ms\<rparr>"
  obtain t p where tp: "attempt_with_approval k st = Some (t, p)" "\<not> ap_expires_at_ms p < now_ms"
    and upd: "\<exists>st1. update_attempts ?P ?f st = Ok (st1, 1) \<and> st' = st1\<lparr>st_revision := st_revision st1 + 1\<rparr>"
    using ok by (auto simp: mark_receipt_intelligence_dispatched_def advance_Ok result_simps split: if_splits prod.splits)
  note t = attempt_with_approval_Some [OF tp(1)]
  have "approved (?f r) q" if "r \<in> set (st_attempts st)" "?P r" "q \<in> set (st_approvals st)" "approved r q" for r q
  proof -
    have "r = t" using inv that(1,2) t attempts.row_unique [of "st_attempts st" r t] by (simp add: ri_inv_def)
    then have "q = p"
      using inv that(3,4) t approvals.row_unique [of "st_approvals st" q p] by (simp add: ri_inv_def approved_def)
    then show ?thesis using that(4) tp(2) by (simp add: approved_def)
  qed
  then show ?thesis using upd inv_simple_update [OF inv, of ?P ?f] by auto
qed

lemma inv_fail:
  assumes inv: "ri_inv st" and ok: "fail_receipt_intelligence rx k code now_ms st = Ok st'"
  shows "ri_inv st'"
proof -
  obtain st1 n where "update_attempts (\<lambda>r. at_attempt_id r = k \<and> at_state r \<in> {RiNotSent, RiDispatched})
      (\<lambda>r. r\<lparr>at_state := RiFailed, at_failure_code := Some (FailureCode code), at_finalized_at_ms := Some now_ms\<rparr>) st = Ok (st1, n)"
    "st' = st1\<lparr>st_revision := st_revision st1 + 1\<rparr>"
    using ok by (auto simp: fail_receipt_intelligence_def advance_Ok result_simps split: if_splits prod.splits)
  then show ?thesis using inv_simple_update [OF inv] by (fastforce simp: approved_def)
qed

lemma inv_unknown:
  assumes inv: "ri_inv st" and ok: "mark_receipt_intelligence_outcome_unknown rx k now_ms st = Ok st'"
  shows "ri_inv st'"
proof -
  obtain st1 n where "update_attempts (\<lambda>r. at_attempt_id r = k \<and> at_state r = RiDispatched)
      (\<lambda>r. r\<lparr>at_state := RiOutcomeUnknown, at_failure_code := Some FailureOutcomeUnknown,
             at_finalized_at_ms := Some now_ms\<rparr>) st = Ok (st1, n)"
    "st' = st1\<lparr>st_revision := st_revision st1 + 1\<rparr>"
    using ok by (auto simp: mark_receipt_intelligence_outcome_unknown_def advance_Ok result_simps split: if_splits prod.splits)
  then show ?thesis using inv_simple_update [OF inv] by (fastforce simp: approved_def)
qed

lemma inv_recover:
  assumes inv: "ri_inv st" and ok: "recover_receipt_intelligence_attempts now_ms st = Ok (st', l)"
  shows "ri_inv st'"
proof -
  obtain st1 n where "update_attempts (\<lambda>r. at_state r = RiDispatched)
      (\<lambda>r. r\<lparr>at_state := RiOutcomeUnknown, at_failure_code := Some FailureOutcomeUnknown,
             at_finalized_at_ms := Some now_ms\<rparr>) st = Ok (st1, n)"
    "\<exists>m. st' = st1\<lparr>st_revision := m\<rparr>"
    using ok by (auto simp: recover_receipt_intelligence_attempts_def advance_Ok result_simps Let_def
        split: if_splits prod.splits) (metis attempt_store.surjective attempt_store.update_convs(5))+
  then show ?thesis using inv_simple_update [OF inv] by (fastforce simp: approved_def)
qed

section \<open>Outcomes with evidence\<close>

text \<open>
  What the insertion of an audit says: there is exactly one dispatched attempt of this id, and the audit
  repeats its approval.
\<close>

lemma insert_audit_Ok:
  assumes inv: "ri_inv st" and ok: "insert_audit ext k a now_ms st = Ok st'"
  shows "\<exists>t\<in>set (st_attempts st). \<exists>p\<in>set (st_approvals st). \<exists>row. approved t p \<and> at_attempt_id t = k
     \<and> at_state t = RiDispatched \<and> at_dispatched_at_ms t = Some (am_dispatched_at_ms a)
     \<and> row = new_audit (stable_id ext (lit ''receipt-intelligence-audit'') k) a now_ms t p \<and> audit_checks row
     \<and> ad_request_bytes row \<le> bc_max_request_bytes (ap_bounds p)
     \<and> ad_response_bytes row \<le> bc_max_response_bytes (ap_bounds p)
     \<and> ad_output_tokens row \<le> bc_max_output_tokens (ap_bounds p)
     \<and> st' = st\<lparr>st_audits := st_audits st @ [row]\<rparr>"
proof -
  let ?id = "stable_id ext (lit ''receipt-intelligence-audit'') k"
  let ?sel = "[new_audit ?id a now_ms t p. t \<leftarrow> st_attempts st, p \<leftarrow> st_approvals st,
      ap_approval_id p = at_approval_id t \<and> at_attempt_id t = k \<and> at_state t = RiDispatched
      \<and> at_dispatched_at_ms t = Some (am_dispatched_at_ms a)]"
  obtain row where sel: "?sel = [row]" and ins: "insert_audit_row row st = Ok st'"
    using ok unfolding insert_audit_def Let_def by (cases ?sel; cases "tl ?sel") (auto split: list.splits)
  have "row \<in> set ?sel" unfolding sel by simp
  then obtain t p where t: "t \<in> set (st_attempts st)" "p \<in> set (st_approvals st)" "ap_approval_id p = at_approval_id t"
    "at_attempt_id t = k" "at_state t = RiDispatched" "at_dispatched_at_ms t = Some (am_dispatched_at_ms a)"
    and row: "row = new_audit ?id a now_ms t p" by auto
  from ins have matches: "audit_matches st row" "audit_checks row" "st' = st\<lparr>st_audits := st_audits st @ [row]\<rparr>"
    by (auto simp: insert_audit_row_def split: if_splits)
  obtain t2 p2 where m: "t2 \<in> set (st_attempts st)" "p2 \<in> set (st_approvals st)" "ap_approval_id p2 = at_approval_id t2"
    "at_attempt_id t2 = ad_attempt_id row" "ad_request_bytes row \<le> bc_max_request_bytes (ap_bounds p2)"
    "ad_response_bytes row \<le> bc_max_response_bytes (ap_bounds p2)"
    "ad_output_tokens row \<le> bc_max_output_tokens (ap_bounds p2)"
    using matches(1) by (auto simp: audit_matches_def list_ex_iff)
  have "t2 = t" using attempts.row_unique [of "st_attempts st" t2 t] inv m(1,4) t(1) row
    by (simp add: ri_inv_def new_audit_def)
  moreover from this have "p2 = p" using approvals.row_unique [of "st_approvals st" p2 p] inv m(2,3) t(2,3)
    by (simp add: ri_inv_def)
  ultimately show ?thesis
    using inv_approved_unique [OF inv t(1,2,3)] t row matches(2,3) m by blast
qed

text \<open>One dispatched attempt is finished with its audit and, when completed, its classification.\<close>

lemma inv_finish:
  assumes inv: "ri_inv st" and t: "t \<in> set (st_attempts st)" "at_attempt_id t = k" "at_state t = RiDispatched"
    and p: "p \<in> set (st_approvals st)" "approved t p" and audit: "audit_of (f t) p row"
    and upd: "attempt_transition t (f t)" "attempt_checks (f t)" "approved (f t) p"
    and cs: "if at_state (f t) = RiCompleted then \<exists>c. cs = [c] \<and> classification_of (f t) c else cs = []"
  shows "ri_inv (st\<lparr>st_attempts := update_rows (\<lambda>r. at_attempt_id r = k \<and> at_state r = RiDispatched) f (st_attempts st),
    st_audits := st_audits st @ [row], st_classifications := st_classifications st @ cs, st_revision := n, st_sources := ss\<rparr>)"
proof (rule inv_update [OF inv])
  let ?P = "\<lambda>r. at_attempt_id r = k \<and> at_state r = RiDispatched"
  have only: "r = t" if "r \<in> set (st_attempts st)" "?P r" for r
    using attempts.row_unique [of "st_attempts st" r t] inv t that by (simp add: ri_inv_def)
  have id: "at_attempt_id (f t) = k" using upd(1) t(2) by (simp add: attempt_transition_def)
  show "attempt_transition r (f r) \<and> attempt_checks (f r)" if "r \<in> set (st_attempts st)" "?P r" for r
    using only [OF that] upd by simp
  show "approved (f r) q" if "r \<in> set (st_attempts st)" "?P r" "q \<in> set (st_approvals st)" "approved r q" for r q
  proof -
    have "q = p" using approvals.row_unique [of "st_approvals st" q p] inv that(3,4) p only [OF that(1,2)]
      by (simp add: ri_inv_def approved_def)
    then show ?thesis using only [OF that(1,2)] upd(3) by simp
  qed
  show "at_state (f r) \<in> {RiCompleted, RiRefused} \<longleftrightarrow> (\<exists>a\<in>set [row]. ad_attempt_id a = at_attempt_id r)"
    if "r \<in> set (st_attempts st)" "?P r" for r
    using only [OF that] audit id t(2) by (auto simp: audit_of_def)
  show "\<exists>r\<in>set (st_attempts st). \<exists>p\<in>set (st_approvals st). ?P r \<and> approved (f r) p \<and> audit_of (f r) p a"
    if "a \<in> set [row]" for a
    using that t p(1) upd(3) audit by auto
  show "at_state (f r) = RiCompleted \<longleftrightarrow> (\<exists>c\<in>set cs. cl_attempt_id c = at_attempt_id r)"
    if "r \<in> set (st_attempts st)" "?P r" for r
    using only [OF that] cs id t(2) by (auto simp: classification_of_def split: if_splits)
  show "\<exists>r\<in>set (st_attempts st). ?P r \<and> classification_of (f r) c" if "c \<in> set cs" for c
    using that t cs by (auto split: if_splits)
  show "distinct (map ad_attempt_id [row])" by simp
  show "distinct (map cl_attempt_id cs)" using cs by (auto split: if_splits)
qed

lemma inv_refuse:
  assumes inv: "ri_inv st" and ok: "refuse_receipt_intelligence ext rx k a now_ms st = Ok st'"
  shows "ri_inv st'"
proof -
  let ?P = "\<lambda>r. at_attempt_id r = k \<and> at_state r = RiDispatched"
  let ?f = "\<lambda>r. r\<lparr>at_state := RiRefused, at_failure_code := Some FailureRefused,
      at_input_tokens := Some (uint (am_input_tokens a)), at_output_tokens := Some (uint (am_output_tokens a)),
      at_finalized_at_ms := Some now_ms\<rparr>"
  obtain st1 st2 n where aud: "insert_audit ext k a now_ms st = Ok st1"
    and upd: "update_attempts ?P ?f st1 = Ok (st2, n)" and st': "st' = st2\<lparr>st_revision := st_revision st2 + 1\<rparr>"
    using ok by (auto simp: refuse_receipt_intelligence_def finalize_dispatched_def advance_Ok result_simps
        split: if_splits prod.splits)
  obtain t p row where t: "t \<in> set (st_attempts st)" "p \<in> set (st_approvals st)" "approved t p" "at_attempt_id t = k"
    "at_state t = RiDispatched" "at_dispatched_at_ms t = Some (am_dispatched_at_ms a)"
    and row: "row = new_audit (stable_id ext (lit ''receipt-intelligence-audit'') k) a now_ms t p" "audit_checks row"
    "ad_request_bytes row \<le> bc_max_request_bytes (ap_bounds p)" "ad_response_bytes row \<le> bc_max_response_bytes (ap_bounds p)"
    "ad_output_tokens row \<le> bc_max_output_tokens (ap_bounds p)" and st1: "st1 = st\<lparr>st_audits := st_audits st @ [row]\<rparr>"
    using insert_audit_Ok [OF inv aud] by blast
  have "audit_of (?f t) p row" using t row by (simp add: audit_of_def new_audit_def)
  moreover have "attempt_transition t (?f t)" "attempt_checks (?f t)" using upd st1 t by (auto simp: update_attempts_Ok)
  moreover have "approved (?f t) p" using t(3) by (simp add: approved_def)
  ultimately have "ri_inv (st\<lparr>st_attempts := update_rows ?P ?f (st_attempts st), st_audits := st_audits st @ [row],
      st_classifications := st_classifications st @ [], st_revision := st_revision st2 + 1, st_sources := st_sources st\<rparr>)"
    using t by (intro inv_finish [OF inv]) auto
  then show ?thesis by (rule ri_inv_cong) (use upd st' st1 in \<open>simp_all add: update_attempts_Ok\<close>)
qed

lemma inv_complete:
  assumes inv: "ri_inv st" and frame: "publication_frame publish"
    and ok: "complete_receipt_intelligence_with_publication ext rx k classification a now_ms publish st = Ok st'"
  shows "ri_inv st'"
proof -
  let ?P = "\<lambda>r. at_attempt_id r = k \<and> at_state r = RiDispatched"
  let ?f = "\<lambda>r. r\<lparr>at_state := RiCompleted, at_input_tokens := Some (uint (am_input_tokens a)),
      at_output_tokens := Some (uint (am_output_tokens a)), at_finalized_at_ms := Some now_ms\<rparr>"
  obtain u s0 order s1 s2 s3 n where found: "find (\<lambda>r. at_attempt_id r = k) (st_attempts st) = Some u"
    and pub: "publish st = Ok (s0, order)" and shape: "publishes_order classification \<longleftrightarrow> order \<noteq> None"
    and aud: "insert_audit ext k a now_ms s0 = Ok s1"
    and cls: "insert_classification
             \<lparr>cl_classification_id = stable_id ext (lit ''receipt-intelligence-classification'') k,
              cl_attempt_id = k, cl_source_revision_id = at_source_revision_id u,
              cl_local_source_id = at_local_source_id u, cl_classification = classification,
              cl_order_evidence_id = order, cl_created_at_ms = now_ms\<rparr> s1 = Ok s2"
    and upd: "update_attempts ?P ?f s2 = Ok (s3, n)" and st': "st' = s3\<lparr>st_revision := st_revision s3 + 1\<rparr>"
    using ok unfolding complete_receipt_intelligence_with_publication_def Let_def
    by (auto simp: advance_Ok result_simps split: if_splits)
  obtain ss where s0: "s0 = st\<lparr>st_sources := ss\<rparr>" using frame pub by (auto simp: publication_frame_def)
  have inv0: "ri_inv s0" using inv by (rule ri_inv_cong) (simp_all add: s0)
  obtain t p row where t: "t \<in> set (st_attempts s0)" "p \<in> set (st_approvals s0)" "approved t p" "at_attempt_id t = k"
    "at_state t = RiDispatched" "at_dispatched_at_ms t = Some (am_dispatched_at_ms a)"
    and row: "row = new_audit (stable_id ext (lit ''receipt-intelligence-audit'') k) a now_ms t p" "audit_checks row"
    "ad_request_bytes row \<le> bc_max_request_bytes (ap_bounds p)" "ad_response_bytes row \<le> bc_max_response_bytes (ap_bounds p)"
    "ad_output_tokens row \<le> bc_max_output_tokens (ap_bounds p)" and s1: "s1 = s0\<lparr>st_audits := st_audits s0 @ [row]\<rparr>"
    using insert_audit_Ok [OF inv0 aud] by blast
  have "u = t" using found t(1,4) inv attempts.row_unique [of "st_attempts st" u t]
    by (auto simp: find_Some_iff s0 ri_inv_def)
  define c where "c = \<lparr>cl_classification_id = stable_id ext (lit ''receipt-intelligence-classification'') k,
     cl_attempt_id = k, cl_source_revision_id = at_source_revision_id t, cl_local_source_id = at_local_source_id t,
     cl_classification = classification, cl_order_evidence_id = order, cl_created_at_ms = now_ms\<rparr>"
  have s2: "s2 = s1\<lparr>st_classifications := st_classifications s1 @ [c]\<rparr>"
    using cls \<open>u = t\<close> by (auto simp: insert_classification_def c_def split: if_splits)
  have "audit_of (?f t) p row" using t row by (simp add: audit_of_def new_audit_def)
  moreover have "attempt_transition t (?f t)" "attempt_checks (?f t)"
    using upd s2 s1 t by (auto simp: update_attempts_Ok)
  moreover have "approved (?f t) p" using t(3) by (simp add: approved_def)
  moreover have "classification_of (?f t) c" using t shape by (simp add: classification_of_def c_def)
  ultimately have "ri_inv (s0\<lparr>st_attempts := update_rows ?P ?f (st_attempts s0), st_audits := st_audits s0 @ [row],
      st_classifications := st_classifications s0 @ [c], st_revision := st_revision st, st_sources := ss\<rparr>)"
    using t by (intro inv_finish [OF inv0]) auto
  then show ?thesis by (rule ri_inv_cong) (use upd st' s2 s1 in \<open>simp_all add: update_attempts_Ok\<close>)
qed

section \<open>Reservation\<close>

lemma reserve_Ok [consumes 1, case_names replay fresh]:
  assumes "reserve_receipt_intelligence ext rx c now_ms st = Ok (st', r)"
  obtains (replay) t where "st' = st" "t \<in> set (st_attempts st)" "at_request_id t = cr_request_id c"
      "at_envelope_sha256 t = cr_command_sha256 c"
      "r = \<lparr>ra_approval_id = at_approval_id t, ra_attempt_id = at_attempt_id t, ra_state = at_state t, ra_replayed = True\<rparr>"
    | (fresh) src p t st1 st2 where "\<forall>u\<in>set (st_attempts st). at_request_id u \<noteq> cr_request_id c"
      "validate_reservation rx c now_ms = Ok ()"
      "p = new_approval (stable_id ext (lit ''receipt-intelligence-approval'') (cr_request_id c)) c src now_ms"
      "t = new_attempt (stable_id ext (lit ''receipt-intelligence-attempt'') (cr_request_id c)) (ap_approval_id p) c src now_ms"
      "insert_approval p st = Ok st1" "insert_attempt t st1 = Ok st2" "st' = st2\<lparr>st_revision := st_revision st2 + 1\<rparr>"
      "r = \<lparr>ra_approval_id = ap_approval_id p, ra_attempt_id = at_attempt_id t, ra_state = RiNotSent, ra_replayed = False\<rparr>"
proof (cases "find (\<lambda>t. at_request_id t = cr_request_id c) (st_attempts st)")
  case (Some t)
  then have "t \<in> set (st_attempts st)" "at_request_id t = cr_request_id c" by (auto simp: find_Some_iff)
  moreover have "at_envelope_sha256 t = cr_command_sha256 c" "st' = st"
    "r = \<lparr>ra_approval_id = at_approval_id t, ra_attempt_id = at_attempt_id t, ra_state = at_state t, ra_replayed = True\<rparr>"
    using assms Some by (auto simp: reserve_receipt_intelligence_def replay_reservation_def split: if_splits)
  ultimately show thesis by (intro replay) auto
next
  case None
  then have new: "\<forall>u\<in>set (st_attempts st). at_request_id u \<noteq> cr_request_id c" by (auto simp: find_None_iff)
  obtain src st1 st2 where ok: "validate_reservation rx c now_ms = Ok ()"
    "insert_approval (new_approval (stable_id ext (lit ''receipt-intelligence-approval'') (cr_request_id c)) c src now_ms) st = Ok st1"
    "insert_attempt (new_attempt (stable_id ext (lit ''receipt-intelligence-attempt'') (cr_request_id c))
       (stable_id ext (lit ''receipt-intelligence-approval'') (cr_request_id c)) c src now_ms) st1 = Ok st2"
    "st' = st2\<lparr>st_revision := st_revision st2 + 1\<rparr>"
    "r = \<lparr>ra_approval_id = stable_id ext (lit ''receipt-intelligence-approval'') (cr_request_id c),
          ra_attempt_id = stable_id ext (lit ''receipt-intelligence-attempt'') (cr_request_id c),
          ra_state = RiNotSent, ra_replayed = False\<rparr>"
    using assms None unfolding reserve_receipt_intelligence_def replay_reservation_def
    by (simp add: Let_def advance_Ok result_simps split: if_splits) (elim exE conjE, rule that, (assumption | erule sym)+)
  show thesis
    by (rule fresh [OF new ok(1) refl refl _ _ ok(4)]) (use ok(2,3,5) in \<open>simp_all add: new_approval_def new_attempt_def\<close>)
qed

lemma inv_reserve:
  assumes inv: "ri_inv st" and ok: "reserve_receipt_intelligence ext rx c now_ms st = Ok (st', r)"
  shows "ri_inv st'"
  using ok
proof (cases rule: reserve_Ok)
  case (fresh src p t st1 st2)
  have p: "approval_checks p" "\<forall>q\<in>set (st_approvals st). ap_approval_id q \<noteq> ap_approval_id p"
    "st1 = st\<lparr>st_approvals := st_approvals st @ [p]\<rparr>"
    using fresh(5) by (auto simp: insert_approval_def list_ex_iff split: if_splits)
  have t: "attempt_checks t" "\<forall>u\<in>set (st_attempts st). at_attempt_id u \<noteq> at_attempt_id t \<and> at_request_id u \<noteq> at_request_id t
      \<and> at_approval_id u \<noteq> at_approval_id t" "st2 = st1\<lparr>st_attempts := st_attempts st @ [t]\<rparr>"
    using fresh(6) p(3) by (auto simp: insert_attempt_def list_ex_iff split: if_splits)
  have tp: "approved t p" using fresh(3,4) by (simp add: approved_def new_approval_def new_attempt_def)
  have fields: "at_state t = RiNotSent" "ap_expires_at_ms p = cr_expires_at_ms c" "ap_created_at_ms p = now_ms"
    using fresh(3,4) by (simp_all add: new_approval_def new_attempt_def)
  have expiry: "ap_expires_at_ms p \<le> ap_created_at_ms p + approval_lifetime_ms"
    using fresh(2) fields by (auto simp: validate_reservation_def result_simps i64_checked_add_def split: if_splits)
  have no_audit: "\<forall>a\<in>set (st_audits st). ad_attempt_id a \<noteq> at_attempt_id t"
    "\<forall>c\<in>set (st_classifications st). cl_attempt_id c \<noteq> at_attempt_id t"
    using inv t(2) by (fastforce simp: ri_inv_def audit_of_def classification_of_def)+
  have tables: "st_approvals st' = st_approvals st @ [p]" "st_attempts st' = st_attempts st @ [t]"
    "st_audits st' = st_audits st" "st_classifications st' = st_classifications st"
    using fresh(7) p(3) t(3) by simp_all
  have "attempt_ok st' u" if "u \<in> set (st_attempts st')" for u
  proof (cases "u = t")
    case True
    then show ?thesis using t(1) tp no_audit fields(1) by (auto simp: attempt_ok_def tables)
  next
    case False
    then have "attempt_ok st u" using that inv_attempt [OF inv] by (simp add: tables)
    then show ?thesis by (auto simp: attempt_ok_def tables)
  qed
  moreover have "approval_ok st' q" if "q \<in> set (st_approvals st')" for q
  proof (cases "q = p")
    case True
    then show ?thesis using p(1) expiry tp by (auto simp: approval_ok_def tables)
  next
    case False
    then have "approval_ok st q" using that inv_approval [OF inv] by (simp add: tables)
    then show ?thesis by (auto simp: approval_ok_def tables)
  qed
  moreover have "\<forall>a\<in>set (st_audits st). \<exists>u\<in>set (st_attempts st'). \<exists>q\<in>set (st_approvals st'). approved u q \<and> audit_of u q a"
    "\<forall>c\<in>set (st_classifications st). \<exists>u\<in>set (st_attempts st'). classification_of u c"
    using inv by (fastforce simp: ri_inv_def tables)+
  ultimately show ?thesis using inv t(2) p(2) by (auto simp: ri_inv_def tables)
qed (use inv in simp)

lemma inv_step: "ri_inv st \<Longrightarrow> ri_step ext rx st e st' \<Longrightarrow> ri_inv st'"
proof (erule ri_step.cases, goal_cases)
  case 7
  then show ?case using inv_complete [of st "\<lambda>st. Ok (st, None)"]
    by (auto simp: complete_receipt_intelligence_without_order_def publication_frame_def split: if_splits)
      (metis attempt_store.surjective attempt_store.update_convs(6))
next
  case 9
  then show ?case by (auto intro: ri_inv_cong)
qed (auto intro: inv_reserve inv_dispatch inv_fail inv_refuse inv_unknown inv_complete inv_recover)

lemma inv_fresh: "fresh_store st \<Longrightarrow> ri_inv st"
  by (simp add: fresh_store_def ri_inv_def)

lemma inv_run: "ri_run ext rx st evs st' \<Longrightarrow> ri_inv st \<Longrightarrow> ri_inv st'"
  by (induction rule: ri_run.induct) (auto intro: inv_step)

end
