(* ===== verification/Receipt_Attempt_Correctness.thy ===== *)
theory Receipt_Attempt_Correctness
  imports Receipt_Attempt_Invariant
begin

text \<open>
  What one step of the attempt repository does to the attempts and to the evidence, and what follows along
  runs: attempts only move forward, evidence is only added, and an attempt is dispatched at most once.
\<close>

fun progress :: "ri_attempt_state \<Rightarrow> nat" where
  "progress RiNotSent = 0"
| "progress RiDispatched = 1"
| "progress _ = 2"

definition attempt_advances :: "attempt_row \<Rightarrow> attempt_row \<Rightarrow> bool" where
  "attempt_advances t t' \<longleftrightarrow> t' = t \<or> (progress (at_state t) < progress (at_state t')
     \<and> at_attempt_id t' = at_attempt_id t \<and> at_request_id t' = at_request_id t \<and> at_approval_id t' = at_approval_id t
     \<and> at_envelope_sha256 t' = at_envelope_sha256 t \<and> at_created_at_ms t' = at_created_at_ms t)"

fun dispatched_by :: "ri_event \<Rightarrow> rstr option" where
  "dispatched_by (EvDispatch k) = Some k"
| "dispatched_by _ = None"

definition dispatches :: "ri_event list \<Rightarrow> rstr list" where
  "dispatches evs = List.map_filter dispatched_by evs"

definition dispatched_ids :: "attempt_store \<Rightarrow> rstr set" where
  "dispatched_ids st = {at_attempt_id t |t. t \<in> set (st_attempts st) \<and> at_dispatched_at_ms t \<noteq> None}"

text \<open>The change of the attempts in one step: a reservation appends one, any other step updates some.\<close>

definition attempts_change :: "ri_event \<Rightarrow> attempt_row list \<Rightarrow> attempt_row list \<Rightarrow> bool" where
  "attempts_change e rows rows' \<longleftrightarrow>
     (dispatched_by e = None \<and> (\<exists>t. rows' = rows @ [t] \<and> at_dispatched_at_ms t = None))
     \<or> (\<exists>P f. rows' = update_rows P f rows \<and> (\<forall>r\<in>set rows. P r \<longrightarrow> attempt_transition r (f r)
          \<and> (case dispatched_by e of None \<Rightarrow> at_dispatched_at_ms (f r) = at_dispatched_at_ms r
             | Some k \<Rightarrow> at_attempt_id r = k \<and> at_state r = RiNotSent \<and> at_dispatched_at_ms (f r) \<noteq> None))
        \<and> (\<forall>k. dispatched_by e = Some k \<longrightarrow> (\<exists>r\<in>set rows. P r)))"

section \<open>One step\<close>

lemma attempts_unchanged: "dispatched_by e = None \<Longrightarrow> attempts_change e rows rows"
proof -
  assume "dispatched_by e = None"
  moreover have "rows = update_rows (\<lambda>_. False) id rows" by (simp add: update_rows_def)
  ultimately show ?thesis unfolding attempts_change_def by (intro disjI2 exI [of _ "\<lambda>_. False"] exI [of _ id]) simp
qed

lemma attempts_updated:
  assumes "update_attempts P f st = Ok (st', n)" "dispatched_by e = None"
    and "\<And>r. at_dispatched_at_ms (f r) = at_dispatched_at_ms r"
  shows "attempts_change e (st_attempts st) (st_attempts st')"
  using assms unfolding attempts_change_def
  by (intro disjI2 exI [of _ P] exI [of _ f]) (auto simp: update_attempts_Ok)

lemma insert_audit_tables:
  assumes "insert_audit ext k a now_ms st = Ok st'"
  shows "st_attempts st' = st_attempts st" "st_approvals st' = st_approvals st"
    "st_classifications st' = st_classifications st" "\<exists>as. st_audits st' = st_audits st @ as"
proof -
  obtain row where "insert_audit_row row st = Ok st'"
    using assms by (auto simp: insert_audit_def Let_def split: list.splits)
  then show "st_attempts st' = st_attempts st" "st_approvals st' = st_approvals st"
    "st_classifications st' = st_classifications st" "\<exists>as. st_audits st' = st_audits st @ as"
    by (auto simp: insert_audit_row_def split: if_splits)
qed

definition appends :: "attempt_store \<Rightarrow> attempt_store \<Rightarrow> bool" where
  "appends st st' \<longleftrightarrow> (\<exists>ps as cs. st_approvals st' = st_approvals st @ ps \<and> st_audits st' = st_audits st @ as
     \<and> st_classifications st' = st_classifications st @ cs)"

lemma appends_same: "st_approvals st' = st_approvals st \<Longrightarrow> st_audits st' = st_audits st \<Longrightarrow>
    st_classifications st' = st_classifications st \<Longrightarrow> appends st st'"
  by (simp add: appends_def)

lemma complete_change:
  assumes "publication_frame publish"
    and "complete_receipt_intelligence_with_publication ext rx k classification a now_ms publish st = Ok st'"
  shows "attempts_change (EvFinish k) (st_attempts st) (st_attempts st') \<and> appends st st'"
proof -
  let ?P = "\<lambda>r. at_attempt_id r = k \<and> at_state r = RiDispatched"
  let ?f = "\<lambda>r. r\<lparr>at_state := RiCompleted, at_input_tokens := Some (uint (am_input_tokens a)),
      at_output_tokens := Some (uint (am_output_tokens a)), at_finalized_at_ms := Some now_ms\<rparr>"
  obtain s0 order s1 c s2 s3 n where pub: "publish st = Ok (s0, order)" and aud: "insert_audit ext k a now_ms s0 = Ok s1"
    and cls: "insert_classification c s1 = Ok s2"
    and upd: "update_attempts ?P ?f s2 = Ok (s3, n)" and st': "st' = s3\<lparr>st_revision := st_revision s3 + 1\<rparr>"
    using assms(2) unfolding complete_receipt_intelligence_with_publication_def Let_def
    by (auto simp: advance_Ok result_simps split: if_splits)
  obtain ss where s0: "s0 = st\<lparr>st_sources := ss\<rparr>" using assms(1) pub by (auto simp: publication_frame_def)
  have s2: "st_attempts s2 = st_attempts s1" "st_approvals s2 = st_approvals s1" "st_audits s2 = st_audits s1"
    "st_classifications s2 = st_classifications s1 @ [c]"
    using cls by (auto simp: insert_classification_def split: if_splits)
  note a = insert_audit_tables [OF aud]
  have "attempts_change (EvFinish k) (st_attempts s2) (st_attempts s3)" by (rule attempts_updated [OF upd]) simp_all
  moreover have "appends st st'" using a s2 upd st' s0 by (auto simp: appends_def update_attempts_Ok)
  ultimately show ?thesis using s2(1) a(1) s0 st' by simp
qed

lemma dispatch_change:
  assumes ok: "mark_receipt_intelligence_dispatched rx k now_ms st = Ok st'"
  shows "attempts_change (EvDispatch k) (st_attempts st) (st_attempts st') \<and> appends st st'"
proof -
  let ?P = "\<lambda>r. at_attempt_id r = k \<and> at_state r = RiNotSent"
  let ?f = "\<lambda>r. r\<lparr>at_state := RiDispatched, at_dispatched_at_ms := Some now_ms\<rparr>"
  obtain st1 where upd: "update_attempts ?P ?f st = Ok (st1, 1)" "st' = st1\<lparr>st_revision := st_revision st1 + 1\<rparr>"
    using ok by (auto simp: mark_receipt_intelligence_dispatched_def advance_Ok result_simps split: if_splits)
  then have "\<exists>r\<in>set (st_attempts st). ?P r"
    using changed_rows_pos [of ?P "st_attempts st"] by (auto simp: update_attempts_Ok)
  then have "attempts_change (EvDispatch k) (st_attempts st) (st_attempts st')"
    unfolding attempts_change_def using upd by (intro disjI2 exI [of _ ?P] exI [of _ ?f]) (auto simp: update_attempts_Ok)
  then show ?thesis using upd by (auto simp: update_attempts_Ok appends_same)
qed

lemma step_change: "ri_step ext rx st e st' \<Longrightarrow> attempts_change e (st_attempts st) (st_attempts st') \<and> appends st st'"
proof (induction rule: ri_step.induct)
  case (reserve c now_ms st st' r)
  then show ?case
  proof (cases rule: reserve_Ok)
    case (replay t)
    then show ?thesis by (simp add: attempts_unchanged appends_same)
  next
    case (fresh src p t st1 st2)
    then have "st_attempts st' = st_attempts st @ [t]" "st_approvals st' = st_approvals st @ [p]"
      "st_audits st' = st_audits st" "st_classifications st' = st_classifications st" "at_dispatched_at_ms t = None"
      by (auto simp: insert_approval_def insert_attempt_def new_attempt_def split: if_splits)
    then show ?thesis by (auto simp: attempts_change_def appends_def)
  qed
next
  case (dispatch k now_ms st st')
  then show ?case by (rule dispatch_change)
next
  case (fail k code now_ms st st')
  then obtain st1 n where "update_attempts (\<lambda>r. at_attempt_id r = k \<and> at_state r \<in> {RiNotSent, RiDispatched})
      (\<lambda>r. r\<lparr>at_state := RiFailed, at_failure_code := Some (FailureCode code), at_finalized_at_ms := Some now_ms\<rparr>) st = Ok (st1, n)"
    "st' = st1\<lparr>st_revision := st_revision st1 + 1\<rparr>"
    by (auto simp: fail_receipt_intelligence_def advance_Ok result_simps split: if_splits)
  then show ?case using attempts_updated by (auto simp: appends_same update_attempts_Ok)
next
  case (refuse k a now_ms st st')
  then obtain st1 st2 f n where aud: "insert_audit ext k a now_ms st = Ok st1"
    and upd: "update_attempts (\<lambda>r. at_attempt_id r = k \<and> at_state r = RiDispatched) f st1 = Ok (st2, n)"
      "\<And>r. at_dispatched_at_ms (f r) = at_dispatched_at_ms r" "st' = st2\<lparr>st_revision := st_revision st2 + 1\<rparr>"
    by (auto simp: refuse_receipt_intelligence_def finalize_dispatched_def advance_Ok result_simps split: if_splits)
  have "attempts_change (EvFinish k) (st_attempts st1) (st_attempts st2)" by (rule attempts_updated [OF upd(1)]) (simp_all add: upd(2))
  then show ?case using upd(1,3) insert_audit_tables [OF aud] by (auto simp: appends_def update_attempts_Ok)
next
  case (unknown k now_ms st st')
  then obtain st1 n where "update_attempts (\<lambda>r. at_attempt_id r = k \<and> at_state r = RiDispatched)
      (\<lambda>r. r\<lparr>at_state := RiOutcomeUnknown, at_failure_code := Some FailureOutcomeUnknown,
             at_finalized_at_ms := Some now_ms\<rparr>) st = Ok (st1, n)"
    "st' = st1\<lparr>st_revision := st_revision st1 + 1\<rparr>"
    by (auto simp: mark_receipt_intelligence_outcome_unknown_def advance_Ok result_simps split: if_splits)
  then show ?case using attempts_updated by (auto simp: appends_same update_attempts_Ok)
next
  case (complete publish k classification a now_ms st st')
  then show ?case by (rule complete_change)
next
  case (complete_without k classification a now_ms st st')
  then show ?case using complete_change [of "\<lambda>st. Ok (st, None)"]
    by (auto simp: complete_receipt_intelligence_without_order_def publication_frame_def split: if_splits)
      (metis attempt_store.surjective attempt_store.update_convs(6))+
next
  case (recover now_ms st st' resumable)
  then obtain st1 n where "update_attempts (\<lambda>r. at_state r = RiDispatched)
      (\<lambda>r. r\<lparr>at_state := RiOutcomeUnknown, at_failure_code := Some FailureOutcomeUnknown,
             at_finalized_at_ms := Some now_ms\<rparr>) st = Ok (st1, n)"
    "st' = st1 \<or> st' = st1\<lparr>st_revision := st_revision st1 + 1\<rparr>"
    by (auto simp: recover_receipt_intelligence_attempts_def advance_Ok result_simps Let_def split: if_splits)
  then show ?case using attempts_updated by (auto simp: appends_same update_attempts_Ok)
next
  case (environment st ss)
  then show ?case by (simp add: attempts_unchanged appends_same)
qed

section \<open>Attempts move forward\<close>

lemma transition_progress: "attempt_transition t t' \<Longrightarrow> progress (at_state t) < progress (at_state t')"
  by (cases "at_state t") (auto simp: attempt_transition_def)

lemma transition_advances: "attempt_transition t t' \<Longrightarrow> attempt_advances t t'"
  using transition_progress by (auto simp: attempt_advances_def attempt_transition_def)

lemma attempt_advances_trans: "attempt_advances t t' \<Longrightarrow> attempt_advances t' t'' \<Longrightarrow> attempt_advances t t''"
  by (auto simp: attempt_advances_def)

lemma change_lookup:
  assumes "attempts_change e rows rows'" "attempts.lookup rows k = Some t"
  shows "\<exists>t'. attempts.lookup rows' k = Some t' \<and> attempt_advances t t'"
  using assms(1) unfolding attempts_change_def
proof (elim disjE exE conjE)
  fix u
  assume "rows' = rows @ [u]"
  then show ?thesis using assms(2) by (simp add: attempts.lookup_append attempt_advances_def)
next
  fix P f
  assume rows': "rows' = update_rows P f rows"
    and tr: "\<forall>r\<in>set rows. P r \<longrightarrow> attempt_transition r (f r)
          \<and> (case dispatched_by e of None \<Rightarrow> at_dispatched_at_ms (f r) = at_dispatched_at_ms r
             | Some k \<Rightarrow> at_attempt_id r = k \<and> at_state r = RiNotSent \<and> at_dispatched_at_ms (f r) \<noteq> None)"
  let ?g = "\<lambda>r. if r \<in> set rows \<and> P r then f r else r"
  have same: "update_rows P f rows = update_rows (\<lambda>r. r \<in> set rows \<and> P r) ?g rows"
    by (auto simp: update_rows_def)
  have "attempts.lookup rows' k = map_option (\<lambda>r. if r \<in> set rows \<and> P r then ?g r else r) (attempts.lookup rows k)"
    unfolding rows' same using tr by (intro attempts.lookup_update) (auto simp: attempt_transition_def)
  moreover have "t \<in> set rows" using attempts.lookup_Some_in [OF assms(2)] by simp
  ultimately show ?thesis using assms(2) tr transition_advances by (auto simp: attempt_advances_def)
qed

interpretation attempt_rows: durable_rows "\<lambda>s t. \<exists>e. ri_step ext rx s e t" ri_inv
  "\<lambda>st. attempts.lookup (st_attempts st)" attempt_advances for ext rx
proof
  show "ri_inv t" if "ri_inv s" "\<exists>e. ri_step ext rx s e t" for s t using that inv_step by blast
  show "attempt_advances r r" for r by (simp add: attempt_advances_def)
  show "attempt_advances r r''" if "attempt_advances r r'" "attempt_advances r' r''" for r r' r''
    using attempt_advances_trans that by blast
  show "\<exists>r'. attempts.lookup (st_attempts t) k = Some r' \<and> attempt_advances r r'"
    if "ri_inv s" "\<exists>e. ri_step ext rx s e t" "attempts.lookup (st_attempts s) k = Some r" for s t k r
    using that step_change change_lookup by blast
qed

lemma run_steps: "ri_run ext rx st evs st' \<Longrightarrow> (\<lambda>s t. \<exists>e. ri_step ext rx s e t)\<^sup>*\<^sup>* st st'"
  by (induction rule: ri_run.induct) (auto intro: rtranclp.rtrancl_into_rtrancl)

lemma run_append: "ri_run ext rx st' evs' st'' \<Longrightarrow> ri_run ext rx st evs st' \<Longrightarrow> ri_run ext rx st (evs @ evs') st''"
proof (induction rule: ri_run.induct)
  case (extend st evs' st' e st'')
  then show ?case using ri_run.extend [of ext rx _ "evs @ evs'"] by simp
qed simp

lemma attempts_lookup_row:
  "ri_inv st \<Longrightarrow> attempts.lookup (st_attempts st) k = Some t \<longleftrightarrow> t \<in> set (st_attempts st) \<and> at_attempt_id t = k"
  by (intro attempts.lookup_Some_iff) (simp add: ri_inv_def)

lemma finished_row_kept:
  assumes "ri_inv st" "ri_run ext rx st evs st'" "t \<in> set (st_attempts st)" "at_state t \<notin> {RiNotSent, RiDispatched}"
  shows "t \<in> set (st_attempts st')"
proof -
  obtain t' where t': "attempts.lookup (st_attempts st') (at_attempt_id t) = Some t'" "attempt_advances t t'"
    using attempt_rows.run_evolves [OF run_steps [OF assms(2)] assms(1), of "at_attempt_id t" t] assms(3)
      attempts_lookup_row [OF assms(1)] by blast
  have "progress (at_state t) = 2" "progress (at_state t') \<le> 2"
    using assms(4) by (cases "at_state t"; simp) (cases "at_state t'"; simp)
  then have "t' = t" using t'(2) by (auto simp: attempt_advances_def)
  then show ?thesis using t'(1) attempts_lookup_row [OF inv_run [OF assms(2,1)]] by blast
qed

section \<open>Evidence is only added\<close>

lemma run_appends: "ri_run ext rx st evs st' \<Longrightarrow> appends st st'"
proof (induction rule: ri_run.induct)
  case (extend st evs st' e st'')
  then show ?case using step_change [OF extend.hyps(2)] by (auto simp: appends_def)
qed (simp add: appends_same)

lemma finished_evidence_kept:
  assumes inv: "ri_inv st" and run: "ri_run ext rx st evs st'"
    and t: "t \<in> set (st_attempts st)" "at_state t \<notin> {RiNotSent, RiDispatched}"
  shows "filter (\<lambda>a. ad_attempt_id a = at_attempt_id t) (st_audits st') = filter (\<lambda>a. ad_attempt_id a = at_attempt_id t) (st_audits st)"
    and "filter (\<lambda>c. cl_attempt_id c = at_attempt_id t) (st_classifications st')
       = filter (\<lambda>c. cl_attempt_id c = at_attempt_id t) (st_classifications st)"
proof -
  obtain as cs where app: "st_audits st' = st_audits st @ as" "st_classifications st' = st_classifications st @ cs"
    using run_appends [OF run] by (auto simp: appends_def)
  have inv': "ri_inv st'" by (rule inv_run [OF run inv])
  have ok: "attempt_ok st t" "attempt_ok st' t" using inv_attempt [OF inv t(1)] inv_attempt [OF inv' finished_row_kept [OF inv run t]] by simp_all
  have dist: "distinct (map ad_attempt_id (st_audits st @ as))" "distinct (map cl_attempt_id (st_classifications st @ cs))"
    using inv' app by (simp_all add: ri_inv_def)
  have audit: "at_state t \<in> {RiCompleted, RiRefused} \<longleftrightarrow> (\<exists>a\<in>set (st_audits s). ad_attempt_id a = at_attempt_id t)"
    "at_state t = RiCompleted \<longleftrightarrow> (\<exists>c\<in>set (st_classifications s). cl_attempt_id c = at_attempt_id t)"
    if "attempt_ok s t" for s
    using that unfolding attempt_ok_def by iprover+
  have "ad_attempt_id a \<noteq> at_attempt_id t" if "a \<in> set as" for a
  proof
    assume eq: "ad_attempt_id a = at_attempt_id t"
    then have "at_state t \<in> {RiCompleted, RiRefused}" using audit(1) [OF ok(2)] that app(1) by auto
    then obtain b where "b \<in> set (st_audits st)" "ad_attempt_id b = at_attempt_id t" using audit(1) [OF ok(1)] by blast
    then show False using dist(1) that eq by (metis disjoint_iff distinct_append image_eqI list.set_map map_append)
  qed
  then show "filter (\<lambda>a. ad_attempt_id a = at_attempt_id t) (st_audits st') = filter (\<lambda>a. ad_attempt_id a = at_attempt_id t) (st_audits st)"
    by (simp add: app(1) filter_empty_conv)
  have "cl_attempt_id c \<noteq> at_attempt_id t" if "c \<in> set cs" for c
  proof
    assume eq: "cl_attempt_id c = at_attempt_id t"
    then have "at_state t = RiCompleted" using audit(2) [OF ok(2)] that app(2) by auto
    then obtain b where "b \<in> set (st_classifications st)" "cl_attempt_id b = at_attempt_id t" using audit(2) [OF ok(1)] by blast
    then show False using dist(2) that eq by (metis disjoint_iff distinct_append image_eqI list.set_map map_append)
  qed
  then show "filter (\<lambda>c. cl_attempt_id c = at_attempt_id t) (st_classifications st')
       = filter (\<lambda>c. cl_attempt_id c = at_attempt_id t) (st_classifications st)"
    by (simp add: app(2) filter_empty_conv)
qed

section \<open>Dispatches\<close>

lemma step_dispatched:
  assumes inv: "ri_inv st" and step: "ri_step ext rx st e st'"
  shows "dispatched_ids st' = set_option (dispatched_by e) \<union> dispatched_ids st"
    and "dispatched_by e = Some k \<Longrightarrow> k \<notin> dispatched_ids st"
proof -
  have change: "attempts_change e (st_attempts st) (st_attempts st')" using step_change [OF step] by simp
  have unsent: "at_dispatched_at_ms t = None" if "t \<in> set (st_attempts st)" "at_state t = RiNotSent" for t
    using inv_attempt [OF inv that(1)] that(2) by (simp add: attempt_ok_def attempt_checks_def)
  have uniq: "r = s" if "r \<in> set (st_attempts st)" "s \<in> set (st_attempts st)" "at_attempt_id r = at_attempt_id s" for r s
    using inv that attempts.row_unique [of "st_attempts st" r s] by (simp add: ri_inv_def)
  from change show "dispatched_ids st' = set_option (dispatched_by e) \<union> dispatched_ids st"
    unfolding attempts_change_def
  proof (elim disjE exE conjE)
    fix t assume "dispatched_by e = None" "st_attempts st' = st_attempts st @ [t]" "at_dispatched_at_ms t = None"
    then show ?thesis by (auto simp: dispatched_ids_def)
  next
    fix P f
    assume upd: "st_attempts st' = update_rows P f (st_attempts st)"
      and tr: "\<forall>r\<in>set (st_attempts st). P r \<longrightarrow> attempt_transition r (f r)
          \<and> (case dispatched_by e of None \<Rightarrow> at_dispatched_at_ms (f r) = at_dispatched_at_ms r
             | Some k \<Rightarrow> at_attempt_id r = k \<and> at_state r = RiNotSent \<and> at_dispatched_at_ms (f r) \<noteq> None)"
      and some: "\<forall>k. dispatched_by e = Some k \<longrightarrow> (\<exists>r\<in>set (st_attempts st). P r)"
    have id: "at_attempt_id (f r) = at_attempt_id r" if "r \<in> set (st_attempts st)" "P r" for r
      using tr that by (auto simp: attempt_transition_def)
    have "dispatched_ids st' = at_attempt_id ` {t \<in> set (update_rows P f (st_attempts st)). at_dispatched_at_ms t \<noteq> None}"
      by (auto simp: dispatched_ids_def upd)
    also have "\<dots> = (\<lambda>r. at_attempt_id (if P r then f r else r)) ` {r \<in> set (st_attempts st). at_dispatched_at_ms (if P r then f r else r) \<noteq> None}"
      by (auto simp: update_rows_def)
    also have "\<dots> = at_attempt_id ` {r \<in> set (st_attempts st). at_dispatched_at_ms (if P r then f r else r) \<noteq> None}"
      using id by (intro image_cong) auto
    also have "\<dots> = set_option (dispatched_by e) \<union> dispatched_ids st"
    proof (cases "dispatched_by e")
      case None
      then have "at_dispatched_at_ms (if P r then f r else r) = at_dispatched_at_ms r" if "r \<in> set (st_attempts st)" for r
        using tr that by simp
      then have "{r \<in> set (st_attempts st). at_dispatched_at_ms (if P r then f r else r) \<noteq> None}
          = {r \<in> set (st_attempts st). at_dispatched_at_ms r \<noteq> None}"
        by (intro Collect_cong conj_cong refl) simp
      then show ?thesis using None by (auto simp: dispatched_ids_def)
    next
      case (Some k)
      obtain r where r: "r \<in> set (st_attempts st)" "P r" using some Some by auto
      then have rk: "at_attempt_id r = k" "at_state r = RiNotSent" "at_dispatched_at_ms (f r) \<noteq> None" using tr Some by auto
      have only: "P s \<longleftrightarrow> s = r" if "s \<in> set (st_attempts st)" for s using tr Some that r rk(1) uniq by auto
      have "{s \<in> set (st_attempts st). at_dispatched_at_ms (if P s then f s else s) \<noteq> None}
          = insert r {s \<in> set (st_attempts st). at_dispatched_at_ms s \<noteq> None}"
        using only r(1) rk(3) by auto
      then show ?thesis using Some rk(1) by (auto simp: dispatched_ids_def)
    qed
    finally show ?thesis .
  qed
  show "k \<notin> dispatched_ids st" if k: "dispatched_by e = Some k"
  proof -
    obtain r where "r \<in> set (st_attempts st)" "at_attempt_id r = k" "at_state r = RiNotSent"
      using change k by (auto simp: attempts_change_def)
    then show ?thesis using unsent uniq by (fastforce simp: dispatched_ids_def)
  qed
qed

lemma run_dispatches:
  assumes "ri_run ext rx st evs st'" "ri_inv st"
  shows "dispatched_ids st' = set (dispatches evs) \<union> dispatched_ids st \<and> distinct (dispatches evs)
    \<and> set (dispatches evs) \<inter> dispatched_ids st = {}"
  using assms
proof (induction rule: ri_run.induct)
  case (extend st evs st' e st'')
  have inv': "ri_inv st'" using inv_run [OF extend.hyps(1) extend.prems] .
  show ?case
    using extend.IH [OF extend.prems] step_dispatched [OF inv' extend.hyps(2)]
    by (cases "dispatched_by e") (auto simp: dispatches_def List.map_filter_def)
qed (simp add: dispatches_def List.map_filter_def)

end
