(* ===== verification/Url_Correctness.thy ===== *)
theory Url_Correctness
  imports Url_Detection
begin

text \<open>
  The index loops of the web-address detector decide a condition on how the text splits. The condition
  mentions no index and no loop: the text has a part that looks like a scheme followed by a colon, or a
  part that is a maximal run of host name characters and looks like a web address.
\<close>

section \<open>What the detector looks for\<close>

definition uri_reference :: "bytes \<Rightarrow> bytes \<Rightarrow> bytes \<Rightarrow> bool" where
  "uri_reference before scheme after \<longleftrightarrow>
     (before = [] \<or> \<not> is_scheme_character (last before))
     \<and> scheme \<noteq> [] \<and> is_ascii_alphabetic (hd scheme) \<and> (\<forall>c\<in>set scheme. is_scheme_character c)
     \<and> length scheme \<le> 32
     \<and> after \<noteq> [] \<and> \<not> is_ascii_whitespace (hd after)
     \<and> (take 2 after = lit ''//''
        \<or> (\<exists>known\<in>set uri_schemes_without_authority. ascii_eq_ignore_case scheme known)
        \<or> set scheme \<inter> set (lit ''+-.'') \<noteq> {})"

definition url_tail :: "bytes \<Rightarrow> bool" where
  "url_tail after \<longleftrightarrow> after \<noteq> []
     \<and> (hd after \<in> set (lit ''/?#'') \<or> hd after = 58 \<and> tl after \<noteq> [] \<and> is_ascii_digit (hd (tl after)))"

definition named_host :: "bytes \<Rightarrow> bytes \<Rightarrow> bytes \<Rightarrow> bool" where
  "named_host before host after \<longleftrightarrow>
     (let labels = split_on 46 host; tld = last labels;
          alphabetic_tld = (length tld \<ge> 2 \<and> (\<forall>c\<in>set tld. is_ascii_alphabetic c))
      in length labels \<ge> 2 \<and> (\<forall>label\<in>set labels. valid_hostname_label label)
         \<and> (before = [] \<or> last before \<noteq> 64 \<or> url_tail after)
         \<and> (is_ipv4_address labels \<or> is_known_tld tld \<or> (\<exists>rest. before = rest @ lit ''//'')
            \<or> ascii_eq_ignore_case (hd labels) (lit ''www'') \<and> alphabetic_tld
            \<or> alphabetic_tld \<and> url_tail after))"

definition web_reference :: "bytes \<Rightarrow> bytes \<Rightarrow> bytes \<Rightarrow> bytes \<Rightarrow> bool" where
  "web_reference before host dots after \<longleftrightarrow>
     (before = [] \<or> \<not> is_hostname_character (last before))
     \<and> host \<noteq> [] \<and> is_ascii_alphanumeric (hd host) \<and> last host \<noteq> 46
     \<and> (\<forall>c\<in>set host. is_hostname_character c) \<and> set dots \<subseteq> {46}
     \<and> (after = [] \<or> \<not> is_hostname_character (hd after))
     \<and> (named_host before host (dots @ after)
        \<or> ascii_eq_ignore_case host (lit ''localhost'') \<and> url_tail (dots @ after))"

text \<open>The decision of the address loop at one index.\<close>

definition web_address_at :: "bytes \<Rightarrow> nat \<Rightarrow> bool" where
  "web_address_at bytes index \<longleftrightarrow> web_boundary bytes index
     \<and> web_address_verdict bytes index (trim_dots bytes index (hostname_run_end bytes (index + 1)))"

section \<open>Positions and splits\<close>

lemma slice_append: "slice (before @ part @ after) (length before) (length before + length part) = part"
  by (simp add: slice_def)

lemma slice_set: "stop \<le> length bytes \<Longrightarrow> x \<in> set (slice bytes start stop) \<longleftrightarrow> (\<exists>i. start \<le> i \<and> i < stop \<and> x = bytes ! i)"
proof
  assume "stop \<le> length bytes" "x \<in> set (slice bytes start stop)"
  then obtain k where k: "k < length (slice bytes start stop)" "x = slice bytes start stop ! k"
    by (auto simp: in_set_conv_nth)
  with \<open>stop \<le> length bytes\<close> show "\<exists>i. start \<le> i \<and> i < stop \<and> x = bytes ! i"
    by (intro exI [of _ "start + k"]) (auto simp: slice_def)
next
  assume le: "stop \<le> length bytes" and "\<exists>i. start \<le> i \<and> i < stop \<and> x = bytes ! i"
  then obtain i where i: "start \<le> i" "i < stop" "x = bytes ! i" by blast
  then have "i - start < length (slice bytes start stop)" "slice bytes start stop ! (i - start) = x"
    using le by (auto simp: slice_def)
  then show "x \<in> set (slice bytes start stop)" by (metis nth_mem)
qed

lemma split_at_positions:
  assumes "start \<le> stop" "stop \<le> length bytes"
  shows "bytes = take start bytes @ slice bytes start stop @ drop stop bytes"
  using assms by (simp add: slice_def) (metis append_take_drop_id drop_drop le_add_diff_inverse2)

lemma slice_ends:
  assumes "start < stop" "stop \<le> length bytes"
  shows "slice bytes start stop \<noteq> []" "hd (slice bytes start stop) = bytes ! start"
    "last (slice bytes start stop) = bytes ! (stop - 1)" "length (slice bytes start stop) = stop - start"
proof -
  show len: "length (slice bytes start stop) = stop - start" using assms by (simp add: slice_def)
  then show ne: "slice bytes start stop \<noteq> []" using assms(1) by auto
  show "hd (slice bytes start stop) = bytes ! start" using ne assms by (simp add: hd_conv_nth) (simp add: slice_def)
  show "last (slice bytes start stop) = bytes ! (stop - 1)"
    using assms by (simp add: last_conv_nth [OF ne] len) (simp add: slice_def)
qed

lemma last_take_position: "0 < start \<Longrightarrow> start \<le> length bytes \<Longrightarrow> last (take start bytes) = bytes ! (start - 1)"
  by (subst last_conv_nth) (auto simp: min_def)

lemma nth_middle:
  assumes "length before \<le> i" "i < length before + length part"
  shows "(before @ part @ after) ! i \<in> set part"
proof -
  have lt: "i - length before < length part" using assms by linarith
  have "(before @ part @ after) ! i = (part @ after) ! (i - length before)"
    using assms(1) by (simp add: nth_append_right)
  also have "\<dots> = part ! (i - length before)" using lt by (simp add: nth_append_left)
  finally show ?thesis using lt by simp
qed

section \<open>Schemes\<close>

lemma scheme_end_unique:
  assumes "start \<le> stop" "stop \<le> t" "t \<le> length bytes" "t - start \<le> 32"
    and "\<And>i. stop \<le> i \<Longrightarrow> i < t \<Longrightarrow> is_scheme_character (bytes ! i)"
    and "t < length bytes \<Longrightarrow> \<not> is_scheme_character (bytes ! t)"
  shows "scheme_end bytes start stop = t"
  using assms
proof (induction "t - stop" arbitrary: stop)
  case 0
  then show ?case by (subst scheme_end.simps) auto
next
  case (Suc n)
  then have "scheme_end bytes start (stop + 1) = t" by (intro Suc.hyps(1)) auto
  moreover have "stop < length bytes" "stop - start \<le> 32" "is_scheme_character (bytes ! stop)"
    using Suc.hyps(2) Suc.prems by auto
  ultimately show ?case by (subst scheme_end.simps) simp
qed

lemma scheme_end_run:
  "stop \<le> scheme_end bytes start stop
   \<and> (\<forall>i. stop \<le> i \<and> i < scheme_end bytes start stop \<longrightarrow> is_scheme_character (bytes ! i))"
proof (induction bytes start stop rule: scheme_end.induct)
  case (1 bytes start stop)
  show ?case
  proof (cases "stop < length bytes \<and> stop - start \<le> 32 \<and> is_scheme_character (bytes ! stop)")
    case True
    with 1 have "stop + 1 \<le> scheme_end bytes start (stop + 1)"
      "\<forall>i. stop + 1 \<le> i \<and> i < scheme_end bytes start (stop + 1) \<longrightarrow> is_scheme_character (bytes ! i)" by blast+
    moreover have "scheme_end bytes start stop = scheme_end bytes start (stop + 1)"
      using True by (subst scheme_end.simps) simp
    ultimately show ?thesis using True by (metis Suc_eq_plus1 Suc_leI le_eq_less_or_eq le_trans order_refl le_add1)
  next
    case False
    then have "scheme_end bytes start stop = stop" by (subst scheme_end.simps) auto
    then show ?thesis by auto
  qed
qed

lemma colon_not_scheme: "\<not> is_scheme_character 58"
  by (simp add: is_scheme_character_def char_class_defs lit_def)

lemma authority_after: "(length after \<ge> 2 \<and> take 2 after = lit ''//'') \<longleftrightarrow> take 2 after = lit ''//''"
  by (cases after; cases "tl after") (auto simp: lit_def)

lemma scheme_verdict_split:
  assumes "bytes = before @ scheme @ 58 # after"
  shows "scheme_verdict bytes (length before) (length before + length scheme) \<longleftrightarrow>
     take 2 after = lit ''//''
     \<or> (\<exists>known\<in>set uri_schemes_without_authority. ascii_eq_ignore_case scheme known)
     \<or> set scheme \<inter> set (lit ''+-.'') \<noteq> {}"
proof -
  let ?stop = "length before + length scheme"
  have "slice bytes (length before) ?stop = scheme" using slice_append assms by simp
  moreover have "slice bytes (?stop + 1) (?stop + 3) = take 2 after"
    using assms by (simp add: slice_def numeral_3_eq_3)
  moreover have "?stop + 3 \<le> length bytes \<longleftrightarrow> length after \<ge> 2" using assms by auto
  ultimately show ?thesis
    using authority_after [of after]
    by (auto simp: scheme_verdict_def Let_def list_ex_iff)
qed

lemma uri_scheme_at_split:
  assumes "index < length bytes"
  shows "uri_scheme_at bytes index \<longleftrightarrow>
     (\<exists>before scheme after. bytes = before @ scheme @ 58 # after \<and> length before = index
        \<and> uri_reference before scheme after)" (is "?L \<longleftrightarrow> ?R")
proof
  assume ?L
  define stop where "stop = scheme_end bytes index (index + 1)"
  from \<open>?L\<close> have at: "index = 0 \<or> \<not> is_scheme_character (bytes ! (index - 1))" "is_ascii_alphabetic (bytes ! index)"
    "stop < length bytes" "stop - index \<le> 32" "bytes ! stop = 58" "stop + 1 < length bytes"
    "\<not> is_ascii_whitespace (bytes ! (stop + 1))" "scheme_verdict bytes index stop"
    by (auto simp: uri_scheme_at_def Let_def stop_def)
  have run: "index < stop" "\<And>i. index < i \<Longrightarrow> i < stop \<Longrightarrow> is_scheme_character (bytes ! i)"
    using scheme_end_run [where bytes = bytes and start = index and stop = "index + 1"]
    by (auto simp: stop_def)
  have first: "is_scheme_character (bytes ! index)"
    using at(2) by (auto simp: is_ascii_alphabetic_def is_scheme_character_def is_ascii_alphanumeric_def)
  let ?before = "take index bytes" and ?scheme = "slice bytes index stop" and ?after = "drop (stop + 1) bytes"
  have split: "bytes = ?before @ ?scheme @ 58 # ?after"
    using split_at_positions [of index stop bytes] run(1) at(3,5)
    by (metis Cons_nth_drop_Suc Suc_eq_plus1 less_imp_le)
  have len: "length ?before = index" "length ?scheme = stop - index"
    using assms run(1) at(3) slice_ends(4) [of index stop bytes] by auto
  have "\<forall>c\<in>set ?scheme. is_scheme_character c"
    using slice_set [of stop bytes] at(3) run(2) first by (metis le_eq_less_or_eq less_imp_le)
  moreover have "take 2 ?after = lit ''//''
     \<or> (\<exists>known\<in>set uri_schemes_without_authority. ascii_eq_ignore_case ?scheme known)
     \<or> set ?scheme \<inter> set (lit ''+-.'') \<noteq> {}"
    using scheme_verdict_split [OF split] at(8) len run(1) by simp
  moreover have "?before = [] \<or> \<not> is_scheme_character (last ?before)"
    using at(1) assms last_take_position [of index bytes] by (cases "index = 0") auto
  ultimately have "uri_reference ?before ?scheme ?after"
    using slice_ends [of index stop bytes] at run(1)
    by (auto simp: uri_reference_def hd_drop_conv_nth)
  with split len(1) show ?R by blast
next
  assume ?R
  then obtain before scheme after where s: "bytes = before @ scheme @ 58 # after" "length before = index"
    and ref: "uri_reference before scheme after" by blast
  let ?stop = "index + length scheme"
  have nth: "bytes ! ?stop = 58" "bytes ! (?stop + 1) = hd after"
    using s ref by (auto simp: nth_append uri_reference_def hd_conv_nth)
  have len: "0 < length scheme" "?stop + 1 < length bytes" using ref s by (auto simp: uri_reference_def)
  have sc: "is_scheme_character (bytes ! i)" if "index \<le> i" "i < ?stop" for i
    using nth_middle [of before i scheme "58 # after"] that s ref by (auto simp: uri_reference_def)
  have "scheme_end bytes index (index + 1) = ?stop"
  proof (rule scheme_end_unique)
    show "index + 1 \<le> ?stop" using len(1) by linarith
    show "?stop - index \<le> 32" using ref by (simp add: uri_reference_def)
    show "\<not> is_scheme_character (bytes ! ?stop)" using nth(1) colon_not_scheme by simp
  qed (use len(2) sc in auto)
  moreover have "scheme_verdict bytes index ?stop"
    using scheme_verdict_split [OF s(1)] s(2) ref by (simp add: uri_reference_def)
  moreover have "index = 0 \<or> bytes ! (index - 1) = last before"
    using s by (cases "before = []") (auto simp: nth_append last_conv_nth)
  moreover have "bytes ! index = hd scheme" using s len by (auto simp: nth_append hd_conv_nth)
  ultimately show ?L
    using ref nth len s(2) by (auto simp: uri_scheme_at_def Let_def uri_reference_def)
qed

lemma uri_scheme_loop_iff:
  "uri_scheme_loop bytes index \<longleftrightarrow> (\<exists>i. index \<le> i \<and> i < length bytes \<and> uri_scheme_at bytes i)"
proof (induction bytes index rule: uri_scheme_loop.induct)
  case (1 bytes index)
  show ?case
  proof (cases "index < length bytes \<and> \<not> uri_scheme_at bytes index")
    case True
    then have "uri_scheme_loop bytes index = uri_scheme_loop bytes (index + 1)"
      by (subst uri_scheme_loop.simps) simp
    with True 1 show ?thesis by (metis Suc_eq_plus1 Suc_leI le_eq_less_or_eq less_eq_Suc_le)
  next
    case False
    then show ?thesis by (subst uri_scheme_loop.simps) auto
  qed
qed

lemma contains_uri_scheme_iff:
  "contains_uri_scheme bytes \<longleftrightarrow>
     (\<exists>before scheme after. bytes = before @ scheme @ 58 # after \<and> uri_reference before scheme after)"
proof -
  have scan: "contains_uri_scheme bytes \<longleftrightarrow> (\<exists>i. i < length bytes \<and> uri_scheme_at bytes i)"
    by (simp add: contains_uri_scheme_def uri_scheme_loop_iff)
  have at: "uri_scheme_at bytes (length before)" "length before < length bytes"
    if "bytes = before @ scheme @ 58 # after" "uri_reference before scheme after" for before scheme after
  proof -
    show "length before < length bytes" using that(1) by simp
    then show "uri_scheme_at bytes (length before)" using that by (subst uri_scheme_at_split) blast+
  qed
  have "\<exists>before scheme after. bytes = before @ scheme @ 58 # after \<and> uri_reference before scheme after"
    if i: "i < length bytes" "uri_scheme_at bytes i" for i
    using iffD1 [OF uri_scheme_at_split [OF i(1)] i(2)] by (elim exE conjE) (intro exI conjI)
  with at show ?thesis unfolding scan by (intro iffI; elim exE conjE) (iprover, iprover)
qed

section \<open>Host names\<close>

lemma hostname_run_end_unique:
  assumes "stop \<le> t" "t \<le> length bytes"
    and "\<And>i. stop \<le> i \<Longrightarrow> i < t \<Longrightarrow> is_hostname_character (bytes ! i)"
    and "t < length bytes \<Longrightarrow> \<not> is_hostname_character (bytes ! t)"
  shows "hostname_run_end bytes stop = t"
  using assms
proof (induction "t - stop" arbitrary: stop)
  case 0
  then show ?case by (subst hostname_run_end.simps) auto
next
  case (Suc n)
  then have "hostname_run_end bytes (stop + 1) = t" by (intro Suc.hyps(1)) auto
  moreover have "stop < length bytes" "is_hostname_character (bytes ! stop)"
    using Suc.hyps(2) Suc.prems by auto
  ultimately show ?case by (subst hostname_run_end.simps) simp
qed

lemma hostname_run_end_run:
  assumes "stop \<le> length bytes"
  shows "hostname_run_end bytes stop \<le> length bytes"
    and "stop \<le> i \<Longrightarrow> i < hostname_run_end bytes stop \<Longrightarrow> is_hostname_character (bytes ! i)"
    and "hostname_run_end bytes stop < length bytes \<Longrightarrow> \<not> is_hostname_character (bytes ! hostname_run_end bytes stop)"
  using assms
proof (induction bytes stop rule: hostname_run_end.induct)
  case (1 bytes stop)
  { case 1 then show ?case using "1.IH"(1) by (subst hostname_run_end.simps) auto }
  { case 2 then show ?case using "1.IH"(2) by (subst (asm) hostname_run_end.simps) (cases "i = stop"; auto split: if_splits simp: Suc_le_eq) }
  { case 3 then show ?case using "1.IH"(3) by (subst (asm) hostname_run_end.simps, subst hostname_run_end.simps) (auto split: if_splits) }
qed

lemma trim_dots_split:
  assumes "start < stop" "stop \<le> length bytes" "bytes ! start \<noteq> 46"
  shows "start < trim_dots bytes start stop" "trim_dots bytes start stop \<le> stop"
    "bytes ! (trim_dots bytes start stop - 1) \<noteq> 46"
    "trim_dots bytes start stop \<le> i \<Longrightarrow> i < stop \<Longrightarrow> bytes ! i = 46"
  using assms
proof (induction stop)
  case (Suc n)
  { case 1 then show ?case using Suc(1) by (cases "start = n") auto }
  { case 2 then show ?case using Suc(2) by (cases "start = n") auto }
  { case 3 then show ?case using Suc(3) by (cases "start = n") auto }
  { case 4 then show ?case using Suc(4) by (cases "start = n") (auto simp: less_Suc_eq split: if_splits) }
qed simp_all

lemma trim_dots_unique:
  assumes "start < t" "t \<le> stop" "bytes ! (t - 1) \<noteq> 46" "\<And>i. t \<le> i \<Longrightarrow> i < stop \<Longrightarrow> bytes ! i = 46"
  shows "trim_dots bytes start stop = t"
  using assms
proof (induction stop)
  case (Suc n)
  then show ?case by (cases "t = Suc n") auto
qed simp

section \<open>Web addresses\<close>

lemma has_url_tail_split:
  assumes "bytes = front @ tail"
  shows "has_url_tail bytes (length front) \<longleftrightarrow> url_tail tail"
proof (cases tail)
  case (Cons c rest)
  then show ?thesis using assms
    by (cases rest) (auto simp: has_url_tail_def url_tail_def nth_append)
qed (use assms in \<open>simp add: has_url_tail_def url_tail_def\<close>)

lemma protocol_relative_split:
  assumes "bytes = before @ rest"
  shows "(length before \<ge> 2 \<and> slice bytes (length before - 2) (length before) = lit ''//'')
     \<longleftrightarrow> (\<exists>front. before = front @ lit ''//'')"
proof -
  have "slice bytes (length before - 2) (length before) = drop (length before - 2) before"
    using assms by (simp add: slice_def)
  moreover have "(length before \<ge> 2 \<and> drop (length before - 2) before = lit ''//'')
     \<longleftrightarrow> (\<exists>front. before = front @ lit ''//'')"
  proof
    assume "length before \<ge> 2 \<and> drop (length before - 2) before = lit ''//''"
    then have "before = take (length before - 2) before @ lit ''//''" by (metis append_take_drop_id)
    then show "\<exists>front. before = front @ lit ''//''" by blast
  next
    assume "\<exists>front. before = front @ lit ''//''"
    then obtain front where "before = front @ lit ''//''" by blast
    then show "length before \<ge> 2 \<and> drop (length before - 2) before = lit ''//''" by (simp add: lit_def)
  qed
  ultimately show ?thesis by simp
qed

lemma web_address_verdict_split:
  assumes "bytes = before @ host @ tail"
  shows "web_address_verdict bytes (length before) (length before + length host) \<longleftrightarrow>
     named_host before host tail \<or> ascii_eq_ignore_case host (lit ''localhost'') \<and> url_tail tail"
proof -
  let ?start = "length before"
  have host: "slice bytes ?start (?start + length host) = host" using slice_append assms by simp
  have at: "(?start > 0 \<and> bytes ! (?start - 1) = 64) \<longleftrightarrow> before \<noteq> [] \<and> last before = 64"
    using assms by (auto simp: nth_append last_conv_nth)
  have tail: "has_url_tail bytes (?start + length host) \<longleftrightarrow> url_tail tail"
    using has_url_tail_split [of bytes "before @ host" tail] assms by simp
  show ?thesis
    unfolding web_address_verdict_def Let_def named_host_def host at tail protocol_relative_split [OF assms]
    by (auto simp: list_all_iff)
qed

lemma dot_not_alphanumeric: "is_ascii_alphanumeric c \<Longrightarrow> c \<noteq> 46 \<and> is_hostname_character c"
  by (auto simp: char_class_defs is_hostname_character_def)

lemma web_address_at_found:
  assumes "index < length bytes" "web_address_at bytes index"
  shows "\<exists>before host dots after. bytes = before @ host @ dots @ after \<and> web_reference before host dots after"
proof -
  define stop where "stop = hostname_run_end bytes (index + 1)"
  define t where "t = trim_dots bytes index stop"
  have first: "is_ascii_alphanumeric (bytes ! index)" "index = 0 \<or> \<not> is_hostname_character (bytes ! (index - 1))"
    and verdict: "web_address_verdict bytes index t"
    using assms(2) by (auto simp: web_address_at_def web_boundary_def t_def stop_def)
  have bound: "index < stop" "stop \<le> length bytes"
    using hostname_run_end_ge [of "index + 1" bytes] hostname_run_end_run(1) [of "index + 1" bytes] assms(1)
    by (auto simp: stop_def)
  have chars: "is_hostname_character (bytes ! i)" if "index \<le> i" "i < stop" for i
    using hostname_run_end_run(2) [of "index + 1" bytes i] that assms(1) dot_not_alphanumeric [OF first(1)]
    by (cases "i = index") (auto simp: stop_def)
  have ends: "stop < length bytes \<Longrightarrow> \<not> is_hostname_character (bytes ! stop)"
    using hostname_run_end_run(3) [of "index + 1" bytes] assms(1) by (auto simp: stop_def)
  have trim: "index < t" "t \<le> stop" "bytes ! (t - 1) \<noteq> 46" "\<And>i. t \<le> i \<Longrightarrow> i < stop \<Longrightarrow> bytes ! i = 46"
    using trim_dots_split [OF bound] dot_not_alphanumeric [OF first(1)] by (auto simp: t_def)
  let ?before = "take index bytes" and ?host = "slice bytes index t"
    and ?dots = "slice bytes t stop" and ?after = "drop stop bytes"
  have "bytes = ?before @ ?host @ drop t bytes" using split_at_positions [of index t bytes] trim bound by simp
  moreover have rest: "drop t bytes = ?dots @ ?after"
    using trim(2) by (simp add: slice_def) (metis append_take_drop_id drop_drop le_add_diff_inverse2)
  ultimately have split: "bytes = ?before @ ?host @ ?dots @ ?after" by simp
  have len: "length ?before = index" "length ?before + length ?host = t"
    using slice_ends(4) [of index t bytes] trim bound by auto
  have "named_host ?before ?host (?dots @ ?after)
      \<or> ascii_eq_ignore_case ?host (lit ''localhost'') \<and> url_tail (?dots @ ?after)"
    using iffD1 [OF web_address_verdict_split [OF split]] verdict len by simp
  moreover have "\<forall>c\<in>set ?host. is_hostname_character c" "set ?dots \<subseteq> {46}"
    using slice_set [of t bytes] slice_set [of stop bytes] trim bound chars by (auto simp: order_less_le_trans)
  moreover have "?before = [] \<or> \<not> is_hostname_character (last ?before)"
    using first(2) assms(1) last_take_position [of index bytes] by (cases "index = 0") auto
  moreover have "?after = [] \<or> \<not> is_hostname_character (hd ?after)"
    using ends by (cases "stop < length bytes") (auto simp: hd_drop_conv_nth)
  ultimately have "web_reference ?before ?host ?dots ?after"
    using slice_ends [of index t bytes] trim bound first(1) by (simp add: web_reference_def)
  with split show ?thesis by iprover
qed

lemma web_reference_found:
  assumes split: "bytes = before @ host @ dots @ after" and ref: "web_reference before host dots after"
  shows "web_address_at bytes (length before)"
proof -
  let ?t = "length before + length host" and ?stop = "length before + length host + length dots"
  from ref have host: "host \<noteq> []" "is_ascii_alphanumeric (hd host)" "last host \<noteq> 46"
    "\<forall>c\<in>set host. is_hostname_character c" "set dots \<subseteq> {46}"
    by (auto simp: web_reference_def)
  have dot: "is_hostname_character 46" by (simp add: is_hostname_character_def lit_def)
  have first: "bytes ! length before = hd host" using split host(1) by (simp add: nth_append hd_conv_nth)
  have "bytes ! (length before + (length host - 1)) = host ! (length host - 1)"
    unfolding split using host(1) by (simp add: nth_append)
  moreover have "length before + (length host - 1) = ?t - 1" using host(1) by (cases host) auto
  ultimately have nths: "bytes ! length before = hd host" "bytes ! (?t - 1) = last host"
    using first host(1) by (simp_all add: last_conv_nth)
  have dots: "bytes ! i = 46" if "?t \<le> i" "i < ?stop" for i
    using nth_middle [of "before @ host" i dots after] that split host(5) by auto
  have chars: "is_hostname_character (bytes ! i)" if "length before \<le> i" "i < ?stop" for i
    using nth_middle [of before i host "dots @ after"] dots [of i] dot that split host(4)
    by (cases "i < ?t") auto
  have run: "hostname_run_end bytes (length before + 1) = ?stop"
  proof (rule hostname_run_end_unique)
    show "length before + 1 \<le> ?stop" using host(1) by (cases host) auto
    show "?stop \<le> length bytes" using split by simp
    show "is_hostname_character (bytes ! i)" if "length before + 1 \<le> i" "i < ?stop" for i
      using chars that by simp
    show "\<not> is_hostname_character (bytes ! ?stop)" if "?stop < length bytes"
      using that ref split by (cases after) (auto simp: web_reference_def nth_append)
  qed
  have trim: "trim_dots bytes (length before) ?stop = ?t"
    using host(1,3) nths(2) dots by (intro trim_dots_unique) auto
  have "web_address_verdict bytes (length before) ?t"
    using iffD2 [OF web_address_verdict_split [OF split]] ref by (simp add: web_reference_def)
  moreover have "length before = 0 \<or> bytes ! (length before - 1) = last before"
    using split by (cases "before = []") (auto simp: nth_append last_conv_nth)
  then have "web_boundary bytes (length before)"
    using ref nths(1) by (auto simp: web_boundary_def web_reference_def)
  ultimately show ?thesis unfolding web_address_at_def run trim by simp
qed

lemma web_address_loop_iff:
  "web_address_loop bytes index \<longleftrightarrow> (\<exists>i. index \<le> i \<and> i < length bytes \<and> web_address_at bytes i)"
proof (induction bytes index rule: web_address_loop.induct)
  case (1 bytes index)
  let ?stop = "hostname_run_end bytes (index + 1)"
  consider (out) "length bytes \<le> index" | (skip) "index < length bytes" "\<not> web_boundary bytes index"
    | (hit) "index < length bytes" "web_address_at bytes index"
    | (miss) "index < length bytes" "web_boundary bytes index" "\<not> web_address_at bytes index"
    by fastforce
  then show ?case
  proof cases
    case out
    then show ?thesis by (subst web_address_loop.simps) auto
  next
    case skip
    then have "web_address_loop bytes index = web_address_loop bytes (index + 1)"
      by (subst web_address_loop.simps) simp
    also have "\<dots> \<longleftrightarrow> (\<exists>i. index + 1 \<le> i \<and> i < length bytes \<and> web_address_at bytes i)"
      using "1.IH"(1) skip by simp
    also have "\<dots> \<longleftrightarrow> (\<exists>i. index \<le> i \<and> i < length bytes \<and> web_address_at bytes i)"
      using skip(2) by (metis Suc_eq_plus1 le_eq_less_or_eq less_eq_Suc_le web_address_at_def)
    finally show ?thesis .
  next
    case hit
    then show ?thesis by (subst web_address_loop.simps) (auto simp: web_address_at_def Let_def)
  next
    case miss
    have "web_address_loop bytes index = web_address_loop bytes (max ?stop (index + 1))"
      using miss by (subst web_address_loop.simps) (simp add: web_address_at_def Let_def)
    also have "\<dots> \<longleftrightarrow> (\<exists>i. max ?stop (index + 1) \<le> i \<and> i < length bytes \<and> web_address_at bytes i)"
      using "1.IH"(2) miss by (simp add: web_address_at_def)
    also have "\<dots> \<longleftrightarrow> (\<exists>i. index \<le> i \<and> i < length bytes \<and> web_address_at bytes i)"
    proof -
      have first: "is_hostname_character (bytes ! index)"
        using miss(2) dot_not_alphanumeric by (simp add: web_boundary_def)
      have "\<not> web_address_at bytes i" if "index \<le> i" "i < max ?stop (index + 1)" for i
      proof (cases "i = index")
        case False
        then have "index \<le> i - 1" "i - 1 < ?stop" "i \<noteq> 0" using that hostname_run_end_ge [of "index + 1" bytes] by auto
        then have "is_hostname_character (bytes ! (i - 1))"
          using hostname_run_end_run(2) [of "index + 1" bytes "i - 1"] first miss(1)
          by (cases "i - 1 = index") auto
        then show ?thesis using \<open>i \<noteq> 0\<close> by (auto simp: web_address_at_def web_boundary_def)
      qed (use miss(3) in simp)
      then have "max ?stop (index + 1) \<le> i" if "index \<le> i" "web_address_at bytes i" for i
        using that not_le by blast
      moreover have "index \<le> i" if "max ?stop (index + 1) \<le> i" for i using that by simp
      ultimately show ?thesis by blast
    qed
    finally show ?thesis .
  qed
qed

lemma contains_bare_web_address_iff:
  "contains_bare_web_address bytes \<longleftrightarrow>
     (\<exists>before host dots after. bytes = before @ host @ dots @ after \<and> web_reference before host dots after)"
proof
  assume "contains_bare_web_address bytes"
  then obtain i where "i < length bytes" "web_address_at bytes i"
    by (auto simp: contains_bare_web_address_def web_address_loop_iff)
  then show "\<exists>before host dots after. bytes = before @ host @ dots @ after \<and> web_reference before host dots after"
    by (rule web_address_at_found)
next
  assume "\<exists>before host dots after. bytes = before @ host @ dots @ after \<and> web_reference before host dots after"
  then obtain before host dots after
    where split: "bytes = before @ host @ dots @ after" and ref: "web_reference before host dots after" by iprover
  have "length before < length bytes" using split ref by (simp add: web_reference_def)
  with web_reference_found [OF split ref] show "contains_bare_web_address bytes"
    by (auto simp: contains_bare_web_address_def web_address_loop_iff)
qed

section \<open>The detector\<close>

text \<open>
  C32. The detector reports a text exactly when it contains a URI with a scheme or a bare web address: some
  split of its UTF-8 bytes has a scheme of at most 32 scheme characters that starts at a boundary, followed
  by a colon and something other than white space, where an authority follows or the scheme is a known
  opaque or a namespaced one; or some split has a maximal run of host name characters that is a web address
  in its context. The index loops, the jump past a host name and the trimming of trailing dots miss nothing
  and add nothing.
\<close>

theorem url_detector_decides:
  "contains_url_or_uri value \<longleftrightarrow>
     (\<exists>before scheme after. text_bytes value = before @ scheme @ 58 # after \<and> uri_reference before scheme after)
     \<or> (\<exists>before host dots after. text_bytes value = before @ host @ dots @ after \<and> web_reference before host dots after)"
  by (simp add: contains_url_or_uri_def Let_def contains_uri_scheme_iff contains_bare_web_address_iff)

text \<open>
  A scheme is only looked for where a letter follows something that is no scheme character, so a digit in
  front of it hides the scheme, and a host name of one label is not an address by itself.
\<close>

lemma digit_hides_scheme:
  "contains_url_or_uri (lit ''http://intranet/x'')" "\<not> contains_url_or_uri (lit ''1http://intranet/x'')"
  by code_simp+

end
