(* ===== verification/Receipt_Intelligence_Correctness.thy ===== *)
theory Receipt_Intelligence_Correctness
  imports Receipt_Intelligence_Contracts Url_Correctness
begin

text \<open>
  What an accepted projection looks like and what a consent envelope binds. The byte strings that go into
  the projection digest are shown to determine the projection: the UTF-8 encoding of scalar values, the
  big-endian length prefix and the hexadecimal digest are injective.
\<close>

definition well_formed_fragment :: "nat \<Rightarrow> projection_fragment \<Rightarrow> bool" where
  "well_formed_fragment i f \<longleftrightarrow>
     pf_fragment_ref f = fragment_handle i \<and> trim (pf_text f) \<noteq> [] \<and> byte_len (pf_text f) \<le> 16384
     \<and> (\<forall>c\<in>set (pf_text f). is_control c \<longrightarrow> c \<in> {10, 9}) \<and> \<not> contains_url_or_uri (pf_text f)"

definition disclosed_bytes :: "projection \<Rightarrow> nat" where
  "disclosed_bytes p = (\<Sum>f\<leftarrow>pj_fragments p. byte_len (pf_text f))"

definition projection_well_formed :: "projection \<Rightarrow> bool" where
  "projection_well_formed p \<longleftrightarrow>
     pj_revision p = receipt_intelligence_projection_revision_v1
     \<and> 1 \<le> length (pj_fragments p) \<and> length (pj_fragments p) \<le> 64
     \<and> (\<forall>i<length (pj_fragments p). well_formed_fragment i (pj_fragments p ! i))
     \<and> disclosed_bytes p \<le> 131072"

text \<open>What the digest input needs to be readable: the revision, the handles by position, lengths within \<open>u64\<close>.\<close>

definition numbered_projection :: "projection \<Rightarrow> bool" where
  "numbered_projection p \<longleftrightarrow>
     pj_revision p = receipt_intelligence_projection_revision_v1 \<and> length (pj_fragments p) < 2 ^ 64
     \<and> (\<forall>i<length (pj_fragments p). pf_fragment_ref (pj_fragments p ! i) = fragment_handle i
          \<and> byte_len (pf_text (pj_fragments p ! i)) < 2 ^ 64)"

text \<open>A Rust string holds Unicode scalar values, which are below hexadecimal 110000.\<close>

definition scalar_text :: "rstr \<Rightarrow> bool" where
  "scalar_text s \<longleftrightarrow> (\<forall>c\<in>set s. c < 1114112)"

definition scalar_projection :: "projection \<Rightarrow> bool" where
  "scalar_projection p \<longleftrightarrow> (\<forall>f\<in>set (pj_fragments p). scalar_text (pf_text f))"

section \<open>Accepted projections\<close>

lemma trim_Nil [simp]: "trim [] = []"
  by (simp add: trim_def)

lemma fragment_validate_at_production:
  "fragment_validate_at i preparation_bounds_production f
   = (if well_formed_fragment i f then Ok () else Err receipt_invalid)"
  by (auto simp: fragment_validate_at_def well_formed_fragment_def preparation_bounds_production_def
      list_ex_iff Let_def)

lemma validate_fragments_production:
  "validate_fragments k preparation_bounds_production fs
   = (if \<forall>i<length fs. well_formed_fragment (k + i) (fs ! i) then Ok () else Err receipt_invalid)"
proof (induction fs arbitrary: k)
  case (Cons f fs)
  have "(\<forall>i<length (f # fs). well_formed_fragment (k + i) ((f # fs) ! i))
     \<longleftrightarrow> well_formed_fragment k f \<and> (\<forall>i<length fs. well_formed_fragment (k + 1 + i) (fs ! i))"
    by (auto simp: less_Suc_eq_0_disj)
  with Cons show ?case by (simp add: fragment_validate_at_production)
qed simp

lemma unat_sum_list:
  fixes xs :: "nat list"
  assumes "sum_list xs < 2 ^ 32"
  shows "unat (sum_list (map of_nat xs) :: u32) = sum_list xs"
proof -
  have "(sum_list (map of_nat xs) :: u32) = of_nat (sum_list xs)" by (induction xs) auto
  then show ?thesis using assms by (simp add: unat_of_nat take_bit_nat_eq_self)
qed

lemma aggregate_exact:
  assumes "disclosed_bytes p < 2 ^ 32"
  shows "unat (aggregate_text_bytes p) = disclosed_bytes p"
  using unat_sum_list [of "map (\<lambda>f. byte_len (pf_text f)) (pj_fragments p)"] assms
  by (simp add: aggregate_text_bytes_def disclosed_bytes_def comp_def)

lemma sum_list_bounded:
  fixes xs :: "nat list"
  assumes "\<And>x. x \<in> set xs \<Longrightarrow> x \<le> b"
  shows "sum_list xs \<le> length xs * b"
  using assms by (induction xs) (auto simp: add_mono)

lemma well_formed_fragments_bytes:
  assumes "\<forall>i<length (pj_fragments p). well_formed_fragment i (pj_fragments p ! i)"
    and "length (pj_fragments p) \<le> 64"
  shows "disclosed_bytes p \<le> 1048576"
proof -
  have "byte_len (pf_text f) \<le> 16384" if "f \<in> set (pj_fragments p)" for f
    using assms(1) that by (auto simp: in_set_conv_nth well_formed_fragment_def)
  then have "disclosed_bytes p \<le> length (pj_fragments p) * 16384"
    using sum_list_bounded [of "map (\<lambda>f. byte_len (pf_text f)) (pj_fragments p)" 16384]
    by (auto simp: disclosed_bytes_def)
  also have "\<dots> \<le> 64 * 16384" using assms(2) by (rule mult_right_mono) simp
  finally show ?thesis by simp
qed

lemma projection_accepted:
  "projection_validate p = (if projection_well_formed p then Ok () else Err receipt_invalid)"
proof -
  let ?shape = "pj_revision p = receipt_intelligence_projection_revision_v1
     \<and> 1 \<le> length (pj_fragments p) \<and> length (pj_fragments p) \<le> 64"
  let ?all = "\<forall>i<length (pj_fragments p). well_formed_fragment i (pj_fragments p ! i)"
  have small: "unat (aggregate_text_bytes p) = disclosed_bytes p" if "?shape" "?all"
  proof (rule aggregate_exact)
    show "disclosed_bytes p < 2 ^ 32" using well_formed_fragments_bytes [OF that(2)] that(1) by simp
  qed
  have split: "projection_validate p = (if ?shape \<and> aggregate_text_bytes p \<le> 131072 \<and> ?all then Ok () else Err receipt_invalid)"
    using validate_fragments_production [of 0 "pj_fragments p"]
    by (auto simp: projection_validate_def projection_validate_with_def preparation_bounds_validate_def ensure_def
        preparation_bounds_production_def [THEN arg_cong [where f = pb_max_fragment_count]]
        preparation_bounds_production_def [THEN arg_cong [where f = pb_max_aggregate_text_bytes]]
        Suc_le_eq not_less not_le all_ok.simps)
  have "aggregate_text_bytes p \<le> 131072 \<longleftrightarrow> unat (aggregate_text_bytes p) \<le> 131072"
    by (simp add: word_le_nat_alt)
  with small have "(?shape \<and> aggregate_text_bytes p \<le> 131072 \<and> ?all) \<longleftrightarrow> projection_well_formed p"
    unfolding projection_well_formed_def by (metis (no_types))
  then show ?thesis unfolding split by simp
qed

section \<open>Injective encodings\<close>

definition utf8_codes :: "nat \<Rightarrow> nat list" where
  "utf8_codes c =
     (if c < 128 then [c]
      else if c < 2048 then [192 + c div 64, 128 + c mod 64]
      else if c < 65536 then [224 + c div 4096, 128 + c div 64 mod 64, 128 + c mod 64]
      else [240 + c div 262144, 128 + c div 4096 mod 64, 128 + c div 64 mod 64, 128 + c mod 64])"

lemma utf8_codes_bytes: "c < 1114112 \<Longrightarrow> x \<in> set (utf8_codes c) \<Longrightarrow> x < 256"
  by (auto simp: utf8_codes_def split: if_splits)

lemma utf8_codes_head:
  assumes "c < 1114112"
  shows "hd (utf8_codes c) < 128 \<longleftrightarrow> c < 128" "hd (utf8_codes c) < 224 \<longleftrightarrow> c < 2048"
    "hd (utf8_codes c) < 240 \<longleftrightarrow> c < 65536"
proof -
  have "c < 2048 \<Longrightarrow> c div 64 < 32" "c < 65536 \<Longrightarrow> c div 4096 < 16" by auto
  then show "hd (utf8_codes c) < 128 \<longleftrightarrow> c < 128" "hd (utf8_codes c) < 224 \<longleftrightarrow> c < 2048"
    "hd (utf8_codes c) < 240 \<longleftrightarrow> c < 65536"
    by (auto simp: utf8_codes_def)
qed

lemma base64_digits:
  fixes n :: nat
  shows "n = n div 64 * 64 + n mod 64" "n div 64 = n div 4096 * 64 + n div 64 mod 64"
    "n div 4096 = n div 262144 * 64 + n div 4096 mod 64"
  using div_mult_mod_eq [of n 64] div_mult_mod_eq [of "n div 64" 64] div_mult_mod_eq [of "n div 4096" 64]
  by (simp_all add: div_mult2_eq [symmetric])

lemma utf8_codes_prefix_free:
  assumes c: "c < 1114112" and c': "c' < 1114112" and eq: "utf8_codes c @ r = utf8_codes c' @ r'"
  shows "c = c' \<and> r = r'"
proof -
  have ne: "utf8_codes d \<noteq> []" for d by (simp add: utf8_codes_def)
  have "hd (utf8_codes c) = hd (utf8_codes c')" using arg_cong [OF eq, of hd] ne by simp
  then have band: "c < 128 \<longleftrightarrow> c' < 128" "c < 2048 \<longleftrightarrow> c' < 2048" "c < 65536 \<longleftrightarrow> c' < 65536"
    using utf8_codes_head [OF c] utf8_codes_head [OF c'] by simp_all
  consider (one) "c < 128" | (two) "\<not> c < 128" "c < 2048" | (three) "\<not> c < 2048" "c < 65536"
    | (four) "\<not> c < 65536" by linarith
  then show ?thesis
  proof cases
    case one
    then show ?thesis using eq band by (simp add: utf8_codes_def)
  next
    case two
    then have "c div 64 = c' div 64" "c mod 64 = c' mod 64" "r = r'" using eq band by (simp_all add: utf8_codes_def)
    then show ?thesis by (metis base64_digits(1))
  next
    case three
    then have "c div 4096 = c' div 4096" "c div 64 mod 64 = c' div 64 mod 64" "c mod 64 = c' mod 64" "r = r'"
      using eq band by (simp_all add: utf8_codes_def)
    then show ?thesis by (metis base64_digits(1,2))
  next
    case four
    then have "c div 262144 = c' div 262144" "c div 4096 mod 64 = c' div 4096 mod 64"
      "c div 64 mod 64 = c' div 64 mod 64" "c mod 64 = c' mod 64" "r = r'"
      using eq band by (simp_all add: utf8_codes_def)
    then show ?thesis by (metis base64_digits)
  qed
qed

lemma utf8_bytes_Cons: "map unat (utf8_bytes (c # s)) = (if c < 1114112 then utf8_codes c else map unat (utf8_bytes [c])) @ map unat (utf8_bytes s)"
proof (cases "c < 1114112")
  case True
  have "map unat (map of_nat (utf8_codes c) :: u8 list) = utf8_codes c"
    using utf8_codes_bytes [OF True] by (simp add: map_idI unat_of_nat take_bit_nat_eq_self)
  then show ?thesis using True by (simp add: utf8_bytes_def utf8_codes_def [symmetric])
qed (simp add: utf8_bytes_def)

lemma utf8_bytes_inject:
  assumes "scalar_text s" "scalar_text t" "utf8_bytes s = utf8_bytes t"
  shows "s = t"
proof -
  have "map unat (utf8_bytes s) = map unat (utf8_bytes t)" using assms(3) by simp
  with assms(1,2) show ?thesis
  proof (induction s arbitrary: t)
    case Nil
    then show ?case by (cases t) (auto simp: utf8_bytes_def split: if_splits)
  next
    case (Cons c s)
    then obtain d t' where t: "t = d # t'" by (cases t) (auto simp: utf8_bytes_def split: if_splits)
    have "c < 1114112" "d < 1114112" "scalar_text s" "scalar_text t'"
      using Cons.prems(1,2) t by (auto simp: scalar_text_def)
    moreover from this have "c = d \<and> map unat (utf8_bytes s) = map unat (utf8_bytes t')"
      using Cons.prems(3) t by (intro utf8_codes_prefix_free) (auto simp: utf8_bytes_Cons)
    ultimately show ?case using Cons.IH t by simp
  qed
qed

lemma lower_hex_inject:
  assumes "lower_hex xs = lower_hex ys"
  shows "xs = ys"
  using assms
proof (induction xs arbitrary: ys)
  case Nil
  then show ?case by (cases ys) (auto simp: lower_hex_def)
next
  case (Cons x xs)
  then obtain y ys' where ys: "ys = y # ys'" by (cases ys) (auto simp: lower_hex_def)
  have digit: "a = b" if "hex_digit a = hex_digit b" "a < 16" "b < 16" for a b
    using that by (auto simp: hex_digit_def split: if_splits)
  have bound: "unat (w :: u8) < 256" for w using unsigned_less [of w, where ?'a = nat] by simp
  have "unat x div 16 = unat y div 16" "unat x mod 16 = unat y mod 16" and tail: "lower_hex xs = lower_hex ys'"
    using Cons.prems bound [of x] bound [of y] by (auto simp: ys lower_hex_def intro!: digit)
  then have "unat x = unat y" by (metis div_mult_mod_eq)
  then have "x = y" by (rule unsigned_word_eqI)
  then show ?case using Cons.IH [OF tail] ys by simp
qed

lemma u64_to_be_bytes_inject:
  assumes "u64_to_be_bytes v = u64_to_be_bytes w"
  shows "v = w"
proof (rule bit_eqI)
  fix n
  assume n: "possible_bit TYPE(u64) n"
  then have "n div 8 \<in> {0, 1, 2, 3, 4, 5, 6, 7}" by auto
  then have "(ucast (drop_bit (8 * (n div 8)) v) :: u8) = ucast (drop_bit (8 * (n div 8)) w)"
    using assms by (auto simp: u64_to_be_bytes_def)
  then have "bit (ucast (drop_bit (8 * (n div 8)) v) :: u8) (n mod 8) = bit (ucast (drop_bit (8 * (n div 8)) w) :: u8) (n mod 8)"
    by simp
  then show "bit v n = bit w n" using n by (simp add: bit_ucast_iff bit_drop_bit_eq)
qed

lemma length_u64_to_be_bytes [simp]: "length (u64_to_be_bytes w) = 8"
  by (simp add: u64_to_be_bytes_def)

lemma of_nat_u64_inject: "a < 2 ^ 64 \<Longrightarrow> b < 2 ^ 64 \<Longrightarrow> (of_nat a :: u64) = of_nat b \<Longrightarrow> a = b"
proof -
  assume "a < 2 ^ 64" "b < 2 ^ 64" "(of_nat a :: u64) = of_nat b"
  moreover have "unat (of_nat n :: u64) = n" if "n < 2 ^ 64" for n
    using that by (simp add: unat_of_nat take_bit_nat_eq_self)
  ultimately show "a = b" by metis
qed

lemma hash_part_inject:
  assumes "hash_part a @ r = hash_part b @ r'" "length a < 2 ^ 64" "length b < 2 ^ 64"
  shows "a = b \<and> r = r'"
proof -
  have eq: "u64_to_be_bytes (of_nat (length a)) @ a @ r = u64_to_be_bytes (of_nat (length b)) @ b @ r'"
    using assms(1) by (simp add: hash_part_def)
  then have "u64_to_be_bytes (of_nat (length a)) = u64_to_be_bytes (of_nat (length b))" "a @ r = b @ r'"
    by (simp_all add: append_eq_append_conv)
  moreover from this have "length a = length b"
    using u64_to_be_bytes_inject of_nat_u64_inject assms(2,3) by blast
  ultimately show ?thesis by simp
qed

lemma length_utf8_bytes: "length (utf8_bytes s) = byte_len s"
  by (induction s) (simp_all add: utf8_bytes_def byte_len_def utf8_width_def)

lemma fragments_inject:
  fixes fs gs :: "projection_fragment list"
  assumes "length fs = length gs"
    and "\<forall>i<length fs. pf_fragment_ref (fs ! i) = fragment_handle (k + i) \<and> byte_len (pf_text (fs ! i)) < 2 ^ 64"
    and "\<forall>i<length gs. pf_fragment_ref (gs ! i) = fragment_handle (k + i) \<and> byte_len (pf_text (gs ! i)) < 2 ^ 64"
    and "\<forall>f\<in>set fs \<union> set gs. scalar_text (pf_text f)"
    and "concat (map (\<lambda>f. hash_part (utf8_bytes (pf_fragment_ref f)) @ hash_part (utf8_bytes (pf_text f))) fs)
       = concat (map (\<lambda>f. hash_part (utf8_bytes (pf_fragment_ref f)) @ hash_part (utf8_bytes (pf_text f))) gs)"
  shows "fs = gs"
  using assms
proof (induction fs gs arbitrary: k rule: list_induct2)
  case (Cons f fs g gs)
  let ?ok = "\<lambda>k hs. \<forall>i<length hs. pf_fragment_ref (hs ! i) = fragment_handle (k + i) \<and> byte_len (pf_text (hs ! i)) < 2 ^ 64"
  have head: "pf_fragment_ref h = fragment_handle k" "byte_len (pf_text h) < 2 ^ 64" if "?ok k (h # hs)" for h hs
    using that by (auto dest: spec [of _ 0])
  have tail: "?ok (k + 1) hs" if "?ok k (h # hs)" for h hs
    using that by (auto dest: spec [of _ "Suc _"])
  have ref: "pf_fragment_ref f = pf_fragment_ref g" using head(1) Cons.prems(1,2) by metis
  have "utf8_bytes (pf_text f) = utf8_bytes (pf_text g)
      \<and> concat (map (\<lambda>f. hash_part (utf8_bytes (pf_fragment_ref f)) @ hash_part (utf8_bytes (pf_text f))) fs)
       = concat (map (\<lambda>f. hash_part (utf8_bytes (pf_fragment_ref f)) @ hash_part (utf8_bytes (pf_text f))) gs)"
    using Cons.prems(4) ref head(2) [OF Cons.prems(1)] head(2) [OF Cons.prems(2)]
    by (intro hash_part_inject) (simp_all add: length_utf8_bytes)
  moreover from this have "pf_text f = pf_text g" using Cons.prems(3) utf8_bytes_inject by simp
  ultimately show ?case using Cons.IH [OF tail [OF Cons.prems(1)] tail [OF Cons.prems(2)]] Cons.prems(3) ref by simp
qed simp

lemma projection_message_inject:
  assumes p: "numbered_projection p" "scalar_projection p" and q: "numbered_projection q" "scalar_projection q"
    and eq: "projection_message p = projection_message q"
  shows "p = q"
proof -
  let ?count = "\<lambda>p. u64_to_be_bytes (of_nat (length (pj_fragments p)))"
  let ?body = "\<lambda>p. concat (map (\<lambda>f. hash_part (utf8_bytes (pf_fragment_ref f)) @ hash_part (utf8_bytes (pf_text f))) (pj_fragments p))"
  have rev: "pj_revision p = pj_revision q" using p(1) q(1) by (simp add: numbered_projection_def)
  then have "hash_part (?count p) @ ?body p = hash_part (?count q) @ ?body q"
    using eq by (simp add: projection_message_def)
  then have body: "?count p = ?count q" "?body p = ?body q" using hash_part_inject [of "?count p" "?body p" "?count q" "?body q"] by simp_all
  have "length (pj_fragments p) = length (pj_fragments q)"
    using of_nat_u64_inject [OF _ _ u64_to_be_bytes_inject [OF body(1)]] p(1) q(1)
    by (simp add: numbered_projection_def)
  then have "pj_fragments p = pj_fragments q"
    using p q body(2)
    by (intro fragments_inject [where k = 0]) (auto simp: numbered_projection_def scalar_projection_def)
  with rev show ?thesis by simp
qed

lemma well_formed_numbered: "projection_well_formed p \<Longrightarrow> numbered_projection p"
  by (auto simp: projection_well_formed_def numbered_projection_def well_formed_fragment_def)

lemma projection_validate_with_production:
  "projection_validate_with b p = Ok () \<longleftrightarrow> b = preparation_bounds_production \<and> projection_well_formed p"
proof (cases "b = preparation_bounds_production")
  case True
  then show ?thesis using projection_accepted [of p] by (auto simp: projection_validate_def split: if_splits)
next
  case False
  then show ?thesis by (simp add: projection_validate_with_def preparation_bounds_validate_def ensure_def all_ok.simps)
qed

lemma disclosure_accepted:
  assumes "receipt_disclosure_validate d = Ok ()"
  shows "projection_well_formed (rd_projection d)"
    and "d = \<lparr>rd_provider = receipt_intelligence_provider_v1, rd_model = receipt_intelligence_model_v1,
      rd_purpose = receipt_intelligence_purpose_v1, rd_projection = rd_projection d,
      rd_aggregate_text_bytes = aggregate_text_bytes (rd_projection d), rd_raw_mime_disclosed = False,
      rd_headers_disclosed = False, rd_urls_disclosed = False, rd_filenames_disclosed = False,
      rd_attachment_metadata_disclosed = False, rd_cid_metadata_disclosed = False,
      rd_internal_identifiers_disclosed = False, rd_hashes_disclosed = False, rd_credentials_disclosed = False,
      rd_image_bytes_disclosed = False, rd_retention = rd_retention d,
      rd_preparation_bounds = preparation_bounds_production, rd_execution_bounds = execution_bounds_production\<rparr>"
  using assms
  by (auto simp: receipt_disclosure_validate_def projection_validate_with_production preparation_bounds_validate_def
      execution_bounds_validate_def result_simps)

lemma consent_accepted:
  assumes "consent_validate_against sha rfc3339 c d = Ok ()"
  shows "receipt_disclosure_validate d = Ok ()" "cn_projection_sha256 c = projection_sha256 sha (rd_projection d)"
    "cn_retention c = rd_retention d"
  using assms by (auto simp: consent_validate_against_def result_simps)

end
