(* ===== verification/Receipt_Coordinator.thy ===== *)
theory Receipt_Coordinator
  imports Receipt_Attempt_Correctness Receipt_Intelligence_Correctness
begin

text \<open>
  The part of \<open>receipt_intelligence_coordinator.rs\<close> that joins the contracts and the repository: the bounds it
  asks the repository for, the projection it makes of a stored preview, and the comparison of a consented
  preview with what is stored now, which comes before every reservation.
\<close>

definition repository_bounds :: "preparation_bounds \<Rightarrow> execution_bounds \<Rightarrow> ri_bounds" where
  "repository_bounds preparation execution =
     \<lparr>bo_max_fragment_count = ucast (pb_max_fragment_count preparation),
      bo_max_fragment_bytes = pb_max_fragment_bytes preparation,
      bo_max_aggregate_text_bytes = pb_max_aggregate_text_bytes preparation,
      bo_max_serialized_request_bytes = pb_max_serialized_request_bytes preparation,
      bo_max_request_bytes = eb_max_request_bytes execution, bo_max_response_bytes = eb_max_response_bytes execution,
      bo_max_output_tokens = eb_max_output_tokens execution, bo_timeout_ms = eb_timeout_millis execution,
      bo_max_attempts = eb_max_attempts execution\<rparr>"

definition preview_projection :: "ri_preview \<Rightarrow> projection" where
  "preview_projection v =
     \<lparr>pj_revision = receipt_intelligence_projection_revision_v1,
      pj_fragments = map (\<lambda>f. \<lparr>pf_fragment_ref = vf_handle f, pf_text = vf_visible_text f\<rparr>) (vw_fragments v)\<rparr>"

definition ensure_preview_unchanged ::
  "(u8 list \<Rightarrow> u8 list) \<Rightarrow> (rstr \<Rightarrow> 'ts option) \<Rightarrow> (uuid \<Rightarrow> rstr) \<Rightarrow> receipt_preview \<Rightarrow> ri_preview \<Rightarrow> unit platform_result" where
  "ensure_preview_unchanged sha rfc3339 hyphenated preview stored =
     and_then (map_err (\<lambda>_. InvalidInput ''receipt_intelligence_preview'') (receipt_preview_validate sha rfc3339 preview)) (\<lambda>_.
       let envelope = pv_consent_envelope preview in
       if vw_local_source_id stored \<noteq> hyphenated (cn_source_id envelope)
          \<or> vw_source_revision_sha256 stored \<noteq> cn_source_revision_sha256 envelope
          \<or> vw_projection_sha256 stored \<noteq> cn_projection_sha256 envelope
          \<or> length (vw_fragments stored) \<noteq> length (pj_fragments (rd_projection (pv_disclosure preview)))
       then Err (Conflict ''receipt_intelligence_preview_changed'') else Ok ())"

section \<open>Stored previews\<close>

definition stored_fragment :: "externals \<Rightarrow> ri_bounds \<Rightarrow> nat \<Rightarrow> fragment_row \<Rightarrow> ri_preview_fragment \<Rightarrow> bool" where
  "stored_fragment ext bounds ordinal row f \<longleftrightarrow>
     vf_handle f = fragment_handle ordinal \<and> vf_visible_text f = fg_content_text row
     \<and> vf_content_sha256 f = digest_text ext (vf_visible_text f)
     \<and> unat (vf_byte_length f) = byte_len (vf_visible_text f)
     \<and> byte_len (vf_visible_text f) \<le> unat (bo_max_fragment_bytes bounds)
     \<and> \<not> visible_text_rejected (vf_visible_text f)"

lemma preview_fragments_Ok:
  assumes "preview_fragments ext bounds k aggregate rows = Ok (final, fs)"
  shows "length fs = length rows \<and> (\<forall>i<length rows. stored_fragment ext bounds (k + i) (rows ! i) (fs ! i))
    \<and> final = aggregate + (\<Sum>f\<leftarrow>fs. byte_len (vf_visible_text f))
    \<and> (rows \<noteq> [] \<longrightarrow> final \<le> unat (bo_max_aggregate_text_bytes bounds))"
  using assms
proof (induction rows arbitrary: k aggregate fs)
  case (Cons row rows)
  let ?text = "fg_content_text row"
  obtain gs where rest: "preview_fragments ext bounds (k + 1) (aggregate + byte_len ?text) rows = Ok (final, gs)"
    and fs: "fs = \<lparr>vf_handle = fragment_handle k, vf_visible_text = ?text, vf_byte_length = of_nat (byte_len ?text),
        vf_content_sha256 = fg_content_sha256 row\<rparr> # gs"
    and ok: "digest_text ext ?text = fg_content_sha256 row" "byte_len ?text \<le> unat (bo_max_fragment_bytes bounds)"
      "\<not> visible_text_rejected ?text" "byte_len ?text < 2 ^ 32"
      "aggregate + byte_len ?text \<le> unat (bo_max_aggregate_text_bytes bounds)"
    using Cons.prems by (auto simp: Let_def result_simps not_less not_le split: if_splits)
  note IH = Cons.IH [OF rest]
  have "unat (of_nat (byte_len ?text) :: u32) = byte_len ?text"
    using ok(4) by (simp add: unat_of_nat take_bit_nat_eq_self)
  then have head: "stored_fragment ext bounds k row (hd fs)" using ok by (simp add: stored_fragment_def fs)
  have "final \<le> unat (bo_max_aggregate_text_bytes bounds)"
    using IH rest ok(5) by (cases rows) auto
  moreover have "stored_fragment ext bounds (k + i) ((row # rows) ! i) (fs ! i)" if "i < length (row # rows)" for i
    using head IH that by (cases i) (auto simp: fs)
  ultimately show ?case using IH by (auto simp: fs)
qed simp

lemma read_preview_Ok:
  assumes "read_preview ext rx ss request_id source_revision_id bounds = Ok v"
  obtains rows where "length (vw_fragments v) = length rows" "rows \<noteq> []" "length rows \<le> unat (bo_max_fragment_count bounds)"
    "\<forall>i<length rows. stored_fragment ext bounds i (rows ! i) (vw_fragments v ! i)"
    "unat (vw_aggregate_text_bytes v) = (\<Sum>f\<leftarrow>vw_fragments v. byte_len (vf_visible_text f))"
    "unat (vw_aggregate_text_bytes v) \<le> unat (bo_max_aggregate_text_bytes bounds)"
    "vw_projection_sha256 v = hash_projection ext (vw_fragments v)"
proof -
  obtain rows aggregate where rows: "rows \<noteq> []" "\<not> length rows > unat (bo_max_fragment_count bounds)"
    and frags: "preview_fragments ext bounds 0 0 rows = Ok (aggregate, vw_fragments v)"
    and agg: "aggregate < 2 ^ 32" "vw_aggregate_text_bytes v = of_nat aggregate"
    and sha: "vw_projection_sha256 v = hash_projection ext (vw_fragments v)"
    using assms unfolding read_preview_def Let_def
    by (auto simp: result_simps not_le split: if_splits)
  have "unat (vw_aggregate_text_bytes v) = aggregate"
    using agg by (simp add: unat_of_nat take_bit_nat_eq_self)
  then show thesis using that [of rows] preview_fragments_Ok [OF frags] rows sha by auto
qed

lemma hash_projection_eq: "hash_projection ext (vw_fragments v) = projection_sha256 (sha256 ext) (preview_projection v)"
  by (simp add: hash_projection_def projection_sha256_def projection_message_def preview_projection_def
      receipt_intelligence_projection_revision_v1_def comp_def)

lemma stored_projection_numbered:
  assumes "read_preview ext rx ss request_id source_revision_id bounds = Ok v"
  shows "numbered_projection (preview_projection v)"
    and "vw_projection_sha256 v = projection_sha256 (sha256 ext) (preview_projection v)"
proof -
  obtain rows where v: "length (vw_fragments v) = length rows" "length rows \<le> unat (bo_max_fragment_count bounds)"
    "\<forall>i<length rows. stored_fragment ext bounds i (rows ! i) (vw_fragments v ! i)"
    "vw_projection_sha256 v = hash_projection ext (vw_fragments v)"
    by (rule read_preview_Ok [OF assms])
  have small: "unat (w :: u32) < 2 ^ 64" for w using unsigned_less [of w, where ?'a = nat] by simp
  have "byte_len (vf_visible_text (vw_fragments v ! i)) < 2 ^ 64" if "i < length rows" for i
    using v(3) that small [of "bo_max_fragment_bytes bounds"] by (auto simp: stored_fragment_def)
  moreover have "length rows < 2 ^ 64" using v(2) small [of "bo_max_fragment_count bounds"] by simp
  ultimately show "numbered_projection (preview_projection v)"
    using v(1,3) by (simp add: numbered_projection_def preview_projection_def stored_fragment_def)
  show "vw_projection_sha256 v = projection_sha256 (sha256 ext) (preview_projection v)"
    using v(4) hash_projection_eq by simp
qed

text \<open>
  Under the bounds in force, a stored preview is what the contract accepts, up to web addresses: the
  repository looks for three fixed texts only.
\<close>

lemma stored_projection_accepted:
  assumes "read_preview ext rx ss request_id source_revision_id
      (repository_bounds preparation_bounds_production execution_bounds_production) = Ok v"
  shows "projection_validate (preview_projection v) = Ok () \<longleftrightarrow>
    (\<forall>f\<in>set (vw_fragments v). \<not> contains_url_or_uri (vf_visible_text f))"
proof -
  let ?b = "repository_bounds preparation_bounds_production execution_bounds_production"
  have bounds: "unat (bo_max_fragment_count ?b) = 64" "unat (bo_max_fragment_bytes ?b) = 16384"
    "unat (bo_max_aggregate_text_bytes ?b) = 131072"
    by (simp_all add: repository_bounds_def preparation_bounds_production_def)
  obtain rows where v: "length (vw_fragments v) = length rows" "rows \<noteq> []" "length rows \<le> 64"
    "\<forall>i<length rows. stored_fragment ext ?b i (rows ! i) (vw_fragments v ! i)"
    "(\<Sum>f\<leftarrow>vw_fragments v. byte_len (vf_visible_text f)) \<le> 131072"
    by (rule read_preview_Ok [OF assms]) (simp add: bounds)
  have sum: "disclosed_bytes (preview_projection v) \<le> 131072"
    using v(5) by (simp add: disclosed_bytes_def preview_projection_def comp_def)
  have "well_formed_fragment i (pj_fragments (preview_projection v) ! i) \<longleftrightarrow> \<not> contains_url_or_uri (vf_visible_text (vw_fragments v ! i))"
    if "i < length rows" for i
    using v(1,4) that bounds(2)
    by (auto simp: well_formed_fragment_def preview_projection_def stored_fragment_def visible_text_rejected_def Let_def list_ex_iff)
  then have "projection_well_formed (preview_projection v) \<longleftrightarrow> (\<forall>i<length rows. \<not> contains_url_or_uri (vf_visible_text (vw_fragments v ! i)))"
    using v(1,2,3) sum by (auto simp: projection_well_formed_def preview_projection_def Suc_le_eq)
  also have "\<dots> \<longleftrightarrow> (\<forall>f\<in>set (vw_fragments v). \<not> contains_url_or_uri (vf_visible_text f))"
    by (simp add: all_set_conv_all_nth v(1))
  finally show ?thesis by (simp add: projection_accepted)
qed

section \<open>Recovery\<close>

lemma recover_exact:
  assumes inv: "ri_inv st"
  shows "recover_receipt_intelligence_attempts now_ms st =
    (if \<exists>t\<in>set (st_attempts st). at_state t = RiDispatched \<and> now_ms < at_created_at_ms t then Err Sqlite
     else if (\<exists>t\<in>set (st_attempts st). at_state t = RiDispatched) \<and> \<not> st_revision st < 9007199254740990
     then Err (Corrupt ''receipt_intelligence_revision_exhausted'')
     else Ok (st\<lparr>st_attempts := update_rows (\<lambda>r. at_state r = RiDispatched)
           (\<lambda>r. r\<lparr>at_state := RiOutcomeUnknown, at_failure_code := Some FailureOutcomeUnknown,
                  at_finalized_at_ms := Some now_ms\<rparr>) (st_attempts st),
         st_revision := st_revision st + (if \<exists>t\<in>set (st_attempts st). at_state t = RiDispatched then 1 else 0)\<rparr>,
       map at_attempt_id (sort_key (\<lambda>r. (at_created_at_ms r, at_attempt_id r))
         (filter (\<lambda>r. at_state r = RiNotSent) (st_attempts st)))))"
proof -
  let ?P = "\<lambda>r. at_state r = RiDispatched"
  let ?f = "\<lambda>r. r\<lparr>at_state := RiOutcomeUnknown, at_failure_code := Some FailureOutcomeUnknown, at_finalized_at_ms := Some now_ms\<rparr>"
  have legal: "attempt_transition r (?f r) \<and> attempt_evidence st (?f r) \<and> attempt_checks (?f r) \<longleftrightarrow> at_created_at_ms r \<le> now_ms"
    if "r \<in> set (st_attempts st)" "?P r" for r
    using inv_attempt [OF inv that(1)] that(2)
    by (auto simp: attempt_ok_def attempt_checks_def attempt_transition_def attempt_evidence_def not_before_def)
  have upd: "update_attempts ?P ?f st = (if \<exists>t\<in>set (st_attempts st). ?P t \<and> now_ms < at_created_at_ms t then Err Sqlite
      else Ok (st\<lparr>st_attempts := update_rows ?P ?f (st_attempts st)\<rparr>, changed_rows ?P (st_attempts st)))"
    using legal by (auto simp: update_attempts_def list_all_iff not_le)
  have unsent: "filter (\<lambda>r. at_state r = RiNotSent) (update_rows ?P ?f rows) = filter (\<lambda>r. at_state r = RiNotSent) rows" for rows
    by (induction rows) (auto simp: update_rows_def)
  have changed: "changed_rows ?P (st_attempts st) > 0 \<longleftrightarrow> (\<exists>t\<in>set (st_attempts st). ?P t)"
    using changed_rows_pos [of ?P "st_attempts st"] by simp
  show ?thesis
    unfolding recover_receipt_intelligence_attempts_def upd
    by (auto simp: Let_def unsent changed advance_receipt_intelligence_revision_def)
qed

end
