(* ===== verification/Receipt_Credential_Use.thy ===== *)
theory Receipt_Credential_Use
  imports Receipt_Attempt_Tables Credential_Store
begin

text \<open>
  Credentials and approvals. An approval names the credential it was given for, with the foreign key
  \<open>credential_id REFERENCES credential_references(credential_id) ON DELETE RESTRICT\<close>, and approvals are
  immutable. The removal of a credential in \<open>database.rs\<close>, at the end of a delete and in the reconciliation at
  start-up, runs with foreign keys enforced; \<open>Credential_Store\<close> has the operations as the statements read,
  here they are under that constraint. The approvals do not change during them and are an argument.
\<close>

definition restrict_credential_delete ::
  "approval_row list \<Rightarrow> (credential_row \<Rightarrow> bool) \<Rightarrow> database \<Rightarrow> database platform_result" where
  "restrict_credential_delete approvals where_clause db =
     (if list_ex (\<lambda>r. where_clause r \<and> list_ex (\<lambda>p. ap_credential_id p = cx_credential_id r) approvals) (db_credentials db)
      then Err Sqlite
      else Ok (db\<lparr>db_credentials := delete_rows where_clause (db_credentials db)\<rparr>))"

definition finish_credential_delete_restricted ::
  "approval_row list \<Rightarrow> credential_env \<Rightarrow> uuid \<Rightarrow> uuid \<Rightarrow> database \<Rightarrow> database \<times> unit platform_result" where
  "finish_credential_delete_restricted approvals env request_id credential_id db =
     (let matches = (\<lambda>r. cx_credential_id r = env_uuid_text env credential_id
            \<and> cx_delete_request_id r = Some (env_uuid_text env request_id)
            \<and> cx_status r = PendingDelete)
      in case restrict_credential_delete approvals matches db of
           Err e \<Rightarrow> (db, Err e)
         | Ok db' \<Rightarrow> (db', if changed_rows matches (db_credentials db) > 1
               then Err (Corrupt ''credential_delete_cardinality'') else Ok ()))"

definition reconcile_delete_restricted ::
  "approval_row list \<Rightarrow> 's keychain_api \<Rightarrow> rstr \<Rightarrow> 's \<Rightarrow> database \<Rightarrow> 's \<times> database \<times> unit platform_result" where
  "reconcile_delete_restricted approvals api locator s db =
     (case keychain_delete api locator s of
        (s', Err e) \<Rightarrow> (s', db, Err (platform_credential_error e))
      | (s', Ok _) \<Rightarrow>
          (case restrict_credential_delete approvals
                  (\<lambda>r. cx_locator r = locator \<and> cx_status r = PendingDelete) db of
             Err e \<Rightarrow> (s', db, Err e)
           | Ok db' \<Rightarrow> (s', db', Ok ())))"

fun reconcile_loop_restricted ::
  "approval_row list \<Rightarrow> 's keychain_api \<Rightarrow> int \<Rightarrow> (rstr \<times> credential_state) list \<Rightarrow> 's \<Rightarrow> database \<Rightarrow>
   's \<times> database \<times> unit platform_result" where
  "reconcile_loop_restricted approvals api now_ms [] s db = (s, db, Ok ())"
| "reconcile_loop_restricted approvals api now_ms ((locator_text, status) # pending) s db =
     (case credential_locator_new locator_text of
        Err _ \<Rightarrow> (s, db, Err (Corrupt ''credential_locator''))
      | Ok locator \<Rightarrow>
          (case (case status of
                   PendingSave \<Rightarrow> reconcile_save api now_ms locator s db
                 | PendingDelete \<Rightarrow> reconcile_delete_restricted approvals api locator s db
                 | _ \<Rightarrow> (s, db, Err (Corrupt ''credential_status''))) of
             (s', db', Err e) \<Rightarrow> (s', db', Err e)
           | (s', db', Ok _) \<Rightarrow> reconcile_loop_restricted approvals api now_ms pending s' db'))"

definition reconcile_credentials_restricted ::
  "approval_row list \<Rightarrow> 's keychain_api \<Rightarrow> int \<Rightarrow> 's \<Rightarrow> database \<Rightarrow> 's \<times> database \<times> unit platform_result" where
  "reconcile_credentials_restricted approvals api now_ms s db =
     reconcile_loop_restricted approvals api now_ms (pending_credentials db) s db"

section \<open>Without approvals nothing changes\<close>

lemma reconcile_unrestricted: "reconcile_credentials_restricted [] api now_ms s db = reconcile_credentials api now_ms s db"
proof -
  have "reconcile_delete_restricted [] api locator s db = reconcile_delete api locator s db" for locator s db
    by (simp add: reconcile_delete_restricted_def reconcile_delete_def restrict_credential_delete_def list_ex_iff
        split: prod.splits result.splits)
  then have "reconcile_loop_restricted [] api now_ms pending s db = reconcile_loop api now_ms pending s db" for pending
    by (induction pending arbitrary: s db) (auto split: result.splits prod.splits credential_state.splits)
  then show ?thesis by (simp add: reconcile_credentials_restricted_def reconcile_credentials_def)
qed

section \<open>A used credential cannot be removed\<close>

lemma reconcile_save_keeps:
  assumes "reconcile_save api now_ms locator s db = (s', db', res)" "r \<in> set (db_credentials db)" "cx_status r = PendingDelete"
  shows "r \<in> set (db_credentials db')"
  using assms by (auto simp: reconcile_save_def set_update_rows split: result.splits)

lemma reconcile_delete_keeps:
  assumes "reconcile_delete_restricted approvals api locator s db = (s', db', res)"
    and "r \<in> set (db_credentials db)" "cx_status r = PendingDelete" "p \<in> set approvals" "ap_credential_id p = cx_credential_id r"
  shows "r \<in> set (db_credentials db')" and "cx_locator r = locator \<Longrightarrow> res \<noteq> Ok ()"
proof -
  have used: "list_ex (\<lambda>q. ap_credential_id q = cx_credential_id r) approvals" using assms(4,5) by (auto simp: list_ex_iff)
  have blocked: "restrict_credential_delete approvals (\<lambda>r. cx_locator r = locator \<and> cx_status r = PendingDelete) db = Err Sqlite"
    if "cx_locator r = locator"
    using used that assms(2,3) by (auto simp: restrict_credential_delete_def list_ex_iff)
  show "cx_locator r = locator \<Longrightarrow> res \<noteq> Ok ()"
    using assms(1) blocked by (auto simp: reconcile_delete_restricted_def split: prod.splits result.splits)
  show "r \<in> set (db_credentials db')"
    using assms(1,2) blocked
    by (cases "cx_locator r = locator")
      (auto simp: reconcile_delete_restricted_def restrict_credential_delete_def delete_rows_def
        split: prod.splits result.splits if_splits)
qed

lemma reconcile_loop_stuck:
  assumes "r \<in> set (db_credentials db)" "cx_status r = PendingDelete" "p \<in> set approvals" "ap_credential_id p = cx_credential_id r"
    and "(cx_locator r, PendingDelete) \<in> set pending"
  shows "\<exists>s' db' e. reconcile_loop_restricted approvals api now_ms pending s db = (s', db', Err e) \<and> r \<in> set (db_credentials db')"
  using assms
proof (induction pending arbitrary: s db)
  case (Cons entry pending)
  obtain locator_text status where entry: "entry = (locator_text, status)" by (cases entry)
  show ?case
  proof (cases "credential_locator_new locator_text")
    case (Err x)
    then show ?thesis using Cons.prems(1) by (simp add: entry)
  next
    case (Ok locator)
    then have loc: "locator = locator_text" by (auto simp: credential_locator_new_def split: if_splits)
    let ?one = "case status of PendingSave \<Rightarrow> reconcile_save api now_ms locator s db
       | PendingDelete \<Rightarrow> reconcile_delete_restricted approvals api locator s db
       | _ \<Rightarrow> (s, db, Err (Corrupt ''credential_status''))"
    obtain s' db' res where one: "?one = (s', db', res)" by (cases ?one)
    have kept: "r \<in> set (db_credentials db')"
    proof (cases status)
      case PendingSave
      then show ?thesis using one reconcile_save_keeps [OF _ Cons.prems(1,2)] by simp
    next
      case PendingDelete
      then show ?thesis using one reconcile_delete_keeps(1) [OF _ Cons.prems(1-4)] by simp
    qed (use one Cons.prems(1) in simp_all)
    show ?thesis
    proof (cases res)
      case (Err e)
      then show ?thesis using one kept Ok by (simp add: entry)
    next
      case okay: (Ok u)
      have "(cx_locator r, PendingDelete) \<noteq> entry"
      proof
        assume "(cx_locator r, PendingDelete) = entry"
        then have "reconcile_delete_restricted approvals api (cx_locator r) s db = (s', db', res)"
          using one by (simp add: entry loc)
        from reconcile_delete_keeps(2) [OF this Cons.prems(1-4) refl] show False using okay by simp
      qed
      then have "(cx_locator r, PendingDelete) \<in> set pending" using Cons.prems(5) by simp
      then show ?thesis using Cons.IH [OF kept Cons.prems(2-4), of s'] one okay Ok by (simp add: entry)
    qed
  qed
qed simp

lemma pending_delete_listed: "r \<in> set (db_credentials db) \<Longrightarrow> cx_status r = PendingDelete \<Longrightarrow> (cx_locator r, PendingDelete) \<in> set (pending_credentials db)"
  by (force simp: pending_credentials_def)

end
