(* ===== verification/Receipt_Intelligence_Claims.thy ===== *)
theory Receipt_Intelligence_Claims
  imports Receipt_Intelligence_Correctness
begin

text \<open>
  The properties of the receipt intelligence contracts: what an accepted projection is and what the consent
  envelope binds. The digest and the time parser are parameters; the examples take the identity for the
  digest and a parser that accepts every text the guard lets through.
\<close>

definition sample_projection :: "rstr \<Rightarrow> projection" where
  "sample_projection value =
     \<lparr>pj_revision = receipt_intelligence_projection_revision_v1,
      pj_fragments = [\<lparr>pf_fragment_ref = lit ''fragment-0000'', pf_text = value\<rparr>]\<rparr>"

definition sample_retention :: receipt_retention_disclosure where
  "sample_retention = receipt_retention_for_declaration \<lparr>rd_mode = Zdr, rd_provenance = lit ''user''\<rparr>"

definition sample_disclosure :: "rstr \<Rightarrow> receipt_disclosure" where
  "sample_disclosure value =
     \<lparr>rd_provider = receipt_intelligence_provider_v1, rd_model = receipt_intelligence_model_v1,
      rd_purpose = receipt_intelligence_purpose_v1, rd_projection = sample_projection value,
      rd_aggregate_text_bytes = aggregate_text_bytes (sample_projection value), rd_raw_mime_disclosed = False,
      rd_headers_disclosed = False, rd_urls_disclosed = False, rd_filenames_disclosed = False,
      rd_attachment_metadata_disclosed = False, rd_cid_metadata_disclosed = False,
      rd_internal_identifiers_disclosed = False, rd_hashes_disclosed = False, rd_credentials_disclosed = False,
      rd_image_bytes_disclosed = False, rd_retention = sample_retention,
      rd_preparation_bounds = preparation_bounds_production, rd_execution_bounds = execution_bounds_production\<rparr>"

definition sample_envelope :: "(u8 list \<Rightarrow> u8 list) \<Rightarrow> rstr \<Rightarrow> consent_envelope" where
  "sample_envelope sha value =
     \<lparr>cn_source_id = 1, cn_source_revision_id = 2, cn_source_revision_sha256 = replicate 64 48,
      cn_disclosed_fragment_sha256 = fragment_sha256 sha (sample_projection value),
      cn_projection_sha256 = projection_sha256 sha (sample_projection value),
      cn_serialized_request_sha256 = lit ''b'', cn_serialized_request_bytes = 100, cn_credential_id = 3,
      cn_provider = receipt_intelligence_provider_v1, cn_model = receipt_intelligence_model_v1,
      cn_prompt_revision = receipt_intelligence_prompt_revision_v1,
      cn_schema_revision = receipt_intelligence_schema_revision_v1,
      cn_projection_revision = receipt_intelligence_projection_revision_v1,
      cn_parameter_revision = receipt_intelligence_parameter_revision_v1, cn_retention = sample_retention,
      cn_preparation_bounds = preparation_bounds_production, cn_execution_bounds = execution_bounds_production,
      cn_expires_at = lit ''2026-01-01T00:00:00Z''\<rparr>"

definition sample_rfc3339 :: "rstr \<Rightarrow> nat option" where
  "sample_rfc3339 value = Some 0"

lemma sample_fragment:
  "\<not> contains_url_or_uri (lit ''T-Shirt'')" "fragment_handle 0 = lit ''fragment-0000''"
  by code_simp+

lemma sample_well_formed: "projection_well_formed (sample_projection (lit ''T-Shirt''))"
  using sample_fragment
  by (simp add: projection_well_formed_def well_formed_fragment_def disclosed_bytes_def sample_projection_def
      trim_def lit_def byte_len_def utf8_width_def char_class_defs)

lemma sample_accepted:
  assumes "projection_well_formed (sample_projection value)"
  shows "consent_validate_against sha sample_rfc3339 (sample_envelope sha value) (sample_disclosure value) = Ok ()"
proof -
  have retention: "receipt_retention_validate sample_retention = Ok ()"
    by (simp add: receipt_retention_validate_def sample_retention_def receipt_retention_for_declaration_def
        retention_declaration_validate_def is_bounded_identifier_def lit_def byte_len_def utf8_width_def
        char_class_defs result_simps)
  have expiry: "validate_timestamp sample_rfc3339 (lit ''2026-01-01T00:00:00Z'') = Ok ()"
    by (simp add: validate_timestamp_def parse_timestamp_def timestamp_char_def lit_def byte_len_def
        utf8_width_def char_class_defs is_ascii_def sample_rfc3339_def)
  have "consent_envelope_validate sample_rfc3339 (sample_envelope sha value) = Ok ()"
    using retention expiry
    by (simp add: consent_envelope_validate_def sample_envelope_def fragment_sha256_def sample_projection_def
        preparation_bounds_validate_def execution_bounds_validate_def result_simps)
      (simp add: preparation_bounds_production_def execution_bounds_production_def)
  moreover have "receipt_disclosure_validate (sample_disclosure value) = Ok ()"
    using retention assms
    by (simp add: receipt_disclosure_validate_def sample_disclosure_def projection_validate_with_production
        preparation_bounds_validate_def execution_bounds_validate_def result_simps)
  ultimately show ?thesis
    by (simp add: consent_validate_against_def result_simps)
      (simp add: sample_envelope_def sample_disclosure_def sample_projection_def)
qed

text \<open>
  C33. The validator of a projection accepts exactly the well-formed ones, and rejects every other with the
  same error: the fixed revision, one to 64 fragments numbered from zero by their handles, each with visible
  text of at most 16 KiB, no control characters but line feed and tab and no web address, at most 128 KiB in
  all. The total is counted in 32 bits with wrap-around; for an accepted projection it is the exact number of
  disclosed bytes.
\<close>

theorem projection_validation_exact:
  "projection_validate p = (if projection_well_formed p then Ok () else Err receipt_invalid)
   \<and> (projection_well_formed p \<longrightarrow> unat (aggregate_text_bytes p) = disclosed_bytes p)"
  using projection_accepted [of p] aggregate_exact [of p] by (auto simp: projection_well_formed_def)

theorem projection_validation_exact_witness:
  "projection_validate (sample_projection (lit ''T-Shirt'')) = Ok ()
   \<and> unat (aggregate_text_bytes (sample_projection (lit ''T-Shirt''))) = 7"
proof -
  have "disclosed_bytes (sample_projection (lit ''T-Shirt'')) = 7"
    by (simp add: disclosed_bytes_def sample_projection_def lit_def byte_len_def utf8_width_def)
  then show ?thesis using projection_validation_exact [of "sample_projection (lit ''T-Shirt'')"] sample_well_formed by simp
qed

text \<open>
  C34. A consent envelope binds the disclosure the user saw: if one envelope validates against two
  disclosures, they are the same in every field, or their projections are two byte strings with the same
  SHA-256 digest. The digest input (length-prefixed UTF-8 of the revision, the number of fragments, the
  handles and the texts) has no two readings.
\<close>

theorem consent_binds_disclosure:
  assumes "consent_validate_against sha rfc3339 c d = Ok ()" "consent_validate_against sha rfc3339 c d' = Ok ()"
    and "scalar_projection (rd_projection d)" "scalar_projection (rd_projection d')"
  shows "d = d' \<or> (projection_message (rd_projection d) \<noteq> projection_message (rd_projection d')
    \<and> sha (projection_message (rd_projection d)) = sha (projection_message (rd_projection d')))"
proof -
  note d = consent_accepted [OF assms(1)] and d' = consent_accepted [OF assms(2)]
  have "sha (projection_message (rd_projection d)) = sha (projection_message (rd_projection d'))"
    using d(2) d'(2) by (auto simp: projection_sha256_def intro: lower_hex_inject)
  moreover have "d = d'" if "projection_message (rd_projection d) = projection_message (rd_projection d')"
  proof -
    have "rd_projection d = rd_projection d'"
      using projection_message_inject [OF well_formed_numbered [OF disclosure_accepted(1) [OF d(1)]] assms(3)
          well_formed_numbered [OF disclosure_accepted(1) [OF d'(1)]] assms(4)]
        that by blast
    moreover have "rd_retention d = rd_retention d'" using d(3) d'(3) by simp
    ultimately show ?thesis using disclosure_accepted(2) [OF d(1)] disclosure_accepted(2) [OF d'(1)] by metis
  qed
  ultimately show ?thesis by blast
qed

theorem consent_binds_disclosure_witness:
  "consent_validate_against id sample_rfc3339 (sample_envelope id (lit ''T-Shirt'')) (sample_disclosure (lit ''T-Shirt'')) = Ok ()
   \<and> consent_validate_against id sample_rfc3339 (sample_envelope id (lit ''T-Shirt'')) (sample_disclosure (lit ''Shorts'')) \<noteq> Ok ()"
proof -
  have scalar: "scalar_projection (rd_projection (sample_disclosure (lit ''T-Shirt'')))"
    "scalar_projection (rd_projection (sample_disclosure (lit ''Shorts'')))"
    by (simp_all add: scalar_projection_def scalar_text_def sample_disclosure_def sample_projection_def lit_def)
  have "sample_disclosure (lit ''T-Shirt'') \<noteq> sample_disclosure (lit ''Shorts'')"
    by (simp add: sample_disclosure_def sample_projection_def)
  moreover note accepted = sample_accepted [OF sample_well_formed, of id]
  ultimately show ?thesis
    using accepted consent_binds_disclosure [OF accepted _ scalar] by auto
qed

end
