(* ===== verification/Receipt_Attempt_Sample.thy ===== *)
theory Receipt_Attempt_Sample
  imports Receipt_Coordinator Receipt_Credential_Use Receipt_Intelligence_Claims
begin

text \<open>
  An example for the attempt repository: one attempt that is reserved, dispatched and, after a restart, of
  unknown outcome. The digest and the texts of the example are constant, which is enough for one attempt.
\<close>

section \<open>Data\<close>

definition sample_uuid :: rstr where
  "sample_uuid = lit ''11111111-1111-1111-1111-111111111111''"

definition zero_hash :: rstr where
  "zero_hash = replicate 64 48"

definition sample_ri_ext :: externals where
  "sample_ri_ext = \<lparr>sha256 = (\<lambda>_. replicate 32 0), uuid_hyphenated = (\<lambda>_. sample_uuid), payload_json = id,
     extract_blob_sha256 = (\<lambda>_. None), result_json = (\<lambda>s _. s), outcome_to_json = (\<lambda>_. []),
     outcome_from_json = (\<lambda>_. None)\<rparr>"

definition sample_rx :: ri_externals where
  "sample_rx = \<lparr>rx_parse_uuid = (\<lambda>_. Some 1), rx_projection_json = (\<lambda>_. []), rx_fragment_set_json = (\<lambda>_. []),
     rx_binding_json = (\<lambda>_. [])\<rparr>"

definition sample_sources :: sources_state where
  "sample_sources =
     \<lparr>ss_credentials = [\<lparr>cx_locator = lit ''loc'', cx_credential_id = sample_uuid, cx_save_request_id = lit ''s'',
        cx_delete_request_id = None, cx_provider = lit ''open_ai'', cx_display_label = lit ''k'',
        cx_status = credential_state.Active, cx_created_at_ms = 0, cx_updated_at_ms = 0\<rparr>],
      ss_source_revisions = [\<lparr>sr_revision_id = sample_uuid, sr_graph_sha256 = zero_hash, sr_availability = lit ''available''\<rparr>],
      ss_materializations = [\<lparr>mz_revision_id = sample_uuid, mz_local_source_id = lit ''src'',
        mz_blob_sha256 = Some (lit ''b''), mz_created_at_ms = 0\<rparr>],
      ss_local_sources = [\<lparr>lc_source_id = lit ''src'', lc_status = lit ''imported''\<rparr>],
      ss_parses = [\<lparr>pa_parse_id = lit ''p'', pa_source_id = lit ''src'', pa_created_at_ms = 0\<rparr>],
      ss_fragments = [\<lparr>fg_fragment_id = lit ''f'', fg_parse_id = lit ''p'', fg_ordinal = 0,
        fg_fragment_kind = lit ''plain_text'', fg_content_text = lit ''Hat'', fg_content_sha256 = zero_hash, fg_byte_length = 3\<rparr>],
      ss_runs = [], ss_orders = [], ss_decisions = [], ss_authority_heads = [], ss_catalog_revision = 0\<rparr>"

definition sample_store :: attempt_store where
  "sample_store = \<lparr>st_approvals = [], st_attempts = [], st_audits = [], st_classifications = [], st_revision = 0,
     st_sources = sample_sources\<rparr>"

definition sample_bounds :: ri_bounds where
  "sample_bounds = repository_bounds preparation_bounds_production execution_bounds_production"

definition sample_reservation :: consent_reservation where
  "sample_reservation =
     \<lparr>cr_request_id = sample_uuid, cr_command_sha256 = zero_hash, cr_source_revision_id = sample_uuid,
      cr_source_revision_sha256 = zero_hash, cr_preview_binding_sha256 = zero_hash,
      cr_fragment_set_sha256 = zero_hash, cr_projection_sha256 = zero_hash,
      cr_serialized_request_sha256 = zero_hash, cr_serialized_request_bytes = 100, cr_credential_id = sample_uuid,
      cr_provider = lit ''openai'', cr_model = lit ''m'', cr_retention_mode = lit ''ZDR'',
      cr_retention_provenance = lit ''u'', cr_prompt_revision = lit ''p'', cr_schema_revision = lit ''s'',
      cr_projection_revision = lit ''j'', cr_parameters_sha256 = zero_hash, cr_bounds = sample_bounds,
      cr_expires_at_ms = 2000\<rparr>"

definition sample_approval :: approval_row where
  "sample_approval = new_approval sample_uuid sample_reservation (lit ''src'') 1000"

definition sample_attempt :: attempt_row where
  "sample_attempt = new_attempt sample_uuid sample_uuid sample_reservation (lit ''src'') 1000"

definition reserved_store :: attempt_store where
  "reserved_store = sample_store\<lparr>st_approvals := [sample_approval], st_attempts := [sample_attempt], st_revision := 1\<rparr>"

definition dispatched_attempt :: attempt_row where
  "dispatched_attempt = sample_attempt\<lparr>at_state := RiDispatched, at_dispatched_at_ms := Some 1500\<rparr>"

definition dispatched_store :: attempt_store where
  "dispatched_store = reserved_store\<lparr>st_attempts := [dispatched_attempt], st_revision := 2\<rparr>"

definition leaving_credential :: credential_row where
  "leaving_credential = (hd (ss_credentials sample_sources))\<lparr>cx_status := PendingDelete, cx_delete_request_id := Some (lit ''d'')\<rparr>"

definition working_keychain :: "unit keychain_api" where
  "working_keychain = \<lparr>set_generic_password = (\<lambda>_ _ _ s. (s, Ok ())), get_generic_password = (\<lambda>_ _ _. Err 0),
     delete_generic_password = (\<lambda>_ _ s. (s, Ok ()))\<rparr>"

lemma zero_hash_ok: "byte_len zero_hash = 64" "list_all is_lower_hex zero_hash" "sql_sha256 zero_hash"
proof -
  have "takeWhile (\<lambda>c. c \<noteq> 0) zero_hash = zero_hash" by (simp add: zero_hash_def takeWhile_eq_all_conv)
  then show "byte_len zero_hash = 64" "list_all is_lower_hex zero_hash" "sql_sha256 zero_hash"
    by (simp_all add: zero_hash_def sql_sha256_def sql_length_def byte_len_def utf8_width_def is_lower_hex_def
        char_class_defs list_all_iff sum_list_replicate)
qed

lemma sample_uuid_ok: "sql_uuid sample_uuid"
  by (simp add: sql_uuid_def sql_length_def sample_uuid_def lit_def)

lemma lower_hex_zeros: "lower_hex (replicate n 0) = replicate (2 * n) 48"
  by (induction n) (simp_all add: lower_hex_def hex_digit_def)

lemma sample_ids: "stable_id sample_ri_ext s t = sample_uuid" "lower_hex (sha256 sample_ri_ext m) = zero_hash"
    "digest_text sample_ri_ext s = zero_hash"
  using lower_hex_zeros [of 32]
  by (simp_all add: stable_id_def sample_ri_ext_def Let_def digest_text_def zero_hash_def)

lemma sample_preview_rows:
  "available_sources sample_sources = [(\<lparr>sr_revision_id = sample_uuid, sr_graph_sha256 = zero_hash, sr_availability = lit ''available''\<rparr>,
     \<lparr>mz_revision_id = sample_uuid, mz_local_source_id = lit ''src'', mz_blob_sha256 = Some (lit ''b''), mz_created_at_ms = 0\<rparr>)]"
  "visible_fragment_rows sample_sources (lit ''p'') = ss_fragments sample_sources"
  by (simp_all add: available_sources_def visible_fragment_rows_def sample_sources_def)

lemma sample_text_ok: "\<not> visible_text_rejected (lit ''Hat'')" "byte_len (lit ''Hat'') = 3"
  by code_simp+

lemma sample_bounds_values:
  "unat (bo_max_fragment_count sample_bounds) = 64" "unat (bo_max_fragment_bytes sample_bounds) = 16384"
  "unat (bo_max_aggregate_text_bytes sample_bounds) = 131072" "unat (bo_max_serialized_request_bytes sample_bounds) = 262144"
  by (simp_all add: sample_bounds_def repository_bounds_def preparation_bounds_production_def)

lemma sample_preview:
  "\<exists>v. read_preview sample_ri_ext sample_rx sample_sources sample_uuid sample_uuid sample_bounds = Ok v
     \<and> vw_preview_binding_sha256 v = zero_hash \<and> vw_fragment_set_sha256 v = zero_hash
     \<and> vw_source_revision_sha256 v = zero_hash \<and> vw_projection_sha256 v = zero_hash
     \<and> vw_local_source_id v = lit ''src''
     \<and> vw_fragments v = [\<lparr>vf_handle = lit ''fragment-0000'', vf_visible_text = lit ''Hat'', vf_byte_length = 3, vf_content_sha256 = zero_hash\<rparr>]"
proof -
  have handle: "fragment_handle 0 = lit ''fragment-0000''" by code_simp
  have hash: "ri_validate_hash zero_hash f = Ok ()" for f using zero_hash_ok by (simp add: ri_validate_hash_def)
  have frags: "preview_fragments sample_ri_ext sample_bounds 0 0 (ss_fragments sample_sources)
      = Ok (3, [\<lparr>vf_handle = lit ''fragment-0000'', vf_visible_text = lit ''Hat'', vf_byte_length = 3, vf_content_sha256 = zero_hash\<rparr>])"
    using hash handle sample_text_ok sample_ids sample_bounds_values by (simp add: sample_sources_def i64_max_def)
  have parses: "last_by (\<lambda>r. (pa_created_at_ms r, pa_parse_id r)) (filter (\<lambda>r. pa_source_id r = lit ''src'') (ss_parses sample_sources))
      = Some \<lparr>pa_parse_id = lit ''p'', pa_source_id = lit ''src'', pa_created_at_ms = 0\<rparr>"
    by (simp add: sample_sources_def last_by_def)
  have rows: "ss_fragments sample_sources \<noteq> []" "length (ss_fragments sample_sources) = 1" by (simp_all add: sample_sources_def)
  have json: "rx_projection_json sample_rx x = []" for x by (simp add: sample_rx_def)
  have sha: "hash_projection sample_ri_ext fs = zero_hash" for fs using sample_ids(2) by (simp add: hash_projection_def)
  show ?thesis
    unfolding read_preview_def Let_def
    by (simp add: sample_preview_rows first_row_def hash parses rows frags json sha sample_bounds_values sample_ids)
qed


section \<open>Operations on the example\<close>

lemma sample_reservation_valid: "validate_reservation sample_rx sample_reservation 1000 = Ok ()"
proof -
  have hash: "ri_validate_hash zero_hash f = Ok ()" for f using zero_hash_ok by (simp add: ri_validate_hash_def)
  have uuid: "ri_validate_uuid sample_rx u f = Ok ()" for u f by (simp add: ri_validate_uuid_def sample_rx_def)
  have revision: "validate_ascii_revision [c] f = Ok ()" if "33 \<le> c" "c \<le> 126" for c f
    using that by (simp add: validate_ascii_revision_def byte_len_def utf8_width_def)
  have bounds: "validate_bounds sample_bounds = Ok ()"
    by (simp add: validate_bounds_def sample_bounds_def repository_bounds_def preparation_bounds_production_def execution_bounds_production_def)
  have request: "bo_max_serialized_request_bytes sample_bounds = 262144" "bo_max_request_bytes sample_bounds \<ge> 100"
    by (simp_all add: sample_bounds_def repository_bounds_def preparation_bounds_production_def execution_bounds_production_def)
  show ?thesis
    unfolding validate_reservation_def
    using request
    by (simp add: result_simps not_less sample_reservation_def hash uuid bounds lit_def revision byte_len_def utf8_width_def char_class_defs
        i64_checked_add_def approval_lifetime_ms_def i64_max_def i64_min_def)
qed

lemma sample_ri_reserve:
  "reserve_receipt_intelligence sample_ri_ext sample_rx sample_reservation 1000 sample_store
   = Ok (reserved_store, \<lparr>ra_approval_id = sample_uuid, ra_attempt_id = sample_uuid, ra_state = RiNotSent, ra_replayed = False\<rparr>)"
proof -
  obtain v where v: "read_preview sample_ri_ext sample_rx sample_sources sample_uuid sample_uuid sample_bounds = Ok v"
    "vw_preview_binding_sha256 v = zero_hash" "vw_fragment_set_sha256 v = zero_hash" "vw_source_revision_sha256 v = zero_hash"
    "vw_projection_sha256 v = zero_hash" "vw_local_source_id v = lit ''src''" using sample_preview by blast
  have sel: "cr_request_id sample_reservation = sample_uuid" "cr_source_revision_id sample_reservation = sample_uuid"
    "cr_credential_id sample_reservation = sample_uuid" "cr_bounds sample_reservation = sample_bounds"
    "cr_preview_binding_sha256 sample_reservation = zero_hash" "cr_fragment_set_sha256 sample_reservation = zero_hash"
    "cr_source_revision_sha256 sample_reservation = zero_hash" "cr_projection_sha256 sample_reservation = zero_hash"
    "cr_command_sha256 sample_reservation = zero_hash"
    by (simp_all add: sample_reservation_def)
  have cred: "require_active_credential sample_uuid sample_store = Ok ()"
    by (simp add: require_active_credential_def active_openai_credential_def sample_store_def sample_sources_def)
  have checks: "approval_checks sample_approval" "attempt_checks sample_attempt"
    using zero_hash_ok sample_uuid_ok
    by (simp_all add: approval_checks_def sample_approval_def new_approval_def sample_reservation_def bound_columns_of_def
        sample_bounds_def repository_bounds_def preparation_bounds_production_def execution_bounds_production_def between_def
        sql_printable_def sql_identifier_def sql_length_def lit_def char_class_defs
        attempt_checks_def sample_attempt_def new_attempt_def non_negative_def not_before_def)
  have ins: "insert_approval sample_approval sample_store = Ok (sample_store\<lparr>st_approvals := [sample_approval]\<rparr>)"
    using checks(1) by (simp add: insert_approval_def sample_store_def sample_approval_def new_approval_def sel sample_sources_def)
  have ins': "insert_attempt sample_attempt (sample_store\<lparr>st_approvals := [sample_approval]\<rparr>)
      = Ok (sample_store\<lparr>st_approvals := [sample_approval], st_attempts := [sample_attempt]\<rparr>)"
    using checks(2) by (simp add: insert_attempt_def sample_store_def sample_approval_def sample_attempt_def new_approval_def new_attempt_def)
  have src: "st_sources sample_store = sample_sources" "st_attempts sample_store = []" "st_revision sample_store = 0"
    by (simp_all add: sample_store_def)
  show ?thesis
    using v ins ins' cred
    by (simp add: reserve_receipt_intelligence_def replay_reservation_def sel src sample_reservation_valid Let_def sample_ids
        sample_approval_def [symmetric] sample_attempt_def [symmetric] advance_receipt_intelligence_revision_def reserved_store_def)
qed

lemma reserved_row: "attempt_with_approval sample_uuid reserved_store = Some (sample_attempt, sample_approval)"
  by (simp add: attempt_with_approval_def first_row_def reserved_store_def sample_attempt_def sample_approval_def new_attempt_def new_approval_def)

lemma sample_dispatch: "mark_receipt_intelligence_dispatched sample_rx sample_uuid 1500 reserved_store = Ok dispatched_store"
proof -
  have uuid: "ri_validate_uuid sample_rx u f = Ok ()" for u f by (simp add: ri_validate_uuid_def sample_rx_def)
  have row: "at_state sample_attempt = RiNotSent" "at_attempt_id sample_attempt = sample_uuid" "ap_expires_at_ms sample_approval = 2000"
    "ap_credential_id sample_approval = sample_uuid"
    by (simp_all add: sample_attempt_def new_attempt_def sample_approval_def new_approval_def sample_reservation_def)
  have cred: "active_openai_credential (st_sources reserved_store) sample_uuid"
    by (simp add: active_openai_credential_def reserved_store_def sample_store_def sample_sources_def)
  have checks: "attempt_checks dispatched_attempt" "attempt_transition sample_attempt dispatched_attempt"
    using zero_hash_ok sample_uuid_ok
    by (simp_all add: attempt_checks_def attempt_transition_def dispatched_attempt_def sample_attempt_def new_attempt_def
        sample_reservation_def non_negative_def not_before_def)
  have "update_attempts (\<lambda>r. at_attempt_id r = sample_uuid \<and> at_state r = RiNotSent)
      (\<lambda>r. r\<lparr>at_state := RiDispatched, at_dispatched_at_ms := Some 1500\<rparr>) reserved_store
    = Ok (reserved_store\<lparr>st_attempts := [dispatched_attempt]\<rparr>, 1)"
    using checks row
    by (simp add: update_attempts_def reserved_store_def dispatched_attempt_def [symmetric] update_rows_def changed_rows_def attempt_evidence_def)
  moreover have "st_revision reserved_store = 1" by (simp add: reserved_store_def)
  ultimately show ?thesis
    using row cred by (simp add: mark_receipt_intelligence_dispatched_def uuid reserved_row advance_receipt_intelligence_revision_def
        dispatched_store_def)
qed

definition failed_attempt :: attempt_row where
  "failed_attempt = dispatched_attempt\<lparr>at_state := RiFailed, at_failure_code := Some (FailureCode RfProviderUnavailable),
     at_finalized_at_ms := Some 1600\<rparr>"

definition failed_store :: attempt_store where
  "failed_store = dispatched_store\<lparr>st_attempts := [failed_attempt], st_revision := 3\<rparr>"

lemma sample_fail: "fail_receipt_intelligence sample_rx sample_uuid RfProviderUnavailable 1600 dispatched_store = Ok failed_store"
proof -
  have uuid: "ri_validate_uuid sample_rx u f = Ok ()" for u f by (simp add: ri_validate_uuid_def sample_rx_def)
  have row: "at_state dispatched_attempt = RiDispatched" "at_attempt_id dispatched_attempt = sample_uuid"
    "st_revision dispatched_store = 2" "st_attempts dispatched_store = [dispatched_attempt]"
    by (simp_all add: dispatched_attempt_def sample_attempt_def new_attempt_def dispatched_store_def)
  have "attempt_checks failed_attempt" "attempt_transition dispatched_attempt failed_attempt"
    using zero_hash_ok sample_uuid_ok
    by (simp_all add: attempt_checks_def attempt_transition_def failed_attempt_def dispatched_attempt_def sample_attempt_def
        new_attempt_def sample_reservation_def non_negative_def not_before_def)
  then have "update_attempts (\<lambda>r. at_attempt_id r = sample_uuid \<and> at_state r \<in> {RiNotSent, RiDispatched})
      (\<lambda>r. r\<lparr>at_state := RiFailed, at_failure_code := Some (FailureCode RfProviderUnavailable), at_finalized_at_ms := Some 1600\<rparr>)
      dispatched_store = Ok (dispatched_store\<lparr>st_attempts := [failed_attempt]\<rparr>, 1)"
    using row by (simp add: update_attempts_def failed_attempt_def [symmetric] update_rows_def changed_rows_def attempt_evidence_def)
  then show ?thesis
    by (simp add: fail_receipt_intelligence_def uuid advance_receipt_intelligence_revision_def failed_store_def row)
qed

lemma sample_fresh: "fresh_store sample_store"
  by (simp add: fresh_store_def sample_store_def)

definition sample_events :: "ri_event list" where
  "sample_events =
     [EvReserve \<lparr>ra_approval_id = sample_uuid, ra_attempt_id = sample_uuid, ra_state = RiNotSent, ra_replayed = False\<rparr>,
      EvDispatch sample_uuid]"

lemma sample_ri_run: "ri_run sample_ri_ext sample_rx sample_store sample_events dispatched_store"
  using ri_run.extend [OF ri_run.extend [OF ri_run.start ri_step.reserve [OF sample_ri_reserve]] ri_step.dispatch [OF sample_dispatch]]
  by (simp add: sample_events_def)

lemma sample_run_failed: "ri_run sample_ri_ext sample_rx sample_store (sample_events @ [EvFinish sample_uuid]) failed_store"
  by (rule ri_run.extend [OF sample_ri_run ri_step.fail [OF sample_fail]])

section \<open>The consented preview of the example\<close>

lemma sample_hat: "projection_well_formed (sample_projection (lit ''Hat''))"
proof -
  have "\<not> contains_url_or_uri (lit ''Hat'')" by code_simp
  then show ?thesis
    using sample_fragment(2)
    by (simp add: projection_well_formed_def well_formed_fragment_def disclosed_bytes_def sample_projection_def
        trim_def lit_def byte_len_def utf8_width_def char_class_defs)
qed

definition sample_consented :: receipt_preview where
  "sample_consented = \<lparr>pv_disclosure = sample_disclosure (lit ''Hat''),
     pv_consent_envelope = sample_envelope (sha256 sample_ri_ext) (lit ''Hat'')\<rparr>"

lemma sample_unchanged:
  assumes "vw_projection_sha256 v = zero_hash" "vw_source_revision_sha256 v = zero_hash" "vw_local_source_id v = lit ''src''"
    and "length (vw_fragments v) = 1"
  shows "ensure_preview_unchanged (sha256 sample_ri_ext) sample_rfc3339 (\<lambda>_. lit ''src'') sample_consented v = Ok ()"
proof -
  have "receipt_preview_validate (sha256 sample_ri_ext) sample_rfc3339 sample_consented = Ok ()"
    using sample_accepted [OF sample_hat] by (simp add: receipt_preview_validate_def sample_consented_def)
  then show ?thesis
    using assms sample_ids(2)
    by (simp add: ensure_preview_unchanged_def sample_consented_def sample_envelope_def sample_disclosure_def sample_projection_def
        projection_sha256_def zero_hash_def Let_def)
qed

end
