(* ===== verification/Receipt_Attempt_Claims.thy ===== *)
theory Receipt_Attempt_Claims
  imports Receipt_Attempt_Sample
begin

text \<open>
  The properties of the attempt repository and of its joints with the contracts, the coordinator and the
  credentials. Runs start from tables without approvals and attempts; between the transactions of the
  repository the other tables may change in any way.
\<close>

text \<open>
  C35. Whatever transactions have run, the ledger of attempts is consistent: ids, requests and approvals are
  used once; every attempt is within the constraints of its table and has the approval it was reserved with,
  and the other way round; an approval ends at most ten minutes after it was given; an audit stands next to
  exactly the completed and refused attempts, a classification next to exactly the completed ones, and an
  audit repeats the digests of its approval and stays within the bounds the user agreed to.
\<close>

theorem attempt_ledger_consistent:
  assumes "fresh_store st0" "ri_run ext rx st0 evs st"
  shows "ri_inv st"
  using inv_run [OF assms(2) inv_fresh [OF assms(1)]] .

theorem attempt_ledger_consistent_witness: "ri_inv failed_store"
  by (rule attempt_ledger_consistent [OF sample_fresh sample_run_failed])

text \<open>
  C36. One consent allows one transmission. Along every run no attempt is dispatched twice, and every
  dispatched attempt has an approval of its own, which no other attempt refers to and which was in force at
  the time of the dispatch: after it was given, before it ended, at most ten minutes later.
\<close>

theorem consent_used_once:
  assumes "fresh_store st0" "ri_run ext rx st0 evs st"
  shows "distinct (dispatches evs) \<and>
    (\<forall>k\<in>set (dispatches evs). \<exists>t\<in>set (st_attempts st). \<exists>p\<in>set (st_approvals st). \<exists>d.
       at_attempt_id t = k \<and> approved t p \<and> at_dispatched_at_ms t = Some d
       \<and> ap_created_at_ms p \<le> d \<and> d \<le> ap_expires_at_ms p \<and> d \<le> ap_created_at_ms p + 600000
       \<and> (\<forall>t'\<in>set (st_attempts st). at_approval_id t' = ap_approval_id p \<longrightarrow> t' = t))"
proof (intro conjI ballI)
  have inv0: "ri_inv st0" by (rule inv_fresh [OF assms(1)])
  have inv: "ri_inv st" by (rule inv_run [OF assms(2) inv0])
  note disp = run_dispatches [OF assms(2) inv0]
  show "distinct (dispatches evs)" using disp by simp
  fix k assume "k \<in> set (dispatches evs)"
  then have "k \<in> dispatched_ids st" using disp by blast
  then obtain t d where t: "t \<in> set (st_attempts st)" "at_attempt_id t = k" "at_dispatched_at_ms t = Some d"
    by (auto simp: dispatched_ids_def)
  have ok: "attempt_ok st t" by (rule inv_attempt [OF inv t(1)])
  then obtain p where p: "p \<in> set (st_approvals st)" "approved t p" by (auto simp: attempt_ok_def)
  have "ap_expires_at_ms p \<le> ap_created_at_ms p + 600000"
    using inv_approval [OF inv p(1)] by (simp add: approval_ok_def approval_lifetime_ms_def)
  moreover have "ap_created_at_ms p \<le> d" "d \<le> ap_expires_at_ms p"
    using ok p(2) t(3) by (simp_all add: attempt_ok_def attempt_checks_def approved_def not_before_def)
  moreover have "t' = t" if "t' \<in> set (st_attempts st)" "at_approval_id t' = ap_approval_id p" for t'
  proof -
    have "inj_on at_approval_id (set (st_attempts st))" using inv by (simp add: ri_inv_def distinct_map)
    then show ?thesis using that t(1) p(2) by (auto simp: approved_def dest: inj_onD)
  qed
  ultimately show "\<exists>t\<in>set (st_attempts st). \<exists>p\<in>set (st_approvals st). \<exists>d.
       at_attempt_id t = k \<and> approved t p \<and> at_dispatched_at_ms t = Some d
       \<and> ap_created_at_ms p \<le> d \<and> d \<le> ap_expires_at_ms p \<and> d \<le> ap_created_at_ms p + 600000
       \<and> (\<forall>t'\<in>set (st_attempts st). at_approval_id t' = ap_approval_id p \<longrightarrow> t' = t)"
    using t p by (intro bexI [of _ t] bexI [of _ p] exI [of _ d]) auto
qed

theorem consent_used_once_witness:
  "dispatches sample_events = [sample_uuid] \<and> (\<exists>t\<in>set (st_attempts dispatched_store). at_attempt_id t = sample_uuid
     \<and> (\<exists>p\<in>set (st_approvals dispatched_store). approved t p \<and> at_dispatched_at_ms t \<noteq> None))"
proof -
  have "dispatches sample_events = [sample_uuid]" by (simp add: dispatches_def sample_events_def List.map_filter_def)
  then show ?thesis using consent_used_once [OF sample_fresh sample_ri_run] by auto
qed

text \<open>
  C37. A finished attempt is permanent: whatever runs afterwards, its row stays as it is, no audit or
  classification is added to it or taken from it, and it is not dispatched again.
\<close>

theorem finished_attempt_is_permanent:
  assumes "fresh_store st0" "ri_run ext rx st0 evs st" "ri_run ext rx st evs' st'"
    and "t \<in> set (st_attempts st)" "at_state t \<notin> {RiNotSent, RiDispatched}"
  shows "t \<in> set (st_attempts st')
    \<and> filter (\<lambda>a. ad_attempt_id a = at_attempt_id t) (st_audits st') = filter (\<lambda>a. ad_attempt_id a = at_attempt_id t) (st_audits st)
    \<and> filter (\<lambda>c. cl_attempt_id c = at_attempt_id t) (st_classifications st')
       = filter (\<lambda>c. cl_attempt_id c = at_attempt_id t) (st_classifications st)
    \<and> at_attempt_id t \<notin> set (dispatches evs')"
proof -
  have inv: "ri_inv st" by (rule inv_run [OF assms(2) inv_fresh [OF assms(1)]])
  have "at_attempt_id t \<notin> set (dispatches evs')"
  proof
    assume again: "at_attempt_id t \<in> set (dispatches evs')"
    note disp = run_dispatches [OF assms(3) inv]
    have "at_attempt_id t \<in> dispatched_ids st'" using disp again by blast
    then obtain u where u: "u \<in> set (st_attempts st')" "at_attempt_id u = at_attempt_id t" "at_dispatched_at_ms u \<noteq> None"
      by (auto simp: dispatched_ids_def)
    have t': "t \<in> set (st_attempts st')" by (rule finished_row_kept [OF inv assms(3-5)])
    have "u = t" using u t' inv_run [OF assms(3) inv] attempts.row_unique [of "st_attempts st'" u t] by (simp add: ri_inv_def)
    then have "at_attempt_id t \<in> dispatched_ids st" using u(3) assms(4) by (auto simp: dispatched_ids_def)
    then show False using disp again by blast
  qed
  then show ?thesis using finished_row_kept [OF inv assms(3-5)] finished_evidence_kept [OF inv assms(3-5)] by blast
qed

theorem finished_attempt_is_permanent_witness:
  "failed_attempt \<in> set (st_attempts (failed_store\<lparr>st_sources := sample_sources\<lparr>ss_credentials := []\<rparr>\<rparr>))
   \<and> at_attempt_id failed_attempt \<notin> set (dispatches [EvOther])"
proof -
  have "ri_run sample_ri_ext sample_rx failed_store ([] @ [EvOther]) (failed_store\<lparr>st_sources := sample_sources\<lparr>ss_credentials := []\<rparr>\<rparr>)"
    by (rule ri_run.extend [OF ri_run.start ri_step.environment])
  moreover have "failed_attempt \<in> set (st_attempts failed_store)" "at_state failed_attempt \<notin> {RiNotSent, RiDispatched}"
    by (simp_all add: failed_store_def failed_attempt_def)
  ultimately show ?thesis
    using finished_attempt_is_permanent [OF sample_fresh sample_run_failed, of "[EvOther]"] by simp
qed

text \<open>
  C38. Recovery after a restart. It succeeds exactly if no attempt in dispatch was created later than the
  current time and, where there is one, the revision is not exhausted. Then no attempt is in dispatch any
  more, every one that was has the outcome unknown, every other attempt is as before, and the answer lists
  the attempts not yet sent in the order of their creation.
\<close>

theorem recovery_settles_dispatched:
  assumes "fresh_store st0" "ri_run ext rx st0 evs st"
  shows "((\<exists>st' resumable. recover_receipt_intelligence_attempts now_ms st = Ok (st', resumable)) \<longleftrightarrow>
      (\<forall>t\<in>set (st_attempts st). at_state t = RiDispatched \<longrightarrow> at_created_at_ms t \<le> now_ms \<and> st_revision st < 9007199254740990))
    \<and> (\<forall>st' resumable. recover_receipt_intelligence_attempts now_ms st = Ok (st', resumable) \<longrightarrow>
        map at_attempt_id (st_attempts st') = map at_attempt_id (st_attempts st)
        \<and> (\<forall>t\<in>set (st_attempts st). at_state t \<noteq> RiDispatched \<longrightarrow> t \<in> set (st_attempts st'))
        \<and> (\<forall>t\<in>set (st_attempts st). at_state t = RiDispatched \<longrightarrow>
             t\<lparr>at_state := RiOutcomeUnknown, at_failure_code := Some FailureOutcomeUnknown, at_finalized_at_ms := Some now_ms\<rparr>
               \<in> set (st_attempts st'))
        \<and> (\<forall>t\<in>set (st_attempts st'). at_state t \<noteq> RiDispatched)
        \<and> resumable = map at_attempt_id (sort_key (\<lambda>r. (at_created_at_ms r, at_attempt_id r))
             (filter (\<lambda>r. at_state r = RiNotSent) (st_attempts st))))"
proof -
  have inv: "ri_inv st" by (rule inv_run [OF assms(2) inv_fresh [OF assms(1)]])
  let ?f = "\<lambda>r. r\<lparr>at_state := RiOutcomeUnknown, at_failure_code := Some FailureOutcomeUnknown, at_finalized_at_ms := Some now_ms\<rparr>"
  have rows: "map at_attempt_id (update_rows (\<lambda>r. at_state r = RiDispatched) ?f rows) = map at_attempt_id rows" for rows
    by (intro map_update_rows) simp
  show ?thesis
    unfolding recover_exact [OF inv] using rows by (auto simp: not_less set_update_rows)
qed

theorem recovery_settles_dispatched_witness:
  "(\<exists>st' resumable. recover_receipt_intelligence_attempts 1700 dispatched_store = Ok (st', resumable))
   \<and> \<not> (\<exists>st' resumable. recover_receipt_intelligence_attempts 900 dispatched_store = Ok (st', resumable))"
proof -
  have "st_attempts dispatched_store = [dispatched_attempt]" "at_state dispatched_attempt = RiDispatched"
    "at_created_at_ms dispatched_attempt = 1000" "st_revision dispatched_store = 2"
    by (simp_all add: dispatched_store_def dispatched_attempt_def sample_attempt_def new_attempt_def)
  then show ?thesis using recovery_settles_dispatched [OF sample_fresh sample_ri_run] by simp
qed

text \<open>
  C39. What is sent is what the user saw: if the check before a reservation finds the consented preview
  unchanged, the projection made of the stored fragments is the disclosed one, fragment by fragment and text
  by text, or the two are different byte strings with the same SHA-256 digest.
\<close>

theorem stored_preview_is_the_consented_one:
  assumes "read_preview ext rx ss request_id source_revision_id bounds = Ok v"
    and "ensure_preview_unchanged (sha256 ext) rfc3339 hyphenated preview v = Ok ()"
    and "scalar_projection (preview_projection v)" "scalar_projection (rd_projection (pv_disclosure preview))"
  shows "preview_projection v = rd_projection (pv_disclosure preview)
    \<or> projection_message (preview_projection v) \<noteq> projection_message (rd_projection (pv_disclosure preview))
      \<and> sha256 ext (projection_message (preview_projection v)) = sha256 ext (projection_message (rd_projection (pv_disclosure preview)))"
proof -
  have ok: "consent_validate_against (sha256 ext) rfc3339 (pv_consent_envelope preview) (pv_disclosure preview) = Ok ()"
    and sha: "vw_projection_sha256 v = cn_projection_sha256 (pv_consent_envelope preview)"
    using assms(2) by (auto simp: ensure_preview_unchanged_def Let_def receipt_preview_validate_def result_simps split: if_splits)
  note consent = consent_accepted [OF ok] and stored = stored_projection_numbered [OF assms(1)]
  have "sha256 ext (projection_message (preview_projection v)) = sha256 ext (projection_message (rd_projection (pv_disclosure preview)))"
    using sha consent(2) stored(2) by (auto simp: projection_sha256_def intro: lower_hex_inject)
  moreover have "preview_projection v = rd_projection (pv_disclosure preview)"
    if "projection_message (preview_projection v) = projection_message (rd_projection (pv_disclosure preview))"
    using projection_message_inject [OF stored(1) assms(3) well_formed_numbered [OF disclosure_accepted(1) [OF consent(1)]] assms(4) that] .
  ultimately show ?thesis by blast
qed

theorem stored_preview_is_the_consented_one_witness:
  "\<exists>v. read_preview sample_ri_ext sample_rx sample_sources sample_uuid sample_uuid sample_bounds = Ok v
     \<and> ensure_preview_unchanged (sha256 sample_ri_ext) sample_rfc3339 (\<lambda>_. lit ''src'') sample_consented v = Ok ()
     \<and> preview_projection v = rd_projection (pv_disclosure sample_consented)"
proof -
  obtain v where v: "read_preview sample_ri_ext sample_rx sample_sources sample_uuid sample_uuid sample_bounds = Ok v"
    "vw_projection_sha256 v = zero_hash" "vw_source_revision_sha256 v = zero_hash" "vw_local_source_id v = lit ''src''"
    "vw_fragments v = [\<lparr>vf_handle = lit ''fragment-0000'', vf_visible_text = lit ''Hat'', vf_byte_length = 3, vf_content_sha256 = zero_hash\<rparr>]"
    using sample_preview by blast
  have same: "ensure_preview_unchanged (sha256 sample_ri_ext) sample_rfc3339 (\<lambda>_. lit ''src'') sample_consented v = Ok ()"
    using v by (intro sample_unchanged) simp_all
  have projections: "preview_projection v = sample_projection (lit ''Hat'')"
    "rd_projection (pv_disclosure sample_consented) = sample_projection (lit ''Hat'')"
    by (simp_all add: preview_projection_def v(5) sample_projection_def sample_consented_def sample_disclosure_def)
  have "scalar_projection (sample_projection (lit ''Hat''))"
    by (simp add: scalar_projection_def scalar_text_def sample_projection_def lit_def)
  then show ?thesis
    using stored_preview_is_the_consented_one [OF v(1) same] v(1) same projections by auto
qed

text \<open>
  C40. A credential that an approval names cannot be removed. Its deletion fails at the foreign key and
  leaves the database as it was, and once it waits for deletion every reconciliation fails, whatever the
  keychain answers and however often it is tried, with the credential still waiting.
\<close>

theorem used_credential_blocks_reconciliation:
  assumes "r \<in> set (db_credentials db)" "cx_status r = PendingDelete"
    and "p \<in> set approvals" "ap_credential_id p = cx_credential_id r"
  shows "(\<exists>s' db' e. reconcile_credentials_restricted approvals api now_ms s db = (s', db', Err e) \<and> r \<in> set (db_credentials db'))
    \<and> (\<forall>env request_id credential_id. env_uuid_text env credential_id = cx_credential_id r
          \<longrightarrow> cx_delete_request_id r = Some (env_uuid_text env request_id)
          \<longrightarrow> finish_credential_delete_restricted approvals env request_id credential_id db = (db, Err Sqlite))"
proof (intro conjI allI impI)
  show "\<exists>s' db' e. reconcile_credentials_restricted approvals api now_ms s db = (s', db', Err e) \<and> r \<in> set (db_credentials db')"
    unfolding reconcile_credentials_restricted_def
    by (rule reconcile_loop_stuck [OF assms pending_delete_listed [OF assms(1,2)]])
  fix env :: credential_env and request_id credential_id
  assume "env_uuid_text env credential_id = cx_credential_id r" "cx_delete_request_id r = Some (env_uuid_text env request_id)"
  then show "finish_credential_delete_restricted approvals env request_id credential_id db = (db, Err Sqlite)"
    using assms by (auto simp: finish_credential_delete_restricted_def restrict_credential_delete_def list_ex_iff Let_def)
qed

theorem used_credential_blocks_reconciliation_witness:
  "\<exists>s' db' e. reconcile_credentials_restricted (st_approvals failed_store) working_keychain 5000 ()
      (empty_database\<lparr>db_credentials := [leaving_credential]\<rparr>) = (s', db', Err e) \<and> leaving_credential \<in> set (db_credentials db')"
proof -
  let ?db = "empty_database\<lparr>db_credentials := [leaving_credential]\<rparr>"
  have "leaving_credential \<in> set (db_credentials ?db)" "cx_status leaving_credential = PendingDelete"
    "sample_approval \<in> set (st_approvals failed_store)" "ap_credential_id sample_approval = cx_credential_id leaving_credential"
    by (simp_all add: leaving_credential_def failed_store_def dispatched_store_def reserved_store_def sample_approval_def
        new_approval_def sample_reservation_def sample_sources_def)
  from used_credential_blocks_reconciliation [OF this, of working_keychain 5000 "()"] show ?thesis by simp
qed

end
