(* ===== verification/Outfit_Contracts.thy ===== *)
theory Outfit_Contracts
  imports Catalog
begin

text \<open>
  The contracts of saved outfits (\<open>outfit.rs\<close>): an outfit is a name and two to eight items with the image
  each was pinned to, and the requests and responses of the three commands on outfits.
\<close>

definition max_outfit_name_chars :: nat where
  "max_outfit_name_chars = 80"

definition min_outfit_members :: nat where
  "min_outfit_members = 2"

definition max_outfit_members :: nat where
  "max_outfit_members = 8"

definition max_page_size :: u16 where
  "max_page_size = 100"

datatype outfit_asset_state = AssetAvailable | AssetMetadataOnly | AssetUnavailable

record outfit_asset =
  oa_state :: outfit_asset_state
  oa_evidence_id :: "uuid option"
  oa_source_id :: "uuid option"
  oa_blob_sha256 :: "rstr option"
  oa_media_type :: "rstr option"
  oa_byte_length :: "u64 option"
  oa_width :: "u32 option"
  oa_height :: "u32 option"

definition asset_complete :: "outfit_asset \<Rightarrow> bool" where
  "asset_complete a \<longleftrightarrow>
     oa_evidence_id a \<noteq> None \<and> oa_source_id a \<noteq> None \<and> oa_blob_sha256 a \<noteq> None
     \<and> oa_media_type a \<in> Some ` {lit ''image/jpeg'', lit ''image/png'', lit ''image/webp''}
     \<and> pred_option (\<lambda>value. value > 0) (oa_byte_length a) \<and> oa_byte_length a \<noteq> None
     \<and> pred_option (\<lambda>value. value > 0) (oa_width a) \<and> oa_width a \<noteq> None
     \<and> pred_option (\<lambda>value. value > 0) (oa_height a) \<and> oa_height a \<noteq> None"

definition asset_empty :: "outfit_asset \<Rightarrow> bool" where
  "asset_empty a \<longleftrightarrow>
     oa_evidence_id a = None \<and> oa_source_id a = None \<and> oa_blob_sha256 a = None \<and> oa_media_type a = None
     \<and> oa_byte_length a = None \<and> oa_width a = None \<and> oa_height a = None"

definition outfit_asset_validate :: "outfit_asset \<Rightarrow> validation" where
  "outfit_asset_validate a =
     (if (oa_state a = AssetAvailable \<and> asset_complete a)
         \<or> (oa_state a \<noteq> AssetAvailable \<and> (asset_complete a \<or> asset_empty a))
      then Ok () else Err (ValidationError Attributes))"

record outfit_member =
  om_ordinal :: u8
  om_item_id :: uuid
  om_item_updated_revision :: u64
  om_attributes :: item_attributes
  om_asset :: outfit_asset

definition outfit_member_validate :: "outfit_member \<Rightarrow> validation" where
  "outfit_member_validate m =
     (if unat (om_ordinal m) \<ge> max_outfit_members \<or> om_item_updated_revision m = 0
         \<or> om_item_updated_revision m \<ge> max_safe_integer_v1
      then Err (ValidationError Collection)
      else all_ok [item_attributes_validate (om_attributes m), outfit_asset_validate (om_asset m)])"

definition validate_name :: "rstr \<Rightarrow> validation" where
  "validate_name value =
     (if trim value = value \<and> value \<noteq> [] \<and> length value \<le> max_outfit_name_chars \<and> \<not> list_ex is_control value
      then Ok () else Err (ValidationError Attributes))"

record outfit =
  ou_outfit_id :: uuid
  ou_name :: rstr
  ou_members :: "outfit_member list"
  ou_created_outfit_revision :: u64

text \<open>\<open>members.iter().enumerate()\<close>: each member is valid and carries its own position.\<close>

definition validate_members :: "outfit_member list \<Rightarrow> validation" where
  "validate_members members =
     all_ok (concat (map (\<lambda>(ordinal, m).
       [outfit_member_validate m, ensure (unat (om_ordinal m) = ordinal) (ValidationError Collection)])
       (enumerate 0 members)))"

definition outfit_validate :: "outfit \<Rightarrow> validation" where
  "outfit_validate o' =
     and_then (validate_name (ou_name o')) (\<lambda>_.
       if length (ou_members o') < min_outfit_members \<or> length (ou_members o') > max_outfit_members
          \<or> ou_created_outfit_revision o' = 0 \<or> ou_created_outfit_revision o' \<ge> max_safe_integer_v1
       then Err (ValidationError Collection)
       else if length (sort_dedup (map om_item_id (ou_members o'))) \<noteq> length (ou_members o')
       then Err (ValidationError Collection)
       else validate_members (ou_members o'))"

record outfit_collage_member =
  oc_member :: outfit_member
  oc_bytes :: "u8 list option"

definition collage_member_validate :: "outfit_collage_member \<Rightarrow> validation" where
  "collage_member_validate c =
     and_then (outfit_member_validate (oc_member c)) (\<lambda>_.
       if (oc_bytes c \<noteq> None) = (oa_state (om_asset (oc_member c)) = AssetAvailable)
       then Ok () else Err (ValidationError Attributes))"

record create_manual_outfit_request =
  co_schema_version :: u8
  co_request_id :: uuid
  co_name :: rstr
  co_item_ids :: "uuid list"
  co_expected_catalog_revision :: u64
  co_expected_outfit_revision :: u64

definition create_manual_outfit_request_validate :: "create_manual_outfit_request \<Rightarrow> validation" where
  "create_manual_outfit_request_validate r =
     and_then (require_schema_v1 (co_schema_version r)) (\<lambda>_.
     and_then (validate_name (co_name r)) (\<lambda>_.
       if length (co_item_ids r) < min_outfit_members \<or> length (co_item_ids r) > max_outfit_members
          \<or> co_expected_catalog_revision r \<ge> max_safe_integer_v1
          \<or> co_expected_outfit_revision r \<ge> max_safe_integer_v1
       then Err (ValidationError Collection)
       else if length (sort_dedup (co_item_ids r)) = length (co_item_ids r)
       then Ok () else Err (ValidationError Collection)))"

record list_outfits_request =
  lo_schema_version :: u8
  lo_request_id :: uuid
  lo_cursor :: "rstr option"
  lo_limit :: u16

definition list_outfits_request_validate :: "list_outfits_request \<Rightarrow> validation" where
  "list_outfits_request_validate r =
     and_then (require_schema_v1 (lo_schema_version r)) (\<lambda>_.
       if 1 \<le> lo_limit r \<and> lo_limit r \<le> max_page_size then Ok () else Err (ValidationError Limit))"

record get_outfit_collage_request =
  gc_schema_version :: u8
  gc_request_id :: uuid
  gc_outfit_id :: uuid

definition get_outfit_collage_request_validate :: "get_outfit_collage_request \<Rightarrow> validation" where
  "get_outfit_collage_request_validate r = require_schema_v1 (gc_schema_version r)"

record create_manual_outfit_response =
  cp_schema_version :: u8
  cp_request_id :: uuid
  cp_outfit :: outfit
  cp_outfit_revision :: u64
  cp_replay_status :: replay_status

definition create_manual_outfit_response_validate :: "create_manual_outfit_response \<Rightarrow> validation" where
  "create_manual_outfit_response_validate r =
     and_then (require_schema_v1 (cp_schema_version r)) (\<lambda>_.
     and_then (outfit_validate (cp_outfit r)) (\<lambda>_.
       if ou_created_outfit_revision (cp_outfit r) = cp_outfit_revision r then Ok ()
       else Err (ValidationError Collection)))"

record list_outfits_response =
  lp_schema_version :: u8
  lp_request_id :: uuid
  lp_outfits :: "outfit list"
  lp_total_count :: u64
  lp_outfit_revision :: u64
  lp_next_cursor :: "rstr option"

definition list_outfits_response_validate :: "list_outfits_response \<Rightarrow> validation" where
  "list_outfits_response_validate r =
     and_then (require_schema_v1 (lp_schema_version r)) (\<lambda>_.
       if length (lp_outfits r) > unat max_page_size \<or> lp_total_count r < of_nat (length (lp_outfits r))
          \<or> lp_outfit_revision r \<ge> max_safe_integer_v1
       then Err (ValidationError Collection)
       else try_for_each outfit_validate (lp_outfits r))"

record get_outfit_collage_response =
  gp_schema_version :: u8
  gp_request_id :: uuid
  gp_outfit_id :: uuid
  gp_name :: rstr
  gp_members :: "outfit_collage_member list"
  gp_outfit_revision :: u64

definition get_outfit_collage_response_validate :: "get_outfit_collage_response \<Rightarrow> validation" where
  "get_outfit_collage_response_validate r =
     and_then (require_schema_v1 (gp_schema_version r)) (\<lambda>_.
     and_then (validate_name (gp_name r)) (\<lambda>_.
       if length (gp_members r) < min_outfit_members \<or> length (gp_members r) > max_outfit_members
          \<or> gp_outfit_revision r \<ge> max_safe_integer_v1
       then Err (ValidationError Collection)
       else all_ok (concat (map (\<lambda>(ordinal, c).
         [collage_member_validate c,
          ensure (unat (om_ordinal (oc_member c)) = ordinal) (ValidationError Collection)])
         (enumerate 0 (gp_members r))))))"

section \<open>What the validators accept\<close>

lemma checks_in_order:
  "all_ok (concat (map (\<lambda>(i, x). [f x, ensure (P i x) e]) (enumerate n xs))) = Ok u \<longleftrightarrow>
     (\<forall>i<length xs. f (xs ! i) = Ok () \<and> P (n + i) (xs ! i))"
proof (induction xs arbitrary: n)
  case (Cons x xs)
  have "all_ok (concat (map (\<lambda>(i, x). [f x, ensure (P i x) e]) (enumerate n (x # xs)))) = Ok u \<longleftrightarrow>
      (f x = Ok () \<and> P n x) \<and> (\<forall>i<length xs. f (xs ! i) = Ok () \<and> P (Suc n + i) (xs ! i))"
    using Cons.IH [of "Suc n"] by (simp add: all_ok_Ok)
  then show ?case by (simp add: All_less_Suc2)
qed simp

lemma validate_members_Ok [result_simps]:
  "validate_members ms = Ok u \<longleftrightarrow>
     (\<forall>i<length ms. outfit_member_validate (ms ! i) = Ok () \<and> unat (om_ordinal (ms ! i)) = i)"
  using checks_in_order [of outfit_member_validate "\<lambda>i m. unat (om_ordinal m) = i" _ 0 ms]
  by (simp add: validate_members_def)

lemma validate_name_Ok [result_simps]:
  "validate_name s = Ok u \<longleftrightarrow> trim s = s \<and> s \<noteq> [] \<and> length s \<le> 80 \<and> (\<forall>c\<in>set s. \<not> is_control c)"
  by (auto simp: validate_name_def max_outfit_name_chars_def list_ex_iff)

lemma outfit_validate_Ok [result_simps]:
  "outfit_validate o' = Ok u \<longleftrightarrow>
     validate_name (ou_name o') = Ok () \<and> 2 \<le> length (ou_members o') \<and> length (ou_members o') \<le> 8
     \<and> 0 < ou_created_outfit_revision o' \<and> ou_created_outfit_revision o' < max_safe_integer_v1
     \<and> distinct (map om_item_id (ou_members o'))
     \<and> (\<forall>i<length (ou_members o'). outfit_member_validate (ou_members o' ! i) = Ok ()
          \<and> unat (om_ordinal (ou_members o' ! i)) = i)"
proof -
  have "length (sort_dedup (map om_item_id (ou_members o'))) = length (ou_members o') \<longleftrightarrow> distinct (map om_item_id (ou_members o'))"
    using sort_dedup_length_iff [of "map om_item_id (ou_members o')"] by simp
  then show ?thesis
    by (auto simp: outfit_validate_def min_outfit_members_def max_outfit_members_def result_simps
        word_neq_0_conv not_le not_less split: if_splits)
qed

end
