(* ===== verification/Outfit_Store.thy ===== *)
theory Outfit_Store
  imports Outfit_Contracts Database_Tables Credential_Service
begin

text \<open>
  Saved outfits: the tables of \<open>migrations/0008_outfits.sql\<close> with the columns they depend on, the repository
  \<open>outfit_repository.rs\<close>, the check of a stored image in \<open>source_image.rs\<close>, and the commands of \<open>service.rs\<close>.

  The record \<open>outfit_env\<close> has what the crates \<open>uuid\<close> and \<open>serde_json\<close> and SQLite's \<open>json_valid\<close> compute;
  \<open>image_env\<close> has the blob store and the decoders of the crate \<open>image\<close>.
\<close>

record outfit_env =
  oe_externals :: externals
  oe_parse_uuid :: "rstr \<Rightarrow> uuid option"
  oe_uuid_text :: "uuid \<Rightarrow> rstr"
  oe_request_json :: "create_manual_outfit_request \<Rightarrow> u8 list"
  oe_attributes_json :: "item_attributes \<Rightarrow> rstr"
  oe_attributes_from_json :: "rstr \<Rightarrow> item_attributes option"
  oe_response_json :: "create_manual_outfit_response \<Rightarrow> rstr"
  oe_response_from_json :: "rstr \<Rightarrow> create_manual_outfit_response option"
  oe_json_valid :: "rstr \<Rightarrow> bool"

section \<open>Stored images\<close>

datatype photo_media_type = ImageJpeg | ImagePng | ImageWebp

datatype photo_quarantine_reason =
    SourceUnavailable | BlobUnavailable | BlobIntegrityFailed | MediaTypeRejected | ImageDecodeFailed
  | ImageAnimated | ImageDimensionLimit

datatype image_format = Jpeg | Png | WebP | OtherFormat

text \<open>
  \<open>ie_store_verify\<close> is \<open>BlobStore::verify\<close> with the recorded length, \<open>ie_read\<close> the bytes of the file it names;
  a decoder that fails is \<open>None\<close>. \<open>ie_dimensions\<close> is \<open>decode_canonical\<close> followed by \<open>dimensions\<close>.
\<close>

record image_env =
  ie_store_verify :: "rstr \<Rightarrow> u64 platform_result"
  ie_read :: "rstr \<Rightarrow> u8 list option"
  ie_guess_format :: "u8 list \<Rightarrow> image_format option"
  ie_is_apng :: "u8 list \<Rightarrow> bool option"
  ie_has_animation :: "u8 list \<Rightarrow> bool option"
  ie_dimensions :: "u8 list \<Rightarrow> image_format \<Rightarrow> (u32 \<times> u32) option"

record verified_source_image =
  vi_bytes :: "u8 list"
  vi_media_type :: photo_media_type
  vi_width :: u32
  vi_height :: u32

definition max_photo_axis :: u32 where
  "max_photo_axis = 16384"

definition max_photo_pixels :: nat where
  "max_photo_pixels = 64 * 1024 * 1024"

definition max_photo_artifact_bytes :: nat where
  "max_photo_artifact_bytes = 40 * 1024 * 1024"

definition accepted_media_type ::
  "image_env \<Rightarrow> u8 list \<Rightarrow> image_format \<Rightarrow> (photo_media_type, photo_quarantine_reason) result" where
  "accepted_media_type im bytes format =
     (case format of
        Jpeg \<Rightarrow> Ok ImageJpeg
      | Png \<Rightarrow> (case ie_is_apng im bytes of None \<Rightarrow> Err ImageDecodeFailed
                | Some True \<Rightarrow> Err ImageAnimated | Some False \<Rightarrow> Ok ImagePng)
      | WebP \<Rightarrow> (case ie_has_animation im bytes of None \<Rightarrow> Err ImageDecodeFailed
                | Some True \<Rightarrow> Err ImageAnimated | Some False \<Rightarrow> Ok ImageWebp)
      | OtherFormat \<Rightarrow> Err MediaTypeRejected)"

definition verify_source_image ::
  "externals \<Rightarrow> image_env \<Rightarrow> rstr \<Rightarrow> u64 \<Rightarrow> (verified_source_image, photo_quarantine_reason) result" where
  "verify_source_image ext im sha expected_length =
     (if expected_length = 0 \<or> unat expected_length > max_photo_artifact_bytes then Err ImageDimensionLimit
      else
        and_then (map_err (\<lambda>error. if error = Io IoNotFound then BlobUnavailable else BlobIntegrityFailed)
          (ie_store_verify im sha)) (\<lambda>byte_length.
        if byte_length \<noteq> expected_length then Err BlobIntegrityFailed
        else and_then (ok_or (ie_read im sha) BlobUnavailable) (\<lambda>bytes.
        if of_nat (length bytes) \<noteq> expected_length \<or> lower_hex (sha256 ext bytes) \<noteq> sha
        then Err BlobIntegrityFailed
        else and_then (ok_or (ie_guess_format im bytes) MediaTypeRejected) (\<lambda>format.
          and_then (accepted_media_type im bytes format) (\<lambda>media_type.
          and_then (ok_or (ie_dimensions im bytes format) ImageDecodeFailed) (\<lambda>(width, height).
          if width = 0 \<or> height = 0 \<or> width > max_photo_axis \<or> height > max_photo_axis
             \<or> unat width * unat height > max_photo_pixels
          then Err ImageDimensionLimit
          else Ok \<lparr>vi_bytes = bytes, vi_media_type = media_type, vi_width = width, vi_height = height\<rparr>))))))"

section \<open>Tables\<close>

record catalog_item_row =
  ci_item_id :: rstr
  ci_attributes_json :: rstr
  ci_active :: bool
  ci_updated_revision :: int

record item_evidence_row =
  ie_item_id :: rstr
  ie_evidence_id :: rstr

record evidence_row =
  ev_evidence_id :: rstr
  ev_source_id :: rstr
  ev_evidence_kind :: rstr
  ev_state :: rstr

record image_source_row =
  ls_source_id :: rstr
  ls_blob_sha256 :: "rstr option"
  ls_byte_length :: "int option"
  ls_status :: rstr

record outfit_row =
  ot_outfit_id :: rstr
  ot_request_id :: rstr
  ot_name :: rstr
  ot_created_outfit_revision :: int
  ot_created_at_ms :: int

record outfit_member_row =
  mb_outfit_id :: rstr
  mb_ordinal :: int
  mb_item_id :: rstr
  mb_item_updated_revision :: int
  mb_attributes_json :: rstr
  mb_asset_state :: rstr
  mb_evidence_id :: "rstr option"
  mb_source_id :: "rstr option"
  mb_blob_sha256 :: "rstr option"
  mb_media_type :: "rstr option"
  mb_byte_length :: "int option"
  mb_width :: "int option"
  mb_height :: "int option"

record outfit_db =
  od_catalog_items :: "catalog_item_row list"
  od_item_evidence :: "item_evidence_row list"
  od_evidence :: "evidence_row list"
  od_local_sources :: "image_source_row list"
  od_blobs :: "rstr list"
  od_catalog_revision :: int
  od_outfit_revision :: int
  od_outfits :: "outfit_row list"
  od_members :: "outfit_member_row list"
  od_receipts :: "receipt_row list"

text \<open>SQLite's \<open>trim\<close> removes spaces only; \<open>GLOB '*[^ -~]*'\<close> finds a character outside printable ASCII.\<close>

definition sql_trim :: "rstr \<Rightarrow> rstr" where
  "sql_trim s = rev (dropWhile (\<lambda>c. c = 32) (rev (dropWhile (\<lambda>c. c = 32) s)))"

definition printable_ascii :: "rstr \<Rightarrow> bool" where
  "printable_ascii s = list_all (\<lambda>c. 32 \<le> c \<and> c \<le> 126) s"

definition max_outfit_revision :: int where
  "max_outfit_revision = 9007199254740990"

text \<open>
  The request id refers to the command receipt with a deferred foreign key; the receipt is inserted later in
  the same transaction.
\<close>

definition insert_outfit :: "outfit_row \<Rightarrow> outfit_db \<Rightarrow> outfit_db platform_result" where
  "insert_outfit row db =
     (if sql_uuid (ot_outfit_id row)
         \<and> 1 \<le> sql_length (ot_name row) \<and> sql_length (ot_name row) \<le> 80
         \<and> ot_name row = sql_trim (ot_name row) \<and> printable_ascii (ot_name row)
         \<and> between 1 max_outfit_revision (ot_created_outfit_revision row) \<and> 0 \<le> ot_created_at_ms row
         \<and> \<not> list_ex (\<lambda>r. ot_outfit_id r = ot_outfit_id row \<or> ot_request_id r = ot_request_id row
              \<or> ot_created_outfit_revision r = ot_created_outfit_revision row) (od_outfits db)
      then Ok (db\<lparr>od_outfits := od_outfits db @ [row]\<rparr>) else Err Sqlite)"

definition null_or :: "('a \<Rightarrow> bool) \<Rightarrow> 'a option \<Rightarrow> bool" where
  "null_or P x = pred_option P x"

definition member_checks :: "outfit_env \<Rightarrow> outfit_member_row \<Rightarrow> bool" where
  "member_checks env r \<longleftrightarrow>
     between 0 7 (mb_ordinal r) \<and> between 1 max_outfit_revision (mb_item_updated_revision r)
     \<and> oe_json_valid env (mb_attributes_json r)
     \<and> null_or (\<lambda>m. m \<in> {lit ''image/jpeg'', lit ''image/png'', lit ''image/webp''}) (mb_media_type r)
     \<and> null_or (between 1 41943040) (mb_byte_length r)
     \<and> null_or (between 1 16384) (mb_width r) \<and> null_or (between 1 16384) (mb_height r)
     \<and> ((mb_asset_state r = lit ''available''
           \<and> mb_evidence_id r \<noteq> None \<and> mb_source_id r \<noteq> None \<and> mb_blob_sha256 r \<noteq> None
           \<and> mb_media_type r \<noteq> None \<and> mb_byte_length r \<noteq> None \<and> mb_width r \<noteq> None \<and> mb_height r \<noteq> None)
        \<or> (mb_asset_state r = lit ''metadata_only''
           \<and> mb_evidence_id r = None \<and> mb_source_id r = None \<and> mb_blob_sha256 r = None
           \<and> mb_media_type r = None \<and> mb_byte_length r = None \<and> mb_width r = None \<and> mb_height r = None))"

definition insert_member_row :: "outfit_env \<Rightarrow> outfit_member_row \<Rightarrow> outfit_db \<Rightarrow> outfit_db platform_result" where
  "insert_member_row env row db =
     (if member_checks env row
         \<and> list_ex (\<lambda>r. ot_outfit_id r = mb_outfit_id row) (od_outfits db)
         \<and> list_ex (\<lambda>r. ci_item_id r = mb_item_id row) (od_catalog_items db)
         \<and> null_or (\<lambda>e. list_ex (\<lambda>r. ev_evidence_id r = e) (od_evidence db)) (mb_evidence_id row)
         \<and> null_or (\<lambda>s. list_ex (\<lambda>r. ls_source_id r = s) (od_local_sources db)) (mb_source_id row)
         \<and> null_or (\<lambda>b. b \<in> set (od_blobs db)) (mb_blob_sha256 row)
         \<and> \<not> list_ex (\<lambda>r. mb_outfit_id r = mb_outfit_id row
              \<and> (mb_ordinal r = mb_ordinal row \<or> mb_item_id r = mb_item_id row)) (od_members db)
      then Ok (db\<lparr>od_members := od_members db @ [row]\<rparr>) else Err Sqlite)"

section \<open>Conversions\<close>

definition to_u64 :: "int \<Rightarrow> string \<Rightarrow> u64 platform_result" where
  "to_u64 value field = (if 0 \<le> value then Ok (of_int value) else Err (Corrupt field))"

definition to_u32 :: "int \<Rightarrow> string \<Rightarrow> u32 platform_result" where
  "to_u32 value field = (if 0 \<le> value \<and> value < 2 ^ 32 then Ok (of_int value) else Err (Corrupt field))"

text \<open>\<open>parse_outfit_id\<close>, \<open>parse_item_id\<close>, \<open>parse_evidence_id\<close> and \<open>parse_source_id\<close> differ in the field only.\<close>

definition parse_id :: "outfit_env \<Rightarrow> rstr \<Rightarrow> string \<Rightarrow> uuid platform_result" where
  "parse_id env value field =
     and_then (ok_or (oe_parse_uuid env value) (Corrupt field)) (\<lambda>parsed. map_err (\<lambda>_. Corrupt field) (id_new parsed))"

definition parse_digest :: "rstr \<Rightarrow> rstr platform_result" where
  "parse_digest value = map_err (\<lambda>_. Corrupt ''blob_sha256'') (sha256_digest_parse value)"

fun media_type :: "photo_media_type \<Rightarrow> rstr" where
  "media_type ImageJpeg = lit ''image/jpeg''"
| "media_type ImagePng = lit ''image/png''"
| "media_type ImageWebp = lit ''image/webp''"

text \<open>\<open>Option<Result<_>>::transpose\<close> after \<open>map\<close>.\<close>

definition map_transpose :: "('a \<Rightarrow> ('b, 'e) result) \<Rightarrow> 'a option \<Rightarrow> ('b option, 'e) result" where
  "map_transpose f x = (case x of None \<Rightarrow> Ok None | Some a \<Rightarrow> and_then (f a) (\<lambda>b. Ok (Some b)))"

section \<open>Pinning an image\<close>

definition metadata_only_asset :: outfit_asset where
  "metadata_only_asset = \<lparr>oa_state = AssetMetadataOnly, oa_evidence_id = None, oa_source_id = None,
     oa_blob_sha256 = None, oa_media_type = None, oa_byte_length = None, oa_width = None, oa_height = None\<rparr>"

text \<open>The rows of the join: evidence, source, digest and length.\<close>

definition item_images :: "outfit_db \<Rightarrow> rstr \<Rightarrow> (rstr \<times> rstr \<times> rstr \<times> int) list" where
  "item_images db item_id =
     [(ev_evidence_id e, ev_source_id e, the (ls_blob_sha256 s), the (ls_byte_length s)).
        ie \<leftarrow> od_item_evidence db, e \<leftarrow> od_evidence db, s \<leftarrow> od_local_sources db,
        ev_evidence_id e = ie_evidence_id ie \<and> ls_source_id s = ev_source_id e \<and> ie_item_id ie = item_id
        \<and> ev_evidence_kind e = lit ''image'' \<and> ev_state e = lit ''assigned'' \<and> ls_status s = lit ''imported''
        \<and> ls_blob_sha256 s \<noteq> None \<and> ls_byte_length s \<noteq> None]"

definition pin_item_asset :: "outfit_env \<Rightarrow> image_env \<Rightarrow> outfit_db \<Rightarrow> uuid \<Rightarrow> outfit_asset platform_result" where
  "pin_item_asset env im db item_id =
     (case first_by (\<lambda>(evidence_id, _, _, _). evidence_id) (item_images db (oe_uuid_text env item_id)) of
        None \<Rightarrow> Ok metadata_only_asset
      | Some (evidence_id, source_id, blob_sha256, byte_length) \<Rightarrow>
          and_then (to_u64 byte_length ''outfit_asset_length'') (\<lambda>expected.
          and_then (map_err (\<lambda>_. Corrupt ''outfit_asset_verification'')
            (verify_source_image (oe_externals env) im blob_sha256 expected)) (\<lambda>image.
          and_then (parse_id env evidence_id ''evidence_id'') (\<lambda>evidence.
          and_then (parse_id env source_id ''source_id'') (\<lambda>source.
          and_then (parse_digest blob_sha256) (\<lambda>digest.
            Ok \<lparr>oa_state = AssetAvailable, oa_evidence_id = Some evidence, oa_source_id = Some source,
                oa_blob_sha256 = Some digest, oa_media_type = Some (media_type (vi_media_type image)),
                oa_byte_length = Some (of_int byte_length), oa_width = Some (vi_width image),
                oa_height = Some (vi_height image)\<rparr>))))))"

definition verify_pinned_asset :: "outfit_env \<Rightarrow> image_env \<Rightarrow> outfit_asset \<Rightarrow> u8 list platform_result" where
  "verify_pinned_asset env im asset =
     and_then (ok_or (oa_blob_sha256 asset) (Corrupt ''outfit_asset_binding'')) (\<lambda>digest.
     and_then (ok_or (oa_byte_length asset) (Corrupt ''outfit_asset_binding'')) (\<lambda>expected_length.
     and_then (map_err (\<lambda>_. Corrupt ''outfit_asset_unavailable'')
       (verify_source_image (oe_externals env) im digest expected_length)) (\<lambda>image.
     if Some (media_type (vi_media_type image)) \<noteq> oa_media_type asset
        \<or> Some (vi_width image) \<noteq> oa_width asset \<or> Some (vi_height image) \<noteq> oa_height asset
     then Err (Corrupt ''outfit_asset_changed'')
     else if vi_bytes image = [] \<or> length (vi_bytes image) > max_photo_artifact_bytes
     then Err (Corrupt ''outfit_asset_bytes'') else Ok (vi_bytes image))))"

section \<open>Creating\<close>

definition create_command :: rstr where
  "create_command = lit ''create_manual_outfit_v1''"

definition replay ::
  "outfit_env \<Rightarrow> create_manual_outfit_request \<Rightarrow> rstr \<Rightarrow> outfit_db \<Rightarrow> create_manual_outfit_response option platform_result" where
  "replay env request envelope_hash db =
     (case find (\<lambda>r. cm_request_id r = oe_uuid_text env (co_request_id request)) (od_receipts db) of
        None \<Rightarrow> Ok None
      | Some r \<Rightarrow>
          if cm_command_name r = create_command \<and> cm_envelope_hash r = envelope_hash
          then and_then (ok_or (oe_response_from_json env (cm_response_json r)) Json) (\<lambda>response. Ok (Some response))
          else Err (Conflict ''outfit_request_reused''))"

definition build_member ::
  "outfit_env \<Rightarrow> image_env \<Rightarrow> outfit_db \<Rightarrow> nat \<times> uuid \<Rightarrow> outfit_member platform_result" where
  "build_member env im db = (\<lambda>(ordinal, item_id).
     and_then (ok_or (find (\<lambda>r. ci_item_id r = oe_uuid_text env item_id \<and> ci_active r) (od_catalog_items db))
       (Conflict ''outfit_item_unavailable'')) (\<lambda>row.
     and_then (ok_or (oe_attributes_from_json env (ci_attributes_json row)) Json) (\<lambda>attributes.
     and_then (map_err (\<lambda>_. Corrupt ''outfit_item_attributes'') (item_attributes_validate attributes)) (\<lambda>_.
     and_then (pin_item_asset env im db item_id) (\<lambda>asset.
     and_then (to_u64 (ci_updated_revision row) ''item_updated_revision'') (\<lambda>updated.
       Ok \<lparr>om_ordinal = of_nat ordinal, om_item_id = item_id, om_item_updated_revision = updated,
           om_attributes = attributes, om_asset = asset\<rparr>))))))"

definition member_row :: "outfit_env \<Rightarrow> rstr \<Rightarrow> outfit_member \<Rightarrow> rstr \<Rightarrow> outfit_member_row" where
  "member_row env outfit_id m state =
     \<lparr>mb_outfit_id = outfit_id, mb_ordinal = uint (om_ordinal m), mb_item_id = oe_uuid_text env (om_item_id m),
      mb_item_updated_revision = sint (om_item_updated_revision m),
      mb_attributes_json = oe_attributes_json env (om_attributes m), mb_asset_state = state,
      mb_evidence_id = map_option (oe_uuid_text env) (oa_evidence_id (om_asset m)),
      mb_source_id = map_option (oe_uuid_text env) (oa_source_id (om_asset m)),
      mb_blob_sha256 = oa_blob_sha256 (om_asset m), mb_media_type = oa_media_type (om_asset m),
      mb_byte_length = map_option sint (oa_byte_length (om_asset m)),
      mb_width = map_option uint (oa_width (om_asset m)), mb_height = map_option uint (oa_height (om_asset m))\<rparr>"

definition insert_member :: "outfit_env \<Rightarrow> rstr \<Rightarrow> outfit_member \<Rightarrow> outfit_db \<Rightarrow> outfit_db platform_result" where
  "insert_member env outfit_id m db =
     (case oa_state (om_asset m) of
        AssetAvailable \<Rightarrow> insert_member_row env (member_row env outfit_id m (lit ''available'')) db
      | AssetMetadataOnly \<Rightarrow> insert_member_row env (member_row env outfit_id m (lit ''metadata_only'')) db
      | AssetUnavailable \<Rightarrow> Err (InvalidInput ''outfit_asset_state''))"

fun insert_members :: "outfit_env \<Rightarrow> rstr \<Rightarrow> outfit_member list \<Rightarrow> outfit_db \<Rightarrow> outfit_db platform_result" where
  "insert_members env outfit_id [] db = Ok db"
| "insert_members env outfit_id (m # ms) db =
     and_then (insert_member env outfit_id m db) (\<lambda>db. insert_members env outfit_id ms db)"

definition create_manual_outfit_impl ::
  "outfit_env \<Rightarrow> image_env \<Rightarrow> int platform_result \<Rightarrow> create_manual_outfit_request \<Rightarrow> outfit_db \<Rightarrow>
   (outfit_db \<times> create_manual_outfit_response) platform_result" where
  "create_manual_outfit_impl env im clock request db =
     and_then (map_err (\<lambda>_. InvalidInput ''outfit_request'') (create_manual_outfit_request_validate request)) (\<lambda>_.
     let envelope_hash = lower_hex (sha256 (oe_externals env) (oe_request_json env request)) in
     and_then (replay env request envelope_hash db) (\<lambda>existing.
     case existing of Some response \<Rightarrow> Ok (db, response\<lparr>cp_replay_status := Replayed\<rparr>)
     | None \<Rightarrow>
         if od_catalog_revision db \<noteq> sint (co_expected_catalog_revision request)
            \<or> od_outfit_revision db \<noteq> sint (co_expected_outfit_revision request)
         then Err (Conflict ''outfit_revision_changed'')
         else
           and_then (try_map (build_member env im db) (enumerate 0 (co_item_ids request))) (\<lambda>members.
           and_then (ok_or (i64_checked_add (od_outfit_revision db) 1) (Corrupt ''outfit_revision_overflow'')) (\<lambda>next_revision.
           let request_text = oe_uuid_text env (co_request_id request);
               outfit_id = stable_id (oe_externals env) (lit ''outfit'') request_text in
           and_then clock (\<lambda>now_ms.
           and_then (insert_outfit \<lparr>ot_outfit_id = outfit_id, ot_request_id = request_text, ot_name = co_name request,
              ot_created_outfit_revision = next_revision, ot_created_at_ms = now_ms\<rparr> db) (\<lambda>db.
           and_then (insert_members env outfit_id members db) (\<lambda>db.
           and_then (ensure (between 0 max_outfit_revision next_revision) Sqlite) (\<lambda>_.
           let db = db\<lparr>od_outfit_revision := next_revision\<rparr> in
           and_then (parse_id env outfit_id ''outfit_id'') (\<lambda>parsed_id.
           let response = \<lparr>cp_schema_version = schema_version_v1, cp_request_id = co_request_id request,
                 cp_outfit = \<lparr>ou_outfit_id = parsed_id, ou_name = co_name request, ou_members = members,
                              ou_created_outfit_revision = of_int next_revision\<rparr>,
                 cp_outfit_revision = of_int next_revision, cp_replay_status = Created\<rparr> in
           and_then (map_err (\<lambda>_. Corrupt ''outfit_response'') (create_manual_outfit_response_validate response)) (\<lambda>_.
           and_then (if list_ex (\<lambda>r. cm_request_id r = request_text) (od_receipts db) then Err Sqlite
              else Ok (db\<lparr>od_receipts := od_receipts db @ [\<lparr>cm_request_id = request_text, cm_command_name = create_command,
                 cm_envelope_hash = envelope_hash, cm_response_json = oe_response_json env response,
                 cm_created_at_ms = now_ms\<rparr>]\<rparr>)) (\<lambda>db.
             Ok (db, response))))))))))))"

section \<open>Reading\<close>

definition load_member :: "outfit_env \<Rightarrow> outfit_member_row \<Rightarrow> outfit_member platform_result" where
  "load_member env row =
     and_then (if mb_asset_state row = lit ''available'' then Ok AssetAvailable
        else if mb_asset_state row = lit ''metadata_only'' then Ok AssetMetadataOnly
        else Err (Corrupt ''outfit_asset_state'')) (\<lambda>state.
     and_then (if 0 \<le> mb_ordinal row \<and> mb_ordinal row < 256 then Ok (of_int (mb_ordinal row) :: u8)
        else Err (Corrupt ''outfit_ordinal'')) (\<lambda>ordinal.
     and_then (parse_id env (mb_item_id row) ''item_id'') (\<lambda>item_id.
     and_then (to_u64 (mb_item_updated_revision row) ''item_updated_revision'') (\<lambda>updated.
     and_then (ok_or (oe_attributes_from_json env (mb_attributes_json row)) Json) (\<lambda>attributes.
     and_then (map_transpose (\<lambda>v. parse_id env v ''evidence_id'') (mb_evidence_id row)) (\<lambda>evidence.
     and_then (map_transpose (\<lambda>v. parse_id env v ''source_id'') (mb_source_id row)) (\<lambda>source.
     and_then (map_transpose parse_digest (mb_blob_sha256 row)) (\<lambda>digest.
     and_then (map_transpose (\<lambda>v. to_u64 v ''outfit_asset_length'') (mb_byte_length row)) (\<lambda>len.
     and_then (map_transpose (\<lambda>v. to_u32 v ''outfit_asset_width'') (mb_width row)) (\<lambda>width.
     and_then (map_transpose (\<lambda>v. to_u32 v ''outfit_asset_height'') (mb_height row)) (\<lambda>height.
       Ok \<lparr>om_ordinal = ordinal, om_item_id = item_id, om_item_updated_revision = updated, om_attributes = attributes,
           om_asset = \<lparr>oa_state = state, oa_evidence_id = evidence, oa_source_id = source, oa_blob_sha256 = digest,
                       oa_media_type = mb_media_type row, oa_byte_length = len, oa_width = width,
                       oa_height = height\<rparr>\<rparr>)))))))))))"

definition load_outfit :: "outfit_env \<Rightarrow> outfit_db \<Rightarrow> rstr \<Rightarrow> outfit platform_result" where
  "load_outfit env db outfit_id =
     and_then (ok_or (find (\<lambda>r. ot_outfit_id r = outfit_id) (od_outfits db)) (InvalidInput ''outfit_id'')) (\<lambda>row.
     and_then (try_map (load_member env)
       (sort_key mb_ordinal (filter (\<lambda>r. mb_outfit_id r = outfit_id) (od_members db)))) (\<lambda>members.
     and_then (parse_id env outfit_id ''outfit_id'') (\<lambda>parsed_id.
     and_then (to_u64 (ot_created_outfit_revision row) ''outfit_revision'') (\<lambda>revision.
     let o' = \<lparr>ou_outfit_id = parsed_id, ou_name = ot_name row, ou_members = members, ou_created_outfit_revision = revision\<rparr> in
     and_then (map_err (\<lambda>_. Corrupt ''outfit_contract'') (outfit_validate o')) (\<lambda>_. Ok o')))))"

definition make_cursor :: "u64 \<Rightarrow> u64 \<Rightarrow> rstr platform_result" where
  "make_cursor revision offset =
     map_err (\<lambda>_. Corrupt ''outfit_cursor'')
       (page_cursor_new (lit ''outfits:'' @ show_digits (unat revision) @ lit '':'' @ show_digits (unat offset)))"

definition parse_u64 :: "rstr \<Rightarrow> u64 option" where
  "parse_u64 s = map_option of_nat (parse_uint (2 ^ 64 - 1) s)"

definition parse_cursor :: "rstr option \<Rightarrow> u64 \<Rightarrow> u64 platform_result" where
  "parse_cursor cursor revision =
     (case cursor of None \<Rightarrow> Ok 0
      | Some text \<Rightarrow>
          (case split_on 58 text of
             [kind, cursor_revision, offset] \<Rightarrow>
               if kind \<noteq> lit ''outfits'' \<or> parse_u64 cursor_revision \<noteq> Some revision
               then Err (Conflict ''outfit_snapshot_expired'')
               else ok_or (parse_u64 offset) (Conflict ''outfit_snapshot_expired'')
           | _ \<Rightarrow> Err (Conflict ''outfit_snapshot_expired'')))"

text \<open>\<open>LIMIT ?1 OFFSET ?2\<close>: the offset is bound as \<open>i64\<close>, and SQLite takes a negative one for zero.\<close>

definition outfit_ids :: "outfit_db \<Rightarrow> rstr list" where
  "outfit_ids db = map ot_outfit_id (sort_key (\<lambda>r. (- ot_created_outfit_revision r, ot_outfit_id r)) (od_outfits db))"

definition list_outfits_impl ::
  "outfit_env \<Rightarrow> list_outfits_request \<Rightarrow> outfit_db \<Rightarrow> list_outfits_response platform_result" where
  "list_outfits_impl env request db =
     and_then (map_err (\<lambda>_. InvalidInput ''outfit_list_request'') (list_outfits_request_validate request)) (\<lambda>_.
     let revision = of_int (od_outfit_revision db) :: u64 in
     and_then (parse_cursor (lo_cursor request) revision) (\<lambda>offset.
     let total_count = length (od_outfits db);
         ids = take (unat (lo_limit request)) (drop (nat (sint offset)) (outfit_ids db)) in
     and_then (try_map (load_outfit env db) ids) (\<lambda>outfits.
     let next_offset = offset + of_nat (length outfits) in
     and_then (if next_offset < of_nat total_count
        then and_then (make_cursor revision next_offset) (\<lambda>c. Ok (Some c)) else Ok None) (\<lambda>next_cursor.
     let response = \<lparr>lp_schema_version = schema_version_v1, lp_request_id = lo_request_id request,
           lp_outfits = outfits, lp_total_count = of_nat total_count, lp_outfit_revision = revision,
           lp_next_cursor = next_cursor\<rparr> in
     and_then (map_err (\<lambda>_. Corrupt ''outfit_list_response'') (list_outfits_response_validate response)) (\<lambda>_.
       Ok response)))))"

definition collage_member :: "outfit_env \<Rightarrow> image_env \<Rightarrow> outfit_member \<Rightarrow> outfit_collage_member" where
  "collage_member env im m =
     (if oa_state (om_asset m) = AssetAvailable
      then (case verify_pinned_asset env im (om_asset m) of
              Ok bytes \<Rightarrow> \<lparr>oc_member = m, oc_bytes = Some bytes\<rparr>
            | Err _ \<Rightarrow> \<lparr>oc_member = m\<lparr>om_asset := (om_asset m)\<lparr>oa_state := AssetUnavailable\<rparr>\<rparr>, oc_bytes = None\<rparr>)
      else \<lparr>oc_member = m, oc_bytes = None\<rparr>)"

definition get_outfit_collage_impl ::
  "outfit_env \<Rightarrow> image_env \<Rightarrow> get_outfit_collage_request \<Rightarrow> outfit_db \<Rightarrow> get_outfit_collage_response platform_result" where
  "get_outfit_collage_impl env im request db =
     and_then (map_err (\<lambda>_. InvalidInput ''outfit_collage_request'') (get_outfit_collage_request_validate request)) (\<lambda>_.
     and_then (load_outfit env db (oe_uuid_text env (gc_outfit_id request))) (\<lambda>o'.
     let response = \<lparr>gp_schema_version = schema_version_v1, gp_request_id = gc_request_id request,
           gp_outfit_id = ou_outfit_id o', gp_name = ou_name o', gp_members = map (collage_member env im) (ou_members o'),
           gp_outfit_revision = of_int (od_outfit_revision db)\<rparr> in
     and_then (map_err (\<lambda>_. Corrupt ''outfit_collage_response'') (get_outfit_collage_response_validate response)) (\<lambda>_.
       Ok response)))"

section \<open>Commands\<close>

datatype outfit_port_error_kind =
    OpUnavailable | OpConflict | OpSnapshotExpired | OpInvalidState | OpDataIntegrity | OpNotFound | OpInternal

definition outfit_port_error :: "platform_error \<Rightarrow> outfit_port_error_kind" where
  "outfit_port_error error =
     (case error of
        Conflict what \<Rightarrow> if what = ''outfit_snapshot_expired'' then OpSnapshotExpired else OpConflict
      | InvalidInput what \<Rightarrow> if what = ''outfit_id'' then OpNotFound else OpInvalidState
      | Unsupported _ \<Rightarrow> OpInvalidState
      | Corrupt _ \<Rightarrow> OpDataIntegrity
      | Io _ \<Rightarrow> OpUnavailable
      | Sqlite \<Rightarrow> OpUnavailable
      | Json \<Rightarrow> OpInternal
      | Keychain _ \<Rightarrow> OpInternal
      | LeaseLost \<Rightarrow> OpInternal)"

fun map_outfit_error :: "outfit_port_error_kind \<Rightarrow> command_error" where
  "map_outfit_error OpConflict = plain_error RequestConflict True RefreshCatalog"
| "map_outfit_error OpSnapshotExpired = plain_error SnapshotExpired True RestartPaging"
| "map_outfit_error OpInvalidState = plain_error InvalidState False RefreshCatalog"
| "map_outfit_error OpUnavailable = plain_error StorageUnavailable True Retry"
| "map_outfit_error OpDataIntegrity = plain_error DataIntegrity False ReviewStorage"
| "map_outfit_error OpNotFound = plain_error NotFound False CorrectRequest"
| "map_outfit_error OpInternal = plain_error Internal True RestartApplication"

definition validate_response_header :: "u8 \<Rightarrow> uuid \<Rightarrow> uuid \<Rightarrow> (unit, command_error) result" where
  "validate_response_header schema_version response_request_id expected_request_id =
     (if schema_version = schema_version_v1 \<and> response_request_id = expected_request_id
      then Ok () else Err internal_data_error)"

definition outfit_command :: "'a platform_result \<Rightarrow> ('a, command_error) result" where
  "outfit_command r = map_err (\<lambda>e. map_outfit_error (outfit_port_error e)) r"

definition create_manual_outfit_v1 ::
  "outfit_env \<Rightarrow> image_env \<Rightarrow> int platform_result \<Rightarrow> create_manual_outfit_request \<Rightarrow> outfit_db \<Rightarrow>
   outfit_db \<times> (create_manual_outfit_response, command_error) result" where
  "create_manual_outfit_v1 env im clock request db =
     (case map_err command_error_of_validation (create_manual_outfit_request_validate request) of
        Err e \<Rightarrow> (db, Err e)
      | Ok _ \<Rightarrow>
          (case outfit_command (create_manual_outfit_impl env im clock request db) of
             Err e \<Rightarrow> (db, Err e)
           | Ok (db', response) \<Rightarrow>
               (db', and_then (validate_response_header (cp_schema_version response) (cp_request_id response)
                        (co_request_id request)) (\<lambda>_.
                     and_then (map_err (\<lambda>_. internal_data_error) (create_manual_outfit_response_validate response)) (\<lambda>_.
                       Ok response)))))"

definition list_outfits_v1 ::
  "outfit_env \<Rightarrow> list_outfits_request \<Rightarrow> outfit_db \<Rightarrow> (list_outfits_response, command_error) result" where
  "list_outfits_v1 env request db =
     and_then (map_err command_error_of_validation (list_outfits_request_validate request)) (\<lambda>_.
     and_then (outfit_command (list_outfits_impl env request db)) (\<lambda>response.
     and_then (validate_response_header (lp_schema_version response) (lp_request_id response) (lo_request_id request)) (\<lambda>_.
       if list_outfits_response_validate response \<noteq> Ok () \<or> length (lp_outfits response) > unat (lo_limit request)
       then Err internal_data_error else Ok response)))"

definition get_outfit_collage_v1 ::
  "outfit_env \<Rightarrow> image_env \<Rightarrow> get_outfit_collage_request \<Rightarrow> outfit_db \<Rightarrow> (get_outfit_collage_response, command_error) result" where
  "get_outfit_collage_v1 env im request db =
     and_then (map_err command_error_of_validation (get_outfit_collage_request_validate request)) (\<lambda>_.
     and_then (outfit_command (get_outfit_collage_impl env im request db)) (\<lambda>response.
     and_then (validate_response_header (gp_schema_version response) (gp_request_id response) (gc_request_id request)) (\<lambda>_.
     and_then (map_err (\<lambda>_. internal_data_error) (get_outfit_collage_response_validate response)) (\<lambda>_.
       Ok response))))"

end
