(* ===== verification/Paging.thy ===== *)
theory Paging
  imports Wardrobe_Prelude
begin

text \<open>
  Listings in pages. A client asks for the first page and follows the cursors it is given; the interface of a
  listing with offsets says what a page holds, and the client then gets every entry once, in order, with the
  fewest requests the page size allows.
\<close>

text \<open>The client: \<open>None\<close> if the given number of requests was not enough.\<close>

fun walk_pages :: "('c option \<Rightarrow> ('x list \<times> 'c option, 'e) result) \<Rightarrow> nat \<Rightarrow> 'c option \<Rightarrow> ('x list, 'e) result option" where
  "walk_pages fetch 0 c = None"
| "walk_pages fetch (Suc n) c =
     (case fetch c of
        Err e \<Rightarrow> Some (Err e)
      | Ok (xs, next) \<Rightarrow>
          (case next of
             None \<Rightarrow> Some (Ok xs)
           | Some c' \<Rightarrow> map_option (\<lambda>r. and_then r (\<lambda>ys. Ok (xs @ ys))) (walk_pages fetch n (Some c'))))"

locale offset_paging =
  fixes inv :: "'s \<Rightarrow> bool"
    and size_of :: "'l \<Rightarrow> nat"
    and valid :: "'l \<Rightarrow> bool"
    and fetch :: "'s \<Rightarrow> 'l \<Rightarrow> 'c option \<Rightarrow> ('x list \<times> 'c option, 'e) result"
    and items :: "'s \<Rightarrow> 'x list"
    and cursor :: "'s \<Rightarrow> nat \<Rightarrow> 'c"
  assumes size_pos: "valid l \<Longrightarrow> 0 < size_of l"
    and first_page: "inv s \<Longrightarrow> valid l \<Longrightarrow> fetch s l None =
      Ok (take (size_of l) (items s), if size_of l < length (items s) then Some (cursor s (size_of l)) else None)"
    and next_page: "inv s \<Longrightarrow> valid l \<Longrightarrow> n < length (items s) \<Longrightarrow> fetch s l (Some (cursor s n)) =
      Ok (take (size_of l) (drop n (items s)),
          if n + size_of l < length (items s) then Some (cursor s (n + size_of l)) else None)"
begin

lemma walk_from:
  assumes "inv s" "valid l"
  shows "n < length (items s) \<Longrightarrow> length (items s) \<le> n + fuel * size_of l \<Longrightarrow>
    walk_pages (fetch s l) fuel (Some (cursor s n)) = Some (Ok (drop n (items s)))"
proof (induction fuel arbitrary: n)
  case (Suc fuel)
  let ?k = "size_of l"
  have page: "fetch s l (Some (cursor s n)) = Ok (take ?k (drop n (items s)),
      if n + ?k < length (items s) then Some (cursor s (n + ?k)) else None)"
    using next_page [OF assms Suc.prems(1)] .
  show ?case
  proof (cases "n + ?k < length (items s)")
    case True
    have "walk_pages (fetch s l) fuel (Some (cursor s (n + ?k))) = Some (Ok (drop (n + ?k) (items s)))"
      using Suc.prems(2) by (intro Suc.IH [OF True]) simp
    moreover have "take ?k (drop n (items s)) @ drop (n + ?k) (items s) = drop n (items s)"
      by (metis append_take_drop_id drop_drop add.commute)
    ultimately show ?thesis using page True by simp
  next
    case False
    then show ?thesis using page by simp
  qed
qed simp

theorem walk_all:
  assumes "inv s" "valid l" "length (items s) \<le> fuel * size_of l" "0 < fuel"
  shows "walk_pages (fetch s l) fuel None = Some (Ok (items s))"
proof -
  let ?k = "size_of l"
  obtain m where m: "fuel = Suc m" using assms(4) by (cases fuel) auto
  have page: "fetch s l None = Ok (take ?k (items s), if ?k < length (items s) then Some (cursor s ?k) else None)"
    using first_page [OF assms(1,2)] .
  show ?thesis
  proof (cases "?k < length (items s)")
    case True
    have "walk_pages (fetch s l) m (Some (cursor s ?k)) = Some (Ok (drop ?k (items s)))"
      using assms(3) m by (intro walk_from [OF assms(1,2) True]) simp
    then show ?thesis using page True m by simp
  next
    case False
    then show ?thesis using page m by simp
  qed
qed

end

end
