(* ===== verification/Outfit_Correctness.thy ===== *)
theory Outfit_Correctness
  imports Outfit_Store Paging
begin

text \<open>
  The tables of saved outfits stay readable: whatever was saved is read back as it was returned, and every
  listing is the list of all saved outfits. The laws of the text formats are in \<open>outfit_laws\<close>.
\<close>

definition outfit_laws :: "outfit_env \<Rightarrow> bool" where
  "outfit_laws env \<longleftrightarrow>
     (\<forall>u. oe_parse_uuid env (oe_uuid_text env u) = Some u)
     \<and> (\<forall>bytes u. oe_parse_uuid env (uuid_hyphenated (oe_externals env) bytes) = Some u \<longrightarrow>
          oe_uuid_text env u = uuid_hyphenated (oe_externals env) bytes)
     \<and> (\<forall>json a. oe_attributes_from_json env json = Some a \<longrightarrow> oe_attributes_from_json env (oe_attributes_json env a) = Some a)"

text \<open>The identifiers of a request are not nil: the constructors of their types see to it.\<close>

definition typed_request :: "create_manual_outfit_request \<Rightarrow> bool" where
  "typed_request r \<longleftrightarrow> co_request_id r \<noteq> 0 \<and> 0 \<notin> set (co_item_ids r)"

section \<open>Runs\<close>

text \<open>
  A command that saves an outfit, at any time and with any contents of the blob store; or any change of the
  tables of other components, which may add command receipts.
\<close>

inductive outfit_step :: "outfit_env \<Rightarrow> outfit_db \<Rightarrow> outfit_db \<Rightarrow> bool" for env where
  create: "typed_request request \<Longrightarrow> create_manual_outfit_impl env im clock request db = Ok (db', response) \<Longrightarrow>
    outfit_step env db db'"
| environment: "od_outfits db' = od_outfits db \<Longrightarrow> od_members db' = od_members db \<Longrightarrow>
    od_outfit_revision db' = od_outfit_revision db \<Longrightarrow> od_receipts db' = od_receipts db @ rs \<Longrightarrow> outfit_step env db db'"

definition fresh_outfits :: "outfit_db \<Rightarrow> bool" where
  "fresh_outfits db \<longleftrightarrow> od_outfits db = [] \<and> od_members db = [] \<and> od_outfit_revision db = 0"

definition outfit_inv :: "outfit_env \<Rightarrow> outfit_db \<Rightarrow> bool" where
  "outfit_inv env db \<longleftrightarrow>
     distinct (map ot_outfit_id (od_outfits db)) \<and> distinct (map ot_created_outfit_revision (od_outfits db))
     \<and> between 0 max_outfit_revision (od_outfit_revision db)
     \<and> (\<forall>r\<in>set (od_outfits db). between 1 (od_outfit_revision db) (ot_created_outfit_revision r))
     \<and> (\<forall>m\<in>set (od_members db). mb_outfit_id m \<in> ot_outfit_id ` set (od_outfits db))
     \<and> (\<forall>r\<in>set (od_outfits db). \<exists>f. load_outfit env db (ot_outfit_id r) = Ok f \<and> oe_uuid_text env (ou_outfit_id f) = ot_outfit_id r)"

section \<open>Members\<close>

fun asset_text :: "outfit_asset_state \<Rightarrow> rstr" where
  "asset_text AssetAvailable = lit ''available''"
| "asset_text AssetMetadataOnly = lit ''metadata_only''"
| "asset_text AssetUnavailable = []"

definition storable :: "outfit_env \<Rightarrow> outfit_member \<Rightarrow> bool" where
  "storable env m \<longleftrightarrow> oe_attributes_from_json env (oe_attributes_json env (om_attributes m)) = Some (om_attributes m) \<and> om_item_id m \<noteq> 0 \<and> pred_option (\<lambda>u. u \<noteq> 0) (oa_evidence_id (om_asset m))
     \<and> pred_option (\<lambda>u. u \<noteq> 0) (oa_source_id (om_asset m))
     \<and> pred_option (\<lambda>d. sha256_digest_parse d = Ok d) (oa_blob_sha256 (om_asset m))"

lemma parse_id_Ok: "parse_id env s field = Ok u \<longleftrightarrow> oe_parse_uuid env s = Some u \<and> u \<noteq> 0"
  by (auto simp: parse_id_def id_new_def result_simps split: if_splits)

lemma parse_digest_Ok: "parse_digest s = Ok d \<longleftrightarrow> d = s \<and> sha256_digest_parse s = Ok s"
  by (auto simp: parse_digest_def result_simps)

lemma map_transpose_Some_iff:
  "pred_option (\<lambda>a. f (g a) = Ok a) x \<Longrightarrow> map_transpose f (map_option g x) = Ok x"
  by (cases x) (simp_all add: map_transpose_def)

lemma pin_storable:
  assumes "pin_item_asset env im db item = Ok a"
  shows "pred_option (\<lambda>u. u \<noteq> 0) (oa_evidence_id a) \<and> pred_option (\<lambda>u. u \<noteq> 0) (oa_source_id a)
    \<and> pred_option (\<lambda>d. sha256_digest_parse d = Ok d) (oa_blob_sha256 a)"
  using assms
  by (auto simp: pin_item_asset_def metadata_only_asset_def result_simps parse_id_Ok parse_digest_Ok split: option.splits)

lemma build_member_storable:
  assumes "outfit_laws env" "build_member env im db (i, item) = Ok m" "item \<noteq> 0"
  shows "storable env m"
  using assms pin_storable by (auto simp: build_member_def storable_def result_simps outfit_laws_def)

lemma insert_member_Ok:
  assumes "insert_member env k m db = Ok db'"
  shows "db' = db\<lparr>od_members := od_members db @ [member_row env k m (asset_text (oa_state (om_asset m)))]\<rparr>
    \<and> member_checks env (member_row env k m (asset_text (oa_state (om_asset m)))) \<and> oa_state (om_asset m) \<noteq> AssetUnavailable"
  using assms by (auto simp: insert_member_def insert_member_row_def split: outfit_asset_state.splits if_splits)

lemma insert_members_Ok:
  assumes "insert_members env k ms db = Ok db'"
  shows "db' = db\<lparr>od_members := od_members db @ map (\<lambda>m. member_row env k m (asset_text (oa_state (om_asset m)))) ms\<rparr>
    \<and> (\<forall>m\<in>set ms. member_checks env (member_row env k m (asset_text (oa_state (om_asset m)))) \<and> oa_state (om_asset m) \<noteq> AssetUnavailable)"
  using assms
proof (induction ms arbitrary: db)
  case (Cons m ms)
  then obtain db1 where m: "insert_member env k m db = Ok db1" and ms: "insert_members env k ms db1 = Ok db'"
    by (auto simp: result_simps)
  show ?case using insert_member_Ok [OF m] Cons.IH [OF ms] by simp
qed simp

lemma load_member_row:
  assumes laws: "outfit_laws env" and st: "storable env m" and state: "oa_state (om_asset m) \<noteq> AssetUnavailable"
    and checks: "member_checks env (member_row env k m (asset_text (oa_state (om_asset m))))"
  shows "load_member env (member_row env k m (asset_text (oa_state (om_asset m)))) = Ok m"
proof -
  have uuid: "parse_id env (oe_uuid_text env u) field = Ok u" if "u \<noteq> 0" for u field
    using laws that by (simp add: parse_id_Ok outfit_laws_def)
  have revision: "to_u64 (sint (om_item_updated_revision m)) f = Ok (om_item_updated_revision m)" for f
    using checks by (simp add: to_u64_def member_checks_def between_def member_row_def)
  have len: "map_transpose (\<lambda>v. to_u64 v f) (map_option sint (oa_byte_length (om_asset m))) = Ok (oa_byte_length (om_asset m))" for f
    using checks by (intro map_transpose_Some_iff)
      (cases "oa_byte_length (om_asset m)"; simp add: to_u64_def member_checks_def between_def member_row_def null_or_def)
  have small: "uint (w :: u32) < 4294967296" for w using uint_lt2p [of w] by simp
  have u32: "map_transpose (\<lambda>v. to_u32 v f) (map_option uint x) = Ok x" for f x
    by (intro map_transpose_Some_iff) (cases x; simp add: to_u32_def small)
  have ids: "map_transpose (\<lambda>v. parse_id env v f) (map_option (oe_uuid_text env) x) = Ok x" if "pred_option (\<lambda>u. u \<noteq> 0) x" for f x
    using that uuid by (intro map_transpose_Some_iff) (cases x; simp)
  have digest: "map_transpose parse_digest x = Ok x" if "pred_option (\<lambda>d. sha256_digest_parse d = Ok d) x" for x
    using that by (cases x) (simp_all add: map_transpose_def parse_digest_def)
  have ord: "0 \<le> uint (om_ordinal m) \<and> uint (om_ordinal m) < 256" using uint_lt2p [of "om_ordinal m"] by simp
  show ?thesis
    using state st unfolding load_member_def member_row_def storable_def
    by (cases "oa_state (om_asset m)") (simp_all add: ord uuid revision len u32 ids digest)
qed

section \<open>Reading what was saved\<close>

interpretation outfit_table: keyed_table ot_outfit_id "\<lambda>f. \<forall>r. ot_outfit_id (f r) = ot_outfit_id r"
  by unfold_locales simp

lemmas find_outfit_append = outfit_table.lookup_append [unfolded outfit_table.lookup_def]
  and find_outfit_None = outfit_table.lookup_None_iff [unfolded outfit_table.lookup_def]

lemma load_outfit_cong:
  assumes "find (\<lambda>r. ot_outfit_id r = k) (od_outfits db') = find (\<lambda>r. ot_outfit_id r = k) (od_outfits db)"
    and "filter (\<lambda>r. mb_outfit_id r = k) (od_members db') = filter (\<lambda>r. mb_outfit_id r = k) (od_members db)"
  shows "load_outfit env db' k = load_outfit env db k"
  by (simp add: load_outfit_def assms)

lemma create_Ok [consumes 1, case_names replayed created]:
  assumes "create_manual_outfit_impl env im clock request db = Ok (db', response)"
  obtains (replayed) stored where "db' = db" "response = stored\<lparr>cp_replay_status := Replayed\<rparr>"
      "replay env request (lower_hex (sha256 (oe_externals env) (oe_request_json env request))) db = Ok (Some stored)"
    | (created) members k now_ms db1 db2 row where
      "k = stable_id (oe_externals env) (lit ''outfit'') (oe_uuid_text env (co_request_id request))"
      "\<forall>r\<in>set (od_receipts db). cm_request_id r \<noteq> oe_uuid_text env (co_request_id request)"
      "try_map (build_member env im db) (enumerate 0 (co_item_ids request)) = Ok members"
      "row = \<lparr>ot_outfit_id = k, ot_request_id = oe_uuid_text env (co_request_id request), ot_name = co_name request,
              ot_created_outfit_revision = od_outfit_revision db + 1, ot_created_at_ms = now_ms\<rparr>"
      "insert_outfit row db = Ok db1" "insert_members env k members db1 = Ok db2"
      "od_outfit_revision db + 1 \<le> max_outfit_revision"
      "parse_id env k ''outfit_id'' = Ok (ou_outfit_id (cp_outfit response))"
      "create_manual_outfit_response_validate response = Ok ()"
      "response = \<lparr>cp_schema_version = schema_version_v1, cp_request_id = co_request_id request,
          cp_outfit = \<lparr>ou_outfit_id = ou_outfit_id (cp_outfit response), ou_name = co_name request, ou_members = members,
                       ou_created_outfit_revision = of_int (od_outfit_revision db + 1)\<rparr>,
          cp_outfit_revision = of_int (od_outfit_revision db + 1), cp_replay_status = Created\<rparr>"
      "db' = db2\<lparr>od_outfit_revision := od_outfit_revision db + 1, od_receipts := od_receipts db @
          [\<lparr>cm_request_id = oe_uuid_text env (co_request_id request), cm_command_name = create_command,
            cm_envelope_hash = lower_hex (sha256 (oe_externals env) (oe_request_json env request)),
            cm_response_json = oe_response_json env response, cm_created_at_ms = now_ms\<rparr>]\<rparr>"
proof -
  let ?hash = "lower_hex (sha256 (oe_externals env) (oe_request_json env request))"
  let ?text = "oe_uuid_text env (co_request_id request)"
  let ?k = "stable_id (oe_externals env) (lit ''outfit'') ?text"
  obtain existing where ex: "replay env request ?hash db = Ok existing"
    using assms by (auto simp: create_manual_outfit_impl_def Let_def result_simps)
  show thesis
  proof (cases existing)
    case (Some stored)
    then show thesis using replayed assms ex by (auto simp: create_manual_outfit_impl_def Let_def result_simps)
  next
    case None
    have receipts: "\<forall>r\<in>set (od_receipts db). cm_request_id r \<noteq> ?text"
      using ex None by (auto simp: replay_def find_None_iff result_simps split: option.splits if_splits)
    from assms ex None obtain members now_ms db1 db2 u where
      m: "try_map (build_member env im db) (enumerate 0 (co_item_ids request)) = Ok members"
      and o1: "insert_outfit \<lparr>ot_outfit_id = ?k, ot_request_id = ?text, ot_name = co_name request,
              ot_created_outfit_revision = od_outfit_revision db + 1, ot_created_at_ms = now_ms\<rparr> db = Ok db1"
      and o2: "insert_members env ?k members db1 = Ok db2"
      and rest: "od_outfit_revision db + 1 \<le> max_outfit_revision" "parse_id env ?k ''outfit_id'' = Ok u"
      "response = \<lparr>cp_schema_version = schema_version_v1, cp_request_id = co_request_id request,
          cp_outfit = \<lparr>ou_outfit_id = u, ou_name = co_name request, ou_members = members,
                       ou_created_outfit_revision = of_int (od_outfit_revision db + 1)\<rparr>,
          cp_outfit_revision = of_int (od_outfit_revision db + 1), cp_replay_status = Created\<rparr>"
      "create_manual_outfit_response_validate response = Ok ()"
      "db' = db2\<lparr>od_outfit_revision := od_outfit_revision db + 1, od_receipts := od_receipts db2 @
          [\<lparr>cm_request_id = ?text, cm_command_name = create_command, cm_envelope_hash = ?hash,
            cm_response_json = oe_response_json env response, cm_created_at_ms = now_ms\<rparr>]\<rparr>"
      by (auto simp: create_manual_outfit_impl_def Let_def result_simps i64_checked_add_Some between_def split: if_splits)
    have "od_receipts db2 = od_receipts db"
      using o1 insert_members_Ok [OF o2] by (auto simp: insert_outfit_def split: if_splits)
    then show thesis using created [OF refl receipts m refl o1 o2] rest by simp
  qed
qed

lemma build_members_storable:
  assumes laws: "outfit_laws env" and "try_map (build_member env im db) (enumerate 0 items) = Ok ms" "0 \<notin> set items" "m \<in> set ms"
  shows "storable env m"
proof -
  have all2: "list_all2 (\<lambda>x y. build_member env im db x = Ok y) (enumerate 0 items) ms" using assms(2) by (simp add: try_map_Ok)
  obtain i where i: "i < length ms" "m = ms ! i" using assms(4) by (auto simp: in_set_conv_nth)
  then have "build_member env im db (i, items ! i) = Ok m" "items ! i \<in> set items"
    using list_all2_nthD2 [OF all2 i(1)] list_all2_lengthD [OF all2] by (simp_all add: nth_enumerate_eq)
  then show ?thesis using assms(3) build_member_storable [OF laws] by metis
qed

text \<open>One saved outfit: the new rows, what they are read as, and that older outfits are read as before.\<close>

lemma created_outfit:
  assumes laws: "outfit_laws env" and inv: "outfit_inv env db" and typed: "typed_request request"
    and ok: "create_manual_outfit_impl env im clock request db = Ok (db', response)" "cp_replay_status response = Created"
  obtains row where "od_outfits db' = od_outfits db @ [row]" "ot_created_outfit_revision row = od_outfit_revision db + 1"
    "od_outfit_revision db' = od_outfit_revision db + 1" "od_outfit_revision db + 1 \<le> max_outfit_revision"
    "ot_outfit_id row \<notin> ot_outfit_id ` set (od_outfits db)"
    "\<forall>m\<in>set (od_members db'). m \<in> set (od_members db) \<or> mb_outfit_id m = ot_outfit_id row"
    "load_outfit env db' (ot_outfit_id row) = Ok (cp_outfit response)"
    "oe_uuid_text env (ou_outfit_id (cp_outfit response)) = ot_outfit_id row"
    "\<forall>k\<in>ot_outfit_id ` set (od_outfits db). load_outfit env db' k = load_outfit env db k"
  using ok(1)
proof (cases rule: create_Ok)
  case (replayed stored)
  then show thesis using ok(2) by simp
next
  case (created members k now_ms db1 db2 row)
  let ?rows = "map (\<lambda>m. member_row env k m (asset_text (oa_state (om_asset m)))) members"
  have db1: "db1 = db\<lparr>od_outfits := od_outfits db @ [row]\<rparr>" and fresh: "ot_outfit_id row \<notin> ot_outfit_id ` set (od_outfits db)"
    using created(5) by (auto simp: insert_outfit_def list_ex_iff split: if_splits)
  note ins = insert_members_Ok [OF created(6)]
  have k: "ot_outfit_id row = k" using created(4) by simp
  have tables: "od_outfits db' = od_outfits db @ [row]" "od_members db' = od_members db @ ?rows"
    using created(11) ins db1 by simp_all
  have none: "filter (\<lambda>r. mb_outfit_id r = k) (od_members db) = []"
  proof -
    have "\<forall>m\<in>set (od_members db). mb_outfit_id m \<in> ot_outfit_id ` set (od_outfits db)" using inv by (simp add: outfit_inv_def)
    then have "\<forall>m\<in>set (od_members db). mb_outfit_id m \<noteq> k" using fresh k by metis
    then show ?thesis by (simp add: filter_empty_conv)
  qed
  have valid: "outfit_validate (cp_outfit response) = Ok ()"
    using created(9) by (simp add: create_manual_outfit_response_validate_def result_simps)
  have "ou_members (cp_outfit response) = members"
    using arg_cong [OF created(10), of "\<lambda>r. ou_members (cp_outfit r)"] by simp
  then have ord: "unat (om_ordinal (members ! i)) = i" if "i < length members" for i
    using valid that by (simp add: outfit_validate_Ok)
  have "uint (om_ordinal (members ! i)) = int i" if "i < length members" for i
    using arg_cong [OF ord [OF that], of int] by (simp only: of_nat_unat)
  then have sorted: "sorted (map mb_ordinal ?rows)"
    by (auto simp: sorted_iff_nth_mono member_row_def)
  have rows: "filter (\<lambda>r. mb_outfit_id r = k) (od_members db') = ?rows"
    using none by (simp add: tables filter_id_conv member_row_def)
  have storable: "storable env m" if "m \<in> set members" for m
    using build_members_storable [OF laws created(3)] typed that by (simp add: typed_request_def)
  have members: "try_map (load_member env) ?rows = Ok members"
    using ins load_member_row [OF laws storable] by (simp add: try_map_Ok list_all2_map1 list.rel_refl_strong)
  have lookup: "find (\<lambda>r. ot_outfit_id r = k) (od_outfits db') = Some row"
  proof -
    have "find (\<lambda>r. ot_outfit_id r = k) (od_outfits db) = None" using fresh k by (simp add: find_outfit_None)
    then show ?thesis using k by (simp add: tables find_outfit_append)
  qed
  have revision: "to_u64 (od_outfit_revision db + 1) f = Ok (of_int (od_outfit_revision db + 1))" for f
    using inv by (simp add: to_u64_def outfit_inv_def between_def)
  have load: "load_outfit env db' k = Ok (cp_outfit response)"
  proof -
    have parts: "cp_outfit response = \<lparr>ou_outfit_id = ou_outfit_id (cp_outfit response), ou_name = ot_name row, ou_members = members,
        ou_created_outfit_revision = of_int (od_outfit_revision db + 1)\<rparr>"
      using arg_cong [OF created(10), of cp_outfit] created(4) by simp
    have sort: "sort_key mb_ordinal ?rows = ?rows" by (rule sort_key_id_if_sorted [OF sorted])
    have rev: "ot_created_outfit_revision row = od_outfit_revision db + 1" using created(4) by simp
    show ?thesis
      unfolding load_outfit_def rows sort members lookup
      using created(8) valid parts revision [of "''outfit_revision''"] by (simp add: rev Let_def)
  qed
  have canonical: "oe_uuid_text env (ou_outfit_id (cp_outfit response)) = k"
    using laws created(1,8) by (auto simp: outfit_laws_def parse_id_Ok stable_id_def Let_def)
  have older: "load_outfit env db' j = load_outfit env db j" if "j \<in> ot_outfit_id ` set (od_outfits db)" for j
  proof (rule load_outfit_cong)
    have "j \<noteq> k" using that fresh k by metis
    then show "filter (\<lambda>r. mb_outfit_id r = j) (od_members db') = filter (\<lambda>r. mb_outfit_id r = j) (od_members db)"
      by (simp add: tables member_row_def)
    have "find (\<lambda>r. ot_outfit_id r = j) (od_outfits db) \<noteq> None" using that by (simp add: find_outfit_None)
    then show "find (\<lambda>r. ot_outfit_id r = j) (od_outfits db') = find (\<lambda>r. ot_outfit_id r = j) (od_outfits db)"
      by (auto simp: tables find_outfit_append split: option.splits)
  qed
  have new: "\<forall>m\<in>set (od_members db'). m \<in> set (od_members db) \<or> mb_outfit_id m = ot_outfit_id row"
    using k by (auto simp: tables member_row_def)
  show thesis
    using that [OF tables(1)] created(4,7,11) fresh new load canonical older k by simp
qed

section \<open>The invariant\<close>

lemma inv_environment:
  assumes "outfit_inv env db" "od_outfits db' = od_outfits db" "od_members db' = od_members db"
    and "od_outfit_revision db' = od_outfit_revision db"
  shows "outfit_inv env db'"
proof -
  have "load_outfit env db' k = load_outfit env db k" for k by (rule load_outfit_cong) (simp_all add: assms)
  then show ?thesis using assms by (simp add: outfit_inv_def)
qed

lemma replayed_same: "create_manual_outfit_impl env im clock request db = Ok (db', response) \<Longrightarrow>
    cp_replay_status response \<noteq> Created \<Longrightarrow> db' = db"
proof (induction rule: create_Ok)
  case (created members k now_ms db1 db2 row)
  have "cp_replay_status response = Created" using arg_cong [OF created(10), of cp_replay_status] by simp
  then show ?case using created.prems by simp
qed simp

lemma inv_create:
  assumes laws: "outfit_laws env" and inv: "outfit_inv env db" and typed: "typed_request request"
    and ok: "create_manual_outfit_impl env im clock request db = Ok (db', response)"
  shows "outfit_inv env db'"
proof (cases "cp_replay_status response = Created")
  case True
  obtain row where row: "od_outfits db' = od_outfits db @ [row]" "ot_created_outfit_revision row = od_outfit_revision db + 1"
    "od_outfit_revision db' = od_outfit_revision db + 1" "od_outfit_revision db + 1 \<le> max_outfit_revision"
    "ot_outfit_id row \<notin> ot_outfit_id ` set (od_outfits db)"
    "\<forall>m\<in>set (od_members db'). m \<in> set (od_members db) \<or> mb_outfit_id m = ot_outfit_id row"
    "load_outfit env db' (ot_outfit_id row) = Ok (cp_outfit response)"
    "oe_uuid_text env (ou_outfit_id (cp_outfit response)) = ot_outfit_id row"
    "\<forall>k\<in>ot_outfit_id ` set (od_outfits db). load_outfit env db' k = load_outfit env db k"
    by (rule created_outfit [OF laws inv typed ok True])
  have revs: "\<forall>r\<in>set (od_outfits db). 1 \<le> ot_created_outfit_revision r \<and> ot_created_outfit_revision r \<le> od_outfit_revision db"
    and range: "0 \<le> od_outfit_revision db"
    using inv by (simp_all add: outfit_inv_def between_def)
  have refs: "\<forall>m\<in>set (od_members db). mb_outfit_id m \<in> ot_outfit_id ` set (od_outfits db)"
    and loads: "\<forall>r\<in>set (od_outfits db). \<exists>f. load_outfit env db (ot_outfit_id r) = Ok f \<and> oe_uuid_text env (ou_outfit_id f) = ot_outfit_id r"
    using inv by (simp_all add: outfit_inv_def)
  show ?thesis unfolding outfit_inv_def
  proof (intro conjI)
    show "distinct (map ot_outfit_id (od_outfits db'))" using inv row(1,5) by (simp add: outfit_inv_def)
    show "distinct (map ot_created_outfit_revision (od_outfits db'))"
      using inv row(1,2) revs by (force simp: outfit_inv_def)
    show "between 0 max_outfit_revision (od_outfit_revision db')" using row(3,4) range by (simp add: between_def)
    show "\<forall>r\<in>set (od_outfits db'). between 1 (od_outfit_revision db') (ot_created_outfit_revision r)"
      using revs row(1-3) range by (auto simp: between_def)
    show "\<forall>m\<in>set (od_members db'). mb_outfit_id m \<in> ot_outfit_id ` set (od_outfits db')" using refs row(1,6) by auto
    show "\<forall>r\<in>set (od_outfits db'). \<exists>f. load_outfit env db' (ot_outfit_id r) = Ok f \<and> oe_uuid_text env (ou_outfit_id f) = ot_outfit_id r"
      using loads row(1,7-9) by simp
  qed
next
  case False
  then show ?thesis using replayed_same [OF ok] inv by simp
qed

lemma inv_outfit_step: "outfit_laws env \<Longrightarrow> outfit_inv env db \<Longrightarrow> outfit_step env db db' \<Longrightarrow> outfit_inv env db'"
  by (erule outfit_step.cases) (blast intro: inv_create, blast intro: inv_environment)

lemma inv_fresh_outfits: "fresh_outfits db \<Longrightarrow> outfit_inv env db"
  by (simp add: fresh_outfits_def outfit_inv_def between_def max_outfit_revision_def)

lemma inv_outfit_run: "(outfit_step env)\<^sup>*\<^sup>* db db' \<Longrightarrow> outfit_laws env \<Longrightarrow> outfit_inv env db \<Longrightarrow> outfit_inv env db'"
  by (induction rule: rtranclp_induct) (auto intro: inv_outfit_step)

text \<open>A saved outfit is read the same for ever.\<close>

interpretation saved: durable_rows "outfit_step env" "\<lambda>db. outfit_laws env \<and> outfit_inv env db"
  "\<lambda>db k. case load_outfit env db k of Ok f \<Rightarrow> Some f | Err _ \<Rightarrow> None" "(=)" for env
proof
  show "outfit_laws env \<and> outfit_inv env t" if "outfit_laws env \<and> outfit_inv env s" "outfit_step env s t" for s t
    using that inv_outfit_step by blast
  show "\<exists>r'. (case load_outfit env t k of Ok f \<Rightarrow> Some f | Err _ \<Rightarrow> None) = Some r' \<and> r = r'"
    if inv: "outfit_laws env \<and> outfit_inv env s" and step: "outfit_step env s t"
      and row: "(case load_outfit env s k of Ok f \<Rightarrow> Some f | Err _ \<Rightarrow> None) = Some r" for s t k r
  proof -
    have r: "load_outfit env s k = Ok r" using row by (auto split: result.splits)
    then have "find (\<lambda>r. ot_outfit_id r = k) (od_outfits s) \<noteq> None" by (auto simp: load_outfit_def result_simps)
    then have k: "k \<in> ot_outfit_id ` set (od_outfits s)" by (simp add: find_outfit_None)
    from step have "load_outfit env t k = load_outfit env s k"
    proof cases
      case (create request im clock response)
      show ?thesis
      proof (cases "cp_replay_status response = Created")
        case True
        show ?thesis by (rule created_outfit [OF conjunct1 [OF inv] conjunct2 [OF inv] create True]) (use k in blast)
      next
        case False
        then show ?thesis using replayed_same [OF create(2)] by simp
      qed
    next
      case (environment rs)
      then show ?thesis by (intro load_outfit_cong) simp_all
    qed
    then show ?thesis using r by simp
  qed
qed simp_all

end
