(* ===== verification/Outfit_Listing.thy ===== *)
theory Outfit_Listing
  imports Outfit_Correctness
begin

text \<open>
  The listing of saved outfits, page by page: the cursor texts are read back, a page is a slice of the listing,
  and the interface of \<open>Paging\<close> holds of the command.
\<close>

definition saved_outfits :: "outfit_env \<Rightarrow> outfit_db \<Rightarrow> outfit list" where
  "saved_outfits env db = (case try_map (load_outfit env db) (outfit_ids db) of Ok xs \<Rightarrow> xs | Err _ \<Rightarrow> [])"

definition fetch_outfits ::
  "outfit_env \<Rightarrow> outfit_db \<Rightarrow> u16 \<Rightarrow> rstr option \<Rightarrow> (outfit list \<times> rstr option, command_error) result" where
  "fetch_outfits env db limit cursor =
     and_then (list_outfits_v1 env \<lparr>lo_schema_version = 1, lo_request_id = 1, lo_cursor = cursor, lo_limit = limit\<rparr> db)
       (\<lambda>r. Ok (lp_outfits r, lp_next_cursor r))"

definition valid_limit :: "u16 \<Rightarrow> bool" where
  "valid_limit limit \<longleftrightarrow> 1 \<le> limit \<and> limit \<le> max_page_size"

definition outfit_cursor :: "outfit_db \<Rightarrow> nat \<Rightarrow> rstr" where
  "outfit_cursor db n = lit ''outfits:'' @ show_digits (nat (od_outfit_revision db)) @ lit '':'' @ show_digits n"

section \<open>Words\<close>

lemma sint_of_nat_small: "n < 2 ^ 63 \<Longrightarrow> sint (of_nat n :: u64) = int n"
  by (simp add: signed_of_nat signed_take_bit_int_eq_self)

lemma of_nat_less_small: "a < 2 ^ 64 \<Longrightarrow> b < 2 ^ 64 \<Longrightarrow> (of_nat a :: u64) < of_nat b \<longleftrightarrow> a < b"
  by (simp add: of_nat_word_less_iff take_bit_nat_eq_self)

lemma unat_of_nat_small: "a < 2 ^ 64 \<Longrightarrow> unat (of_nat a :: u64) = a"
  by (simp add: unat_of_nat take_bit_nat_eq_self)

section \<open>Cursors\<close>

lemma show_digits_fits: "0 < k \<Longrightarrow> n < 10 ^ k \<Longrightarrow> length (show_digits n) \<le> k"
proof (induction n arbitrary: k rule: show_digits.induct)
  case (1 n)
  show ?case
  proof (cases "n < 10")
    case True
    then show ?thesis using 1(2) by (subst show_digits.simps) simp
  next
    case False
    then obtain j where k: "k = Suc j" "0 < j" using 1(2,3) by (cases k; cases "k - 1") auto
    have "n div 10 < 10 ^ j" using 1(3) k(1) by (simp add: less_mult_imp_div_less mult.commute)
    then have "length (show_digits (n div 10)) \<le> j" using 1(1) False k(2) by blast
    then show ?thesis using False k(1) by (subst show_digits.simps) simp
  qed
qed

lemma digits_plain: "58 \<notin> set (show_digits n)" "\<not> list_ex is_control (show_digits n)" "is_ascii (show_digits n)"
  using show_digits_ascii_digits [of n] by (auto simp: list_all_iff list_ex_iff char_class_defs is_ascii_def)

lemma make_cursor_Ok:
  assumes "r < 2 ^ 64" "n < 2 ^ 64"
  shows "make_cursor (of_nat r) (of_nat n) = Ok (lit ''outfits:'' @ show_digits r @ lit '':'' @ show_digits n)"
proof -
  have "length (show_digits r) \<le> 20" "length (show_digits n) \<le> 20"
    using assms by (intro show_digits_fits; simp)+
  then show ?thesis
    using assms digits_plain
    by (simp add: make_cursor_def page_cursor_new_def validate_opaque_def unat_of_nat_small)
      (simp add: lit_def is_control_def)
qed

lemma parse_cursor_Ok:
  assumes "r < 2 ^ 64" "n < 2 ^ 64"
  shows "parse_cursor (Some (lit ''outfits:'' @ show_digits r @ lit '':'' @ show_digits n)) (of_nat r) = Ok (of_nat n)"
proof -
  have colon: "lit ''outfits:'' = lit ''outfits'' @ [58]" "lit '':'' = [58]" by (simp_all add: lit_def)
  have "58 \<notin> set (lit ''outfits'')" by (simp add: lit_def)
  then have "split_on 58 (lit ''outfits:'' @ show_digits r @ lit '':'' @ show_digits n) = [lit ''outfits'', show_digits r, show_digits n]"
    using digits_plain(1) by (simp add: colon split_on_append_sep split_on_no_sep)
  moreover have "parse_u64 (show_digits m) = Some (of_nat m)" if "m < 2 ^ 64" for m
    using that by (simp add: parse_u64_def parse_uint_show)
  ultimately show ?thesis using assms by (simp add: parse_cursor_def)
qed

section \<open>The listing\<close>

lemma outfit_count:
  assumes "outfit_inv env db"
  shows "length (od_outfits db) \<le> nat (od_outfit_revision db)" "od_outfit_revision db \<le> 9007199254740990" "0 \<le> od_outfit_revision db"
proof -
  let ?revs = "map ot_created_outfit_revision (od_outfits db)"
  have "set ?revs \<subseteq> {1..od_outfit_revision db}" using assms by (auto simp: outfit_inv_def between_def)
  then have "card (set ?revs) \<le> nat (od_outfit_revision db)"
    using card_mono [of "{1..od_outfit_revision db}" "set ?revs"] by simp
  moreover have "distinct ?revs" using assms by (simp add: outfit_inv_def)
  ultimately show "length (od_outfits db) \<le> nat (od_outfit_revision db)" using distinct_card [of ?revs] by simp
  show "od_outfit_revision db \<le> 9007199254740990" "0 \<le> od_outfit_revision db"
    using assms by (simp_all add: outfit_inv_def between_def max_outfit_revision_def)
qed

lemma revision_is_safe:
  assumes "outfit_inv env db"
  shows "\<not> (of_int (od_outfit_revision db) :: u64) \<ge> max_safe_integer_v1"
proof -
  let ?rev = "nat (od_outfit_revision db)"
  note count = outfit_count [OF assms]
  have "(of_int (od_outfit_revision db) :: u64) = of_nat ?rev" using count by simp
  moreover have "unat (of_nat ?rev :: u64) = ?rev" using count by (intro unat_of_nat_small) simp
  moreover have "unat max_safe_integer_v1 = 9007199254740991" by (simp add: max_safe_integer_v1_def)
  moreover have "?rev < 9007199254740991" using count by linarith
  ultimately show ?thesis by (simp only: word_le_nat_alt)
qed

lemma saved_outfits_all2:
  assumes "outfit_inv env db"
  shows "list_all2 (\<lambda>k f. load_outfit env db k = Ok f) (outfit_ids db) (saved_outfits env db)"
proof -
  have "\<exists>f. load_outfit env db k = Ok f" if "k \<in> set (outfit_ids db)" for k
    using assms that by (auto simp: outfit_inv_def outfit_ids_def)
  then have "load_outfit env db k = Ok (SOME f. load_outfit env db k = Ok f)" if "k \<in> set (outfit_ids db)" for k
    using someI_ex [of "\<lambda>f. load_outfit env db k = Ok f"] that by blast
  then have "try_map (load_outfit env db) (outfit_ids db) = Ok (map (\<lambda>k. SOME f. load_outfit env db k = Ok f) (outfit_ids db))"
    by (intro try_map_Ok_map) blast
  then show ?thesis by (simp add: saved_outfits_def flip: try_map_Ok)
qed

lemma loaded_valid: "load_outfit env db k = Ok f \<Longrightarrow> outfit_validate f = Ok ()"
  by (auto simp: load_outfit_def Let_def result_simps)

lemma saved_length: "outfit_inv env db \<Longrightarrow> length (saved_outfits env db) = length (od_outfits db)"
  using list_all2_lengthD [OF saved_outfits_all2] by (simp add: outfit_ids_def)

lemma saved_valid: "outfit_inv env db \<Longrightarrow> f \<in> set (saved_outfits env db) \<Longrightarrow> outfit_validate f = Ok ()"
  using saved_outfits_all2 [of env db] by (auto simp: in_set_conv_nth list_all2_conv_all_nth intro: loaded_valid)

lemma page_of_listing:
  assumes inv: "outfit_inv env db" and limit: "valid_limit limit" and n: "n \<le> length (saved_outfits env db)"
    and cursor: "parse_cursor c (of_int (od_outfit_revision db)) = Ok (of_nat n)"
  shows "fetch_outfits env db limit c = Ok (take (unat limit) (drop n (saved_outfits env db)),
    if n + unat limit < length (saved_outfits env db) then Some (outfit_cursor db (n + unat limit)) else None)"
proof -
  let ?all = "saved_outfits env db" and ?k = "unat limit"
  define page where "page = take ?k (drop n ?all)"
  let ?rev = "nat (od_outfit_revision db)"
  note count = outfit_count [OF inv]
  have total: "length ?all \<le> 9007199254740990" using count saved_length [OF inv] by simp
  have k: "1 \<le> ?k" "?k \<le> 100" using limit by (simp_all add: valid_limit_def max_page_size_def word_le_nat_alt)
  have rev: "(of_int (od_outfit_revision db) :: u64) = of_nat ?rev" "?rev < 2 ^ 64" using count by simp_all
  have load: "try_map (load_outfit env db) (take ?k (drop n (outfit_ids db))) = Ok page"
    using saved_outfits_all2 [OF inv] by (simp add: page_def try_map_Ok list_all2_takeI list_all2_dropI)
  have nsmall: "n < 2 ^ 63" using n total by simp
  have sn: "nat (sint (of_nat n :: u64)) = n" using sint_of_nat_small [OF nsmall] by simp
  have len: "length page = min ?k (length ?all - n)" by (simp add: page_def)
  have small: "n + length page < 2 ^ 64" "length ?all < 2 ^ 64" "n + length page \<le> length ?all" using n total k len by simp_all
  have "(of_nat n + of_nat (length page) :: u64) < of_nat (length (od_outfits db)) \<longleftrightarrow> n + length page < length ?all"
    using of_nat_less_small [OF small(1,2)] saved_length [OF inv] by simp
  also have "\<dots> \<longleftrightarrow> n + ?k < length ?all" using n len by auto
  finally have more: "(of_nat n + of_nat (length page) :: u64) < of_nat (length (od_outfits db)) \<longleftrightarrow> n + ?k < length ?all" .
  have further: "make_cursor (of_int (od_outfit_revision db)) (of_nat n + of_nat (length page)) = Ok (outfit_cursor db (n + ?k))"
    if "n + ?k < length ?all"
  proof -
    have "length page = ?k" using that len by simp
    then show ?thesis using make_cursor_Ok [OF rev(2), of "n + ?k"] small(1) rev(1) by (simp add: outfit_cursor_def)
  qed
  let ?next = "if n + ?k < length ?all then Some (outfit_cursor db (n + ?k)) else None"
  let ?request = "\<lparr>lo_schema_version = 1, lo_request_id = 1, lo_cursor = c, lo_limit = limit\<rparr>"
  let ?response = "\<lparr>lp_schema_version = schema_version_v1, lp_request_id = 1, lp_outfits = page,
      lp_total_count = of_nat (length (od_outfits db)), lp_outfit_revision = of_int (od_outfit_revision db), lp_next_cursor = ?next\<rparr>"
  have request: "list_outfits_request_validate ?request = Ok ()"
    using limit by (simp add: list_outfits_request_validate_def require_schema_v1_def schema_version_v1_def valid_limit_def)
  have "\<not> (of_nat (length (od_outfits db)) :: u64) < of_nat (length page)"
    using of_nat_less_small [of "length (od_outfits db)" "length page"] saved_length [OF inv] small by (simp add: not_less)
  moreover have "\<not> (of_int (od_outfit_revision db) :: u64) \<ge> max_safe_integer_v1" by (rule revision_is_safe [OF inv])
  moreover have "\<forall>f\<in>set page. outfit_validate f = Ok ()"
    using saved_valid [OF inv] unfolding page_def by (meson in_set_dropD in_set_takeD)
  ultimately have response: "list_outfits_response_validate ?response = Ok ()"
    using k len by (simp add: list_outfits_response_validate_def require_schema_v1_def max_page_size_def result_simps)
  have cursor': "(if (of_nat n + of_nat (length page) :: u64) < of_nat (length (od_outfits db))
      then and_then (make_cursor (of_int (od_outfit_revision db)) (of_nat n + of_nat (length page))) (\<lambda>c. Ok (Some c)) else Ok None)
    = Ok ?next"
    using further by (simp add: more)
  have "list_outfits_impl env ?request db = Ok ?response"
    unfolding list_outfits_impl_def using request cursor load response
    by (simp add: Let_def sn cursor')
  then show ?thesis
    using request response k len unfolding page_def [symmetric]
    by (simp add: fetch_outfits_def list_outfits_v1_def outfit_command_def validate_response_header_def)
qed

interpretation outfit_pages: offset_paging "\<lambda>db. outfit_inv env db" unat valid_limit "fetch_outfits env" "saved_outfits env" outfit_cursor for env
proof
  show "0 < unat l" if "valid_limit l" for l :: u16 using that by (simp add: valid_limit_def word_le_nat_alt)
  show "fetch_outfits env s l None = Ok (take (unat l) (saved_outfits env s),
      if unat l < length (saved_outfits env s) then Some (outfit_cursor s (unat l)) else None)"
    if "outfit_inv env s" "valid_limit l" for s l
    using page_of_listing [OF that, of 0 None] by (simp add: parse_cursor_def)
  show "fetch_outfits env s l (Some (outfit_cursor s n)) = Ok (take (unat l) (drop n (saved_outfits env s)),
      if n + unat l < length (saved_outfits env s) then Some (outfit_cursor s (n + unat l)) else None)"
    if "outfit_inv env s" "valid_limit l" "n < length (saved_outfits env s)" for s l n
  proof (rule page_of_listing [OF that(1,2)])
    note count = outfit_count [OF that(1)]
    have rev: "(of_int (od_outfit_revision s) :: u64) = of_nat (nat (od_outfit_revision s))" using count by simp
    have "n < 2 ^ 64" using that(3) count saved_length [OF that(1)] by simp
    then show "parse_cursor (Some (outfit_cursor s n)) (of_int (od_outfit_revision s)) = Ok (of_nat n)"
      unfolding rev outfit_cursor_def using count by (intro parse_cursor_Ok) simp_all
  qed (use that(3) in simp)
qed

end
