(* ===== verification/Outfit_Guarantees.thy ===== *)
theory Outfit_Guarantees
  imports Outfit_Listing
begin

text \<open>
  Lemmas behind the properties of saved outfits: repeating a request, the order of the listing, names the
  table refuses, and the collage.
\<close>

section \<open>Repeating a request\<close>

lemma step_receipts: "outfit_step env db db' \<Longrightarrow> \<exists>rs. od_receipts db' = od_receipts db @ rs"
proof (erule outfit_step.cases)
  fix request im clock a b response
  assume eq: "db = a" "db' = b" and ok: "create_manual_outfit_impl env im clock request a = Ok (b, response)"
  from ok have "\<exists>rs. od_receipts b = od_receipts a @ rs"
  proof (cases rule: create_Ok)
    case (created members k now_ms db1 db2 row)
    then show ?thesis by simp
  qed simp
  then show ?thesis by (simp add: eq)
qed blast

lemma run_receipts: "(outfit_step env)\<^sup>*\<^sup>* db db' \<Longrightarrow> \<exists>rs. od_receipts db' = od_receipts db @ rs"
proof (induction rule: rtranclp_induct)
  case (step b c)
  then show ?case using step_receipts [of env b c] by auto
qed simp

lemma find_append_first: "find P xs = Some x \<Longrightarrow> find P (xs @ ys) = Some x"
  by (induction xs) auto

lemma created_replays:
  assumes ok: "create_manual_outfit_impl env im clock request db = Ok (db', response)" "cp_replay_status response = Created"
    and json: "oe_response_from_json env (oe_response_json env response) = Some response"
    and later: "od_receipts db'' = od_receipts db' @ rs"
  shows "create_manual_outfit_impl env im' clock' request db'' = Ok (db'', response\<lparr>cp_replay_status := Replayed\<rparr>)"
  using ok(1)
proof (cases rule: create_Ok)
  case (replayed stored)
  then show ?thesis using ok(2) by simp
next
  case (created members k now_ms db1 db2 row)
  let ?text = "oe_uuid_text env (co_request_id request)"
  let ?hash = "lower_hex (sha256 (oe_externals env) (oe_request_json env request))"
  let ?receipt = "\<lparr>cm_request_id = ?text, cm_command_name = create_command, cm_envelope_hash = ?hash,
      cm_response_json = oe_response_json env response, cm_created_at_ms = now_ms\<rparr>"
  have "od_receipts db' = od_receipts db @ [?receipt]" using created(11) by simp
  moreover have "find (\<lambda>r. cm_request_id r = ?text) (rows @ [?receipt]) = Some ?receipt"
    if "\<forall>r\<in>set rows. cm_request_id r \<noteq> ?text" for rows
    using that by (induction rows) auto
  ultimately have "find (\<lambda>r. cm_request_id r = ?text) (od_receipts db'') = Some ?receipt"
    using created(2) later find_append_first [of "\<lambda>r. cm_request_id r = ?text" "od_receipts db @ [?receipt]" ?receipt rs] by simp
  then have "replay env request ?hash db'' = Ok (Some response)" using json by (simp add: replay_def)
  moreover have "create_manual_outfit_request_validate request = Ok ()"
    using ok(1) by (auto simp: create_manual_outfit_impl_def result_simps)
  ultimately show ?thesis by (simp add: create_manual_outfit_impl_def Let_def)
qed

section \<open>The order of the listing\<close>

lemma load_outfit_row:
  assumes "load_outfit env db k = Ok f" "distinct (map ot_outfit_id (od_outfits db))" "r \<in> set (od_outfits db)" "ot_outfit_id r = k"
  shows "ou_created_outfit_revision f = of_int (ot_created_outfit_revision r)"
proof -
  have "find (\<lambda>r. ot_outfit_id r = k) (od_outfits db) = Some r"
    using outfit_table.lookup_Some_iff [OF assms(2), of k r] assms(3,4) by (simp add: outfit_table.lookup_def)
  then show ?thesis using assms(1) by (auto simp: load_outfit_def Let_def to_u64_def result_simps split: if_splits)
qed

lemma saved_in_order:
  assumes inv: "outfit_inv env db"
  shows "map (\<lambda>f. oe_uuid_text env (ou_outfit_id f)) (saved_outfits env db) = outfit_ids db"
    and "sorted_wrt (\<lambda>f g. ou_created_outfit_revision g < ou_created_outfit_revision f) (saved_outfits env db)"
proof -
  let ?rows = "sort_key (\<lambda>r. (- ot_created_outfit_revision r, ot_outfit_id r)) (od_outfits db)"
  note all2 = saved_outfits_all2 [OF inv] and len = saved_length [OF inv]
  have dist: "distinct (map ot_outfit_id (od_outfits db))" using inv by (simp add: outfit_inv_def)
  have row: "?rows ! i \<in> set (od_outfits db)" "load_outfit env db (ot_outfit_id (?rows ! i)) = Ok (saved_outfits env db ! i)"
    if "i < length (od_outfits db)" for i
  proof -
    have "?rows ! i \<in> set ?rows" using that by (intro nth_mem) simp
    then show "?rows ! i \<in> set (od_outfits db)" by simp
    show "load_outfit env db (ot_outfit_id (?rows ! i)) = Ok (saved_outfits env db ! i)"
      using list_all2_nthD2 [OF all2, of i] that len by (simp add: outfit_ids_def)
  qed
  show "map (\<lambda>f. oe_uuid_text env (ou_outfit_id f)) (saved_outfits env db) = outfit_ids db"
  proof (rule nth_equalityI)
    fix i assume "i < length (map (\<lambda>f. oe_uuid_text env (ou_outfit_id f)) (saved_outfits env db))"
    then have i: "i < length (od_outfits db)" using len by simp
    obtain f where "load_outfit env db (ot_outfit_id (?rows ! i)) = Ok f" "oe_uuid_text env (ou_outfit_id f) = ot_outfit_id (?rows ! i)"
      using inv row(1) [OF i] unfolding outfit_inv_def by blast
    then show "map (\<lambda>f. oe_uuid_text env (ou_outfit_id f)) (saved_outfits env db) ! i = outfit_ids db ! i"
      using row(2) [OF i] i len by (simp add: outfit_ids_def)
  qed (simp add: len outfit_ids_def)
  show "sorted_wrt (\<lambda>f g. ou_created_outfit_revision g < ou_created_outfit_revision f) (saved_outfits env db)"
    unfolding sorted_wrt_iff_nth_less
  proof (intro allI impI)
    fix i j assume ij: "i < j" "j < length (saved_outfits env db)"
    then have i: "i < length (od_outfits db)" and j: "j < length (od_outfits db)" using len by simp_all
    let ?a = "ot_created_outfit_revision (?rows ! i)" and ?b = "ot_created_outfit_revision (?rows ! j)"
    have "sorted (map (\<lambda>r. (- ot_created_outfit_revision r, ot_outfit_id r)) ?rows)" by simp
    then have "(- ?a, ot_outfit_id (?rows ! i)) \<le> (- ?b, ot_outfit_id (?rows ! j))"
      using ij(1) i j unfolding sorted_iff_nth_mono by (metis (no_types, lifting) length_map length_sort less_imp_le_nat nth_map)
    then have le: "?b \<le> ?a" by auto
    have "distinct (map ot_created_outfit_revision ?rows)" using inv by (simp add: outfit_inv_def distinct_map)
    then have "?b \<noteq> ?a" using ij(1) i j by (metis (no_types, lifting) length_map length_sort nat_neq_iff nth_eq_iff_index_eq nth_map)
    moreover have "1 \<le> ?b" "?a \<le> 9007199254740990"
      using inv row(1) [OF i] row(1) [OF j] outfit_count(2) [OF inv] by (fastforce simp: outfit_inv_def between_def)+
    ultimately have "nat ?b < nat ?a" "nat ?a < 2 ^ 64" "0 \<le> ?a" "0 \<le> ?b" using le by auto
    then have "(of_nat (nat ?b) :: u64) < of_nat (nat ?a)" by (subst of_nat_less_small) auto
    then have "(of_int ?b :: u64) < of_int ?a" using \<open>0 \<le> ?a\<close> \<open>0 \<le> ?b\<close> by simp
    then show "ou_created_outfit_revision (saved_outfits env db ! j) < ou_created_outfit_revision (saved_outfits env db ! i)"
      using load_outfit_row [OF row(2) [OF i] dist row(1) [OF i] refl] load_outfit_row [OF row(2) [OF j] dist row(1) [OF j] refl] by simp
  qed
qed

section \<open>The collage\<close>

lemma collage_member_valid:
  assumes "outfit_member_validate m = Ok ()"
  shows "collage_member_validate (collage_member env im m) = Ok ()"
    and "om_ordinal (oc_member (collage_member env im m)) = om_ordinal m"
proof -
  have "outfit_member_validate (m\<lparr>om_asset := (om_asset m)\<lparr>oa_state := AssetUnavailable\<rparr>\<rparr>) = Ok ()" if "oa_state (om_asset m) = AssetAvailable"
    using assms that
    by (auto simp: outfit_member_validate_def outfit_asset_validate_def asset_complete_def result_simps split: if_splits)
  then show "collage_member_validate (collage_member env im m) = Ok ()"
    using assms by (simp add: collage_member_validate_def collage_member_def split: result.splits)
  show "om_ordinal (oc_member (collage_member env im m)) = om_ordinal m"
    by (simp add: collage_member_def split: result.splits)
qed

lemma collage_bytes:
  assumes "oc_bytes (collage_member env im m) = Some bytes"
  shows "oa_blob_sha256 (om_asset m) = Some (lower_hex (sha256 (oe_externals env) bytes))"
  using assms
  by (auto simp: collage_member_def verify_pinned_asset_def verify_source_image_def Let_def result_simps
      split: if_splits result.splits)

lemma collage_total:
  assumes inv: "outfit_inv env db" and load: "load_outfit env db (oe_uuid_text env (ou_outfit_id f)) = Ok f"
    and request: "gc_schema_version request = 1" "gc_outfit_id request = ou_outfit_id f"
  shows "get_outfit_collage_v1 env im request db = Ok \<lparr>gp_schema_version = 1, gp_request_id = gc_request_id request,
    gp_outfit_id = ou_outfit_id f, gp_name = ou_name f, gp_members = map (collage_member env im) (ou_members f),
    gp_outfit_revision = of_int (od_outfit_revision db)\<rparr>"
proof -
  let ?response = "\<lparr>gp_schema_version = 1, gp_request_id = gc_request_id request,
    gp_outfit_id = ou_outfit_id f, gp_name = ou_name f, gp_members = map (collage_member env im) (ou_members f),
    gp_outfit_revision = of_int (od_outfit_revision db)\<rparr>"
  note count = outfit_count [OF inv]
  have valid: "outfit_validate f = Ok ()" by (rule loaded_valid [OF load])
  have rev: "\<not> (of_int (od_outfit_revision db) :: u64) \<ge> max_safe_integer_v1" by (rule revision_is_safe [OF inv])
  have members: "\<forall>i<length (ou_members f). collage_member_validate (map (collage_member env im) (ou_members f) ! i) = Ok ()
      \<and> unat (om_ordinal (oc_member (map (collage_member env im) (ou_members f) ! i))) = 0 + i"
    using valid by (simp add: outfit_validate_Ok collage_member_valid)
  have "get_outfit_collage_response_validate ?response = Ok ()"
    using valid rev members checks_in_order [of collage_member_validate "\<lambda>i c. unat (om_ordinal (oc_member c)) = i" _ 0
        "map (collage_member env im) (ou_members f)"]
    by (simp add: get_outfit_collage_response_validate_def require_schema_v1_def schema_version_v1_def outfit_validate_Ok
        min_outfit_members_def max_outfit_members_def not_less)
  then show ?thesis
    using request load
    by (simp add: get_outfit_collage_v1_def get_outfit_collage_impl_def get_outfit_collage_request_validate_def
        require_schema_v1_def schema_version_v1_def outfit_command_def validate_response_header_def Let_def)
qed

section \<open>Names outside ASCII\<close>

lemma name_refused:
  assumes "c \<in> set (co_name request)" "126 < c" "\<forall>r\<in>set (od_receipts db). cm_request_id r \<noteq> oe_uuid_text env (co_request_id request)"
  shows "create_manual_outfit_impl env im clock request db \<noteq> Ok (db', response)"
proof
  assume "create_manual_outfit_impl env im clock request db = Ok (db', response)"
  then show False
  proof (cases rule: create_Ok)
    case (replayed stored)
    moreover have "find (\<lambda>r. cm_request_id r = oe_uuid_text env (co_request_id request)) (od_receipts db) = None"
      using assms(3) by (auto simp: find_None_iff)
    ultimately show False by (simp add: replay_def)
  next
    case (created members k now_ms db1 db2 row)
    then have "printable_ascii (co_name request)" by (auto simp: insert_outfit_def split: if_splits)
    then show False using assms(1,2) by (auto simp: printable_ascii_def list_all_iff)
  qed
qed

end
