(* ===== verification/Outfit_Sample.thy ===== *)
theory Outfit_Sample
  imports Outfit_Guarantees
begin

text \<open>
  An example for saved outfits: an item with an image and one without, saved as one outfit. The texts of the
  example stand for one UUID each; the digest is constant.
\<close>

definition plain_uuid_text :: "uuid \<Rightarrow> rstr" where
  "plain_uuid_text u = replicate 35 49 @ [unat u + 48]"

definition plain_attributes :: item_attributes where
  "plain_attributes = \<lparr>ia_display_name = lit ''Hat'', ia_category = Accessory, ia_subcategory = None, ia_brand = None,
     ia_primary_color = None, ia_size = None, ia_notes = None, ia_tags = []\<rparr>"

definition plain_asset :: outfit_asset where
  "plain_asset = \<lparr>oa_state = AssetAvailable, oa_evidence_id = Some 3, oa_source_id = Some 4,
     oa_blob_sha256 = Some (replicate 64 48), oa_media_type = Some (lit ''image/jpeg''), oa_byte_length = Some 3,
     oa_width = Some 10, oa_height = Some 20\<rparr>"

definition plain_outfit :: outfit where
  "plain_outfit = \<lparr>ou_outfit_id = 7, ou_name = lit ''Beach'',
     ou_members = [\<lparr>om_ordinal = 0, om_item_id = 1, om_item_updated_revision = 5, om_attributes = plain_attributes, om_asset = plain_asset\<rparr>,
       \<lparr>om_ordinal = 1, om_item_id = 2, om_item_updated_revision = 6, om_attributes = plain_attributes, om_asset = metadata_only_asset\<rparr>],
     ou_created_outfit_revision = 1\<rparr>"

definition plain_response :: create_manual_outfit_response where
  "plain_response = \<lparr>cp_schema_version = 1, cp_request_id = 9, cp_outfit = plain_outfit, cp_outfit_revision = 1,
     cp_replay_status = Created\<rparr>"

definition plain_env :: outfit_env where
  "plain_env = \<lparr>oe_externals = \<lparr>sha256 = (\<lambda>_. replicate 32 0), uuid_hyphenated = (\<lambda>_. plain_uuid_text 7), payload_json = id,
       extract_blob_sha256 = (\<lambda>_. None), result_json = (\<lambda>s _. s), outcome_to_json = (\<lambda>_. []), outcome_from_json = (\<lambda>_. None)\<rparr>,
     oe_parse_uuid = (\<lambda>s. Some (of_nat (last s - 48))), oe_uuid_text = plain_uuid_text, oe_request_json = (\<lambda>_. []),
     oe_attributes_json = (\<lambda>_. []), oe_attributes_from_json = (\<lambda>_. Some plain_attributes),
     oe_response_json = (\<lambda>_. []), oe_response_from_json = (\<lambda>_. Some plain_response), oe_json_valid = (\<lambda>_. True)\<rparr>"

definition plain_images :: image_env where
  "plain_images = \<lparr>ie_store_verify = (\<lambda>_. Ok 3), ie_read = (\<lambda>_. Some [1, 2, 3]), ie_guess_format = (\<lambda>_. Some Jpeg),
     ie_is_apng = (\<lambda>_. None), ie_has_animation = (\<lambda>_. None), ie_dimensions = (\<lambda>_ _. Some (10, 20))\<rparr>"

definition plain_db :: outfit_db where
  "plain_db = \<lparr>od_catalog_items =
       [\<lparr>ci_item_id = plain_uuid_text 1, ci_attributes_json = [], ci_active = True, ci_updated_revision = 5\<rparr>,
        \<lparr>ci_item_id = plain_uuid_text 2, ci_attributes_json = [], ci_active = True, ci_updated_revision = 6\<rparr>],
     od_item_evidence = [\<lparr>ie_item_id = plain_uuid_text 1, ie_evidence_id = plain_uuid_text 3\<rparr>],
     od_evidence = [\<lparr>ev_evidence_id = plain_uuid_text 3, ev_source_id = plain_uuid_text 4, ev_evidence_kind = lit ''image'',
       ev_state = lit ''assigned''\<rparr>],
     od_local_sources = [\<lparr>ls_source_id = plain_uuid_text 4, ls_blob_sha256 = Some (replicate 64 48), ls_byte_length = Some 3,
       ls_status = lit ''imported''\<rparr>],
     od_blobs = [replicate 64 48], od_catalog_revision = 6, od_outfit_revision = 0, od_outfits = [], od_members = [], od_receipts = []\<rparr>"

definition plain_request :: "rstr \<Rightarrow> create_manual_outfit_request" where
  "plain_request name = \<lparr>co_schema_version = 1, co_request_id = 9, co_name = name, co_item_ids = [1, 2],
     co_expected_catalog_revision = 6, co_expected_outfit_revision = 0\<rparr>"

definition plain_row :: outfit_row where
  "plain_row = \<lparr>ot_outfit_id = plain_uuid_text 7, ot_request_id = plain_uuid_text 9, ot_name = lit ''Beach'',
     ot_created_outfit_revision = 1, ot_created_at_ms = 1000\<rparr>"

definition plain_member_rows :: "outfit_member_row list" where
  "plain_member_rows = map (\<lambda>m. member_row plain_env (plain_uuid_text 7) m (asset_text (oa_state (om_asset m)))) (ou_members plain_outfit)"

definition plain_saved :: outfit_db where
  "plain_saved = plain_db\<lparr>od_outfits := [plain_row], od_members := plain_member_rows, od_outfit_revision := 1,
     od_receipts := [\<lparr>cm_request_id = plain_uuid_text 9, cm_command_name = create_command,
       cm_envelope_hash = replicate 64 48, cm_response_json = [], cm_created_at_ms = 1000\<rparr>]\<rparr>"

lemma plain_laws: "outfit_laws plain_env"
  by (simp add: outfit_laws_def plain_env_def plain_uuid_text_def)

lemma plain_uuid_text_inj [simp]: "plain_uuid_text u = plain_uuid_text v \<longleftrightarrow> u = v"
  by (auto simp: plain_uuid_text_def word_unat_eq_iff)

lemma plain_parse [simp]: "oe_parse_uuid plain_env (plain_uuid_text u) = Some u"
  by (simp add: plain_env_def plain_uuid_text_def)

lemma plain_sql_uuid: "sql_uuid (plain_uuid_text u)"
proof -
  have "takeWhile (\<lambda>c. c \<noteq> 0) (plain_uuid_text u) = plain_uuid_text u" by (simp add: plain_uuid_text_def takeWhile_eq_all_conv)
  moreover have "plain_uuid_text u \<noteq> lit ''00000000-0000-0000-0000-000000000000''"
    by (rule notI, drule arg_cong [where f = hd]) (simp add: plain_uuid_text_def lit_def)
  moreover have "length (plain_uuid_text u) = 36" by (simp add: plain_uuid_text_def)
  ultimately show ?thesis unfolding sql_uuid_def sql_length_def by (simp only: simp_thms)
qed

lemma plain_digest: "lower_hex (sha256 (oe_externals plain_env) bytes) = replicate 64 48" "sha256_digest_parse (replicate 64 48) = Ok (replicate 64 48)"
proof -
  have "lower_hex (replicate n 0) = replicate (2 * n) 48" for n by (induction n) (simp_all add: lower_hex_def hex_digit_def)
  from this [of 32] show "lower_hex (sha256 (oe_externals plain_env) bytes) = replicate 64 48" by (simp add: plain_env_def)
  show "sha256_digest_parse (replicate 64 48) = Ok (replicate 64 48)"
    by (simp add: sha256_digest_parse_Ok is_lower_hex_def is_ascii_digit_def)
qed

lemma plain_attributes_valid: "item_attributes_validate plain_attributes = Ok ()"
  by (simp add: item_attributes_validate_def plain_attributes_def validate_bounded_text_def result_simps flatten_options_def
      List.map_filter_def trim_def lit_def char_class_defs sort_dedup_def Let_def)

lemma plain_image: "verify_source_image (oe_externals plain_env) plain_images (replicate 64 48) 3 =
    Ok \<lparr>vi_bytes = [1, 2, 3], vi_media_type = ImageJpeg, vi_width = 10, vi_height = 20\<rparr>"
  using plain_digest(1)
  by (simp add: verify_source_image_def plain_images_def accepted_media_type_def max_photo_artifact_bytes_def
      max_photo_axis_def max_photo_pixels_def)

lemma plain_pins:
  "pin_item_asset plain_env plain_images plain_db 1 = Ok plain_asset"
  "pin_item_asset plain_env plain_images plain_db 2 = Ok metadata_only_asset"
proof -
  have "oe_uuid_text plain_env u = plain_uuid_text u" for u by (simp add: plain_env_def)
  then have "item_images plain_db (oe_uuid_text plain_env 1) = [(plain_uuid_text 3, plain_uuid_text 4, replicate 64 48, 3)]"
    "item_images plain_db (oe_uuid_text plain_env 2) = []"
    by (simp_all add: item_images_def plain_db_def)
  then show "pin_item_asset plain_env plain_images plain_db 1 = Ok plain_asset"
    "pin_item_asset plain_env plain_images plain_db 2 = Ok metadata_only_asset"
    using plain_image plain_digest(2)
    by (simp_all add: pin_item_asset_def first_by_def to_u64_def parse_id_def id_new_def parse_digest_def plain_asset_def)
qed

lemma plain_members:
  "try_map (build_member plain_env plain_images plain_db) (enumerate 0 [1, 2]) = Ok (ou_members plain_outfit)"
  using plain_pins plain_attributes_valid
  by (simp add: build_member_def plain_outfit_def plain_db_def) (simp add: plain_env_def to_u64_def)

lemma plain_texts: "oe_uuid_text plain_env u = plain_uuid_text u" "stable_id (oe_externals plain_env) p t = plain_uuid_text 7"
  "oe_response_json plain_env r = []" "oe_json_valid plain_env j"
  by (simp_all add: plain_env_def stable_id_def Let_def)

lemma plain_inserts:
  "insert_members plain_env (plain_uuid_text 7) (ou_members plain_outfit) (plain_db\<lparr>od_outfits := [plain_row]\<rparr>)
     = Ok (plain_db\<lparr>od_outfits := [plain_row], od_members := plain_member_rows\<rparr>)"
  by (simp add: plain_outfit_def plain_member_rows_def insert_member_def insert_member_row_def member_checks_def plain_db_def
      member_row_def plain_asset_def metadata_only_asset_def plain_texts between_def max_outfit_revision_def null_or_def plain_row_def)

lemma plain_request_valid:
  assumes "validate_name name = Ok ()"
  shows "create_manual_outfit_request_validate (plain_request name) = Ok ()"
  using assms
  by (simp add: create_manual_outfit_request_validate_def plain_request_def require_schema_v1_def schema_version_v1_def
      min_outfit_members_def max_outfit_members_def max_safe_integer_v1_def sort_dedup_def)

lemma plain_name: "validate_name (lit ''Beach'') = Ok ()"
  by (simp add: validate_name_def max_outfit_name_chars_def trim_def lit_def char_class_defs)

lemma plain_response_valid: "create_manual_outfit_response_validate plain_response = Ok ()"
proof -
  have "outfit_asset_validate plain_asset = Ok ()" "outfit_asset_validate metadata_only_asset = Ok ()"
    by (simp_all add: outfit_asset_validate_def plain_asset_def metadata_only_asset_def asset_complete_def asset_empty_def)
  then have "outfit_validate plain_outfit = Ok ()"
    using plain_name plain_attributes_valid
    by (auto simp: outfit_validate_Ok plain_outfit_def outfit_member_validate_def max_outfit_members_def max_safe_integer_v1_def
        less_Suc_eq all_ok.simps)
  then show ?thesis
    by (simp add: create_manual_outfit_response_validate_def plain_response_def require_schema_v1_def schema_version_v1_def)
      (simp add: plain_outfit_def)
qed

lemma plain_created:
  "create_manual_outfit_impl plain_env plain_images (Ok 1000) (plain_request (lit ''Beach'')) plain_db = Ok (plain_saved, plain_response)"
proof -
  have row: "insert_outfit plain_row plain_db = Ok (plain_db\<lparr>od_outfits := [plain_row]\<rparr>)"
    using plain_sql_uuid
    by (simp add: insert_outfit_def plain_row_def plain_db_def sql_length_def sql_trim_def printable_ascii_def lit_def between_def max_outfit_revision_def)
  have response: "\<lparr>cp_schema_version = schema_version_v1, cp_request_id = 9, cp_outfit = \<lparr>ou_outfit_id = 7, ou_name = lit ''Beach'',
      ou_members = ou_members plain_outfit, ou_created_outfit_revision = 1\<rparr>, cp_outfit_revision = 1, cp_replay_status = Created\<rparr> = plain_response"
    by (simp add: plain_response_def schema_version_v1_def plain_outfit_def)
  have request: "create_manual_outfit_request_validate (plain_request (lit ''Beach'')) = Ok ()"
    by (rule plain_request_valid [OF plain_name])
  have replay: "replay plain_env (plain_request (lit ''Beach'')) h plain_db = Ok None" for h
    by (simp add: replay_def plain_db_def)
  have sel: "co_item_ids (plain_request n) = [1, 2]" "co_name (plain_request n) = n" "co_request_id (plain_request n) = 9"
    "sint (co_expected_catalog_revision (plain_request n)) = 6" "sint (co_expected_outfit_revision (plain_request n)) = 0" for n
    by (simp_all add: plain_request_def)
  have db: "od_catalog_revision plain_db = 6" "od_outfit_revision plain_db = 0" "od_receipts plain_db = []" by (simp_all add: plain_db_def)
  have digest: "lower_hex (sha256 (oe_externals plain_env) x) = replicate 64 48" for x by (rule plain_digest(1))
  have members: "try_map (build_member plain_env plain_images plain_db) (enumerate 0 (co_item_ids (plain_request n))) = Ok (ou_members plain_outfit)" for n
    unfolding sel by (rule plain_members)
  show ?thesis
    unfolding create_manual_outfit_impl_def Let_def request members
    by (simp add: replay sel db i64_checked_add_def i64_min_def i64_max_def plain_texts plain_row_def [symmetric] row
        plain_inserts between_def max_outfit_revision_def ensure_def parse_id_def id_new_def response plain_response_valid digest plain_saved_def)
qed

lemma plain_step: "(outfit_step plain_env)\<^sup>*\<^sup>* plain_db plain_saved"
proof -
  have "typed_request (plain_request (lit ''Beach''))" by (simp add: typed_request_def plain_request_def)
  then show ?thesis using outfit_step.create [OF _ plain_created] by blast
qed

lemma plain_loads: "load_outfit plain_env plain_saved (oe_uuid_text plain_env (ou_outfit_id plain_outfit)) = Ok plain_outfit"
proof -
  have "outfit_inv plain_env plain_db" by (rule inv_fresh_outfits) (simp add: fresh_outfits_def plain_db_def)
  moreover have "typed_request (plain_request (lit ''Beach''))" by (simp add: typed_request_def plain_request_def)
  moreover have "cp_replay_status plain_response = Created" "cp_outfit plain_response = plain_outfit" by (simp_all add: plain_response_def)
  ultimately show ?thesis using created_outfit [OF plain_laws _ _ plain_created] by metis
qed

end
