(* ===== verification/Outfit_Claims.thy ===== *)
theory Outfit_Claims
  imports Outfit_Sample
begin

text \<open>
  The properties of saved outfits. Runs start without outfits; between the commands that save outfits the
  tables of the catalog, the command receipts and the contents of the blob store change in any way.
\<close>

text \<open>
  C6. A saved outfit is read back as it was returned, whatever happens afterwards: after the command that
  saved it, and after any further commands and changes of the catalog, the outfit loaded under its id is the
  one in the response, member by member with the attributes and the image of that time. Repeating the request
  then changes nothing and gives the same response, marked as replayed.
\<close>

theorem saved_outfit_reads_back:
  assumes "outfit_laws env" "fresh_outfits db0" "(outfit_step env)\<^sup>*\<^sup>* db0 db" "typed_request request"
    and "create_manual_outfit_impl env im clock request db = Ok (db', response)" "cp_replay_status response = Created"
    and "(outfit_step env)\<^sup>*\<^sup>* db' db''"
    and "oe_response_from_json env (oe_response_json env response) = Some response"
  shows "load_outfit env db'' (oe_uuid_text env (ou_outfit_id (cp_outfit response))) = Ok (cp_outfit response)
    \<and> create_manual_outfit_impl env im' clock' request db'' = Ok (db'', response\<lparr>cp_replay_status := Replayed\<rparr>)"
proof
  have inv: "outfit_inv env db" by (rule inv_outfit_run [OF assms(3,1) inv_fresh_outfits [OF assms(2)]])
  have "load_outfit env db' (oe_uuid_text env (ou_outfit_id (cp_outfit response))) = Ok (cp_outfit response)"
    by (rule created_outfit [OF assms(1) inv assms(4-6)]) simp
  moreover have "outfit_laws env \<and> outfit_inv env db'" using inv_create [OF assms(1) inv assms(4,5)] assms(1) by simp
  ultimately show "load_outfit env db'' (oe_uuid_text env (ou_outfit_id (cp_outfit response))) = Ok (cp_outfit response)"
    using saved.run_evolves [OF assms(7)] by (force split: result.splits)
  obtain rs where "od_receipts db'' = od_receipts db' @ rs" using run_receipts [OF assms(7)] by blast
  then show "create_manual_outfit_impl env im' clock' request db'' = Ok (db'', response\<lparr>cp_replay_status := Replayed\<rparr>)"
    by (rule created_replays [OF assms(5,6,8)])
qed

theorem saved_outfit_reads_back_witness:
  "load_outfit plain_env plain_saved (plain_uuid_text 7) = Ok plain_outfit
   \<and> create_manual_outfit_impl plain_env plain_images (Err Sqlite) (plain_request (lit ''Beach'')) plain_saved
       = Ok (plain_saved, plain_response\<lparr>cp_replay_status := Replayed\<rparr>)"
proof -
  have "fresh_outfits plain_db" "typed_request (plain_request (lit ''Beach''))"
    by (simp_all add: fresh_outfits_def plain_db_def typed_request_def plain_request_def)
  moreover have "cp_replay_status plain_response = Created" "cp_outfit plain_response = plain_outfit" "ou_outfit_id plain_outfit = 7"
    "oe_response_from_json plain_env (oe_response_json plain_env plain_response) = Some plain_response"
    by (simp_all add: plain_response_def plain_outfit_def plain_env_def)
  ultimately show ?thesis
    using saved_outfit_reads_back [OF plain_laws _ rtranclp.rtrancl_refl _ plain_created _ rtranclp.rtrancl_refl, of plain_images "Err Sqlite"]
    by (simp add: plain_texts)
qed

text \<open>
  C10. Paging. A client that asks for the first page of outfits and follows the cursors gets, with the fewest
  requests the page size allows and without an error, every saved outfit exactly once: the answers together
  are the outfits of the table in one list, newest first. (The outfits do not change meanwhile; a cursor of an
  older revision is rejected.)
\<close>

theorem paging_yields_every_outfit:
  assumes "outfit_laws env" "fresh_outfits db0" "(outfit_step env)\<^sup>*\<^sup>* db0 db"
    and "valid_limit limit" "length (od_outfits db) \<le> requests * unat limit" "0 < requests"
  shows "\<exists>outfits. walk_pages (fetch_outfits env db limit) requests None = Some (Ok outfits)
    \<and> map (\<lambda>f. oe_uuid_text env (ou_outfit_id f)) outfits = outfit_ids db
    \<and> (\<forall>f\<in>set outfits. load_outfit env db (oe_uuid_text env (ou_outfit_id f)) = Ok f)
    \<and> sorted_wrt (\<lambda>f g. ou_created_outfit_revision g < ou_created_outfit_revision f) outfits"
proof -
  have inv: "outfit_inv env db" by (rule inv_outfit_run [OF assms(3,1) inv_fresh_outfits [OF assms(2)]])
  have "walk_pages (fetch_outfits env db limit) requests None = Some (Ok (saved_outfits env db))"
    using assms(5,6) saved_length [OF inv] by (intro outfit_pages.walk_all [OF inv assms(4)]) simp_all
  moreover have "load_outfit env db (oe_uuid_text env (ou_outfit_id f)) = Ok f" if f: "f \<in> set (saved_outfits env db)" for f
  proof -
    obtain i where i: "i < length (saved_outfits env db)" "f = saved_outfits env db ! i" using f by (auto simp: in_set_conv_nth)
    have "outfit_ids db ! i = oe_uuid_text env (ou_outfit_id f)"
      using arg_cong [OF saved_in_order(1) [OF inv], of "\<lambda>xs. xs ! i"] i by simp
    then show ?thesis using list_all2_nthD2 [OF saved_outfits_all2 [OF inv] i(1)] i(2) by simp
  qed
  ultimately show ?thesis using saved_in_order [OF inv] by (intro exI [of _ "saved_outfits env db"]) blast
qed

theorem paging_yields_every_outfit_witness:
  "\<exists>outfits. walk_pages (fetch_outfits plain_env plain_saved 1) 1 None = Some (Ok outfits)
     \<and> map (\<lambda>f. plain_uuid_text (ou_outfit_id f)) outfits = [plain_uuid_text 7]"
proof -
  have fresh: "fresh_outfits plain_db" by (simp add: fresh_outfits_def plain_db_def)
  have valid: "valid_limit 1" by (simp add: valid_limit_def max_page_size_def)
  have size: "length (od_outfits plain_saved) \<le> 1 * unat (1 :: u16)" by (simp add: plain_saved_def)
  have ids: "outfit_ids plain_saved = [plain_uuid_text 7]" by (simp add: outfit_ids_def plain_saved_def plain_row_def)
  show ?thesis
    using paging_yields_every_outfit [OF plain_laws fresh plain_step valid size zero_less_one] unfolding ids plain_texts
    by (elim exE conjE) (intro exI conjI)
qed

text \<open>
  C17. A name with a character outside ASCII is never saved, although the contract of the command accepts it:
  the table refuses it. With everything else in order the command reports that the storage is unavailable and
  that the user should retry.
\<close>

theorem non_ascii_name_is_never_saved:
  assumes "create_manual_outfit_request_validate request = Ok ()" "c \<in> set (co_name request)" "126 < c"
    and "\<forall>r\<in>set (od_receipts db). cm_request_id r \<noteq> oe_uuid_text env (co_request_id request)"
  shows "(\<exists>e. create_manual_outfit_v1 env im clock request db = (db, Err e))
    \<and> (od_catalog_revision db = sint (co_expected_catalog_revision request)
       \<longrightarrow> od_outfit_revision db = sint (co_expected_outfit_revision request)
       \<longrightarrow> try_map (build_member env im db) (enumerate 0 (co_item_ids request)) = Ok members
       \<longrightarrow> od_outfit_revision db < max_outfit_revision \<longrightarrow> 0 \<le> od_outfit_revision db \<longrightarrow> clock = Ok now_ms
       \<longrightarrow> create_manual_outfit_v1 env im clock request db = (db, Err (plain_error StorageUnavailable True Retry)))"
proof (intro conjI impI)
  have never: "create_manual_outfit_impl env im clock request db \<noteq> Ok x" for x
    using name_refused [OF assms(2-4)] by (cases x) simp
  then obtain e where e: "create_manual_outfit_impl env im clock request db = Err e"
    by (cases "create_manual_outfit_impl env im clock request db") auto
  then show "\<exists>e. create_manual_outfit_v1 env im clock request db = (db, Err e)"
    using assms(1) by (simp add: create_manual_outfit_v1_def outfit_command_def)
  assume ok: "od_catalog_revision db = sint (co_expected_catalog_revision request)"
    "od_outfit_revision db = sint (co_expected_outfit_revision request)"
    "try_map (build_member env im db) (enumerate 0 (co_item_ids request)) = Ok members"
    "od_outfit_revision db < max_outfit_revision" "0 \<le> od_outfit_revision db" "clock = Ok now_ms"
  have "find (\<lambda>r. cm_request_id r = oe_uuid_text env (co_request_id request)) (od_receipts db) = None"
    using assms(4) by (auto simp: find_None_iff)
  then have none: "replay env request h db = Ok None" for h by (simp add: replay_def)
  have add: "i64_checked_add (od_outfit_revision db) 1 = Some (od_outfit_revision db + 1)"
    using ok(4,5) by (simp add: i64_checked_add_def i64_min_def i64_max_def max_outfit_revision_def)
  have "\<not> printable_ascii (co_name request)" unfolding printable_ascii_def list_all_iff using assms(2,3) by (metis not_less)
  then have "insert_outfit row db = Err Sqlite" if "ot_name row = co_name request" for row
    using that by (simp add: insert_outfit_def)
  then have "create_manual_outfit_impl env im clock request db = Err Sqlite"
    using assms(1) none add ok(3,6) by (simp add: create_manual_outfit_impl_def Let_def flip: ok(1,2))
  then show "create_manual_outfit_v1 env im clock request db = (db, Err (plain_error StorageUnavailable True Retry))"
    using assms(1) by (simp add: create_manual_outfit_v1_def outfit_command_def outfit_port_error_def)
qed

theorem non_ascii_name_is_never_saved_witness:
  "create_manual_outfit_request_validate (plain_request [201, 116, 233]) = Ok ()
   \<and> create_manual_outfit_v1 plain_env plain_images (Ok 1000) (plain_request [201, 116, 233]) plain_db
       = (plain_db, Err (plain_error StorageUnavailable True Retry))"
proof -
  let ?request = "plain_request [201, 116, 233]"
  have valid: "create_manual_outfit_request_validate ?request = Ok ()"
    by (rule plain_request_valid) (simp add: validate_name_def max_outfit_name_chars_def trim_def char_class_defs)
  moreover have "201 \<in> set (co_name ?request)" "126 < (201 :: nat)"
    "\<forall>r\<in>set (od_receipts plain_db). cm_request_id r \<noteq> oe_uuid_text plain_env (co_request_id ?request)"
    "od_catalog_revision plain_db = sint (co_expected_catalog_revision ?request)"
    "od_outfit_revision plain_db = sint (co_expected_outfit_revision ?request)"
    "od_outfit_revision plain_db < max_outfit_revision" "0 \<le> od_outfit_revision plain_db"
    by (simp_all add: plain_request_def plain_db_def max_outfit_revision_def)
  moreover have "co_item_ids ?request = [1, 2]" by (simp add: plain_request_def)
  ultimately show ?thesis
    using non_ascii_name_is_never_saved [of ?request 201 plain_db plain_env plain_images "Ok 1000" "ou_members plain_outfit" 1000] plain_members
    by (simp only: simp_thms)
qed

text \<open>
  C20. The collage of a saved outfit is always there and never shows another image: for every saved outfit
  and every state of the blob store the command succeeds with the name and the items of the outfit in order;
  an image is shown only if its bytes have the digest that was pinned when the outfit was saved, and an image
  that is missing or changed is reported as unavailable.
\<close>

theorem collage_shows_pinned_images:
  assumes "outfit_laws env" "fresh_outfits db0" "(outfit_step env)\<^sup>*\<^sup>* db0 db"
    and "load_outfit env db (oe_uuid_text env (ou_outfit_id f)) = Ok f"
    and "gc_schema_version request = 1" "gc_outfit_id request = ou_outfit_id f"
  shows "\<exists>response. get_outfit_collage_v1 env im request db = Ok response \<and> gp_name response = ou_name f
    \<and> map (\<lambda>c. om_item_id (oc_member c)) (gp_members response) = map om_item_id (ou_members f)
    \<and> (\<forall>i<length (ou_members f). case oc_bytes (gp_members response ! i) of
         Some bytes \<Rightarrow> oa_state (om_asset (oc_member (gp_members response ! i))) = AssetAvailable
           \<and> oa_blob_sha256 (om_asset (ou_members f ! i)) = Some (lower_hex (sha256 (oe_externals env) bytes))
       | None \<Rightarrow> oa_state (om_asset (oc_member (gp_members response ! i))) \<noteq> AssetAvailable)"
proof -
  have inv: "outfit_inv env db" by (rule inv_outfit_run [OF assms(3,1) inv_fresh_outfits [OF assms(2)]])
  have item: "om_item_id (oc_member (collage_member env im m)) = om_item_id m" for m
    by (simp add: collage_member_def split: result.splits)
  have state: "oa_state (om_asset (oc_member (collage_member env im m))) = AssetAvailable \<longleftrightarrow> oc_bytes (collage_member env im m) \<noteq> None" for m
    by (simp add: collage_member_def split: result.splits)
  show ?thesis
    unfolding collage_total [OF inv assms(4-6)]
    by (intro exI conjI, rule refl) (auto simp: item state comp_def split: option.splits dest: collage_bytes)
qed

theorem collage_shows_pinned_images_witness:
  "\<exists>response. get_outfit_collage_v1 plain_env plain_images \<lparr>gc_schema_version = 1, gc_request_id = 5, gc_outfit_id = 7\<rparr> plain_saved = Ok response
     \<and> gp_name response = lit ''Beach''"
proof -
  have fresh: "fresh_outfits plain_db" by (simp add: fresh_outfits_def plain_db_def)
  show ?thesis
    using plain_loads collage_shows_pinned_images [OF plain_laws fresh plain_step, of plain_outfit "\<lparr>gc_schema_version = 1, gc_request_id = 5, gc_outfit_id = 7\<rparr>"]
    by (auto simp: plain_outfit_def)
qed

end
