(* ===== verification/Spec2Isabelle.thy ===== *)
theory Spec2Isabelle
  imports Recommendation_Correctness Update_Correctness Job_Claims Credential_Claims Local_Mode_Claims
    Receipt_Attempt_Claims Outfit_Claims
begin

text \<open>
  Wardrobe: a verification of the core logic of a desktop application that keeps a private wardrobe
  catalog on the user's machine. The Rust workspace has two libraries, \<open>crates/wardrobe-core\<close>
  (contracts, validators and decision procedures without side effects) and
  \<open>crates/wardrobe-platform\<close> (SQLite repositories, workers, the Keychain, files), and a Tauri shell
  \<open>src-tauri\<close> that turns user interface commands into calls of the service. All paths below are under
  \<open>src/\<close>.

  \<^bold>\<open>Parts and theories\<close>

  \<^item> \<open>Wardrobe_Prelude\<close>: Rust's \<open>Result\<close> with the sequencing of \<open>?\<close>, machine integers as words, strings
    as lists of code points with their byte length, trimming, splitting, decimal numbers, checked and
    saturating arithmetic, and the lemmas the components share.
  \<^item> \<open>Contracts\<close>, \<open>Catalog\<close>: the validators of \<open>contracts.rs\<close>, \<open>validation.rs\<close>, \<open>ports.rs\<close> and of
    \<open>catalog.rs\<close> that the other parts use, one definition per validator, the checks in the order of the
    code.
  \<^item> \<open>Recommendation_Contracts\<close>, \<open>Recommendation\<close>: \<open>recommendation.rs\<close>. The contracts of an outfit
    recommendation and \<open>validate_outfit_proposal_v1\<close>, the gate between a language model's answer and the
    user, with the search \<open>constraint_satisfiable\<close>. \<open>Recommendation_Correctness\<close> characterises both
    against declarative definitions (C1 to C5).
  \<^item> \<open>Update\<close>: \<open>update.rs\<close>, the compatibility decision for a signed update. \<open>Update_Correctness\<close> shows
    the version syntax to be a round trip, the absence of panics and what exactly is accepted
    (C7 to C9).
  \<^item> \<open>Sql_Table\<close>, \<open>Database_Tables\<close>: tables as lists of rows with the effect of the SQL statements the
    code uses, laws of keyed tables as locales, and the rows of \<open>migrations/0001_foundation.sql\<close>.
  \<^item> \<open>Job_Store\<close>, \<open>Job_Worker\<close>: the durable jobs of \<open>database.rs\<close> and \<open>worker.rs\<close>: enqueueing,
    claiming under a lease with a fence, completing, failing, retrying, restoring. \<open>Job_Invariant\<close> and
    \<open>Job_Correctness\<close> carry an invariant through every operation, \<open>Job_Properties\<close> and
    \<open>Job_Guarantees\<close> add what holds along runs and the abstract job machine the tables refine, and
    \<open>Job_Claims\<close> states the properties (C11 to C16, C18, C19).
  \<^item> \<open>Credential_Store\<close>, \<open>Credential_Service\<close>: the two-phase save and delete of credentials over the
    database and the Keychain, the reconciliation at start-up and the commands with their error
    mapping. \<open>Credential_Invariant\<close>, \<open>Credential_Correctness\<close> and \<open>Credential_Claims\<close> show that
    database and Keychain agree through crashes (C21 to C26).
  \<^item> \<open>Outbound_Authority\<close>, \<open>Local_Mode_Store\<close>, \<open>Local_Mode_Command\<close>: the network mode. The authority of
    \<open>src-tauri/src/local_only.rs\<close> grants leases for the use of the network and drains them before the
    mode changes; the mode itself is kept in three files by \<open>crates/wardrobe-platform/src/local_only.rs\<close>;
    the command in \<open>src-tauri/src/lib.rs\<close> joins the two. \<open>Local_Mode_Correctness\<close>,
    \<open>Local_Mode_Durability\<close>, \<open>Local_Mode_Repair\<close>, \<open>Local_Mode_Sample\<close> and \<open>Local_Mode_Claims\<close> show that
    local-only is enforced under every interleaving and survives crashes, and that the mode can always
    be changed again (C27 to C31).
  \<^item> \<open>Url_Detection\<close>, \<open>Receipt_Intelligence_Contracts\<close>: \<open>receipt_intelligence.rs\<close>, what of a receipt may be
    disclosed to a provider and how the user's consent is bound to it. \<open>Url_Correctness\<close> shows what the
    detector of web addresses decides (C32); \<open>Receipt_Intelligence_Correctness\<close> and
    \<open>Receipt_Intelligence_Claims\<close> show what an accepted projection is and that a consent envelope
    determines the disclosure (C33, C34).
  \<^item> \<open>Receipt_Attempt_Tables\<close>, \<open>Receipt_Attempt_Store\<close>: the ledger of approvals, attempts, audits and
    classifications of \<open>migrations/0016_receipt_intelligence.sql\<close> with its constraints and triggers, and
    the transactions of \<open>receipt_intelligence_repository.rs\<close>: preview, reservation, dispatch, the outcomes
    and the recovery at start-up. \<open>Receipt_Attempt_Invariant\<close> carries an invariant through every
    transaction, \<open>Receipt_Attempt_Correctness\<close> follows attempts along runs. \<open>Receipt_Coordinator\<close> has the
    part of \<open>receipt_intelligence_coordinator.rs\<close> that compares a consented preview with the stored one,
    and \<open>Receipt_Credential_Use\<close> the removal of credentials under the foreign key of the approvals.
    \<open>Receipt_Attempt_Sample\<close> has an example and \<open>Receipt_Attempt_Claims\<close> the properties: one consent, one
    transmission, of what the user saw (C35 to C40).
  \<^item> \<open>Outfit_Contracts\<close>, \<open>Outfit_Store\<close>: saved outfits, \<open>outfit.rs\<close> with the repository
    \<open>outfit_repository.rs\<close>, the tables of \<open>migrations/0008_outfits.sql\<close>, the check of a stored image in
    \<open>source_image.rs\<close> and the commands of \<open>service.rs\<close>. \<open>Outfit_Correctness\<close> carries an invariant along runs
    that interleave saving with changes of the catalog, \<open>Outfit_Listing\<close> shows the listing to be one with
    offsets in the sense of the locale of \<open>Paging\<close>, \<open>Outfit_Guarantees\<close> has what replays, the collage and the
    refused names need, \<open>Outfit_Sample\<close> an example, and \<open>Outfit_Claims\<close> the properties (C6, C10, C17, C20).

  \<^bold>\<open>State and operations\<close>

  A struct is a record and an enum a datatype with the constructors of the source. An operation of a
  repository takes the database and returns an error or the new database; a transaction that fails leaves
  the database as it was, and where the code writes outside a transaction the operation returns the database
  with the error. A thread that holds a mutex is one function on the guarded state; a wait on a condition
  variable splits the function in two. A crash is a step of the relations \<open>cred_step\<close>,
  \<open>blocking_step\<close> and \<open>app_step\<close>; \<open>job_step\<close> has every operation of
  the job tables, and an abandoned lease is one that nobody settles; \<open>ri_step\<close> has the
  transactions of the attempt ledger and any change of the tables around it; \<open>outfit_step\<close> has
  the saving of outfits and any change of the catalog, the blobs and the receipts of other commands. A panic
  is \<open>None\<close>.

  \<^bold>\<open>Parameters\<close>

  What the workspace does not implement is an argument: SHA-256, the text of UUIDs and timestamps, JSON
  texts, random values, clock readings, SQLite's JSON function, the Keychain calls of
  \<open>security_framework\<close>, the outcome of each system call of the network mode, the publication of
  an order inside the completion of an attempt, and for outfits the blob store and the image decoders. The
  laws the proofs need of them are \<open>publication_frame\<close> (a publication leaves the attempt ledger
  alone), \<open>outfit_laws\<close> (the texts of ids and of attributes can be read back), the locales
  \<open>security_framework\<close> and \<open>mode_serialization\<close> and, for digests, injectivity on
  the finite set of texts a run uses. Each is instantiated by concrete functions.

  \<^bold>\<open>Bounds\<close>

  Every loop of the modelled code runs over a list, over an index that grows to the length of a text, or a
  fixed number of phases, so all definitions are total and no fuel is used. (The client
  \<open>walk_pages\<close> of C10 counts its requests, and the property says how many are enough.) The one
  wait, \<open>begin_transition\<close>, is a step relation, and its end is proved (C28). Revisions,
  versions and lease counts are words; timestamps and counters of SQLite are integers with the checked
  operations of the source.

  \<^bold>\<open>Not modelled\<close>

  Blob files, backup archives, mail parsing, the Gmail, photo library and try-on connectors with their
  repositories, deletion, diagnostics, update archives, the user interface and the native code: they are
  file formats, network protocols, native bindings and SQL over tables this development does not have. Of
  the attempt repository the listings, which only read, and hard deletion are left out, and of outfits hard
  deletion. The blob store appears only through the result of its verification. The sum of an offset and a
  page length wraps as in a release build. The bytes of JSON texts are not modelled; the log events of
  commands are not either.
\<close>

end
